(* ===== verification/Prelude.thy ===== *)
theory Prelude
  imports Main "HOL-Library.Word"
begin

text \<open>
  Shared vocabulary of the development: machine integers, byte strings, the outcome of a
  fallible Rust function and the byte cursor through which every wire format of
  \<open>rdg-proto\<close> is read and written.

  \<^item> A Rust integer of \<open>w\<close> bits is a \<open>w word\<close>; \<open>usize\<close> values are lengths and
    indices of byte strings held in memory and are \<open>nat\<close>.
  \<^item> A Rust function that returns \<open>Result\<close> has an \<open>outcome\<close>: \<open>Ok\<close>, \<open>Err\<close> or
    \<open>Panic\<close>. \<open>Panic\<close> stands for the out-of-bounds and under-run panics of slices
    and of the \<open>Buf\<close> cursor, so that their absence is something to prove.
  \<^item> \<open>get_*\<close> is a read of the cursor (\<open>bytes::Buf\<close> on \<open>&[u8]\<close>): the value and the
    rest of the input. \<open>put_*\<close> is the run of bytes that the matching \<open>BufMut\<close> call
    appends; a \<open>write\<close> function of the source is modelled by the bytes it appends.
\<close>

unbundle bit_operations_syntax

type_synonym u8 = "8 word"
type_synonym u16 = "16 word"
type_synonym u32 = "32 word"
type_synonym u64 = "64 word"
type_synonym u128 = "128 word"
type_synonym bytes = "8 word list"

text \<open>\<open>no_panic\<close> collects the facts that a function never panics; a caller's proof adds them all.\<close>

named_theorems no_panic \<open>absence of panics\<close>

section \<open>Outcomes\<close>

datatype ('e, 'a) outcome = Ok 'a | Err 'e | Panic

text \<open>\<open>rbind m f\<close> is \<open>let x = m?; f(x)\<close>; \<open>map_err\<close> is the \<open>Result\<close> method.\<close>

fun rbind :: "('e, 'a) outcome \<Rightarrow> ('a \<Rightarrow> ('e, 'b) outcome) \<Rightarrow> ('e, 'b) outcome" where
  "rbind (Ok x) f = f x"
| "rbind (Err e) f = Err e"
| "rbind Panic f = Panic"

fun map_err :: "('e \<Rightarrow> 'f) \<Rightarrow> ('e, 'a) outcome \<Rightarrow> ('f, 'a) outcome" where
  "map_err g (Ok x) = Ok x"
| "map_err g (Err e) = Err (g e)"
| "map_err g Panic = Panic"

fun map_ok :: "('a \<Rightarrow> 'b) \<Rightarrow> ('e, 'a) outcome \<Rightarrow> ('e, 'b) outcome" where
  "map_ok f (Ok x) = Ok (f x)"
| "map_ok f (Err e) = Err e"
| "map_ok f Panic = Panic"

text \<open>\<open>opt.ok_or(e)\<close>.\<close>

fun ok_or :: "'e \<Rightarrow> 'a option \<Rightarrow> ('e, 'a) outcome" where
  "ok_or e None = Err e"
| "ok_or e (Some x) = Ok x"

text \<open>\<open>res.ok()\<close> on a result that did not panic.\<close>

fun ok_opt :: "('e, 'a) outcome \<Rightarrow> 'a option" where
  "ok_opt (Ok x) = Some x"
| "ok_opt (Err e) = None"
| "ok_opt Panic = None"

lemma rbind_eq_Ok: "rbind m f = Ok y \<longleftrightarrow> (\<exists>x. m = Ok x \<and> f x = Ok y)"
  by (cases m) auto

lemma rbind_eq_Err: "rbind m f = Err e \<longleftrightarrow> m = Err e \<or> (\<exists>x. m = Ok x \<and> f x = Err e)"
  by (cases m) auto

lemma rbind_eq_Panic: "rbind m f = Panic \<longleftrightarrow> m = Panic \<or> (\<exists>x. m = Ok x \<and> f x = Panic)"
  by (cases m) auto

lemma map_ok_eq_Ok [simp]: "map_ok f m = Ok y \<longleftrightarrow> (\<exists>x. m = Ok x \<and> y = f x)"
  by (cases m) auto

lemma map_ok_eq_Panic [simp]: "map_ok f m = Panic \<longleftrightarrow> m = Panic"
  by (cases m) auto

lemma map_err_eq_Ok [simp]: "map_err g m = Ok y \<longleftrightarrow> m = Ok y"
  by (cases m) auto

lemma map_err_eq_Panic [simp]: "map_err g m = Panic \<longleftrightarrow> m = Panic"
  by (cases m) auto

lemma ok_or_eq_Ok [simp]: "ok_or e opt = Ok y \<longleftrightarrow> opt = Some y"
  by (cases opt) auto

lemma ok_or_eq_Err: "ok_or e x = Err f \<longleftrightarrow> x = None \<and> f = e"
  by (cases x) auto

lemma ok_or_not_Panic [simp]: "ok_or e opt \<noteq> Panic"
  by (cases opt) auto

lemma ok_opt_eq_Some [simp]: "ok_opt m = Some y \<longleftrightarrow> m = Ok y"
  by (cases m) auto

section \<open>Little-endian words\<close>

text \<open>
  \<open>le_bytes n w\<close> is \<open>w.to_le_bytes()\<close> for a word of \<open>n\<close> bytes, \<open>of_le bs\<close> is
  \<open>from_le_bytes\<close>.
\<close>

definition le_bytes :: "nat \<Rightarrow> 'a::len word \<Rightarrow> bytes" where
  "le_bytes n w = map (\<lambda>i. ucast (drop_bit (8 * i) w)) [0..<n]"

primrec of_le :: "bytes \<Rightarrow> 'a::len word" where
  "of_le [] = 0"
| "of_le (b # bs) = ucast b OR push_bit 8 (of_le bs)"

definition of_be :: "bytes \<Rightarrow> 'a::len word" where
  "of_be bs = of_le (rev bs)"

definition be_bytes :: "nat \<Rightarrow> 'a::len word \<Rightarrow> bytes" where
  "be_bytes n w = rev (le_bytes n w)"

lemma length_le_bytes [simp]: "length (le_bytes n w) = n"
  by (simp add: le_bytes_def)

lemma length_be_bytes [simp]: "length (be_bytes n w) = n"
  by (simp add: be_bytes_def)

lemma bit_of_le: "bit (of_le bs :: 'a::len word) i \<longleftrightarrow>
   i < LENGTH('a) \<and> i div 8 < length bs \<and> bit (bs ! (i div 8)) (i mod 8)"
proof (induction bs arbitrary: i)
  case Nil
  then show ?case by simp
next
  case (Cons b bs)
  show ?case
  proof (cases "i < 8")
    case True
    then show ?thesis by (auto simp: bit_simps)
  next
    case False
    then obtain j where j: "i = j + 8" by (metis add.commute le_add_diff_inverse not_less)
    have "\<not> bit b i" using j by (auto dest: bit_imp_le_length)
    moreover have "(j + 8) div 8 = Suc (j div 8)" by simp
    ultimately show ?thesis using Cons.IH [of j] j
      by (auto simp: bit_simps)
  qed
qed

lemma of_le_le_bytes [simp]: "LENGTH('a::len) \<le> 8 * n \<Longrightarrow> of_le (le_bytes n (w :: 'a word)) = w"
proof (rule bit_word_eqI)
  fix i assume n: "LENGTH('a) \<le> 8 * n" and i: "i < LENGTH('a)"
  then have "i div 8 < n" by linarith
  moreover have "8 * (i div 8) + i mod 8 = i" by simp
  ultimately show "bit (of_le (le_bytes n w) :: 'a word) i = bit w i"
    using i by (simp add: bit_of_le le_bytes_def bit_simps)
qed

lemma le_bytes_of_le [simp]:
  assumes "length bs = n" and "8 * n \<le> LENGTH('a::len)"
  shows "le_bytes n (of_le bs :: 'a word) = bs"
proof (rule nth_equalityI)
  show "length (le_bytes n (of_le bs :: 'a word)) = length bs"
    using assms by simp
next
  fix k assume "k < length (le_bytes n (of_le bs :: 'a word))"
  then have k: "k < n" by simp
  show "le_bytes n (of_le bs :: 'a word) ! k = bs ! k"
  proof (rule bit_word_eqI)
    fix i assume "i < LENGTH(8)"
    then have i: "i < 8" by simp
    then have "8 * k + i < LENGTH('a)" using k assms by linarith
    then show "bit (le_bytes n (of_le bs :: 'a word) ! k) i = bit (bs ! k) i"
      using k i assms by (simp add: le_bytes_def bit_simps bit_of_le)
  qed
qed

lemma of_be_be_bytes [simp]: "LENGTH('a::len) \<le> 8 * n \<Longrightarrow> of_be (be_bytes n (w :: 'a word)) = w"
  by (simp add: of_be_def be_bytes_def)

lemma be_bytes_of_be [simp]:
  "length bs = n \<Longrightarrow> 8 * n \<le> LENGTH('a::len) \<Longrightarrow> be_bytes n (of_be bs :: 'a word) = bs"
  by (simp add: of_be_def be_bytes_def)

section \<open>The byte cursor\<close>

definition get_bytes :: "nat \<Rightarrow> bytes \<Rightarrow> ('e, bytes \<times> bytes) outcome" where
  "get_bytes n bs = (if n \<le> length bs then Ok (take n bs, drop n bs) else Panic)"

definition get_u8 :: "bytes \<Rightarrow> ('e, u8 \<times> bytes) outcome" where
  "get_u8 bs = map_ok (\<lambda>(v, r). (of_le v, r)) (get_bytes 1 bs)"

definition get_u16_le :: "bytes \<Rightarrow> ('e, u16 \<times> bytes) outcome" where
  "get_u16_le bs = map_ok (\<lambda>(v, r). (of_le v, r)) (get_bytes 2 bs)"

definition get_u32_le :: "bytes \<Rightarrow> ('e, u32 \<times> bytes) outcome" where
  "get_u32_le bs = map_ok (\<lambda>(v, r). (of_le v, r)) (get_bytes 4 bs)"

definition put_u8 :: "u8 \<Rightarrow> bytes" where
  "put_u8 w = le_bytes 1 w"

definition put_u16_le :: "u16 \<Rightarrow> bytes" where
  "put_u16_le w = le_bytes 2 w"

definition put_u32_le :: "u32 \<Rightarrow> bytes" where
  "put_u32_le w = le_bytes 4 w"

definition put_u64_le :: "u64 \<Rightarrow> bytes" where
  "put_u64_le w = le_bytes 8 w"

text \<open>Slice indexing: \<open>&bs[a..b]\<close>, \<open>bs[i]\<close> and \<open>buf.advance(n)\<close>.\<close>

definition slice :: "nat \<Rightarrow> nat \<Rightarrow> bytes \<Rightarrow> ('e, bytes) outcome" where
  "slice a b bs = (if a \<le> b \<and> b \<le> length bs then Ok (take (b - a) (drop a bs)) else Panic)"

definition index_byte :: "bytes \<Rightarrow> nat \<Rightarrow> ('e, u8) outcome" where
  "index_byte bs i = (if i < length bs then Ok (bs ! i) else Panic)"

definition advance :: "nat \<Rightarrow> bytes \<Rightarrow> ('e, bytes) outcome" where
  "advance n bs = (if n \<le> length bs then Ok (drop n bs) else Panic)"

lemma length_put [simp]:
  "length (put_u8 a) = 1" "length (put_u16_le b) = 2"
  "length (put_u32_le c) = 4" "length (put_u64_le d) = 8"
  by (simp_all add: put_u8_def put_u16_le_def put_u32_le_def put_u64_le_def)

text \<open>What a read gives, as one equation for inputs that are long enough.\<close>

lemma get_enough:
  "1 \<le> length bs \<Longrightarrow> get_u8 bs = Ok (of_le (take 1 bs), drop 1 bs)"
  "2 \<le> length bs \<Longrightarrow> get_u16_le bs = Ok (of_le (take 2 bs), drop 2 bs)"
  "4 \<le> length bs \<Longrightarrow> get_u32_le bs = Ok (of_le (take 4 bs), drop 4 bs)"
  "n \<le> length bs \<Longrightarrow> get_bytes n bs = Ok (take n bs, drop n bs)"
  "n \<le> length bs \<Longrightarrow> advance n bs = Ok (drop n bs)"
  "a \<le> b \<Longrightarrow> b \<le> length bs \<Longrightarrow> slice a b bs = Ok (take (b - a) (drop a bs))"
  "i < length bs \<Longrightarrow> index_byte bs i = Ok (bs ! i)"
  by (simp_all add: get_u8_def get_u16_le_def get_u32_le_def get_bytes_def advance_def
      slice_def index_byte_def)

text \<open>Reading what was put.\<close>

lemma get_put [simp]:
  "get_u8 (put_u8 a @ r) = Ok (a, r)"
  "get_u16_le (put_u16_le b @ r) = Ok (b, r)"
  "get_u32_le (put_u32_le c @ r) = Ok (c, r)"
  by (simp_all add: get_enough) (simp_all add: put_u8_def put_u16_le_def put_u32_le_def)

lemma get_put_end [simp]:
  "get_u8 (put_u8 a) = Ok (a, [])"
  "get_u16_le (put_u16_le b) = Ok (b, [])"
  "get_u32_le (put_u32_le c) = Ok (c, [])"
  using get_put [where r = "[]"] by simp_all

lemma get_bytes_append [simp]: "length xs = n \<Longrightarrow> get_bytes n (xs @ r) = Ok (xs, r)"
  by (simp add: get_bytes_def)

lemma slice_append [simp]: "length xs = a \<Longrightarrow> length ys = b - a \<Longrightarrow> a \<le> b \<Longrightarrow>
    slice a b (xs @ ys @ zs) = Ok ys"
  by (simp add: slice_def)

lemma advance_append [simp]: "length xs = n \<Longrightarrow> advance n (xs @ r) = Ok r"
  by (simp add: advance_def)

text \<open>
  The converse, which inverts a parser: a read that succeeds consumed exactly the bytes that
  writing its value would have produced.
\<close>

lemma get_u8_eq_Ok: "get_u8 bs = Ok (w, r) \<longleftrightarrow> bs = put_u8 w @ r"
proof
  assume "get_u8 bs = Ok (w, r)"
  then have "1 \<le> length bs" "w = of_le (take 1 bs)" "r = drop 1 bs"
    by (auto simp: get_u8_def get_bytes_def split: if_splits)
  then show "bs = put_u8 w @ r" by (simp add: put_u8_def)
qed simp

lemma get_u16_le_eq_Ok: "get_u16_le bs = Ok (w, r) \<longleftrightarrow> bs = put_u16_le w @ r"
proof
  assume "get_u16_le bs = Ok (w, r)"
  then have "2 \<le> length bs" "w = of_le (take 2 bs)" "r = drop 2 bs"
    by (auto simp: get_u16_le_def get_bytes_def split: if_splits)
  then show "bs = put_u16_le w @ r" by (simp add: put_u16_le_def)
qed simp

lemma get_u32_le_eq_Ok: "get_u32_le bs = Ok (w, r) \<longleftrightarrow> bs = put_u32_le w @ r"
proof
  assume "get_u32_le bs = Ok (w, r)"
  then have "4 \<le> length bs" "w = of_le (take 4 bs)" "r = drop 4 bs"
    by (auto simp: get_u32_le_def get_bytes_def split: if_splits)
  then show "bs = put_u32_le w @ r" by (simp add: put_u32_le_def)
qed simp

lemma get_bytes_eq_Ok: "get_bytes n bs = Ok (v, r) \<longleftrightarrow> bs = v @ r \<and> length v = n"
  by (auto simp: get_bytes_def split: if_splits)

lemma advance_eq_Ok: "advance n bs = Ok r \<longleftrightarrow> (\<exists>v. bs = v @ r \<and> length v = n)"
  by (auto simp: advance_def split: if_splits intro: exI [of _ "take n bs"])

lemma get_not_Err [simp]:
  "get_u8 bs \<noteq> Err e" "get_u16_le bs \<noteq> Err e" "get_u32_le bs \<noteq> Err e"
  "get_bytes n bs \<noteq> Err e" "advance n bs \<noteq> Err e" "slice a b bs \<noteq> Err e"
  "index_byte bs i \<noteq> Err e"
  by (simp_all add: get_u8_def get_u16_le_def get_u32_le_def get_bytes_def advance_def
      slice_def index_byte_def)

lemma get_eq_Panic:
  "get_u8 bs = Panic \<longleftrightarrow> length bs < 1" "get_u16_le bs = Panic \<longleftrightarrow> length bs < 2"
  "get_u32_le bs = Panic \<longleftrightarrow> length bs < 4" "get_bytes n bs = Panic \<longleftrightarrow> length bs < n"
  "advance n bs = Panic \<longleftrightarrow> length bs < n"
  "slice a b bs = Panic \<longleftrightarrow> b < a \<or> length bs < b"
  "index_byte bs i = Panic \<longleftrightarrow> length bs \<le> i"
  by (auto simp: get_u8_def get_u16_le_def get_u32_le_def get_bytes_def advance_def
      slice_def index_byte_def Suc_le_eq)

lemmas parse_inv = rbind_eq_Ok get_u8_eq_Ok get_u16_le_eq_Ok get_u32_le_eq_Ok
  get_bytes_eq_Ok advance_eq_Ok

lemma unat_of_nat8: "n < 256 \<Longrightarrow> unat (word_of_nat n :: u8) = n"
  by (simp add: unat_of_nat take_bit_eq_mod)

text \<open>\<open>Option::unwrap_or\<close>.\<close>

definition unwrap_or :: "'a \<Rightarrow> 'a option \<Rightarrow> 'a" where
  "unwrap_or d x = (case x of None \<Rightarrow> d | Some v \<Rightarrow> v)"

end
