(* ===== verification/Machine.thy ===== *)
theory Machine
  imports Prelude
begin

text \<open>
  The contract of a state machine: a step function that keeps an invariant. What holds of every
  run of a component (the session, the virtual connection, the stores) is proved here once; each
  component interprets the locale on its own step function and invariant.
\<close>

definition run :: "('s \<Rightarrow> 'e \<Rightarrow> 's) \<Rightarrow> 's \<Rightarrow> 'e list \<Rightarrow> 's" where
  "run step s es = foldl step s es"

lemma run_simps [simp]: "run step s [] = s" "run step s (e # es) = run step (step s e) es"
  by (simp_all add: run_def)

lemma run_append: "run step s (es @ fs) = run step (run step s es) fs"
  by (simp add: run_def)

text \<open>A machine that remembers its events, for invariants that speak of the past.\<close>

definition with_history :: "('s \<Rightarrow> 'e \<Rightarrow> 's) \<Rightarrow> 's \<times> 'e list \<Rightarrow> 'e \<Rightarrow> 's \<times> 'e list" where
  "with_history step p e = (step (fst p) e, snd p @ [e])"

lemma run_with_history: "run (with_history step) (s, h) es = (run step s es, h @ es)"
  by (induction es arbitrary: s h) (simp_all add: with_history_def)

text \<open>
  Runs in which each event must be possible where it happens: the interleavings of concurrent
  tasks.
\<close>

inductive reaches :: "('s \<Rightarrow> 'e \<Rightarrow> bool) \<Rightarrow> ('s \<Rightarrow> 'e \<Rightarrow> 's) \<Rightarrow> 's \<Rightarrow> 'e list \<Rightarrow> 's \<Rightarrow> bool"
  for enabled :: "'s \<Rightarrow> 'e \<Rightarrow> bool" and step :: "'s \<Rightarrow> 'e \<Rightarrow> 's" and s0 :: 's where
  reaches_start: "reaches enabled step s0 [] s0"
| reaches_step: "reaches enabled step s0 es s \<Longrightarrow> enabled s e
    \<Longrightarrow> reaches enabled step s0 (es @ [e]) (step s e)"

lemma reaches_run: "reaches enabled step s0 es s \<Longrightarrow> s = run step s0 es"
  by (induction rule: reaches.induct) (simp_all add: run_append)

locale machine =
  fixes step :: "'s \<Rightarrow> 'e \<Rightarrow> 's"
    and inv :: "'s \<Rightarrow> bool"
  assumes inv_step: "inv s \<Longrightarrow> inv (step s e)"
begin

lemma run_inv: "inv s \<Longrightarrow> inv (run step s es)"
  by (induction es arbitrary: s) (auto intro: inv_step)

end

text \<open>
  A ranked machine has no way back: a rank that no step decreases, so that a run never returns
  to an earlier phase, and a final rank in which a run stays.
\<close>

locale ranked_machine = machine +
  fixes rank :: "'s \<Rightarrow> 'r :: linorder" and top :: 'r
  assumes rank_step: "inv s \<Longrightarrow> rank s \<le> rank (step s e)"
    and rank_top: "inv s \<Longrightarrow> rank s \<le> top"
begin

lemma rank_run: "inv s \<Longrightarrow> rank s \<le> rank (run step s es)"
proof (induction es arbitrary: s)
  case Nil
  then show ?case by simp
next
  case (Cons e es)
  then have "rank s \<le> rank (step s e)" and "rank (step s e) \<le> rank (run step (step s e) es)"
    by (auto intro: rank_step inv_step)
  then show ?case by (simp add: order_trans)
qed

lemma top_absorbing: "inv s \<Longrightarrow> rank s = top \<Longrightarrow> rank (run step s es) = top"
  using rank_run [of s es] rank_top [OF run_inv, of s es] by simp

end

text \<open>
  A pipe is the contract of one direction of a relay: what a step appends to the output depends on
  the event and on a small control state alone, not on the rest of the state. What a run has put
  out is then what its events emit, one after the other.
\<close>

primrec emits :: "('c \<Rightarrow> 'e \<Rightarrow> 'c) \<Rightarrow> ('c \<Rightarrow> 'e \<Rightarrow> 'b list) \<Rightarrow> 'c \<Rightarrow> 'e list \<Rightarrow> 'b list" where
  "emits ctl_next emit c [] = []"
| "emits ctl_next emit c (e # es) = emit c e @ emits ctl_next emit (ctl_next c e) es"

locale pipe =
  fixes step :: "'s \<Rightarrow> 'e \<Rightarrow> 's"
    and ctl :: "'s \<Rightarrow> 'c" and out :: "'s \<Rightarrow> 'b list"
    and ctl_next :: "'c \<Rightarrow> 'e \<Rightarrow> 'c" and emit :: "'c \<Rightarrow> 'e \<Rightarrow> 'b list"
  assumes ctl_step: "ctl (step s e) = ctl_next (ctl s) e"
    and out_step: "out (step s e) = out s @ emit (ctl s) e"
begin

lemma run_out: "out (run step s es) = out s @ emits ctl_next emit (ctl s) es"
  by (induction es arbitrary: s) (simp_all add: ctl_step out_step)

end

end
