(* ===== verification/Rust_Strings.thy ===== *)
theory Rust_Strings
  imports Prelude
begin

text \<open>
  Rust's \<open>String\<close>/\<open>&str\<close>: a list of Unicode scalar values, as numbers, and the standard
  library's conversions the gateway calls: UTF-16 (the text encoding of TSG and NTLM
  messages), UTF-8 (\<open>as_bytes\<close>, \<open>len\<close>), ASCII case and decimal numbers. \<open>valid_str\<close> says
  that every element is a scalar value, which Rust's type guarantees.
\<close>

type_synonym rstring = "nat list"

definition is_scalar :: "nat \<Rightarrow> bool" where
  "is_scalar c \<longleftrightarrow> c < 0xD800 \<or> 0xE000 \<le> c \<and> c < 0x110000"

definition valid_str :: "rstring \<Rightarrow> bool" where
  "valid_str s \<longleftrightarrow> list_all is_scalar s"

text \<open>A string literal of the source (all of them are ASCII).\<close>

definition lit :: "string \<Rightarrow> rstring" where
  "lit s = map of_char s"

lemma valid_str_simps [simp]:
  "valid_str []" "valid_str (c # s) \<longleftrightarrow> is_scalar c \<and> valid_str s"
  "valid_str (s @ t) \<longleftrightarrow> valid_str s \<and> valid_str t"
  by (auto simp: valid_str_def)

section \<open>UTF-16\<close>

text \<open>\<open>str::encode_utf16\<close>.\<close>

definition utf16_char :: "nat \<Rightarrow> u16 list" where
  "utf16_char c =
     (if c < 0x10000 then [word_of_nat c]
      else [word_of_nat (0xD800 + (c - 0x10000) div 0x400),
            word_of_nat (0xDC00 + (c - 0x10000) mod 0x400)])"

definition encode_utf16 :: "rstring \<Rightarrow> u16 list" where
  "encode_utf16 s = concat (map utf16_char s)"

definition is_high_surrogate :: "u16 \<Rightarrow> bool" where
  "is_high_surrogate u \<longleftrightarrow> 0xD800 \<le> unat u \<and> unat u < 0xDC00"

definition is_low_surrogate :: "u16 \<Rightarrow> bool" where
  "is_low_surrogate u \<longleftrightarrow> 0xDC00 \<le> unat u \<and> unat u < 0xE000"

definition join_surrogates :: "u16 \<Rightarrow> u16 \<Rightarrow> nat" where
  "join_surrogates h l = 0x10000 + (unat h - 0xD800) * 0x400 + (unat l - 0xDC00)"

text \<open>\<open>String::from_utf16\<close>: \<open>None\<close> on an unpaired surrogate.\<close>

fun from_utf16 :: "u16 list \<Rightarrow> rstring option" where
  "from_utf16 [] = Some []"
| "from_utf16 (u # us) =
     (if is_low_surrogate u then None
      else if is_high_surrogate u then
        (case us of
           [] \<Rightarrow> None
         | l # us' \<Rightarrow> if is_low_surrogate l
                      then map_option ((#) (join_surrogates u l)) (from_utf16 us') else None)
      else map_option ((#) (unat u)) (from_utf16 us))"

text \<open>\<open>String::from_utf16_lossy\<close>: an unpaired surrogate reads as U+FFFD.\<close>

fun from_utf16_lossy :: "u16 list \<Rightarrow> rstring" where
  "from_utf16_lossy [] = []"
| "from_utf16_lossy (u # us) =
     (if is_low_surrogate u then 0xFFFD # from_utf16_lossy us
      else if is_high_surrogate u then
        (case us of
           [] \<Rightarrow> [0xFFFD]
         | l # us' \<Rightarrow> if is_low_surrogate l
                      then join_surrogates u l # from_utf16_lossy us'
                      else 0xFFFD # from_utf16_lossy us)
      else unat u # from_utf16_lossy us)"

lemma encode_utf16_simps [simp]:
  "encode_utf16 [] = []" "encode_utf16 (c # s) = utf16_char c @ encode_utf16 s"
  "encode_utf16 (s @ t) = encode_utf16 s @ encode_utf16 t"
  by (simp_all add: encode_utf16_def)

lemma unat_of_nat16: "n < 65536 \<Longrightarrow> unat (word_of_nat n :: u16) = n"
  by (simp add: unat_of_nat take_bit_eq_mod)

lemma utf16_char_cases:
  assumes "is_scalar c"
  obtains (bmp) u where "utf16_char c = [u]" "unat u = c"
      "\<not> is_low_surrogate u" "\<not> is_high_surrogate u"
  | (pair) h l where "utf16_char c = [h, l]" "join_surrogates h l = c"
      "is_high_surrogate h" "\<not> is_low_surrogate h" "is_low_surrogate l"
proof (cases "c < 0x10000")
  case True
  show ?thesis
    by (rule bmp [of "word_of_nat c"])
      (use True assms in \<open>auto simp: utf16_char_def unat_of_nat16 is_scalar_def
          is_low_surrogate_def is_high_surrogate_def\<close>)
next
  case False
  let ?d = "c - 0x10000"
  have d: "?d < 0x100000" using assms False by (auto simp: is_scalar_def)
  then have q: "?d div 0x400 < 0x400" by (simp add: less_mult_imp_div_less)
  have r: "?d mod 0x400 < 0x400" by simp
  have h: "unat (word_of_nat (0xD800 + ?d div 0x400) :: u16) = 0xD800 + ?d div 0x400"
    using q by (intro unat_of_nat16) linarith
  have l: "unat (word_of_nat (0xDC00 + ?d mod 0x400) :: u16) = 0xDC00 + ?d mod 0x400"
    using r by (intro unat_of_nat16) linarith
  have sum: "?d div 0x400 * 0x400 + ?d mod 0x400 = ?d" by (rule div_mult_mod_eq)
  show ?thesis
    by (rule pair [of "word_of_nat (0xD800 + ?d div 0x400)" "word_of_nat (0xDC00 + ?d mod 0x400)"])
      (use False q r sum in \<open>simp_all add: utf16_char_def h l join_surrogates_def
          is_low_surrogate_def is_high_surrogate_def del: of_nat_add\<close>)
qed

lemma from_utf16_encode [simp]: "valid_str s \<Longrightarrow> from_utf16 (encode_utf16 s) = Some s"
proof (induction s)
  case (Cons c s)
  then have "is_scalar c" by simp
  then show ?case
    by (cases rule: utf16_char_cases) (use Cons in auto)
qed simp

lemma from_utf16_lossy_encode [simp]: "valid_str s \<Longrightarrow> from_utf16_lossy (encode_utf16 s) = s"
proof (induction s)
  case (Cons c s)
  then have "is_scalar c" by simp
  then show ?case
    by (cases rule: utf16_char_cases) (use Cons in auto)
qed simp

text \<open>
  \<open>from_utf16\<close> accepts only what \<open>encode_utf16\<close> produces: it is the inverse on the
  well-formed UTF-16 sequences.
\<close>

lemma unat_u16_less: "unat (u :: u16) < 65536"
proof -
  have "unat u < 2 ^ LENGTH(16)" by (rule unsigned_less)
  then show ?thesis by simp
qed

lemma utf16_char_unat:
  "\<not> is_low_surrogate u \<Longrightarrow> \<not> is_high_surrogate u \<Longrightarrow>
    is_scalar (unat u) \<and> utf16_char (unat u) = [u]"
  using unat_u16_less [of u]
  by (auto simp: is_low_surrogate_def is_high_surrogate_def is_scalar_def utf16_char_def)

lemma utf16_char_join:
  assumes "is_high_surrogate h" and "is_low_surrogate l"
  shows "is_scalar (join_surrogates h l) \<and> utf16_char (join_surrogates h l) = [h, l]"
proof -
  define a b where "a = unat h - 0xD800" and "b = unat l - 0xDC00"
  have a: "a < 0x400" "unat h = 0xD800 + a" and b: "b < 0x400" "unat l = 0xDC00 + b"
    using assms by (auto simp: a_def b_def is_high_surrogate_def is_low_surrogate_def)
  have j: "join_surrogates h l = 0x10000 + (a * 0x400 + b)"
    by (simp add: join_surrogates_def a_def b_def)
  have hl: "word_of_nat (0xD800 + a) = h" "word_of_nat (0xDC00 + b) = l"
    using a(2) b(2) by (metis of_nat_unat ucast_id)+
  show ?thesis
    unfolding j using a(1) b(1)
    by (simp add: is_scalar_def utf16_char_def hl del: of_nat_add)
qed

lemma from_utf16_SomeD: "from_utf16 us = Some s \<Longrightarrow> valid_str s \<and> encode_utf16 s = us"
proof (induction us arbitrary: s rule: from_utf16.induct)
  case (2 u us)
  show ?case
  proof (cases "is_high_surrogate u")
    case True
    then show ?thesis
      using "2.prems" "2.IH"(1) by (auto simp: utf16_char_join split: if_splits list.splits)
  next
    case False
    then show ?thesis
      using "2.prems" "2.IH"(2) by (auto simp: utf16_char_unat split: if_splits)
  qed
qed simp

lemma utf16_char_nz: "is_scalar c \<Longrightarrow> c \<noteq> 0 \<Longrightarrow> 0 \<notin> set (utf16_char c)"
  by (erule utf16_char_cases)
    (auto simp: is_high_surrogate_def is_low_surrogate_def)

lemma encode_utf16_nz: "valid_str s \<Longrightarrow> 0 \<notin> set s \<Longrightarrow> 0 \<notin> set (encode_utf16 s)"
  by (induction s) (auto dest: utf16_char_nz)

lemma encode_utf16_zero: "0 \<in> set s \<Longrightarrow> 0 \<in> set (encode_utf16 s)"
  by (induction s) (auto simp: utf16_char_def)

lemma takeWhile_neq_append: "x \<notin> set xs \<Longrightarrow> takeWhile (\<lambda>c. c \<noteq> x) (xs @ x # ys) = xs"
  by (induction xs) auto

section \<open>UTF-16LE byte strings\<close>

text \<open>
  \<open>chunks_exact(2)\<close> read as little-endian units (a last odd byte is dropped), and the bytes
  of a list of units.
\<close>

fun u16_units :: "bytes \<Rightarrow> u16 list" where
  "u16_units (a # b # r) = of_le [a, b] # u16_units r"
| "u16_units _ = []"

definition units_bytes :: "u16 list \<Rightarrow> bytes" where
  "units_bytes us = concat (map put_u16_le us)"

lemma units_bytes_simps [simp]:
  "units_bytes [] = []" "units_bytes (u # us) = put_u16_le u @ units_bytes us"
  "units_bytes (us @ vs) = units_bytes us @ units_bytes vs"
  by (simp_all add: units_bytes_def)

lemma length_units_bytes [simp]: "length (units_bytes us) = 2 * length us"
  by (induction us) auto

lemma u16_units_put [simp]: "u16_units (put_u16_le u @ r) = u # u16_units r"
proof -
  obtain a b where ab: "put_u16_le u = [a, b]"
    by (simp add: put_u16_le_def le_bytes_def upt_rec)
  moreover have "of_le (put_u16_le u) = u" by (simp add: put_u16_le_def)
  ultimately show ?thesis by simp
qed

lemma u16_units_units_bytes [simp]: "u16_units (units_bytes us) = us"
  by (induction us) auto

lemma length_u16_units: "length (u16_units bs) = length bs div 2"
  by (induction bs rule: u16_units.induct) auto

section \<open>UTF-8\<close>

text \<open>\<open>char::encode_utf8\<close>, \<open>str::as_bytes\<close> and \<open>str::len\<close> (which counts bytes).\<close>

definition utf8_char :: "nat \<Rightarrow> bytes" where
  "utf8_char c =
     (if c < 0x80 then [word_of_nat c]
      else if c < 0x800 then
        [word_of_nat (0xC0 + c div 0x40), word_of_nat (0x80 + c mod 0x40)]
      else if c < 0x10000 then
        [word_of_nat (0xE0 + c div 0x1000), word_of_nat (0x80 + c div 0x40 mod 0x40),
         word_of_nat (0x80 + c mod 0x40)]
      else
        [word_of_nat (0xF0 + c div 0x40000), word_of_nat (0x80 + c div 0x1000 mod 0x40),
         word_of_nat (0x80 + c div 0x40 mod 0x40), word_of_nat (0x80 + c mod 0x40)])"

definition str_bytes :: "rstring \<Rightarrow> bytes" where
  "str_bytes s = concat (map utf8_char s)"

definition str_len :: "rstring \<Rightarrow> nat" where
  "str_len s = length (str_bytes s)"

lemma str_bytes_simps:
  "str_bytes [] = []" "str_bytes (s @ t) = str_bytes s @ str_bytes t"
  "str_bytes (c # s) = utf8_char c @ str_bytes s"
  by (simp_all add: str_bytes_def)

lemma str_bytes_ascii_map: "list_all (\<lambda>c. c < 0x80) s \<Longrightarrow> str_bytes s = map word_of_nat s"
  by (induction s) (simp_all add: utf8_char_def str_bytes_simps)

lemma str_len_ascii: "list_all (\<lambda>c. c < 0x80) s \<Longrightarrow> str_len s = length s"
  by (simp add: str_len_def str_bytes_ascii_map)

text \<open>
  \<open>String::from_utf8_lossy\<close>: every maximal prefix of an ill-formed sequence reads as U+FFFD.
  \<open>second_ok b c\<close> says that \<open>c\<close> may follow the lead byte \<open>b\<close>.
\<close>

definition is_cont :: "u8 \<Rightarrow> bool" where
  "is_cont b \<longleftrightarrow> 0x80 \<le> unat b \<and> unat b < 0xC0"

definition utf8_width :: "u8 \<Rightarrow> nat" where
  "utf8_width b =
     (let n = unat b in
      if n < 0x80 then 1 else if n < 0xC2 then 0 else if n < 0xE0 then 2
      else if n < 0xF0 then 3 else if n < 0xF5 then 4 else 0)"

definition second_ok :: "u8 \<Rightarrow> u8 \<Rightarrow> bool" where
  "second_ok b c \<longleftrightarrow>
     (if b = 0xE0 then 0xA0 \<le> unat c \<and> unat c < 0xC0
      else if b = 0xED then 0x80 \<le> unat c \<and> unat c < 0xA0
      else if b = 0xF0 then 0x90 \<le> unat c \<and> unat c < 0xC0
      else if b = 0xF4 then 0x80 \<le> unat c \<and> unat c < 0x90
      else is_cont c)"

definition cont_bits :: "u8 \<Rightarrow> nat" where
  "cont_bits b = unat b mod 0x40"

fun from_utf8_lossy :: "bytes \<Rightarrow> rstring" where
  "from_utf8_lossy [] = []"
| "from_utf8_lossy (b # r) =
     (if utf8_width b = 1 then unat b # from_utf8_lossy r
      else if utf8_width b = 0 then 0xFFFD # from_utf8_lossy r
      else case r of
        [] \<Rightarrow> [0xFFFD]
      | c1 # r1 \<Rightarrow>
          if \<not> second_ok b c1 then 0xFFFD # from_utf8_lossy r
          else if utf8_width b = 2 then
            ((unat b - 0xC0) * 0x40 + cont_bits c1) # from_utf8_lossy r1
          else case r1 of
            [] \<Rightarrow> [0xFFFD]
          | c2 # r2 \<Rightarrow>
              if \<not> is_cont c2 then 0xFFFD # from_utf8_lossy r1
              else if utf8_width b = 3 then
                ((unat b - 0xE0) * 0x1000 + cont_bits c1 * 0x40 + cont_bits c2)
                  # from_utf8_lossy r2
              else case r2 of
                [] \<Rightarrow> [0xFFFD]
              | c3 # r3 \<Rightarrow>
                  if \<not> is_cont c3 then 0xFFFD # from_utf8_lossy r2
                  else ((unat b - 0xF0) * 0x40000 + cont_bits c1 * 0x1000
                        + cont_bits c2 * 0x40 + cont_bits c3) # from_utf8_lossy r3)"

section \<open>ASCII case\<close>

text \<open>\<open>to_ascii_lowercase\<close> and \<open>eq_ignore_ascii_case\<close>.\<close>

definition ascii_lower :: "nat \<Rightarrow> nat" where
  "ascii_lower c = (if 65 \<le> c \<and> c \<le> 90 then c + 32 else c)"

definition to_ascii_lowercase :: "rstring \<Rightarrow> rstring" where
  "to_ascii_lowercase s = map ascii_lower s"

definition eq_ignore_ascii_case :: "rstring \<Rightarrow> rstring \<Rightarrow> bool" where
  "eq_ignore_ascii_case s t \<longleftrightarrow> to_ascii_lowercase s = to_ascii_lowercase t"

section \<open>Decimal numbers\<close>

text \<open>\<open>to_string\<close> of an unsigned and of a signed integer.\<close>

fun dec_digits :: "nat \<Rightarrow> rstring" where
  "dec_digits n = (if n < 10 then [48 + n] else dec_digits (n div 10) @ [48 + n mod 10])"

declare dec_digits.simps [simp del]

definition int_to_dec :: "int \<Rightarrow> rstring" where
  "int_to_dec i = (if i < 0 then lit ''-'' @ dec_digits (nat (- i)) else dec_digits (nat i))"

text \<open>
  \<open>parse::<u8>()\<close>, \<open>parse::<u64>()\<close>, \<open>parse::<i64>()\<close>: an optional sign (\<open>-\<close> for signed
  types only), then digits alone; \<open>None\<close> for every error, overflow included.
\<close>

definition is_digit :: "nat \<Rightarrow> bool" where
  "is_digit c \<longleftrightarrow> 48 \<le> c \<and> c \<le> 57"

definition digits_value :: "rstring \<Rightarrow> nat option" where
  "digits_value s =
     (if s \<noteq> [] \<and> list_all is_digit s then Some (foldl (\<lambda>v c. 10 * v + (c - 48)) 0 s) else None)"

definition parse_unsigned :: "nat \<Rightarrow> rstring \<Rightarrow> nat option" where
  "parse_unsigned m s =
     (case digits_value (case s of [] \<Rightarrow> [] | c # r \<Rightarrow> if c = 43 then r else s) of
        None \<Rightarrow> None
      | Some v \<Rightarrow> if v \<le> m then Some v else None)"

definition parse_signed :: "int \<Rightarrow> int \<Rightarrow> rstring \<Rightarrow> int option" where
  "parse_signed lo hi s =
     (case s of
        [] \<Rightarrow> None
      | c # r \<Rightarrow>
          (case (if c = 45 then map_option (\<lambda>v. - int v) (digits_value r)
                 else map_option int (digits_value (if c = 43 then r else s))) of
             None \<Rightarrow> None
           | Some i \<Rightarrow> if lo \<le> i \<and> i \<le> hi then Some i else None))"

lemma dec_digits_digits: "list_all is_digit (dec_digits n) \<and> dec_digits n \<noteq> []"
proof (induction n rule: dec_digits.induct)
  case (1 n)
  moreover have "is_digit (48 + n mod 10)" "n < 10 \<Longrightarrow> is_digit (48 + n)"
    by (simp_all add: is_digit_def)
  ultimately show ?case by (subst (1 2) dec_digits.simps) simp
qed

lemma dec_digits_value: "foldl (\<lambda>v c. 10 * v + (c - 48)) 0 (dec_digits n) = n"
  by (induction n rule: dec_digits.induct) (subst dec_digits.simps, auto)

lemma digits_value_dec [simp]: "digits_value (dec_digits n) = Some n"
  using dec_digits_digits [of n] by (simp add: digits_value_def dec_digits_value)

lemma hd_dec_digits: "is_digit (hd (dec_digits n))"
  using dec_digits_digits [of n] by (cases "dec_digits n") auto

lemma parse_unsigned_dec [simp]: "n \<le> m \<Longrightarrow> parse_unsigned m (dec_digits n) = Some n"
  using hd_dec_digits [of n] dec_digits_digits [of n]
    digits_value_dec [of n]
  by (cases "dec_digits n") (auto simp: parse_unsigned_def is_digit_def)

lemma parse_signed_dec [simp]:
  "lo \<le> i \<Longrightarrow> i \<le> hi \<Longrightarrow> parse_signed lo hi (int_to_dec i) = Some i"
  using hd_dec_digits [of "nat i"] dec_digits_digits [of "nat i"] digits_value_dec [of "nat i"]
  by (cases "dec_digits (nat i)")
    (auto simp: parse_signed_def int_to_dec_def is_digit_def lit_def)

section \<open>Searching, splitting and trimming\<close>

definition strip_prefix :: "rstring \<Rightarrow> rstring \<Rightarrow> rstring option" where
  "strip_prefix p s = (if take (length p) s = p then Some (drop (length p) s) else None)"

text \<open>\<open>str::contains\<close> for a nonempty needle.\<close>

fun str_contains :: "rstring \<Rightarrow> rstring \<Rightarrow> bool" where
  "str_contains x [] \<longleftrightarrow> False"
| "str_contains x (b # bs) \<longleftrightarrow> take (length x) (b # bs) = x \<or> str_contains x bs"

text \<open>\<open>char::is_whitespace\<close> (the Unicode property White_Space), \<open>trim\<close> and its halves.\<close>

definition is_whitespace :: "nat \<Rightarrow> bool" where
  "is_whitespace c \<longleftrightarrow> 9 \<le> c \<and> c \<le> 13 \<or> c \<in> {0x20, 0x85, 0xA0, 0x1680, 0x2028, 0x2029, 0x202F, 0x205F, 0x3000}
     \<or> 0x2000 \<le> c \<and> c \<le> 0x200A"

definition trim_start :: "rstring \<Rightarrow> rstring" where
  "trim_start s = dropWhile is_whitespace s"

definition trim_end :: "rstring \<Rightarrow> rstring" where
  "trim_end s = rev (dropWhile is_whitespace (rev s))"

definition trim :: "rstring \<Rightarrow> rstring" where
  "trim s = trim_end (trim_start s)"

text \<open>\<open>split(c)\<close>, and \<open>rsplitn(2, c)\<close> when it yields two pieces: what is before and after the last \<open>c\<close>.\<close>

fun split_char :: "nat \<Rightarrow> rstring \<Rightarrow> rstring list" where
  "split_char c [] = [[]]"
| "split_char c (x # s) =
     (if x = c then [] # split_char c s
      else (x # hd (split_char c s)) # tl (split_char c s))"

fun rsplit_once :: "nat \<Rightarrow> rstring \<Rightarrow> (rstring \<times> rstring) option" where
  "rsplit_once c [] = None"
| "rsplit_once c (x # s) =
     (case rsplit_once c s of
        Some (p, q) \<Rightarrow> Some (x # p, q)
      | None \<Rightarrow> if x = c then Some ([], s) else None)"

text \<open>\<open>replace(c, d)\<close> for two characters, and \<open>join\<close>.\<close>

definition replace_char :: "nat \<Rightarrow> nat \<Rightarrow> rstring \<Rightarrow> rstring" where
  "replace_char c d s = map (\<lambda>x. if x = c then d else x) s"

fun join_with :: "rstring \<Rightarrow> rstring list \<Rightarrow> rstring" where
  "join_with sep [] = []"
| "join_with sep [x] = x"
| "join_with sep (x # y # ys) = x @ sep @ join_with sep (y # ys)"

lemma strip_prefix_append [simp]: "strip_prefix p (p @ s) = Some s"
  by (simp add: strip_prefix_def)

lemma strip_prefix_Some: "strip_prefix p s = Some r \<longleftrightarrow> s = p @ r"
  by (auto simp: strip_prefix_def) (metis append_take_drop_id)

lemma split_char_nonempty [simp]: "split_char c s \<noteq> []"
  by (induction s) auto

lemma split_char_none [simp]: "c \<notin> set s \<Longrightarrow> split_char c s = [s]"
  by (induction s) auto

lemma split_char_append [simp]: "c \<notin> set p \<Longrightarrow> split_char c (p @ c # s) = p # split_char c s"
  by (induction p) auto

lemma split_char_pieces: "p \<in> set (split_char c s) \<Longrightarrow> c \<notin> set p"
proof (induction s arbitrary: p)
  case (Cons x s)
  show ?case using Cons.prems Cons.IH [OF hd_in_set [OF split_char_nonempty]] Cons.IH
    by (auto split: if_splits dest: list.set_sel(2) [OF split_char_nonempty])
qed simp

lemma join_split: "join_with [c] (split_char c s) = s"
proof (induction s)
  case (Cons x s)
  then show ?case by (cases "split_char c s"; cases "tl (split_char c s)") auto
qed simp

lemma rsplit_once_none: "rsplit_once c s = None \<longleftrightarrow> c \<notin> set s"
  by (induction s) (auto split: option.splits)

lemma rsplit_once_append [simp]: "c \<notin> set q \<Longrightarrow> rsplit_once c (p @ c # q) = Some (p, q)"
  by (induction p) (auto simp: rsplit_once_none [THEN iffD2])

lemma rsplit_once_Some: "rsplit_once c s = Some (p, q) \<longleftrightarrow> s = p @ c # q \<and> c \<notin> set q"
proof (induction s arbitrary: p)
  case (Cons x s)
  show ?case
  proof (cases "rsplit_once c s")
    case None
    moreover have "c \<notin> set s" using None by (rule rsplit_once_none [THEN iffD1])
    ultimately show ?thesis by (cases p) auto
  next
    case (Some r)
    then have "c \<in> set s" using rsplit_once_none [of c s] by auto
    then show ?thesis using Some Cons.IH by (cases p; cases r) auto
  qed
qed simp

lemma trim_empty [simp]: "trim [] = []"
  by (simp add: trim_def trim_start_def trim_end_def)

lemma dropWhile_id: "s = [] \<or> \<not> P (hd s) \<Longrightarrow> dropWhile P s = s"
  by (cases s) auto

lemma trim_id: "s = [] \<or> \<not> is_whitespace (hd s) \<and> \<not> is_whitespace (last s) \<Longrightarrow> trim s = s"
  by (auto simp: trim_def trim_start_def trim_end_def dropWhile_id hd_rev)

lemma last_dropWhile: "dropWhile P s \<noteq> [] \<Longrightarrow> last (dropWhile P s) = last s"
  by (induction s) (auto split: if_splits)

lemma trim_trim [simp]: "trim (trim s) = trim s"
proof (cases "trim s = []")
  case False
  then have nonempty: "dropWhile is_whitespace (rev (trim_start s)) \<noteq> []"
    by (simp add: trim_def trim_end_def)
  have "hd (trim s) = hd (trim_start s)"
    using last_dropWhile [OF nonempty] by (simp add: trim_def trim_end_def hd_rev last_rev)
  moreover have "trim_start s \<noteq> []" using nonempty by auto
  ultimately have "\<not> is_whitespace (hd (trim s))"
    by (simp add: trim_start_def hd_dropWhile)
  moreover have "\<not> is_whitespace (last (trim s))"
    using hd_dropWhile [OF nonempty] by (simp add: trim_def trim_end_def last_rev)
  ultimately show ?thesis by (intro trim_id) simp
qed simp

lemma dec_digits_not: "\<not> is_digit c \<Longrightarrow> c \<notin> set (dec_digits n)"
  using dec_digits_digits [of n] by (auto simp: list_all_iff)

lemma int_to_dec_not: "\<not> is_digit c \<Longrightarrow> c \<noteq> 45 \<Longrightarrow> c \<notin> set (int_to_dec i)"
  by (auto simp: int_to_dec_def lit_def dec_digits_not)

end
