(* ===== verification/Config.thy ===== *)
theory Config
  imports Rust_Strings
begin

text \<open>
  \<open>crates/rdg-core/src/config.rs\<close>: the configuration of the server and its defaults. A path is
  its text. \<open>env\<close> is \<open>std::env::var\<close>, which yields \<open>None\<close> for a variable that is unset.
\<close>

record tls_config =
  tc_cert_path :: "rstring option"
  tc_key_path :: "rstring option"
  tc_auto_generate :: bool
  tc_san_names :: "rstring list option"

record auth_config =
  ac_spn :: "rstring option"
  ac_keytab_path :: "rstring option"
  ac_open_mode :: bool

record telemetry_config =
  tl_otlp_endpoint :: "rstring option"
  tl_service_name :: rstring
  tl_enabled :: bool

record webui_config =
  wc_enabled :: bool
  wc_gateway_url :: "rstring option"

record guacamole_config =
  gc_enabled :: bool
  gc_guacd_host :: rstring
  gc_guacd_port :: u16

record server_config =
  sc_listen_addr :: rstring
  sc_listen_port :: u16
  sc_tls :: tls_config
  sc_database_url :: rstring
  sc_auth :: auth_config
  sc_server_name :: rstring
  sc_telemetry :: telemetry_config
  sc_webui :: webui_config
  sc_guacamole :: guacamole_config

definition default_service_name :: rstring where
  "default_service_name = lit ''rdg-gateway''"

definition telemetry_default :: telemetry_config where
  "telemetry_default =
     \<lparr>tl_otlp_endpoint = None, tl_service_name = default_service_name, tl_enabled = True\<rparr>"

definition webui_default :: webui_config where
  "webui_default = \<lparr>wc_enabled = False, wc_gateway_url = None\<rparr>"

definition guacamole_default :: guacamole_config where
  "guacamole_default =
     \<lparr>gc_enabled = False, gc_guacd_host = lit ''localhost'', gc_guacd_port = 4822\<rparr>"

definition hostname :: "(rstring \<Rightarrow> rstring option) \<Rightarrow> rstring" where
  "hostname env =
     (case env (lit ''COMPUTERNAME'') of
        Some n \<Rightarrow> n
      | None \<Rightarrow> (case env (lit ''HOSTNAME'') of Some n \<Rightarrow> n | None \<Rightarrow> lit ''RDG-GATEWAY''))"

definition server_config_default :: "(rstring \<Rightarrow> rstring option) \<Rightarrow> server_config" where
  "server_config_default env =
     \<lparr>sc_listen_addr = lit ''0.0.0.0'', sc_listen_port = 443,
      sc_tls = \<lparr>tc_cert_path = None, tc_key_path = None, tc_auto_generate = True,
        tc_san_names = None\<rparr>,
      sc_database_url = lit ''sqlite://rdg-gateway.db?mode=rwc'',
      sc_auth = \<lparr>ac_spn = None, ac_keytab_path = None, ac_open_mode = False\<rparr>,
      sc_server_name = hostname env,
      sc_telemetry = telemetry_default, sc_webui = webui_default,
      sc_guacamole = guacamole_default\<rparr>"

end
