(* ===== verification/Tsg_Messages.thy ===== *)
theory Tsg_Messages
  imports Rust_Strings
begin

text \<open>
  \<open>crates/rdg-proto/src/messages.rs\<close>: the TSG messages, their parsers and writers. A struct is
  a record whose fields carry a prefix of the struct (\<open>hs_\<close>, \<open>tc_\<close>, ...); the enums
  \<open>MessageType\<close> and \<open>TsgMessage\<close> keep the source's constructors and are told apart by
  their qualified names. A \<open>write\<close> function is the bytes it appends to its buffer.
\<close>

abbreviation HEADER_SIZE :: nat where
  "HEADER_SIZE \<equiv> 8"

section \<open>Message types and errors\<close>

datatype message_type =
    HandshakeRequest | HandshakeResponse | ExtendedAuthMsg | TunnelCreate | TunnelResponse
  | TunnelAuth | TunnelAuthResponse | ChannelCreate | ChannelResponse | Data
  | ServiceMessage | ReauthMessage | Keepalive | CloseChannel | CloseChannelResponse

text \<open>\<open>MessageType::X as u16\<close>.\<close>

fun message_type_code :: "message_type \<Rightarrow> u16" where
  "message_type_code HandshakeRequest = 0x0001"
| "message_type_code HandshakeResponse = 0x0002"
| "message_type_code ExtendedAuthMsg = 0x0003"
| "message_type_code TunnelCreate = 0x0004"
| "message_type_code TunnelResponse = 0x0005"
| "message_type_code TunnelAuth = 0x0006"
| "message_type_code TunnelAuthResponse = 0x0007"
| "message_type_code ChannelCreate = 0x0008"
| "message_type_code ChannelResponse = 0x0009"
| "message_type_code Data = 0x000A"
| "message_type_code ServiceMessage = 0x000B"
| "message_type_code ReauthMessage = 0x000C"
| "message_type_code Keepalive = 0x000D"
| "message_type_code CloseChannel = 0x000E"
| "message_type_code CloseChannelResponse = 0x000F"

definition message_type_from_u16 :: "u16 \<Rightarrow> message_type option" where
  "message_type_from_u16 v =
     (if v = 0x0001 then Some HandshakeRequest
      else if v = 0x0002 then Some HandshakeResponse
      else if v = 0x0003 then Some ExtendedAuthMsg
      else if v = 0x0004 then Some TunnelCreate
      else if v = 0x0005 then Some TunnelResponse
      else if v = 0x0006 then Some TunnelAuth
      else if v = 0x0007 then Some TunnelAuthResponse
      else if v = 0x0008 then Some ChannelCreate
      else if v = 0x0009 then Some ChannelResponse
      else if v = 0x000A then Some Data
      else if v = 0x000B then Some ServiceMessage
      else if v = 0x000C then Some ReauthMessage
      else if v = 0x000D then Some Keepalive
      else if v = 0x000E then Some CloseChannel
      else if v = 0x000F then Some CloseChannelResponse
      else None)"

datatype message_error =
    BufferTooShort (needed: nat) (have_len: nat)
  | UnknownType u16
  | InvalidLength u32
  | InvalidUtf16

lemma message_type_from_code [simp]: "message_type_from_u16 (message_type_code t) = Some t"
  by (cases t) (simp_all add: message_type_from_u16_def)

lemma message_type_from_u16_Some: "message_type_from_u16 v = Some t \<longleftrightarrow> v = message_type_code t"
proof
  assume "message_type_from_u16 v = Some t"
  then show "v = message_type_code t"
    by (auto simp: message_type_from_u16_def split: if_splits)
qed simp

section \<open>The message header\<close>

record message_header =
  mh_type :: u16
  mh_reserved :: u16
  mh_length :: u32

definition message_header_parse :: "bytes \<Rightarrow> (message_error, message_header) outcome" where
  "message_header_parse buf =
     (if length buf < HEADER_SIZE then Err (BufferTooShort HEADER_SIZE (length buf))
      else
        rbind (get_u16_le buf) (\<lambda>(msg_type, r).
        rbind (get_u16_le r) (\<lambda>(reserved, r).
        rbind (get_u32_le r) (\<lambda>(len, r).
        Ok \<lparr>mh_type = msg_type, mh_reserved = reserved, mh_length = len\<rparr>))))"

definition message_header_write :: "message_header \<Rightarrow> bytes" where
  "message_header_write h =
     put_u16_le (mh_type h) @ put_u16_le (mh_reserved h) @ put_u32_le (mh_length h)"

lemma length_message_header_write [simp]: "length (message_header_write h) = 8"
  by (simp add: message_header_write_def)

lemma message_header_roundtrip [simp]:
  "message_header_parse (message_header_write h @ rest) = Ok h"
  by (simp add: message_header_parse_def message_header_write_def)

lemma message_header_parse_no_panic [no_panic]: "message_header_parse buf \<noteq> Panic"
  by (simp add: message_header_parse_def get_enough)

lemma message_header_parse_Ok:
  "message_header_parse buf = Ok h \<longleftrightarrow> (\<exists>r. buf = message_header_write h @ r)"
proof
  assume "message_header_parse buf = Ok h"
  then show "\<exists>r. buf = message_header_write h @ r"
    by (auto simp: message_header_parse_def message_header_write_def parse_inv split: if_splits)
qed auto

section \<open>UTF-16 strings\<close>

text \<open>
  \<open>read_utf16le\<close> stops at the first zero unit; \<open>encode_utf16le\<close> ends with one.
\<close>

definition read_utf16le :: "bytes \<Rightarrow> (message_error, rstring) outcome" where
  "read_utf16le data =
     (if length data mod 2 \<noteq> 0 then Err InvalidUtf16
      else ok_or InvalidUtf16 (from_utf16 (takeWhile (\<lambda>c. c \<noteq> 0) (u16_units data))))"

definition encode_utf16le :: "rstring \<Rightarrow> bytes" where
  "encode_utf16le s = units_bytes (encode_utf16 s) @ [0x00, 0x00]"

lemma length_encode_utf16le: "length (encode_utf16le s) = 2 * length (encode_utf16 s) + 2"
  by (simp add: encode_utf16le_def)

lemma read_utf16le_no_panic [simp, no_panic]: "read_utf16le data \<noteq> Panic"
  by (simp add: read_utf16le_def)

lemma u16_units_append_zero: "u16_units (units_bytes us @ [0, 0]) = us @ [0]"
  by (induction us) auto

lemma utf16le_roundtrip [simp]:
  assumes "valid_str s" and "0 \<notin> set s"
  shows "read_utf16le (encode_utf16le s) = Ok s"
proof -
  have "takeWhile (\<lambda>c. c \<noteq> 0) (encode_utf16 s @ [0]) = encode_utf16 s"
    using encode_utf16_nz [OF assms] by (rule takeWhile_neq_append)
  then show ?thesis
    using assms(1) by (simp add: read_utf16le_def encode_utf16le_def u16_units_append_zero)
qed

lemma read_utf16le_valid: "read_utf16le data = Ok s \<Longrightarrow> valid_str s \<and> 0 \<notin> set s"
proof -
  assume "read_utf16le data = Ok s"
  then have *: "from_utf16 (takeWhile (\<lambda>c. c \<noteq> 0) (u16_units data)) = Some s"
    by (auto simp: read_utf16le_def split: if_splits)
  then have v: "valid_str s" and e: "encode_utf16 s = takeWhile (\<lambda>c. c \<noteq> 0) (u16_units data)"
    by (auto dest: from_utf16_SomeD)
  have "0 \<notin> set (encode_utf16 s)" unfolding e by (auto dest: set_takeWhileD)
  then have "0 \<notin> set s" by (auto dest: encode_utf16_zero)
  with v show ?thesis by simp
qed

section \<open>Handshake\<close>

record handshake_request =
  hs_major_version :: u8
  hs_minor_version :: u8
  hs_client_version :: u16
  hs_ext_auth :: u16

definition handshake_request_parse :: "bytes \<Rightarrow> (message_error, handshake_request) outcome" where
  "handshake_request_parse payload =
     (if length payload < 6 then Err (BufferTooShort 6 (length payload))
      else
        rbind (get_u8 payload) (\<lambda>(major_version, r).
        rbind (get_u8 r) (\<lambda>(minor_version, r).
        rbind (get_u16_le r) (\<lambda>(client_version, r).
        rbind (get_u16_le r) (\<lambda>(ext_auth, r).
        Ok \<lparr>hs_major_version = major_version, hs_minor_version = minor_version,
            hs_client_version = client_version, hs_ext_auth = ext_auth\<rparr>)))))"

definition handshake_request_write :: "handshake_request \<Rightarrow> bytes" where
  "handshake_request_write m =
     message_header_write \<lparr>mh_type = message_type_code HandshakeRequest, mh_reserved = 0,
       mh_length = word_of_nat (HEADER_SIZE + 6)\<rparr>
     @ put_u8 (hs_major_version m) @ put_u8 (hs_minor_version m)
     @ put_u16_le (hs_client_version m) @ put_u16_le (hs_ext_auth m)"

record handshake_response =
  hr_error_code :: u32
  hr_major_version :: u8
  hr_minor_version :: u8
  hr_server_version :: u16
  hr_ext_auth :: u16

definition handshake_response_write :: "handshake_response \<Rightarrow> bytes" where
  "handshake_response_write m =
     message_header_write \<lparr>mh_type = message_type_code HandshakeResponse, mh_reserved = 0,
       mh_length = word_of_nat (HEADER_SIZE + 10)\<rparr>
     @ put_u32_le (hr_error_code m) @ put_u8 (hr_major_version m) @ put_u8 (hr_minor_version m)
     @ put_u16_le (hr_server_version m) @ put_u16_le (hr_ext_auth m)"

definition handshake_response_parse :: "bytes \<Rightarrow> (message_error, handshake_response) outcome" where
  "handshake_response_parse payload =
     (if length payload < 10 then Err (BufferTooShort 10 (length payload))
      else
        rbind (get_u32_le payload) (\<lambda>(error_code, r).
        rbind (get_u8 r) (\<lambda>(major_version, r).
        rbind (get_u8 r) (\<lambda>(minor_version, r).
        rbind (get_u16_le r) (\<lambda>(server_version, r).
        rbind (get_u16_le r) (\<lambda>(ext_auth, r).
        Ok \<lparr>hr_error_code = error_code, hr_major_version = major_version,
            hr_minor_version = minor_version, hr_server_version = server_version,
            hr_ext_auth = ext_auth\<rparr>))))))"

section \<open>Tunnel creation\<close>

definition HTTP_TUNNEL_PACKET_FIELD_PAA_COOKIE :: u16 where
  "HTTP_TUNNEL_PACKET_FIELD_PAA_COOKIE = 0x0001"

definition HTTP_TUNNEL_RESPONSE_FIELD_TUNNEL_ID :: u16 where
  "HTTP_TUNNEL_RESPONSE_FIELD_TUNNEL_ID = 0x0001"

definition HTTP_TUNNEL_RESPONSE_FIELD_CAPS :: u16 where
  "HTTP_TUNNEL_RESPONSE_FIELD_CAPS = 0x0002"

record tunnel_create =
  tc_caps_flags :: u32
  tc_fields_present :: u16
  tc_reserved :: u16
  tc_paa_cookie :: "rstring option"

definition tunnel_create_parse :: "bytes \<Rightarrow> (message_error, tunnel_create) outcome" where
  "tunnel_create_parse payload =
     (if length payload < 8 then Err (BufferTooShort 8 (length payload))
      else
        rbind (get_u32_le payload) (\<lambda>(caps_flags, r).
        rbind (get_u16_le r) (\<lambda>(fields_present, r).
        rbind (get_u16_le r) (\<lambda>(reserved, r).
        rbind
          (if fields_present AND HTTP_TUNNEL_PACKET_FIELD_PAA_COOKIE \<noteq> 0 \<and> 2 \<le> length r then
             rbind (get_u16_le r) (\<lambda>(cookie_len, r).
             if unat cookie_len \<le> length r then
               rbind (slice 0 (unat cookie_len) r) (\<lambda>data.
               rbind (read_utf16le data) (\<lambda>s. Ok (Some s)))
             else Ok None)
           else Ok None) (\<lambda>paa_cookie.
        Ok \<lparr>tc_caps_flags = caps_flags, tc_fields_present = fields_present,
            tc_reserved = reserved, tc_paa_cookie = paa_cookie\<rparr>)))))"

definition tunnel_create_write :: "tunnel_create \<Rightarrow> bytes" where
  "tunnel_create_write m =
     message_header_write \<lparr>mh_type = message_type_code TunnelCreate, mh_reserved = 0,
       mh_length = word_of_nat (HEADER_SIZE + 8)\<rparr>
     @ put_u32_le (tc_caps_flags m) @ put_u16_le (tc_fields_present m)
     @ put_u16_le (tc_reserved m)"

record tunnel_response =
  tr_server_version :: u16
  tr_error_code :: u32
  tr_fields_present :: u16
  tr_reserved :: u16
  tr_tunnel_id :: "u32 option"
  tr_caps :: "u32 option"

text \<open>An optional field is written when it is \<open>Some\<close>, whatever \<open>fields_present\<close> says.\<close>

definition put_opt :: "('a \<Rightarrow> bytes) \<Rightarrow> 'a option \<Rightarrow> bytes" where
  "put_opt put v = (case v of None \<Rightarrow> [] | Some x \<Rightarrow> put x)"

definition tunnel_response_write :: "tunnel_response \<Rightarrow> bytes" where
  "tunnel_response_write m =
     (let payload_size = (10 :: u32)
            + (if tr_tunnel_id m \<noteq> None then 4 else 0) + (if tr_caps m \<noteq> None then 4 else 0)
      in message_header_write \<lparr>mh_type = message_type_code TunnelResponse, mh_reserved = 0,
           mh_length = word_of_nat HEADER_SIZE + payload_size\<rparr>
         @ put_u16_le (tr_server_version m) @ put_u32_le (tr_error_code m)
         @ put_u16_le (tr_fields_present m) @ put_u16_le (tr_reserved m)
         @ put_opt put_u32_le (tr_tunnel_id m) @ put_opt put_u32_le (tr_caps m))"

text \<open>
  \<open>get_flagged n get flag present r\<close>: the repeated block that reads an optional field of
  \<open>n\<close> bytes when its bit is set in \<open>fields_present\<close> and fails when it does not fit.
\<close>

definition get_flagged ::
  "nat \<Rightarrow> (bytes \<Rightarrow> (message_error, 'a \<times> bytes) outcome) \<Rightarrow> u16 \<Rightarrow> u16 \<Rightarrow> bytes
    \<Rightarrow> (message_error, 'a option \<times> bytes) outcome" where
  "get_flagged n get flag present r =
     (if present AND flag \<noteq> 0 then
        (if length r < n then Err (BufferTooShort n (length r))
         else rbind (get r) (\<lambda>(v, r). Ok (Some v, r)))
      else Ok (None, r))"

definition tunnel_response_parse :: "bytes \<Rightarrow> (message_error, tunnel_response) outcome" where
  "tunnel_response_parse payload =
     (if length payload < 10 then Err (BufferTooShort 10 (length payload))
      else
        rbind (get_u16_le payload) (\<lambda>(server_version, r).
        rbind (get_u32_le r) (\<lambda>(error_code, r).
        rbind (get_u16_le r) (\<lambda>(fields_present, r).
        rbind (get_u16_le r) (\<lambda>(reserved, r).
        rbind (get_flagged 4 get_u32_le HTTP_TUNNEL_RESPONSE_FIELD_TUNNEL_ID fields_present r)
          (\<lambda>(tunnel_id, r).
        rbind (get_flagged 4 get_u32_le HTTP_TUNNEL_RESPONSE_FIELD_CAPS fields_present r)
          (\<lambda>(caps, r).
        Ok \<lparr>tr_server_version = server_version, tr_error_code = error_code,
            tr_fields_present = fields_present, tr_reserved = reserved,
            tr_tunnel_id = tunnel_id, tr_caps = caps\<rparr>)))))))"

section \<open>Tunnel authorization\<close>

record tunnel_auth =
  ta_fields_present :: u16
  ta_client_name :: rstring

definition tunnel_auth_parse :: "bytes \<Rightarrow> (message_error, tunnel_auth) outcome" where
  "tunnel_auth_parse payload =
     (if length payload < 4 then Err (BufferTooShort 4 (length payload))
      else
        rbind (get_u16_le payload) (\<lambda>(fields_present, r).
        rbind (get_u16_le r) (\<lambda>(name_len, r).
        if length r < unat name_len then Err (BufferTooShort (unat name_len) (length r))
        else
          rbind (slice 0 (unat name_len) r) (\<lambda>data.
          rbind (read_utf16le data) (\<lambda>client_name.
          Ok \<lparr>ta_fields_present = fields_present, ta_client_name = client_name\<rparr>)))))"

definition tunnel_auth_write :: "tunnel_auth \<Rightarrow> bytes" where
  "tunnel_auth_write m =
     (let name_bytes = encode_utf16le (ta_client_name m);
          payload_size = 4 + length name_bytes
      in message_header_write \<lparr>mh_type = message_type_code TunnelAuth, mh_reserved = 0,
           mh_length = word_of_nat (HEADER_SIZE + payload_size)\<rparr>
         @ put_u16_le (ta_fields_present m) @ put_u16_le (word_of_nat (length name_bytes))
         @ name_bytes)"

record tunnel_auth_response =
  tar_error_code :: u32
  tar_flags :: u16
  tar_reserved :: u16
  tar_idle_timeout :: u32
  tar_soh_response :: "bytes option"

definition tunnel_auth_response_write :: "tunnel_auth_response \<Rightarrow> bytes" where
  "tunnel_auth_response_write m =
     message_header_write \<lparr>mh_type = message_type_code TunnelAuthResponse, mh_reserved = 0,
       mh_length = word_of_nat (HEADER_SIZE + 16)\<rparr>
     @ put_u32_le (tar_error_code m) @ put_u16_le (tar_flags m) @ put_u16_le (tar_reserved m)
     @ put_u32_le (tar_idle_timeout m) @ put_u32_le 0"

definition tunnel_auth_response_parse ::
  "bytes \<Rightarrow> (message_error, tunnel_auth_response) outcome" where
  "tunnel_auth_response_parse payload =
     (if length payload < 12 then Err (BufferTooShort 12 (length payload))
      else
        rbind (get_u32_le payload) (\<lambda>(error_code, r).
        rbind (get_u16_le r) (\<lambda>(flags, r).
        rbind (get_u16_le r) (\<lambda>(reserved, r).
        rbind (get_u32_le r) (\<lambda>(idle_timeout, r).
        Ok \<lparr>tar_error_code = error_code, tar_flags = flags, tar_reserved = reserved,
            tar_idle_timeout = idle_timeout, tar_soh_response = None\<rparr>)))))"

section \<open>Channel creation\<close>

record channel_create =
  cc_num_resources :: u8
  cc_num_alt_resources :: u8
  cc_port :: u16
  cc_protocol :: u16
  cc_server_name :: rstring

definition channel_create_parse :: "bytes \<Rightarrow> (message_error, channel_create) outcome" where
  "channel_create_parse payload =
     (if length payload < 8 then Err (BufferTooShort 8 (length payload))
      else
        rbind (get_u8 payload) (\<lambda>(num_resources, r).
        rbind (get_u8 r) (\<lambda>(num_alt_resources, r).
        rbind (get_u16_le r) (\<lambda>(port, r).
        rbind (get_u16_le r) (\<lambda>(protocol, r).
        rbind (get_u16_le r) (\<lambda>(name_len, r).
        if length r < unat name_len then Err (BufferTooShort (unat name_len) (length r))
        else
          rbind (slice 0 (unat name_len) r) (\<lambda>data.
          rbind (read_utf16le data) (\<lambda>server_name.
          Ok \<lparr>cc_num_resources = num_resources, cc_num_alt_resources = num_alt_resources,
              cc_port = port, cc_protocol = protocol, cc_server_name = server_name\<rparr>))))))))"

definition channel_create_write :: "channel_create \<Rightarrow> bytes" where
  "channel_create_write m =
     (let name_bytes = encode_utf16le (cc_server_name m);
          payload_size = 8 + length name_bytes
      in message_header_write \<lparr>mh_type = message_type_code ChannelCreate, mh_reserved = 0,
           mh_length = word_of_nat (HEADER_SIZE + payload_size)\<rparr>
         @ put_u8 (cc_num_resources m) @ put_u8 (cc_num_alt_resources m)
         @ put_u16_le (cc_port m) @ put_u16_le (cc_protocol m)
         @ put_u16_le (word_of_nat (length name_bytes)) @ name_bytes)"

definition HTTP_CHANNEL_RESPONSE_FIELD_CHANNELID :: u16 where
  "HTTP_CHANNEL_RESPONSE_FIELD_CHANNELID = 0x0001"

definition HTTP_CHANNEL_RESPONSE_FIELD_UDPPORT :: u16 where
  "HTTP_CHANNEL_RESPONSE_FIELD_UDPPORT = 0x0002"

definition HTTP_CHANNEL_RESPONSE_FIELD_AUTHNCOOKIE :: u16 where
  "HTTP_CHANNEL_RESPONSE_FIELD_AUTHNCOOKIE = 0x0004"

record channel_response =
  cr_error_code :: u32
  cr_fields_present :: u16
  cr_reserved :: u16
  cr_channel_id :: "u32 option"
  cr_udp_port :: "u16 option"
  cr_auth_cookie :: "bytes option"

definition put_cookie :: "bytes \<Rightarrow> bytes" where
  "put_cookie cookie = put_u16_le (word_of_nat (length cookie)) @ cookie"

definition channel_response_write :: "channel_response \<Rightarrow> bytes" where
  "channel_response_write m =
     (let payload_size = 8 + (if cr_channel_id m \<noteq> None then 4 else 0)
            + (if cr_udp_port m \<noteq> None then 2 else 0)
            + (case cr_auth_cookie m of None \<Rightarrow> 0 | Some cookie \<Rightarrow> 2 + length cookie)
      in message_header_write \<lparr>mh_type = message_type_code ChannelResponse, mh_reserved = 0,
           mh_length = word_of_nat (HEADER_SIZE + payload_size)\<rparr>
         @ put_u32_le (cr_error_code m) @ put_u16_le (cr_fields_present m)
         @ put_u16_le (cr_reserved m)
         @ put_opt put_u32_le (cr_channel_id m) @ put_opt put_u16_le (cr_udp_port m)
         @ put_opt put_cookie (cr_auth_cookie m))"

text \<open>The length-prefixed cookie, read after the check that its two length bytes are there.\<close>

definition get_cookie :: "bytes \<Rightarrow> (message_error, bytes \<times> bytes) outcome" where
  "get_cookie r =
     rbind (get_u16_le r) (\<lambda>(len, r).
     if length r < unat len then Err (BufferTooShort (unat len) (length r))
     else
       rbind (slice 0 (unat len) r) (\<lambda>data.
       rbind (advance (unat len) r) (\<lambda>r.
       Ok (data, r))))"

definition channel_response_parse :: "bytes \<Rightarrow> (message_error, channel_response) outcome" where
  "channel_response_parse payload =
     (if length payload < 8 then Err (BufferTooShort 8 (length payload))
      else
        rbind (get_u32_le payload) (\<lambda>(error_code, r).
        rbind (get_u16_le r) (\<lambda>(fields_present, r).
        rbind (get_u16_le r) (\<lambda>(reserved, r).
        rbind (get_flagged 4 get_u32_le HTTP_CHANNEL_RESPONSE_FIELD_CHANNELID fields_present r)
          (\<lambda>(channel_id, r).
        rbind (get_flagged 2 get_u16_le HTTP_CHANNEL_RESPONSE_FIELD_UDPPORT fields_present r)
          (\<lambda>(udp_port, r).
        rbind (get_flagged 2 get_cookie HTTP_CHANNEL_RESPONSE_FIELD_AUTHNCOOKIE fields_present r)
          (\<lambda>(auth_cookie, r).
        Ok \<lparr>cr_error_code = error_code, cr_fields_present = fields_present,
            cr_reserved = reserved, cr_channel_id = channel_id, cr_udp_port = udp_port,
            cr_auth_cookie = auth_cookie\<rparr>)))))))"

section \<open>Data and control messages\<close>

record data_message =
  dm_data :: bytes

definition data_message_parse :: "bytes \<Rightarrow> data_message" where
  "data_message_parse payload = \<lparr>dm_data = payload\<rparr>"

definition data_message_write :: "bytes \<Rightarrow> bytes" where
  "data_message_write data =
     message_header_write \<lparr>mh_type = message_type_code Data, mh_reserved = 0,
       mh_length = word_of_nat (HEADER_SIZE + length data)\<rparr> @ data"

definition write_keepalive :: bytes where
  "write_keepalive =
     message_header_write \<lparr>mh_type = message_type_code Keepalive, mh_reserved = 0,
       mh_length = word_of_nat HEADER_SIZE\<rparr>"

definition write_close_channel_response :: bytes where
  "write_close_channel_response =
     message_header_write \<lparr>mh_type = message_type_code CloseChannelResponse, mh_reserved = 0,
       mh_length = word_of_nat HEADER_SIZE\<rparr>"

definition write_echo_response :: "u16 \<Rightarrow> bytes \<Rightarrow> bytes" where
  "write_echo_response msg_type payload =
     message_header_write \<lparr>mh_type = msg_type, mh_reserved = 0,
       mh_length = word_of_nat (HEADER_SIZE + length payload)\<rparr> @ payload"

section \<open>Parsed messages\<close>

datatype tsg_message =
    HandshakeRequest handshake_request
  | HandshakeResponse handshake_response
  | TunnelCreate tunnel_create
  | TunnelResponse tunnel_response
  | TunnelAuth tunnel_auth
  | TunnelAuthResponse tunnel_auth_response
  | ChannelCreate channel_create
  | ChannelResponse channel_response
  | Data data_message
  | Keepalive
  | CloseChannel bytes
  | CloseChannelResponse bytes
  | Unknown u16 bytes

text \<open>The dispatch of \<open>parse_message\<close> on the header's type.\<close>

definition parse_payload :: "u16 \<Rightarrow> bytes \<Rightarrow> (message_error, tsg_message) outcome" where
  "parse_payload msg_type payload =
     (case message_type_from_u16 msg_type of
        Some message_type.HandshakeRequest \<Rightarrow>
          map_ok HandshakeRequest (handshake_request_parse payload)
      | Some message_type.HandshakeResponse \<Rightarrow>
          map_ok HandshakeResponse (handshake_response_parse payload)
      | Some message_type.TunnelCreate \<Rightarrow> map_ok TunnelCreate (tunnel_create_parse payload)
      | Some message_type.TunnelResponse \<Rightarrow> map_ok TunnelResponse (tunnel_response_parse payload)
      | Some message_type.TunnelAuth \<Rightarrow> map_ok TunnelAuth (tunnel_auth_parse payload)
      | Some message_type.TunnelAuthResponse \<Rightarrow>
          map_ok TunnelAuthResponse (tunnel_auth_response_parse payload)
      | Some message_type.ChannelCreate \<Rightarrow> map_ok ChannelCreate (channel_create_parse payload)
      | Some message_type.ChannelResponse \<Rightarrow>
          map_ok ChannelResponse (channel_response_parse payload)
      | Some message_type.Data \<Rightarrow> Ok (Data (data_message_parse payload))
      | Some message_type.Keepalive \<Rightarrow> Ok Keepalive
      | Some message_type.CloseChannel \<Rightarrow> Ok (CloseChannel payload)
      | Some message_type.CloseChannelResponse \<Rightarrow> Ok (CloseChannelResponse payload)
      | _ \<Rightarrow> Ok (Unknown msg_type payload))"

definition parse_message :: "bytes \<Rightarrow> (message_error, tsg_message) outcome" where
  "parse_message buf =
     rbind (message_header_parse buf) (\<lambda>header.
     let total_len = unat (mh_length header) in
     if total_len < HEADER_SIZE then Err (InvalidLength (mh_length header))
     else if length buf < total_len then Err (BufferTooShort total_len (length buf))
     else
       rbind (slice HEADER_SIZE total_len buf) (\<lambda>payload.
       parse_payload (mh_type header) payload))"

end
