(* ===== verification/Tsg_Codec.thy ===== *)
theory Tsg_Codec
  imports Tsg_Messages
begin

text \<open>
  What the parsers and writers of \<open>Tsg_Messages\<close> owe each other. The locale \<open>tsg_codec\<close> is
  the contract of one message struct with the framing of \<open>parse_message\<close>: its writer frames
  a body under its type code, its parser reads that body back, and the dispatch of
  \<open>parse_message\<close> reaches that parser. Every struct that has both a writer and a parser is
  an interpretation; the framed round trip, self-delimitation and injectivity are proved once.
\<close>

section \<open>No parser panics\<close>

lemma get_flagged_no_panic [no_panic]:
  assumes "\<And>r. n \<le> length r \<Longrightarrow> get r \<noteq> Panic"
  shows "get_flagged n get flag present r \<noteq> Panic"
  using assms by (auto simp: get_flagged_def rbind_eq_Panic)

lemma get_cookie_no_panic [no_panic]: "2 \<le> length r \<Longrightarrow> get_cookie r \<noteq> Panic"
  by (auto simp: get_cookie_def rbind_eq_Panic get_eq_Panic)

lemma handshake_request_parse_no_panic [no_panic]: "handshake_request_parse p \<noteq> Panic"
  by (simp add: handshake_request_parse_def get_enough)

lemma handshake_response_parse_no_panic [no_panic]: "handshake_response_parse p \<noteq> Panic"
  by (simp add: handshake_response_parse_def get_enough)

lemma tunnel_create_parse_no_panic [no_panic]: "tunnel_create_parse p \<noteq> Panic"
  by (auto simp: tunnel_create_parse_def get_enough rbind_eq_Panic)

lemma tunnel_response_parse_no_panic [no_panic]: "tunnel_response_parse p \<noteq> Panic"
  by (auto simp: tunnel_response_parse_def get_enough rbind_eq_Panic no_panic)

lemma tunnel_auth_parse_no_panic [no_panic]: "tunnel_auth_parse p \<noteq> Panic"
  by (auto simp: tunnel_auth_parse_def get_enough rbind_eq_Panic)

lemma tunnel_auth_response_parse_no_panic [no_panic]: "tunnel_auth_response_parse p \<noteq> Panic"
  by (simp add: tunnel_auth_response_parse_def get_enough)

lemma channel_create_parse_no_panic [no_panic]: "channel_create_parse p \<noteq> Panic"
  by (auto simp: channel_create_parse_def get_enough rbind_eq_Panic)

lemma channel_response_parse_no_panic [no_panic]: "channel_response_parse p \<noteq> Panic"
  by (auto simp: channel_response_parse_def get_enough rbind_eq_Panic no_panic)

lemma parse_payload_no_panic [no_panic]: "parse_payload t p \<noteq> Panic"
  by (simp add: parse_payload_def no_panic split: option.split message_type.split)

lemma parse_message_not_panic: "parse_message buf \<noteq> Panic"
  by (auto simp: parse_message_def rbind_eq_Panic get_eq_Panic no_panic Let_def)

section \<open>The frame\<close>

text \<open>
  \<open>frame t body\<close>: a header of type \<open>t\<close> that announces \<open>body\<close>, then \<open>body\<close>; the shape of
  everything the writers produce.
\<close>

definition frame :: "u16 \<Rightarrow> bytes \<Rightarrow> bytes" where
  "frame t body =
     message_header_write \<lparr>mh_type = t, mh_reserved = 0, mh_length = word_of_nat (8 + length body)\<rparr>
     @ body"

definition framable :: "bytes \<Rightarrow> bool" where
  "framable body \<longleftrightarrow> 8 + length body < 2 ^ 32"

lemma unat_of_nat32: "n < 2 ^ 32 \<Longrightarrow> unat (word_of_nat n :: u32) = n"
  by (simp add: unat_of_nat take_bit_eq_mod)

lemma unat_of_nat16': "n < 2 ^ 16 \<Longrightarrow> unat (word_of_nat n :: u16) = n"
  by (simp add: unat_of_nat take_bit_eq_mod)

text \<open>Whatever stands before and after it, a framed body reaches the dispatch exactly.\<close>

lemma parse_message_framed:
  assumes "8 \<le> unat len" and "length body = unat len - 8"
  shows "parse_message
      (message_header_write \<lparr>mh_type = t, mh_reserved = res, mh_length = len\<rparr> @ body @ rest)
    = parse_payload t body"
  using assms by (simp add: parse_message_def Let_def)

lemma parse_frame [simp]: "framable body \<Longrightarrow> parse_message (frame t body @ rest) = parse_payload t body"
  unfolding frame_def append_assoc
  by (subst parse_message_framed) (simp_all add: framable_def unat_of_nat32 del: of_nat_add)

lemma length_frame [simp]: "length (frame t body) = 8 + length body"
  by (simp add: frame_def)

text \<open>
  Conversely, an accepted buffer is a header, a payload of the announced length and a rest
  that has no influence.
\<close>

lemma parse_message_OkD:
  assumes "parse_message buf = Ok m"
  obtains h payload rest where "buf = message_header_write h @ payload @ rest"
    and "unat (mh_length h) = 8 + length payload" and "parse_payload (mh_type h) payload = Ok m"
proof -
  from assms obtain h r where buf: "buf = message_header_write h @ r"
    and len: "8 \<le> unat (mh_length h)" "unat (mh_length h) \<le> length buf"
    and pp: "parse_payload (mh_type h) (take (unat (mh_length h) - 8) r) = Ok m"
    by (auto simp: parse_message_def rbind_eq_Ok message_header_parse_Ok Let_def slice_def
        split: if_splits)
  show thesis
  proof (rule that [of h "take (unat (mh_length h) - 8) r" "drop (unat (mh_length h) - 8) r"])
    show "buf = message_header_write h @ take (unat (mh_length h) - 8) r
        @ drop (unat (mh_length h) - 8) r"
      using buf by simp
    show "unat (mh_length h) = 8 + length (take (unat (mh_length h) - 8) r)"
      using len buf by simp
  qed (rule pp)
qed

section \<open>The codec contract\<close>

locale tsg_codec =
  fixes ty :: message_type
    and emit :: "'m \<Rightarrow> bytes"
    and body :: "'m \<Rightarrow> bytes"
    and read :: "bytes \<Rightarrow> (message_error, 'm) outcome"
    and wrap :: "'m \<Rightarrow> tsg_message"
    and ok :: "'m \<Rightarrow> bool"
  assumes writes: "ok m \<Longrightarrow> emit m = frame (message_type_code ty) (body m)"
    and fits: "ok m \<Longrightarrow> framable (body m)"
    and reads: "ok m \<Longrightarrow> read (body m) = Ok m"
    and dispatch: "parse_payload (message_type_code ty) p = map_ok wrap (read p)"
    and wrap_inj: "wrap m = wrap m' \<Longrightarrow> m = m'"
begin

lemma roundtrip: "ok m \<Longrightarrow> parse_message (emit m @ rest) = Ok (wrap m)"
  by (simp add: writes fits dispatch reads)

lemma roundtrip_exact: "ok m \<Longrightarrow> parse_message (emit m) = Ok (wrap m)"
  using roundtrip [of m "[]"] by simp

lemma length_write: "ok m \<Longrightarrow> length (emit m) = 8 + length (body m)"
  by (simp add: writes)

text \<open>A written message delimits itself: no message is a proper prefix of another.\<close>

lemma self_delimiting:
  assumes "ok m" and "ok m'" and "emit m @ r = emit m' @ r'"
  shows "m = m' \<and> r = r'"
proof -
  have "Ok (wrap m) = (Ok (wrap m') :: (message_error, tsg_message) outcome)"
    using roundtrip [OF assms(1), of r] roundtrip [OF assms(2), of r'] assms(3) by simp
  then have "m = m'" by (auto dest: wrap_inj)
  with assms(3) show ?thesis by simp
qed

end

section \<open>The structs as codecs\<close>

interpretation hs_codec: tsg_codec message_type.HandshakeRequest handshake_request_write
  "\<lambda>m. put_u8 (hs_major_version m) @ put_u8 (hs_minor_version m)
     @ put_u16_le (hs_client_version m) @ put_u16_le (hs_ext_auth m)"
  handshake_request_parse HandshakeRequest "\<lambda>_. True"
  by unfold_locales
    (simp_all add: handshake_request_write_def frame_def framable_def handshake_request_parse_def
      parse_payload_def message_type_from_u16_def)

interpretation hr_codec: tsg_codec message_type.HandshakeResponse handshake_response_write
  "\<lambda>m. put_u32_le (hr_error_code m) @ put_u8 (hr_major_version m) @ put_u8 (hr_minor_version m)
     @ put_u16_le (hr_server_version m) @ put_u16_le (hr_ext_auth m)"
  handshake_response_parse HandshakeResponse "\<lambda>_. True"
  by unfold_locales
    (simp_all add: handshake_response_write_def frame_def framable_def
      handshake_response_parse_def parse_payload_def message_type_from_u16_def)

text \<open>
  \<open>TunnelCreate::write\<close> never writes the cookie, so only a message without one is read back
  as it was.
\<close>

definition tunnel_create_ok :: "tunnel_create \<Rightarrow> bool" where
  "tunnel_create_ok m \<longleftrightarrow> tc_paa_cookie m = None"

interpretation tc_codec: tsg_codec message_type.TunnelCreate tunnel_create_write
  "\<lambda>m. put_u32_le (tc_caps_flags m) @ put_u16_le (tc_fields_present m)
     @ put_u16_le (tc_reserved m)"
  tunnel_create_parse TunnelCreate tunnel_create_ok
  by unfold_locales
    (simp_all add: tunnel_create_write_def frame_def framable_def tunnel_create_parse_def
      tunnel_create_ok_def parse_payload_def message_type_from_u16_def)

lemma get_flagged_put:
  assumes "present AND flag \<noteq> 0 \<longleftrightarrow> v \<noteq> None"
    and "\<And>x r. v = Some x \<Longrightarrow> get (put x @ r) = Ok (x, r)"
    and "\<And>x. v = Some x \<Longrightarrow> n \<le> length (put x)"
  shows "get_flagged n get flag present (put_opt put v @ r) = Ok (v, r)"
  using assms by (cases v) (auto simp: get_flagged_def put_opt_def not_less trans_le_add1)

lemma length_put_opt:
  "length (put_opt put_u32_le v) = (if v \<noteq> None then 4 else 0)"
  "length (put_opt put_u16_le w) = (if w \<noteq> None then 2 else 0)"
  "length (put_opt put_cookie c) = (case c of None \<Rightarrow> 0 | Some b \<Rightarrow> 2 + length b)"
  by (auto simp: put_opt_def put_cookie_def split: option.split)

definition tunnel_response_ok :: "tunnel_response \<Rightarrow> bool" where
  "tunnel_response_ok m \<longleftrightarrow>
     (tr_fields_present m AND HTTP_TUNNEL_RESPONSE_FIELD_TUNNEL_ID \<noteq> 0 \<longleftrightarrow> tr_tunnel_id m \<noteq> None) \<and>
     (tr_fields_present m AND HTTP_TUNNEL_RESPONSE_FIELD_CAPS \<noteq> 0 \<longleftrightarrow> tr_caps m \<noteq> None)"

lemma tunnel_response_parse_body:
  assumes "tunnel_response_ok m"
  shows "tunnel_response_parse (put_u16_le (tr_server_version m) @ put_u32_le (tr_error_code m)
         @ put_u16_le (tr_fields_present m) @ put_u16_le (tr_reserved m)
         @ put_opt put_u32_le (tr_tunnel_id m) @ put_opt put_u32_le (tr_caps m)) = Ok m"
proof -
  note flagged = get_flagged_put [where put = put_u32_le]
  have "get_flagged 4 get_u32_le HTTP_TUNNEL_RESPONSE_FIELD_TUNNEL_ID (tr_fields_present m)
      (put_opt put_u32_le (tr_tunnel_id m) @ put_opt put_u32_le (tr_caps m))
    = Ok (tr_tunnel_id m, put_opt put_u32_le (tr_caps m))"
    using assms by (intro flagged) (auto simp: tunnel_response_ok_def)
  moreover have "get_flagged 4 get_u32_le HTTP_TUNNEL_RESPONSE_FIELD_CAPS (tr_fields_present m)
      (put_opt put_u32_le (tr_caps m) @ []) = Ok (tr_caps m, [])"
    using assms by (intro flagged) (auto simp: tunnel_response_ok_def)
  ultimately show ?thesis by (simp add: tunnel_response_parse_def)
qed

interpretation tr_codec: tsg_codec message_type.TunnelResponse tunnel_response_write
  "\<lambda>m. put_u16_le (tr_server_version m) @ put_u32_le (tr_error_code m)
     @ put_u16_le (tr_fields_present m) @ put_u16_le (tr_reserved m)
     @ put_opt put_u32_le (tr_tunnel_id m) @ put_opt put_u32_le (tr_caps m)"
  tunnel_response_parse TunnelResponse tunnel_response_ok
  by unfold_locales
    (auto simp: tunnel_response_parse_body tunnel_response_write_def frame_def framable_def
      length_put_opt parse_payload_def message_type_from_u16_def)

text \<open>A name that fits the 16-bit length field and survives the zero-terminated encoding.\<close>

definition name_ok :: "rstring \<Rightarrow> bool" where
  "name_ok s \<longleftrightarrow> valid_str s \<and> 0 \<notin> set s \<and> length (encode_utf16 s) \<le> 32766"

lemma name_okD:
  assumes "name_ok s"
  shows "read_utf16le (encode_utf16le s) = Ok s"
    and "unat (word_of_nat (length (encode_utf16le s)) :: u16) = length (encode_utf16le s)"
    and "length (encode_utf16le s) < 65536"
proof -
  show len: "length (encode_utf16le s) < 65536"
    using assms by (simp add: name_ok_def length_encode_utf16le)
  show "unat (word_of_nat (length (encode_utf16le s)) :: u16) = length (encode_utf16le s)"
    using len by (intro unat_of_nat16') simp
  show "read_utf16le (encode_utf16le s) = Ok s"
    using assms by (simp add: name_ok_def)
qed

text \<open>
  The message with its cookie, in the layout that \<open>TunnelCreate::parse\<close> reads and that no code of
  the repository writes; the cookies it can carry.
\<close>

definition tunnel_create_wire :: "tunnel_create \<Rightarrow> bytes" where
  "tunnel_create_wire m =
     frame (message_type_code message_type.TunnelCreate)
       (put_u32_le (tc_caps_flags m) @ put_u16_le (tc_fields_present m) @ put_u16_le (tc_reserved m)
        @ put_opt put_cookie (map_option encode_utf16le (tc_paa_cookie m)))"

definition tunnel_cookie_ok :: "tunnel_create \<Rightarrow> bool" where
  "tunnel_cookie_ok m \<longleftrightarrow>
     (tc_fields_present m AND HTTP_TUNNEL_PACKET_FIELD_PAA_COOKIE \<noteq> 0 \<longleftrightarrow> tc_paa_cookie m \<noteq> None)
     \<and> (\<forall>c. tc_paa_cookie m = Some c \<longrightarrow> name_ok c)"

lemma tunnel_create_wire_parses:
  assumes "tunnel_cookie_ok m"
  shows "parse_message (tunnel_create_wire m @ rest) = Ok (TunnelCreate m)"
proof (cases "tc_paa_cookie m")
  case None
  then show ?thesis
    using assms unfolding tunnel_create_wire_def
    by (subst parse_frame) (simp_all add: framable_def put_opt_def parse_payload_def
        message_type_from_u16_def tunnel_cookie_ok_def tunnel_create_parse_def get_enough)
next
  case (Some c)
  then have c: "name_ok c" using assms by (simp add: tunnel_cookie_ok_def)
  show ?thesis
    using assms Some name_okD [OF c] unfolding tunnel_create_wire_def
    by (subst parse_frame) (simp_all add: framable_def put_opt_def put_cookie_def parse_payload_def
        message_type_from_u16_def tunnel_cookie_ok_def tunnel_create_parse_def get_enough)
qed

definition tunnel_auth_ok :: "tunnel_auth \<Rightarrow> bool" where
  "tunnel_auth_ok m \<longleftrightarrow> name_ok (ta_client_name m)"

interpretation ta_codec: tsg_codec message_type.TunnelAuth tunnel_auth_write
  "\<lambda>m. let name_bytes = encode_utf16le (ta_client_name m) in
     put_u16_le (ta_fields_present m) @ put_u16_le (word_of_nat (length name_bytes)) @ name_bytes"
  tunnel_auth_parse TunnelAuth tunnel_auth_ok
  by unfold_locales
    (auto simp: tunnel_auth_write_def frame_def framable_def tunnel_auth_parse_def Let_def
      tunnel_auth_ok_def name_okD get_enough parse_payload_def message_type_from_u16_def
      dest: name_okD(3))

definition tunnel_auth_response_ok :: "tunnel_auth_response \<Rightarrow> bool" where
  "tunnel_auth_response_ok m \<longleftrightarrow> tar_soh_response m = None"

interpretation tar_codec: tsg_codec message_type.TunnelAuthResponse tunnel_auth_response_write
  "\<lambda>m. put_u32_le (tar_error_code m) @ put_u16_le (tar_flags m) @ put_u16_le (tar_reserved m)
     @ put_u32_le (tar_idle_timeout m) @ put_u32_le 0"
  tunnel_auth_response_parse TunnelAuthResponse tunnel_auth_response_ok
  by unfold_locales
    (simp_all add: tunnel_auth_response_write_def frame_def framable_def
      tunnel_auth_response_parse_def tunnel_auth_response_ok_def parse_payload_def
      message_type_from_u16_def)

definition channel_create_ok :: "channel_create \<Rightarrow> bool" where
  "channel_create_ok m \<longleftrightarrow> name_ok (cc_server_name m)"

interpretation cc_codec: tsg_codec message_type.ChannelCreate channel_create_write
  "\<lambda>m. let name_bytes = encode_utf16le (cc_server_name m) in
     put_u8 (cc_num_resources m) @ put_u8 (cc_num_alt_resources m) @ put_u16_le (cc_port m)
     @ put_u16_le (cc_protocol m) @ put_u16_le (word_of_nat (length name_bytes)) @ name_bytes"
  channel_create_parse ChannelCreate channel_create_ok
  by unfold_locales
    (auto simp: channel_create_write_def frame_def framable_def channel_create_parse_def Let_def
      channel_create_ok_def name_okD get_enough parse_payload_def message_type_from_u16_def
      dest: name_okD(3))

definition channel_response_ok :: "channel_response \<Rightarrow> bool" where
  "channel_response_ok m \<longleftrightarrow>
     (cr_fields_present m AND HTTP_CHANNEL_RESPONSE_FIELD_CHANNELID \<noteq> 0 \<longleftrightarrow> cr_channel_id m \<noteq> None) \<and>
     (cr_fields_present m AND HTTP_CHANNEL_RESPONSE_FIELD_UDPPORT \<noteq> 0 \<longleftrightarrow> cr_udp_port m \<noteq> None) \<and>
     (cr_fields_present m AND HTTP_CHANNEL_RESPONSE_FIELD_AUTHNCOOKIE \<noteq> 0
        \<longleftrightarrow> cr_auth_cookie m \<noteq> None) \<and>
     (case cr_auth_cookie m of None \<Rightarrow> True | Some c \<Rightarrow> length c < 2 ^ 16)"

lemma length_put_cookie: "length (put_cookie c) = 2 + length c"
  by (simp add: put_cookie_def)

lemma get_cookie_put: "length c < 2 ^ 16 \<Longrightarrow> get_cookie (put_cookie c @ r) = Ok (c, r)"
  by (simp add: get_cookie_def put_cookie_def unat_of_nat16' get_enough)

lemma channel_response_parse_body:
  assumes "channel_response_ok m"
  shows "channel_response_parse (put_u32_le (cr_error_code m) @ put_u16_le (cr_fields_present m)
         @ put_u16_le (cr_reserved m)
         @ put_opt put_u32_le (cr_channel_id m) @ put_opt put_u16_le (cr_udp_port m)
         @ put_opt put_cookie (cr_auth_cookie m)) = Ok m"
proof -
  let ?cookie = "put_opt put_cookie (cr_auth_cookie m)"
  let ?port = "put_opt put_u16_le (cr_udp_port m)"
  have "get_flagged 4 get_u32_le HTTP_CHANNEL_RESPONSE_FIELD_CHANNELID (cr_fields_present m)
      (put_opt put_u32_le (cr_channel_id m) @ ?port @ ?cookie) = Ok (cr_channel_id m, ?port @ ?cookie)"
    using assms by (intro get_flagged_put) (auto simp: channel_response_ok_def)
  moreover have "get_flagged 2 get_u16_le HTTP_CHANNEL_RESPONSE_FIELD_UDPPORT (cr_fields_present m)
      (?port @ ?cookie) = Ok (cr_udp_port m, ?cookie)"
    using assms by (intro get_flagged_put) (auto simp: channel_response_ok_def)
  moreover have "get_flagged 2 get_cookie HTTP_CHANNEL_RESPONSE_FIELD_AUTHNCOOKIE (cr_fields_present m)
      (?cookie @ []) = Ok (cr_auth_cookie m, [])"
    using assms
    by (intro get_flagged_put) (auto simp: channel_response_ok_def get_cookie_put length_put_cookie)
  ultimately show ?thesis by (simp add: channel_response_parse_def)
qed

interpretation cr_codec: tsg_codec message_type.ChannelResponse channel_response_write
  "\<lambda>m. put_u32_le (cr_error_code m) @ put_u16_le (cr_fields_present m)
     @ put_u16_le (cr_reserved m)
     @ put_opt put_u32_le (cr_channel_id m) @ put_opt put_u16_le (cr_udp_port m)
     @ put_opt put_cookie (cr_auth_cookie m)"
  channel_response_parse ChannelResponse channel_response_ok
  by unfold_locales
    (auto simp: channel_response_parse_body channel_response_write_def frame_def framable_def
      length_put_opt parse_payload_def message_type_from_u16_def channel_response_ok_def
      Let_def add.assoc split: option.splits)

definition data_ok :: "data_message \<Rightarrow> bool" where
  "data_ok m \<longleftrightarrow> framable (dm_data m)"

interpretation dm_codec: tsg_codec message_type.Data "\<lambda>m. data_message_write (dm_data m)"
  dm_data "\<lambda>p. Ok (data_message_parse p)" Data data_ok
  by unfold_locales
    (simp_all add: data_message_write_def data_message_parse_def frame_def data_ok_def
      parse_payload_def message_type_from_u16_def)

interpretation ka_codec: tsg_codec message_type.Keepalive "\<lambda>_::unit. write_keepalive"
  "\<lambda>_. []" "\<lambda>_. Ok ()" "\<lambda>_. Keepalive" "\<lambda>_. True"
  by unfold_locales
    (simp_all add: write_keepalive_def frame_def framable_def parse_payload_def
      message_type_from_u16_def)

text \<open>The echo writer covers the types that carry their payload unparsed.\<close>

interpretation cl_codec: tsg_codec message_type.CloseChannel
  "\<lambda>p. write_echo_response (message_type_code message_type.CloseChannel) p"
  "\<lambda>p. p" "\<lambda>p. Ok p" CloseChannel framable
  by unfold_locales
    (simp_all add: write_echo_response_def frame_def parse_payload_def message_type_from_u16_def)

interpretation clr_codec: tsg_codec message_type.CloseChannelResponse
  "\<lambda>p. write_echo_response (message_type_code message_type.CloseChannelResponse) p"
  "\<lambda>p. p" "\<lambda>p. Ok p" CloseChannelResponse framable
  by unfold_locales
    (simp_all add: write_echo_response_def frame_def parse_payload_def message_type_from_u16_def)

lemma write_echo_response_frame: "write_echo_response t p = frame t p"
  by (simp add: write_echo_response_def frame_def)

text \<open>A type with no struct of its own: what \<open>parse_message\<close> calls unknown.\<close>

definition unknown_type :: "u16 \<Rightarrow> bool" where
  "unknown_type t \<longleftrightarrow> message_type_from_u16 t \<in>
     {None, Some message_type.ExtendedAuthMsg, Some message_type.ServiceMessage,
      Some message_type.ReauthMessage}"

lemma parse_payload_unknown: "unknown_type t \<Longrightarrow> parse_payload t p = Ok (Unknown t p)"
  by (auto simp: unknown_type_def parse_payload_def)

section \<open>All messages together\<close>

text \<open>
  The writer of each message, as one function on parsed messages, and the messages that these
  writers write in full: no TunnelCreate with a cookie, which the writer drops (\<open>tunnel_create_wire\<close>
  has that layout), and no TunnelAuthResponse with an SOH response, which it drops as well.
\<close>

fun tsg_write :: "tsg_message \<Rightarrow> bytes" where
  "tsg_write (HandshakeRequest m) = handshake_request_write m"
| "tsg_write (HandshakeResponse m) = handshake_response_write m"
| "tsg_write (TunnelCreate m) = tunnel_create_write m"
| "tsg_write (TunnelResponse m) = tunnel_response_write m"
| "tsg_write (TunnelAuth m) = tunnel_auth_write m"
| "tsg_write (TunnelAuthResponse m) = tunnel_auth_response_write m"
| "tsg_write (ChannelCreate m) = channel_create_write m"
| "tsg_write (ChannelResponse m) = channel_response_write m"
| "tsg_write (Data m) = data_message_write (dm_data m)"
| "tsg_write Keepalive = write_keepalive"
| "tsg_write (CloseChannel p) = write_echo_response 0x000E p"
| "tsg_write (CloseChannelResponse p) = write_echo_response 0x000F p"
| "tsg_write (Unknown t p) = write_echo_response t p"

fun tsg_ok :: "tsg_message \<Rightarrow> bool" where
  "tsg_ok (HandshakeRequest m) \<longleftrightarrow> True"
| "tsg_ok (HandshakeResponse m) \<longleftrightarrow> True"
| "tsg_ok (TunnelCreate m) \<longleftrightarrow> tunnel_create_ok m"
| "tsg_ok (TunnelResponse m) \<longleftrightarrow> tunnel_response_ok m"
| "tsg_ok (TunnelAuth m) \<longleftrightarrow> tunnel_auth_ok m"
| "tsg_ok (TunnelAuthResponse m) \<longleftrightarrow> tunnel_auth_response_ok m"
| "tsg_ok (ChannelCreate m) \<longleftrightarrow> channel_create_ok m"
| "tsg_ok (ChannelResponse m) \<longleftrightarrow> channel_response_ok m"
| "tsg_ok (Data m) \<longleftrightarrow> data_ok m"
| "tsg_ok Keepalive \<longleftrightarrow> True"
| "tsg_ok (CloseChannel p) \<longleftrightarrow> framable p"
| "tsg_ok (CloseChannelResponse p) \<longleftrightarrow> framable p"
| "tsg_ok (Unknown t p) \<longleftrightarrow> unknown_type t \<and> framable p"

lemma parse_tsg_write: "tsg_ok m \<Longrightarrow> parse_message (tsg_write m @ rest) = Ok m"
  by (cases m)
    (simp_all add: hs_codec.roundtrip hr_codec.roundtrip tc_codec.roundtrip tr_codec.roundtrip
      ta_codec.roundtrip tar_codec.roundtrip cc_codec.roundtrip cr_codec.roundtrip
      dm_codec.roundtrip ka_codec.roundtrip cl_codec.dispatch [simplified]
      clr_codec.dispatch [simplified] write_echo_response_frame parse_payload_unknown)

text \<open>Every written message is a frame, whose header announces its own length.\<close>

lemma tsg_write_frame:
  assumes "tsg_ok m"
  shows "\<exists>t body. tsg_write m = frame t body \<and> framable body"
  using assms
  by (cases m) (auto simp: write_echo_response_frame
      intro: hs_codec.writes hr_codec.writes tc_codec.writes tr_codec.writes ta_codec.writes
        tar_codec.writes cc_codec.writes cr_codec.writes dm_codec.writes ka_codec.writes
        hs_codec.fits hr_codec.fits tc_codec.fits tr_codec.fits ta_codec.fits
        tar_codec.fits cc_codec.fits cr_codec.fits dm_codec.fits ka_codec.fits)

lemma frame_truncated:
  assumes "framable body" and "n < length (frame t body)"
  shows "parse_message (take n (frame t body))
    = Err (BufferTooShort (if n < 8 then 8 else length (frame t body)) n)"
proof (cases "n < 8")
  case True
  then show ?thesis using assms by (simp add: parse_message_def message_header_parse_def)
next
  case False
  then have "take n (frame t body) = message_header_write
      \<lparr>mh_type = t, mh_reserved = 0, mh_length = word_of_nat (8 + length body)\<rparr> @ take (n - 8) body"
    by (simp add: frame_def)
  moreover have "unat (word_of_nat (8 + length body) :: u32) = 8 + length body"
    using assms(1) by (intro unat_of_nat32) (simp add: framable_def)
  ultimately show ?thesis
    using False assms by (simp add: parse_message_def Let_def del: of_nat_add)
qed

section \<open>Properties\<close>

text \<open>
  For every buffer at all, \<open>parse_message\<close> returns a message or an
  error: no read of any of its parsers runs past its input, whatever the length fields inside
  the message claim.
\<close>

theorem parse_message_total: "parse_message buf \<noteq> Panic"
  by (rule parse_message_not_panic)

text \<open>
  C13. \<open>parse_message\<close> reads back exactly what was written, whatever bytes follow it, for messages
  of all thirteen kinds, with their UTF-16 names and with the optional fields and the cookie of
  the channel response, as long as flags agree with the optional fields, names and cookies fit
  their 16-bit lengths, names have no zero character, and the message fits its 32-bit length. The
  exception is the PAA cookie of TunnelCreate: \<open>parse_message\<close> reads every such cookie off the wire,
  but \<open>TunnelCreate::write\<close> leaves it out, so what it wrote is read back without it. The SOH
  response of a TunnelAuthResponse, which the code neither writes nor reads, is not covered.
\<close>

theorem tsg_roundtrip:
  assumes "tsg_ok m" and "tunnel_cookie_ok t"
  shows "parse_message (tsg_write m @ rest) = Ok m
    \<and> parse_message (tunnel_create_wire t @ rest) = Ok (TunnelCreate t)
    \<and> parse_message (tunnel_create_write t @ rest) = Ok (TunnelCreate (t\<lparr>tc_paa_cookie := None\<rparr>))"
proof (intro conjI)
  show "parse_message (tsg_write m @ rest) = Ok m" using assms(1) by (rule parse_tsg_write)
  show "parse_message (tunnel_create_wire t @ rest) = Ok (TunnelCreate t)"
    using assms(2) by (rule tunnel_create_wire_parses)
  show "parse_message (tunnel_create_write t @ rest) = Ok (TunnelCreate (t\<lparr>tc_paa_cookie := None\<rparr>))"
    using tc_codec.roundtrip [of "t\<lparr>tc_paa_cookie := None\<rparr>" rest]
    by (simp add: tunnel_create_write_def tunnel_create_ok_def)
qed

theorem tsg_roundtrip_witness:
  "parse_message (tsg_write (ChannelCreate \<lparr>cc_num_resources = 1, cc_num_alt_resources = 0,
      cc_port = 3389, cc_protocol = 0, cc_server_name = lit ''rdp''\<rparr>) @ [7])
   = Ok (ChannelCreate \<lparr>cc_num_resources = 1, cc_num_alt_resources = 0,
      cc_port = 3389, cc_protocol = 0, cc_server_name = lit ''rdp''\<rparr>)
   \<and> parse_message (tunnel_create_wire \<lparr>tc_caps_flags = 63, tc_fields_present = 1, tc_reserved = 0,
      tc_paa_cookie = Some (lit ''tok'')\<rparr> @ [7])
   = Ok (TunnelCreate \<lparr>tc_caps_flags = 63, tc_fields_present = 1, tc_reserved = 0,
      tc_paa_cookie = Some (lit ''tok'')\<rparr>)"
proof -
  let ?m = "ChannelCreate \<lparr>cc_num_resources = 1, cc_num_alt_resources = 0,
      cc_port = 3389, cc_protocol = 0, cc_server_name = lit ''rdp''\<rparr>"
    and ?t = "\<lparr>tc_caps_flags = 63, tc_fields_present = 1, tc_reserved = 0,
      tc_paa_cookie = Some (lit ''tok'')\<rparr>"
  have "tsg_ok ?m" "tunnel_cookie_ok ?t"
    by (simp_all add: channel_create_ok_def tunnel_cookie_ok_def name_ok_def lit_def is_scalar_def
        utf16_char_def HTTP_TUNNEL_PACKET_FIELD_PAA_COOKIE_def)
  from tsg_roundtrip [OF this] show ?thesis by blast
qed

text \<open>
  Written messages delimit themselves: if two runs of bytes that each
  start with a written message are equal, the messages and what follows them are equal. No
  message is a prefix of another.
\<close>

theorem tsg_self_delimiting:
  assumes "tsg_ok m" and "tsg_ok m'" and "tsg_write m @ r = tsg_write m' @ r'"
  shows "m = m' \<and> r = r'"
proof -
  have "Ok m = (Ok m' :: (message_error, tsg_message) outcome)"
    using parse_tsg_write [OF assms(1), of r] parse_tsg_write [OF assms(2), of r'] assms(3)
    by simp
  with assms(3) show ?thesis by simp
qed

theorem tsg_self_delimiting_witness:
  "(Keepalive = Keepalive \<and> [1 :: u8] = [1]) \<and> tsg_write Keepalive @ [1] = tsg_write Keepalive @ [1]"
  using tsg_self_delimiting [of Keepalive Keepalive "[1]" "[1]"] by simp

text \<open>
  A message cut short anywhere is refused with the length that is missing:
  the eight header bytes while the header is incomplete, the whole message after that.
\<close>

theorem tsg_truncated:
  assumes "tsg_ok m" and "n < length (tsg_write m)"
  shows "parse_message (take n (tsg_write m))
    = Err (BufferTooShort (if n < 8 then 8 else length (tsg_write m)) n)"
  using tsg_write_frame [OF assms(1)] assms(2) frame_truncated by metis

theorem tsg_truncated_witness:
  "parse_message (take 10 (tsg_write (CloseChannel [1, 2, 3]))) = Err (BufferTooShort 11 10)"
proof -
  have "tsg_ok (CloseChannel [1, 2, 3])" "length (tsg_write (CloseChannel [1, 2, 3])) = 11"
    by (simp_all add: framable_def write_echo_response_frame)
  then show ?thesis using tsg_truncated [of "CloseChannel [1, 2, 3]" 10] by simp
qed

text \<open>
  \<open>parse_message\<close> depends on the announced bytes alone: an accepted
  buffer starts with a header that announces at most the buffer, and any buffer with the same
  announced prefix parses to the same message.
\<close>

theorem parse_message_local:
  assumes "parse_message buf = Ok m"
  shows "\<exists>n. 8 \<le> n \<and> n \<le> length buf \<and> n = unat (of_le (take 4 (drop 4 buf)) :: u32)
    \<and> (\<forall>rest. parse_message (take n buf @ rest) = Ok m)"
proof -
  obtain h payload rest where buf: "buf = message_header_write h @ payload @ rest"
    and len: "unat (mh_length h) = 8 + length payload"
    and pp: "parse_payload (mh_type h) payload = Ok m"
    using assms by (rule parse_message_OkD)
  have l: "of_le (take 4 (drop 4 buf)) = mh_length h"
    by (simp add: buf message_header_write_def) (simp add: put_u32_le_def)
  have t: "take (8 + length payload) buf = message_header_write h @ payload"
    by (simp add: buf)
  have b: "8 \<le> unat (mh_length h)" "length payload = unat (mh_length h) - 8"
    unfolding len by simp_all
  have hh: "\<lparr>mh_type = mh_type h, mh_reserved = mh_reserved h, mh_length = mh_length h\<rparr> = h"
    by simp
  have "parse_message ((message_header_write h @ payload) @ r) = Ok m" for r
    using parse_message_framed [OF b, of "mh_type h" "mh_reserved h" r]
    unfolding hh pp append_assoc .
  then have "parse_message (take (8 + length payload) buf @ r) = Ok m" for r
    by (simp only: t)
  moreover have "8 + length payload \<le> length buf"
    by (simp add: buf)
  ultimately show ?thesis
    unfolding l len by (intro exI [of _ "8 + length payload"] conjI allI le_add1 refl)
qed

theorem parse_message_local_witness:
  "\<exists>n. 8 \<le> n \<and> n \<le> length (write_keepalive @ [5])
    \<and> n = unat (of_le (take 4 (drop 4 (write_keepalive @ [5]))) :: u32)
    \<and> (\<forall>rest. parse_message (take n (write_keepalive @ [5]) @ rest) = Ok Keepalive)"
  by (rule parse_message_local) (rule ka_codec.roundtrip, simp)

end
