(* ===== verification/Ws_Framing.thy ===== *)
theory Ws_Framing
  imports Tsg_Codec
begin

text \<open>
  \<open>crates/rdg-proto/src/websocket.rs\<close>: one TSG message per binary WebSocket frame. The
  \<open>debug_assert\<close> of \<open>encode_data_message\<close> is absent from a release build, which is what is
  modelled; the wrap-around it would have caught is stated below.
\<close>

definition decode_ws_message :: "bytes \<Rightarrow> (message_error, tsg_message) outcome" where
  "decode_ws_message ws_payload = parse_message ws_payload"

definition peek_message_type :: "bytes \<Rightarrow> (message_error, u16) outcome" where
  "peek_message_type ws_payload =
     rbind (message_header_parse ws_payload) (\<lambda>header. Ok (mh_type header))"

definition message_length :: "bytes \<Rightarrow> (message_error, nat) outcome" where
  "message_length ws_payload =
     rbind (message_header_parse ws_payload) (\<lambda>header. Ok (unat (mh_length header)))"

definition encode_data_message :: "bytes \<Rightarrow> bytes" where
  "encode_data_message data =
     (let cb_len = min (word_of_nat (length data) :: u16) 0xFFFF;
          payload_with_len = put_u16_le cb_len @ data
      in data_message_write payload_with_len)"

definition is_complete_message :: "bytes \<Rightarrow> bool" where
  "is_complete_message buf =
     (if length buf < HEADER_SIZE then False
      else case message_header_parse buf of
             Ok header \<Rightarrow> unat (mh_length header) \<le> length buf
           | _ \<Rightarrow> False)"

section \<open>What the frame functions see of a message\<close>

lemma min_u16_max [simp]: "min (w :: u16) 0xFFFF = w"
proof -
  have "unat w < 65536" using unsigned_less [of w, where 'a = nat] by simp
  then have "w \<le> 0xFFFF" by (simp add: word_le_nat_alt)
  then show ?thesis by (simp add: min_def)
qed

lemma peek_frame [simp]: "peek_message_type (frame t body @ rest) = Ok t"
  by (simp add: peek_message_type_def frame_def)

lemma message_length_frame [simp]:
  "framable body \<Longrightarrow> message_length (frame t body @ rest) = Ok (length (frame t body))"
  unfolding message_length_def frame_def append_assoc message_header_roundtrip
  by (simp add: framable_def unat_of_nat32 del: of_nat_add)

lemma is_complete_take_frame:
  assumes "framable body"
  shows "is_complete_message (take n (frame t body)) \<longleftrightarrow> length (frame t body) \<le> n"
proof (cases "n < 8")
  case True
  then show ?thesis by (simp add: is_complete_message_def)
next
  case False
  let ?h = "\<lparr>mh_type = t, mh_reserved = 0, mh_length = word_of_nat (8 + length body)\<rparr>"
  have tk: "take n (frame t body) = message_header_write ?h @ take (n - 8) body"
    using False by (simp add: frame_def)
  have "unat (word_of_nat (8 + length body) :: u32) = 8 + length body"
    using assms by (intro unat_of_nat32) (simp add: framable_def)
  then have "is_complete_message (take n (frame t body))
      \<longleftrightarrow> 8 + length body \<le> 8 + length (take (n - 8) body)"
    unfolding is_complete_message_def tk message_header_roundtrip
    by (simp del: of_nat_add)
  also have "\<dots> \<longleftrightarrow> 8 + length body \<le> n"
    using False by auto
  finally show ?thesis by simp
qed

lemma is_complete_parse:
  "is_complete_message buf \<longleftrightarrow>
     (\<exists>h r. buf = message_header_write h @ r \<and> unat (mh_length h) \<le> length buf)"
proof -
  have "is_complete_message buf \<longleftrightarrow>
      (\<exists>h. message_header_parse buf = Ok h \<and> unat (mh_length h) \<le> length buf)"
    by (cases "message_header_parse buf")
      (auto simp: is_complete_message_def dest: message_header_parse_Ok [THEN iffD1])
  then show ?thesis by (auto simp: message_header_parse_Ok)
qed

section \<open>Properties\<close>

lemma encode_data_message_frame:
  "encode_data_message data = frame 0x000A (put_u16_le (word_of_nat (length data)) @ data)"
  by (simp add: encode_data_message_def data_message_write_def frame_def)

text \<open>
  A payload that \<open>encode_data_message\<close> wraps is read back as one Data
  message: its declared length and type can be peeked, and the payload follows a two-byte count
  that is the payload's length modulo 65536 (the wrap-around of \<open>as u16\<close> included).
\<close>

theorem encode_data_decodes:
  assumes "length data + 10 < 2 ^ 32"
  shows "\<exists>cb. decode_ws_message (encode_data_message data @ rest) = Ok (Data \<lparr>dm_data = cb @ data\<rparr>)
    \<and> length cb = 2 \<and> unat (of_le cb :: u16) = length data mod 65536
    \<and> peek_message_type (encode_data_message data @ rest) = Ok (message_type_code message_type.Data)
    \<and> message_length (encode_data_message data @ rest) = Ok (length (encode_data_message data))
    \<and> length (encode_data_message data) = length data + 10"
proof -
  let ?cb = "put_u16_le (word_of_nat (length data))"
  have f: "framable (?cb @ data)"
    using assms by (simp add: framable_def)
  have "decode_ws_message (encode_data_message data @ rest) = Ok (Data \<lparr>dm_data = ?cb @ data\<rparr>)"
    using dm_codec.dispatch [of "?cb @ data"] f
    by (simp add: decode_ws_message_def encode_data_message_frame data_message_parse_def)
  moreover have "unat (of_le ?cb :: u16) = length data mod 65536"
    by (simp add: put_u16_le_def unat_of_nat take_bit_eq_mod)
  moreover have "message_length (encode_data_message data @ rest)
      = Ok (length (encode_data_message data))"
    unfolding encode_data_message_frame by (rule message_length_frame [OF f])
  ultimately show ?thesis
    by (intro exI [of _ ?cb]) (simp add: encode_data_message_frame)
qed

theorem encode_data_decodes_witness:
  "\<exists>cb. decode_ws_message (encode_data_message [1, 2, 3] @ [9]) = Ok (Data \<lparr>dm_data = cb @ [1, 2, 3]\<rparr>)
    \<and> length cb = 2 \<and> unat (of_le cb :: u16) = 3"
  using encode_data_decodes [of "[1, 2, 3]" "[9]"] by auto

text \<open>
  \<open>is_complete_message\<close> is the right test for a stream: of everything that
  follows, a prefix of a written message is complete exactly when it holds the whole message.
\<close>

theorem is_complete_iff:
  assumes "tsg_ok m"
  shows "is_complete_message (take n (tsg_write m)) \<longleftrightarrow> length (tsg_write m) \<le> n"
  using tsg_write_frame [OF assms] is_complete_take_frame by metis

theorem is_complete_iff_witness:
  "\<not> is_complete_message (take 7 (tsg_write Keepalive)) \<and> is_complete_message (take 8 (tsg_write Keepalive))"
  using is_complete_iff [of Keepalive 7] is_complete_iff [of Keepalive 8]
  by (simp add: write_keepalive_def)

end
