(* ===== verification/Session.thy ===== *)
theory Session
  imports Tsg_Codec Machine
begin

text \<open>
  \<open>crates/rdg-core/src/session.rs\<close>: the state machine of one gateway connection.
  \<open>process_message\<close> takes the session and a message and returns the session as the call
  leaves it with the call's result: the response bytes, \<open>None\<close> for relayed data, or an error.
  \<open>next_tunnel_id += 1\<close> is the wrapping addition of a release build.
\<close>

datatype session_state =
    AwaitingHandshake | AwaitingTunnelCreate | AwaitingTunnelAuth | AwaitingChannelCreate
  | DataTransfer | Closed

datatype session_error =
    UnexpectedMessage u16 session_state
  | Protocol message_error
  | SessionClosed

record gateway_session =
  gs_state :: session_state
  gs_tunnel_id :: u32
  gs_channel_id :: u32
  gs_client_name :: "rstring option"
  gs_target_host :: "rstring option"
  gs_target_port :: "u16 option"
  gs_next_tunnel_id :: u32
  gs_next_channel_id :: u32

definition session_new :: gateway_session where
  "session_new = \<lparr>gs_state = AwaitingHandshake, gs_tunnel_id = 0, gs_channel_id = 0,
     gs_client_name = None, gs_target_host = None, gs_target_port = None,
     gs_next_tunnel_id = 1, gs_next_channel_id = 1\<rparr>"

text \<open>The type code of a message, as the last arm of \<open>process_message\<close> reports it.\<close>

fun tsg_type_code :: "tsg_message \<Rightarrow> u16" where
  "tsg_type_code (HandshakeRequest _) = message_type_code message_type.HandshakeRequest"
| "tsg_type_code (HandshakeResponse _) = message_type_code message_type.HandshakeResponse"
| "tsg_type_code (TunnelCreate _) = message_type_code message_type.TunnelCreate"
| "tsg_type_code (TunnelResponse _) = message_type_code message_type.TunnelResponse"
| "tsg_type_code (TunnelAuth _) = message_type_code message_type.TunnelAuth"
| "tsg_type_code (TunnelAuthResponse _) = message_type_code message_type.TunnelAuthResponse"
| "tsg_type_code (ChannelCreate _) = message_type_code message_type.ChannelCreate"
| "tsg_type_code (ChannelResponse _) = message_type_code message_type.ChannelResponse"
| "tsg_type_code (Data _) = message_type_code message_type.Data"
| "tsg_type_code Keepalive = message_type_code message_type.Keepalive"
| "tsg_type_code (CloseChannel _) = message_type_code message_type.CloseChannel"
| "tsg_type_code (CloseChannelResponse _) = message_type_code message_type.CloseChannelResponse"
| "tsg_type_code (Unknown msg_type _) = msg_type"

text \<open>The four responses a session gives.\<close>

definition handshake_reply :: "handshake_request \<Rightarrow> handshake_response" where
  "handshake_reply req = \<lparr>hr_error_code = 0, hr_major_version = hs_major_version req,
     hr_minor_version = hs_minor_version req, hr_server_version = 0, hr_ext_auth = 0x0007\<rparr>"

definition tunnel_reply :: "u32 \<Rightarrow> tunnel_response" where
  "tunnel_reply tunnel_id = \<lparr>tr_server_version = 0, tr_error_code = 0,
     tr_fields_present = HTTP_TUNNEL_RESPONSE_FIELD_TUNNEL_ID OR HTTP_TUNNEL_RESPONSE_FIELD_CAPS,
     tr_reserved = 0, tr_tunnel_id = Some tunnel_id, tr_caps = Some 0x0d\<rparr>"

definition tunnel_auth_reply :: tunnel_auth_response where
  "tunnel_auth_reply = \<lparr>tar_error_code = 0, tar_flags = 0x0003, tar_reserved = 0,
     tar_idle_timeout = 0, tar_soh_response = None\<rparr>"

definition channel_reply :: "u32 \<Rightarrow> channel_response" where
  "channel_reply channel_id = \<lparr>cr_error_code = 0,
     cr_fields_present = HTTP_CHANNEL_RESPONSE_FIELD_CHANNELID, cr_reserved = 0,
     cr_channel_id = Some channel_id, cr_udp_port = None, cr_auth_cookie = None\<rparr>"

definition process_message ::
  "gateway_session \<Rightarrow> tsg_message
    \<Rightarrow> gateway_session \<times> (session_error, bytes option) outcome" where
  "process_message self msg =
     (case (gs_state self, msg) of
        (AwaitingHandshake, HandshakeRequest req) \<Rightarrow>
          (self\<lparr>gs_state := AwaitingTunnelCreate\<rparr>,
           Ok (Some (handshake_response_write (handshake_reply req))))
      | (AwaitingTunnelCreate, TunnelCreate _) \<Rightarrow>
          (let tunnel_id = gs_next_tunnel_id self in
           (self\<lparr>gs_tunnel_id := tunnel_id, gs_next_tunnel_id := tunnel_id + 1,
              gs_state := AwaitingTunnelAuth\<rparr>,
            Ok (Some (tunnel_response_write (tunnel_reply tunnel_id)))))
      | (AwaitingTunnelAuth, TunnelAuth req) \<Rightarrow>
          (self\<lparr>gs_client_name := Some (ta_client_name req),
              gs_state := AwaitingChannelCreate\<rparr>,
           Ok (Some (tunnel_auth_response_write tunnel_auth_reply)))
      | (AwaitingChannelCreate, ChannelCreate req) \<Rightarrow>
          (let channel_id = gs_next_channel_id self in
           (self\<lparr>gs_target_host := Some (cc_server_name req),
              gs_target_port := Some (cc_port req), gs_channel_id := channel_id,
              gs_next_channel_id := channel_id + 1, gs_state := DataTransfer\<rparr>,
            Ok (Some (channel_response_write (channel_reply channel_id)))))
      | (DataTransfer, Data _) \<Rightarrow> (self, Ok None)
      | (state, msg) \<Rightarrow> (self, Err (UnexpectedMessage (tsg_type_code msg) state)))"

definition is_data_transfer :: "gateway_session \<Rightarrow> bool" where
  "is_data_transfer self \<longleftrightarrow> gs_state self = DataTransfer"

section \<open>What one call does\<close>

text \<open>
  The message each state waits for; the abstract specification of the gateway's protocol is the
  chain of these.
\<close>

fun awaits :: "session_state \<Rightarrow> tsg_message \<Rightarrow> bool" where
  "awaits AwaitingHandshake m \<longleftrightarrow> (\<exists>r. m = HandshakeRequest r)"
| "awaits AwaitingTunnelCreate m \<longleftrightarrow> (\<exists>r. m = TunnelCreate r)"
| "awaits AwaitingTunnelAuth m \<longleftrightarrow> (\<exists>r. m = TunnelAuth r)"
| "awaits AwaitingChannelCreate m \<longleftrightarrow> (\<exists>r. m = ChannelCreate r)"
| "awaits DataTransfer m \<longleftrightarrow> (\<exists>r. m = Data r)"
| "awaits Closed m \<longleftrightarrow> False"

fun next_state :: "session_state \<Rightarrow> session_state" where
  "next_state AwaitingHandshake = AwaitingTunnelCreate"
| "next_state AwaitingTunnelCreate = AwaitingTunnelAuth"
| "next_state AwaitingTunnelAuth = AwaitingChannelCreate"
| "next_state AwaitingChannelCreate = DataTransfer"
| "next_state DataTransfer = DataTransfer"
| "next_state Closed = Closed"

lemma process_accept:
  "awaits (gs_state s) m \<Longrightarrow> gs_state (fst (process_message s m)) = next_state (gs_state s)
    \<and> (\<exists>reply. snd (process_message s m) = Ok reply)"
  by (cases "gs_state s") (auto simp: process_message_def Let_def)

lemma process_refuse:
  "\<not> awaits (gs_state s) m \<Longrightarrow>
    process_message s m = (s, Err (UnexpectedMessage (tsg_type_code m) (gs_state s)))"
  by (cases "gs_state s"; cases m) (auto simp: process_message_def)

text \<open>One case for each arm of the source's \<open>match\<close>.\<close>

lemma process_cases:
  fixes s :: gateway_session and m :: tsg_message
  obtains (Handshake) r where "gs_state s = AwaitingHandshake" and "m = HandshakeRequest r"
      and "process_message s m = (s\<lparr>gs_state := AwaitingTunnelCreate\<rparr>,
        Ok (Some (handshake_response_write (handshake_reply r))))"
  | (Tunnel) r where "gs_state s = AwaitingTunnelCreate" and "m = TunnelCreate r"
      and "process_message s m = (s\<lparr>gs_tunnel_id := gs_next_tunnel_id s,
          gs_next_tunnel_id := gs_next_tunnel_id s + 1, gs_state := AwaitingTunnelAuth\<rparr>,
        Ok (Some (tunnel_response_write (tunnel_reply (gs_next_tunnel_id s)))))"
  | (TunnelAuth) r where "gs_state s = AwaitingTunnelAuth" and "m = TunnelAuth r"
      and "process_message s m = (s\<lparr>gs_client_name := Some (ta_client_name r),
          gs_state := AwaitingChannelCreate\<rparr>,
        Ok (Some (tunnel_auth_response_write tunnel_auth_reply)))"
  | (Channel) r where "gs_state s = AwaitingChannelCreate" and "m = ChannelCreate r"
      and "process_message s m = (s\<lparr>gs_target_host := Some (cc_server_name r),
          gs_target_port := Some (cc_port r), gs_channel_id := gs_next_channel_id s,
          gs_next_channel_id := gs_next_channel_id s + 1, gs_state := DataTransfer\<rparr>,
        Ok (Some (channel_response_write (channel_reply (gs_next_channel_id s)))))"
  | (Data) r where "gs_state s = DataTransfer" and "m = Data r"
      and "process_message s m = (s, Ok None)"
  | (Refuse) "\<not> awaits (gs_state s) m"
      and "process_message s m = (s, Err (UnexpectedMessage (tsg_type_code m) (gs_state s)))"
proof (cases "awaits (gs_state s) m")
  case True
  then show thesis
    by (cases "gs_state s") (auto simp: process_message_def Let_def intro: that)
next
  case False
  then show thesis using process_refuse [OF False] by (rule that(6))
qed

lemma process_Ok_iff: "(\<exists>r. snd (process_message s m) = Ok r) \<longleftrightarrow> awaits (gs_state s) m"
  using process_accept process_refuse by (metis outcome.distinct(1) snd_conv)

lemma replies_ok [simp]: "tunnel_response_ok (tunnel_reply i)" "tunnel_auth_response_ok tunnel_auth_reply"
  "channel_response_ok (channel_reply i)"
  by (simp_all add: tunnel_response_ok_def tunnel_reply_def tunnel_auth_response_ok_def
      tunnel_auth_reply_def channel_response_ok_def channel_reply_def
      HTTP_TUNNEL_RESPONSE_FIELD_TUNNEL_ID_def HTTP_TUNNEL_RESPONSE_FIELD_CAPS_def
      HTTP_CHANNEL_RESPONSE_FIELD_CHANNELID_def HTTP_CHANNEL_RESPONSE_FIELD_UDPPORT_def
      HTTP_CHANNEL_RESPONSE_FIELD_AUTHNCOOKIE_def)

section \<open>The session as a state machine\<close>

text \<open>
  \<open>session_inv\<close> ties the fields to the state: an identifier, a name or a target is there
  exactly when its phase is past, and the identifiers are the first ones of their counters.
\<close>

fun session_rank :: "session_state \<Rightarrow> nat" where
  "session_rank AwaitingHandshake = 0"
| "session_rank AwaitingTunnelCreate = 1"
| "session_rank AwaitingTunnelAuth = 2"
| "session_rank AwaitingChannelCreate = 3"
| "session_rank DataTransfer = 4"
| "session_rank Closed = 5"

text \<open>The states in the order of the protocol.\<close>

instantiation session_state :: linorder
begin

definition less_eq_session_state :: "session_state \<Rightarrow> session_state \<Rightarrow> bool" where
  "less_eq_session_state a b \<longleftrightarrow> session_rank a \<le> session_rank b"

definition less_session_state :: "session_state \<Rightarrow> session_state \<Rightarrow> bool" where
  "less_session_state a b \<longleftrightarrow> session_rank a < session_rank b"

instance
proof
  fix a b :: session_state
  show "a = b" if "a \<le> b" "b \<le> a"
    using that by (cases a; cases b) (simp_all add: less_eq_session_state_def)
qed (auto simp: less_eq_session_state_def less_session_state_def)

end

lemmas session_state_order [simp] = less_eq_session_state_def less_session_state_def

definition session_inv :: "gateway_session \<Rightarrow> bool" where
  "session_inv s \<longleftrightarrow>
     gs_state s \<noteq> Closed
     \<and> gs_next_tunnel_id s = (if 2 \<le> session_rank (gs_state s) then 2 else 1)
     \<and> gs_tunnel_id s = gs_next_tunnel_id s - 1
     \<and> gs_next_channel_id s = (if gs_state s = DataTransfer then 2 else 1)
     \<and> gs_channel_id s = gs_next_channel_id s - 1
     \<and> (gs_client_name s \<noteq> None \<longleftrightarrow> 3 \<le> session_rank (gs_state s))
     \<and> (gs_target_host s \<noteq> None \<longleftrightarrow> gs_state s = DataTransfer)
     \<and> (gs_target_port s \<noteq> None \<longleftrightarrow> gs_state s = DataTransfer)"

abbreviation session_step :: "gateway_session \<Rightarrow> tsg_message \<Rightarrow> gateway_session" where
  "session_step s m \<equiv> fst (process_message s m)"

lemma session_inv_new: "session_inv session_new"
  by (simp add: session_inv_def session_new_def)

lemma session_inv_step: "session_inv s \<Longrightarrow> session_inv (session_step s m)"
  by (cases rule: process_cases [of s m]) (auto simp: session_inv_def)

lemma session_state_step: "session_inv s \<Longrightarrow> gs_state s \<le> gs_state (session_step s m)"
  by (cases rule: process_cases [of s m]) simp_all

interpretation sm: ranked_machine session_step session_inv gs_state DataTransfer
proof unfold_locales
  fix s e
  show "session_inv s \<Longrightarrow> session_inv (session_step s e)"
    by (rule session_inv_step)
  show "session_inv s \<Longrightarrow> gs_state s \<le> gs_state (session_step s e)"
    by (rule session_state_step)
  show "session_inv s \<Longrightarrow> gs_state s \<le> DataTransfer"
    by (cases "gs_state s") (simp_all add: session_inv_def)
qed

text \<open>
  \<open>serves s0 ms s\<close>: from \<open>s0\<close> the session reaches \<open>s\<close> having accepted exactly the messages
  \<open>ms\<close>, in this order; messages it refused in between leave no mark.
\<close>

inductive serves :: "gateway_session \<Rightarrow> tsg_message list \<Rightarrow> gateway_session \<Rightarrow> bool"
  for s0 :: gateway_session where
  start: "serves s0 [] s0"
| accept: "serves s0 ms s \<Longrightarrow> process_message s m = (s', Ok reply) \<Longrightarrow> serves s0 (ms @ [m]) s'"
| refuse: "serves s0 ms s \<Longrightarrow> process_message s m = (s', Err e) \<Longrightarrow> serves s0 ms s'"

definition accepted :: "gateway_session \<Rightarrow> tsg_message list \<Rightarrow> bool" where
  "accepted s ms \<longleftrightarrow>
     (case gs_state s of
        AwaitingHandshake \<Rightarrow> ms = []
      | AwaitingTunnelCreate \<Rightarrow> \<exists>hs. ms = [HandshakeRequest hs]
      | AwaitingTunnelAuth \<Rightarrow> \<exists>hs tc. ms = [HandshakeRequest hs, TunnelCreate tc]
      | AwaitingChannelCreate \<Rightarrow>
          \<exists>hs tc ta. ms = [HandshakeRequest hs, TunnelCreate tc, TunnelAuth ta]
            \<and> gs_client_name s = Some (ta_client_name ta)
      | DataTransfer \<Rightarrow>
          \<exists>hs tc ta cc ds.
            ms = [HandshakeRequest hs, TunnelCreate tc, TunnelAuth ta, ChannelCreate cc] @ map Data ds
            \<and> gs_client_name s = Some (ta_client_name ta)
            \<and> gs_target_host s = Some (cc_server_name cc) \<and> gs_target_port s = Some (cc_port cc)
      | Closed \<Rightarrow> False)"

lemma accepted_step:
  assumes "accepted s ms" and "awaits (gs_state s) m"
  shows "accepted (session_step s m) (ms @ [m])"
proof (cases "gs_state s")
  case DataTransfer
  then obtain r where m: "m = Data r" using assms(2) by auto
  then have "session_step s m = s" using DataTransfer by (simp add: process_message_def)
  moreover from assms(1) DataTransfer obtain hs tc ta cc ds where
    *: "ms = [HandshakeRequest hs, TunnelCreate tc, TunnelAuth ta, ChannelCreate cc] @ map Data ds"
      "gs_client_name s = Some (ta_client_name ta)"
      "gs_target_host s = Some (cc_server_name cc)" "gs_target_port s = Some (cc_port cc)"
    by (auto simp: accepted_def)
  moreover have "ms @ [m] = [HandshakeRequest hs, TunnelCreate tc, TunnelAuth ta, ChannelCreate cc]
      @ map Data (ds @ [r])"
    by (simp add: * m)
  ultimately show ?thesis
    using DataTransfer unfolding accepted_def by (auto intro: exI [of _ "ds @ [r]"])
qed (use assms in \<open>auto simp: accepted_def process_message_def Let_def\<close>)

lemma serves_accepted: "serves session_new ms s \<Longrightarrow> accepted s ms"
proof (induction rule: serves.induct)
  case start
  then show ?case by (simp add: accepted_def session_new_def)
next
  case (accept ms s m s' reply)
  then have "awaits (gs_state s) m" and "s' = session_step s m"
    using process_Ok_iff [of s m] by auto
  then show ?case using accepted_step accept.IH by simp
next
  case (refuse ms s m s' e)
  then have "\<not> awaits (gs_state s) m"
    using process_accept [of s m] by auto
  then have "s' = s" using refuse.hyps process_refuse [of s m] by simp
  then show ?case using refuse.IH by simp
qed

lemma serves_inv: "serves session_new ms s \<Longrightarrow> session_inv s"
proof (induction rule: serves.induct)
  case (accept ms s m s' reply)
  then show ?case using session_inv_step [of s m] by simp
next
  case (refuse ms s m s' e)
  then show ?case using session_inv_step [of s m] by simp
qed (rule session_inv_new)

section \<open>Properties\<close>

text \<open>
  C1. Data flows only after the whole handshake: a session that has reached data
  transfer accepted exactly one handshake, tunnel create, tunnel authentication and channel
  create, in this order, and then Data messages alone; the host and port it relays to and the
  client's name are the ones of those messages. No message that was refused in between, and no
  other order, leads there.
\<close>

theorem session_order:
  assumes "serves session_new ms s" and "is_data_transfer s"
  shows "\<exists>hs tc ta cc ds.
    ms = [HandshakeRequest hs, TunnelCreate tc, TunnelAuth ta, ChannelCreate cc] @ map Data ds
    \<and> gs_client_name s = Some (ta_client_name ta)
    \<and> gs_target_host s = Some (cc_server_name cc) \<and> gs_target_port s = Some (cc_port cc)
    \<and> gs_tunnel_id s = 1 \<and> gs_channel_id s = 1"
  using serves_accepted [OF assms(1)] serves_inv [OF assms(1)] assms(2)
  by (auto simp: accepted_def session_inv_def is_data_transfer_def)

lemma serves_example:
  "\<exists>s. serves session_new
     [HandshakeRequest \<lparr>hs_major_version = 1, hs_minor_version = 0, hs_client_version = 0, hs_ext_auth = 0\<rparr>,
      TunnelCreate \<lparr>tc_caps_flags = 1, tc_fields_present = 0, tc_reserved = 0, tc_paa_cookie = None\<rparr>,
      TunnelAuth \<lparr>ta_fields_present = 0, ta_client_name = lit ''PC''\<rparr>,
      ChannelCreate \<lparr>cc_num_resources = 1, cc_num_alt_resources = 0, cc_port = 3389,
        cc_protocol = 3, cc_server_name = lit ''host''\<rparr>] s
    \<and> is_data_transfer s"
  (is "\<exists>s. serves _ [?a, ?b, ?c, ?d] s \<and> _")
proof -
  let ?s = "run session_step session_new [?a, ?b, ?c, ?d]"
  have "serves session_new [] session_new" by (rule serves.start)
  then have "serves session_new ([] @ [?a]) (session_step session_new ?a)"
    by (rule serves.accept) (simp add: process_message_def session_new_def)
  then have "serves session_new (([] @ [?a]) @ [?b])
      (session_step (session_step session_new ?a) ?b)"
    by (rule serves.accept) (simp add: process_message_def session_new_def Let_def)
  then have "serves session_new ((([] @ [?a]) @ [?b]) @ [?c])
      (session_step (session_step (session_step session_new ?a) ?b) ?c)"
    by (rule serves.accept) (simp add: process_message_def session_new_def Let_def)
  then have "serves session_new (((([] @ [?a]) @ [?b]) @ [?c]) @ [?d]) ?s"
    unfolding run_simps
    by (rule serves.accept) (simp add: process_message_def session_new_def Let_def)
  moreover have "is_data_transfer ?s"
    by (simp add: is_data_transfer_def process_message_def session_new_def Let_def)
  ultimately show ?thesis by auto
qed

theorem session_order_witness:
  "\<exists>s. is_data_transfer s \<and> gs_target_host s = Some (lit ''host'') \<and> gs_target_port s = Some 3389
    \<and> gs_client_name s = Some (lit ''PC'')"
proof -
  obtain s where s: "serves session_new
     [HandshakeRequest \<lparr>hs_major_version = 1, hs_minor_version = 0, hs_client_version = 0, hs_ext_auth = 0\<rparr>,
      TunnelCreate \<lparr>tc_caps_flags = 1, tc_fields_present = 0, tc_reserved = 0, tc_paa_cookie = None\<rparr>,
      TunnelAuth \<lparr>ta_fields_present = 0, ta_client_name = lit ''PC''\<rparr>,
      ChannelCreate \<lparr>cc_num_resources = 1, cc_num_alt_resources = 0, cc_port = 3389,
        cc_protocol = 3, cc_server_name = lit ''host''\<rparr>] s" "is_data_transfer s"
    using serves_example by blast
  show ?thesis
    using session_order [OF s] s(2) by auto
qed

text \<open>
  What a session answers is what the client can read: the response to an
  awaited message is one TSG message that parses back to the matching response, with error code
  zero, the version echoed and the identifier the session just assigned.
\<close>

theorem session_replies:
  assumes "process_message s m = (s', Ok (Some reply))"
  shows "\<exists>response. parse_message reply = Ok response \<and>
    (case m of
       HandshakeRequest req \<Rightarrow> response = HandshakeResponse \<lparr>hr_error_code = 0,
         hr_major_version = hs_major_version req, hr_minor_version = hs_minor_version req,
         hr_server_version = 0, hr_ext_auth = 7\<rparr>
     | TunnelCreate req \<Rightarrow> response = TunnelResponse \<lparr>tr_server_version = 0, tr_error_code = 0,
         tr_fields_present = 3, tr_reserved = 0, tr_tunnel_id = Some (gs_tunnel_id s'),
         tr_caps = Some 13\<rparr>
     | TunnelAuth req \<Rightarrow> response = TunnelAuthResponse \<lparr>tar_error_code = 0, tar_flags = 3,
         tar_reserved = 0, tar_idle_timeout = 0, tar_soh_response = None\<rparr>
     | ChannelCreate req \<Rightarrow> response = ChannelResponse \<lparr>cr_error_code = 0,
         cr_fields_present = 1, cr_reserved = 0, cr_channel_id = Some (gs_channel_id s'),
         cr_udp_port = None, cr_auth_cookie = None\<rparr>
     | _ \<Rightarrow> False)"
  using assms
proof (cases rule: process_cases [of s m])
  case (Handshake r)
  then show ?thesis
    using assms hr_codec.roundtrip_exact [of "handshake_reply r"] by (auto simp: handshake_reply_def)
next
  case (Tunnel r)
  then show ?thesis
    using assms tr_codec.roundtrip_exact [OF replies_ok(1)]
    by (auto simp: tunnel_reply_def HTTP_TUNNEL_RESPONSE_FIELD_TUNNEL_ID_def
        HTTP_TUNNEL_RESPONSE_FIELD_CAPS_def)
next
  case (TunnelAuth r)
  then show ?thesis
    using assms tar_codec.roundtrip_exact [OF replies_ok(2)] by (auto simp: tunnel_auth_reply_def)
next
  case (Channel r)
  then show ?thesis
    using assms cr_codec.roundtrip_exact [OF replies_ok(3)]
    by (auto simp: channel_reply_def HTTP_CHANNEL_RESPONSE_FIELD_CHANNELID_def)
qed auto

theorem session_replies_witness:
  "\<exists>reply. snd (process_message session_new (HandshakeRequest \<lparr>hs_major_version = 1,
        hs_minor_version = 2, hs_client_version = 0, hs_ext_auth = 0\<rparr>)) = Ok (Some reply)
    \<and> parse_message reply = Ok (HandshakeResponse \<lparr>hr_error_code = 0, hr_major_version = 1,
        hr_minor_version = 2, hr_server_version = 0, hr_ext_auth = 7\<rparr>)"
proof -
  let ?m = "HandshakeRequest \<lparr>hs_major_version = 1, hs_minor_version = 2,
    hs_client_version = 0, hs_ext_auth = 0\<rparr>"
  obtain s' reply where "process_message session_new ?m = (s', Ok (Some reply))"
    by (simp add: process_message_def session_new_def)
  then show ?thesis using session_replies [of session_new ?m s' reply] by auto
qed

text \<open>
  Every message a state does not await is refused with the message's own
  type and the state, and a refusal changes nothing in the session.
\<close>

theorem session_refuses:
  "process_message s m = (s', Err e) \<longleftrightarrow>
     \<not> awaits (gs_state s) m \<and> s' = s \<and> e = UnexpectedMessage (tsg_type_code m) (gs_state s)"
  by (cases rule: process_cases [of s m]) auto

text \<open>
  Whatever messages arrive, in whatever order, a session never moves back to
  an earlier state and never closes by itself, and every field stays consistent with its state
  (the identifier counters never wrap).
\<close>

theorem session_forward:
  "session_inv (run session_step session_new ms)
    \<and> gs_state (run session_step session_new ms) \<le> gs_state (run session_step session_new (ms @ ms'))
    \<and> gs_state (run session_step session_new (ms @ ms')) \<le> DataTransfer"
  using sm.run_inv [OF session_inv_new, of ms] sm.rank_run
    sm.rank_top [OF sm.run_inv [OF session_inv_new, of "ms @ ms'"]]
  by (simp add: run_append del: session_state_order)

end
