(* ===== verification/Net_Addr.thy ===== *)
theory Net_Addr
  imports Rust_Strings
begin

text \<open>
  \<open>std::net::IpAddr\<close> and the standard library's parser of it, which the access rules rest on
  (\<open>acl.rs\<close>). An address is its octets in network order. A parser takes the rest of the text
  and returns a value with what it left, or \<open>None\<close> and consumes nothing.
\<close>

datatype ip_addr = V4 bytes | V6 bytes

definition digit_of :: "nat \<Rightarrow> nat \<Rightarrow> nat option" where
  "digit_of radix c =
     (let v = (if 48 \<le> c \<and> c \<le> 57 then c - 48
               else if 97 \<le> c \<and> c \<le> 122 then c - 87
               else if 65 \<le> c \<and> c \<le> 90 then c - 55 else radix)
      in if v < radix then Some v else None)"

text \<open>
  \<open>read_number\<close>: at most \<open>max_digits\<close> digits, a value of at most \<open>upper\<close>, and no leading zero
  unless \<open>allow_zero_prefix\<close>.
\<close>

definition read_number :: "nat \<Rightarrow> nat \<Rightarrow> bool \<Rightarrow> nat \<Rightarrow> rstring \<Rightarrow> (nat \<times> rstring) option" where
  "read_number radix max_digits allow_zero_prefix upper s =
     (let ds = takeWhile (\<lambda>c. digit_of radix c \<noteq> None) s;
          v = foldl (\<lambda>v c. radix * v + the (digit_of radix c)) 0 ds
      in if max_digits < length ds \<or> ds = [] \<or> upper < v
            \<or> (\<not> allow_zero_prefix \<and> hd ds = 48 \<and> 1 < length ds)
         then None
         else Some (v, drop (length ds) s))"

definition read_given_char :: "nat \<Rightarrow> rstring \<Rightarrow> rstring option" where
  "read_given_char c s = (case s of [] \<Rightarrow> None | d # r \<Rightarrow> if d = c then Some r else None)"

definition read_separator ::
  "nat \<Rightarrow> nat \<Rightarrow> (rstring \<Rightarrow> ('a \<times> rstring) option) \<Rightarrow> rstring \<Rightarrow> ('a \<times> rstring) option" where
  "read_separator sep index inner s =
     Option.bind (if 0 < index then read_given_char sep s else Some s) inner"

definition read_ipv4_addr :: "rstring \<Rightarrow> (bytes \<times> rstring) option" where
  "read_ipv4_addr s =
     Option.bind (read_separator 46 0 (read_number 10 3 False 255) s) (\<lambda>(a, s).
     Option.bind (read_separator 46 1 (read_number 10 3 False 255) s) (\<lambda>(b, s).
     Option.bind (read_separator 46 2 (read_number 10 3 False 255) s) (\<lambda>(c, s).
     Option.bind (read_separator 46 3 (read_number 10 3 False 255) s) (\<lambda>(d, s).
     Some (map word_of_nat [a, b, c, d], s)))))"

text \<open>
  \<open>read_groups left i\<close>: the groups from index \<open>i\<close> on when \<open>left\<close> of them may still follow;
  the groups read (as octets), whether they end in an embedded IPv4 address, and the rest.
\<close>

fun read_groups :: "nat \<Rightarrow> nat \<Rightarrow> rstring \<Rightarrow> bytes \<times> bool \<times> rstring" where
  "read_groups 0 i s = ([], False, s)"
| "read_groups (Suc left) i s =
     (case (if 0 < left then read_separator 58 i read_ipv4_addr s else None) of
        Some (v4, r) \<Rightarrow> (v4, True, r)
      | None \<Rightarrow>
          (case read_separator 58 i (read_number 16 4 True 0xFFFF) s of
             None \<Rightarrow> ([], False, s)
           | Some (g, r) \<Rightarrow>
               (let (gs, v4, r') = read_groups left (i + 1) r
                in (be_bytes 2 (word_of_nat g :: u16) @ gs, v4, r'))))"

definition read_ipv6_addr :: "rstring \<Rightarrow> (bytes \<times> rstring) option" where
  "read_ipv6_addr s =
     (let (head, head_ipv4, r) = read_groups 8 0 s
      in if length head = 16 then Some (head, r)
         else if head_ipv4 then None
         else
           Option.bind (read_given_char 58 r) (\<lambda>r.
           Option.bind (read_given_char 58 r) (\<lambda>r.
           let (tail, _, r') = read_groups (7 - length head div 2) 0 r
           in Some (head @ replicate (16 - length head - length tail) 0 @ tail, r'))))"

definition read_ip_addr :: "rstring \<Rightarrow> (ip_addr \<times> rstring) option" where
  "read_ip_addr s =
     (case read_ipv4_addr s of
        Some (a, r) \<Rightarrow> Some (V4 a, r)
      | None \<Rightarrow> map_option (\<lambda>(a, r). (V6 a, r)) (read_ipv6_addr s))"

text \<open>\<open>str::parse::<IpAddr>().ok()\<close>: the whole text must be read.\<close>

definition parse_ip :: "rstring \<Rightarrow> ip_addr option" where
  "parse_ip s = (case read_ip_addr s of Some (a, []) \<Rightarrow> Some a | _ \<Rightarrow> None)"

section \<open>Reading back a dotted address\<close>

text \<open>\<open>Ipv4Addr::to_string\<close>.\<close>

fun ipv4_to_string :: "bytes \<Rightarrow> rstring" where
  "ipv4_to_string [] = []"
| "ipv4_to_string [b] = dec_digits (unat b)"
| "ipv4_to_string (b # bs) = dec_digits (unat b) @ [46] @ ipv4_to_string bs"

lemma digit_of_digit: "is_digit c \<Longrightarrow> digit_of 10 c = Some (c - 48)"
  by (auto simp: digit_of_def is_digit_def Let_def)

lemma hd_dec_digits_pos: "0 < n \<Longrightarrow> hd (dec_digits n) \<noteq> 48"
proof (induction n rule: dec_digits.induct)
  case (1 n)
  show ?case
  proof (cases "n < 10")
    case True
    then show ?thesis using 1 by (subst dec_digits.simps) simp
  next
    case False
    then have "hd (dec_digits (n div 10)) \<noteq> 48" using 1 by simp
    then show ?thesis using False dec_digits_digits [of "n div 10"]
      by (subst dec_digits.simps) simp
  qed
qed

lemma dec_digits_no_zero: "\<not> (hd (dec_digits n) = 48 \<and> 1 < length (dec_digits n))"
proof (cases n)
  case 0
  then show ?thesis by (subst (2) dec_digits.simps) simp
next
  case (Suc k)
  then show ?thesis using hd_dec_digits_pos [of n] by simp
qed

lemma length_dec_digits_byte: "n \<le> 255 \<Longrightarrow> length (dec_digits n) \<le> 3"
  by (subst dec_digits.simps, subst dec_digits.simps, subst dec_digits.simps) simp

lemma unat_u8_le: "unat (b :: u8) \<le> 255"
  using unsigned_less [of b, where 'a = nat] by simp

lemma read_number_dec:
  assumes "n \<le> m" and "length (dec_digits n) \<le> k" and "r = [] \<or> digit_of 10 (hd r) = None"
  shows "read_number 10 k False m (dec_digits n @ r) = Some (n, r)"
proof -
  have ds: "list_all is_digit (dec_digits n)" "dec_digits n \<noteq> []"
    using dec_digits_digits by auto
  have tw: "takeWhile (\<lambda>c. digit_of 10 c \<noteq> None) (dec_digits n @ r) = dec_digits n"
    using ds(1) assms(3)
    by (cases r) (auto simp: list_all_iff digit_of_digit takeWhile_append)
  have *: "foldl (\<lambda>v c. 10 * v + the (digit_of 10 c)) v (dec_digits n)
      = foldl (\<lambda>v c. 10 * v + (c - 48)) v (dec_digits n)" for v
    using ds(1) by (intro foldl_cong) (auto simp: list_all_iff digit_of_digit)
  have nz: "\<not> (hd (dec_digits n) = 48 \<and> 1 < length (dec_digits n))"
    using dec_digits_no_zero by blast
  have v: "foldl (\<lambda>v c. 10 * v + the (digit_of 10 c)) 0 (dec_digits n) = n"
    unfolding * by (rule dec_digits_value)
  show ?thesis
    unfolding read_number_def tw Let_def v using ds nz assms by simp
qed

lemma read_octet:
  "r = [] \<or> hd r = 46 \<Longrightarrow>
    read_number 10 3 False 255 (dec_digits (unat (b :: u8)) @ r) = Some (unat b, r)"
  using unat_u8_le [of b] by (intro read_number_dec length_dec_digits_byte)
    (auto simp: digit_of_def)

lemma parse_ip_v4:
  assumes "length bs = 4"
  shows "parse_ip (ipv4_to_string bs) = Some (V4 bs)"
proof -
  obtain a b c d where bs: "bs = [a, b, c, d]"
    using assms by (auto simp: length_Suc_conv numeral_eq_Suc)
  show ?thesis
    by (simp add: bs parse_ip_def read_ip_addr_def read_ipv4_addr_def read_separator_def
        read_given_char_def read_octet)
      (use read_octet [of "[]" d] in \<open>simp add: read_separator_def read_given_char_def\<close>)
qed

end
