(* ===== verification/Models.thy ===== *)
theory Models
  imports Rust_Strings
begin

text \<open>
  \<open>crates/rdg-core/src/db/models.rs\<close>: the rows of the database. \<open>i64\<close> and \<open>i32\<close> columns
  are only stored and compared, so they are \<open>int\<close>; texts are \<open>rstring\<close>.
\<close>

record user =
  u_id :: int
  u_username :: rstring
  u_nt_hash :: bytes
  u_enabled :: bool
  u_password_hash :: "rstring option"

record user_group =
  g_id :: int
  g_name :: rstring

record membership =
  ug_user_id :: int
  ug_group_id :: int

record acl_rule =
  ar_id :: int
  ar_priority :: int
  ar_user_id :: "int option"
  ar_group_id :: "int option"
  ar_target_host :: "rstring option"
  ar_target_port :: "int option"
  ar_action :: rstring

record session_row =
  se_id :: rstring
  se_user_id :: int
  se_client_ip :: rstring
  se_target_host :: "rstring option"
  se_target_port :: "int option"
  se_connected_at :: rstring
  se_disconnected_at :: "rstring option"

record certificate_info =
  ci_id :: int
  ci_thumbprint :: rstring
  ci_subject :: rstring
  ci_san_names :: rstring
  ci_not_before :: rstring
  ci_not_after :: rstring
  ci_cert_path :: rstring
  ci_key_path :: rstring
  ci_auto_generated :: bool
  ci_created_at :: rstring

record connection =
  cn_id :: int
  cn_name :: rstring
  cn_host :: rstring
  cn_port :: int
  cn_description :: "rstring option"
  cn_icon :: rstring
  cn_created_at :: rstring
  cn_updated_at :: rstring

end
