(* ===== verification/Glob.thy ===== *)
theory Glob
  imports Rust_Strings
begin

text \<open>
  The wildcard matcher \<open>glob_matches\<close> of \<open>crates/rdg-core/src/acl.rs\<close>: a loop over two
  indices with a remembered star to backtrack to. It is modelled with its indices;
  \<open>None\<close> would be a loop that does not end, and it is proved never to be the result.
  \<open>glob_spec\<close> says what a pattern means, and the two agree on every host without a star.
\<close>

section \<open>The loop of the source\<close>

text \<open>
  \<open>glob_loop\<close> ends with \<open>Some None\<close> where the source returns \<open>false\<close> and with
  \<open>Some (Some pattern_idx)\<close> where the candidate is used up.
\<close>

partial_function (option) glob_loop ::
  "bytes \<Rightarrow> bytes \<Rightarrow> nat \<Rightarrow> nat \<Rightarrow> nat option \<Rightarrow> nat \<Rightarrow> nat option option" where
  "glob_loop pattern candidate pattern_idx candidate_idx star_idx backtrack_idx =
     (if candidate_idx < length candidate then
        (if pattern_idx < length pattern \<and> pattern ! pattern_idx = candidate ! candidate_idx then
           glob_loop pattern candidate (pattern_idx + 1) (candidate_idx + 1) star_idx backtrack_idx
         else if pattern_idx < length pattern \<and> pattern ! pattern_idx = 0x2A then
           glob_loop pattern candidate (pattern_idx + 1) candidate_idx (Some pattern_idx) candidate_idx
         else case star_idx of
             Some star \<Rightarrow>
               glob_loop pattern candidate (star + 1) (backtrack_idx + 1) star_idx (backtrack_idx + 1)
           | None \<Rightarrow> Some None)
      else Some (Some pattern_idx))"

fun skip_stars :: "bytes \<Rightarrow> nat \<Rightarrow> nat" where
  "skip_stars [] pattern_idx = pattern_idx"
| "skip_stars (b # r) pattern_idx =
     (if b = 0x2A then skip_stars r (pattern_idx + 1) else pattern_idx)"

definition glob_bytes :: "bytes \<Rightarrow> bytes \<Rightarrow> bool" where
  "glob_bytes pattern candidate =
     (case glob_loop pattern candidate 0 0 None 0 of
        Some (Some pattern_idx) \<Rightarrow>
          skip_stars (drop pattern_idx pattern) pattern_idx = length pattern
      | _ \<Rightarrow> False)"

definition glob_matches :: "rstring \<Rightarrow> rstring \<Rightarrow> bool" where
  "glob_matches pattern candidate =
     glob_bytes (str_bytes (to_ascii_lowercase pattern)) (str_bytes (to_ascii_lowercase candidate))"

section \<open>What a pattern means\<close>

text \<open>A star stands for any bytes, every other byte for itself.\<close>

fun glob_spec :: "bytes \<Rightarrow> bytes \<Rightarrow> bool" where
  "glob_spec [] c \<longleftrightarrow> c = []"
| "glob_spec (b # p) c \<longleftrightarrow>
     (if b = 0x2A then \<exists>k \<le> length c. glob_spec p (drop k c)
      else c \<noteq> [] \<and> hd c = b \<and> glob_spec p (tl c))"

lemma glob_spec_literal:
  "0x2A \<notin> set seg \<Longrightarrow> glob_spec (seg @ p) c \<longleftrightarrow> (\<exists>c'. c = seg @ c' \<and> glob_spec p c')"
proof (induction seg arbitrary: c)
  case Nil
  then show ?case by simp
next
  case (Cons b seg)
  then show ?case by (cases c) auto
qed

lemma glob_spec_empty: "glob_spec p [] \<longleftrightarrow> set p \<subseteq> {0x2A}"
  by (induction p) auto

lemma skip_stars_iff: "skip_stars p i = i + length p \<longleftrightarrow> set p \<subseteq> {0x2A}"
proof (induction p arbitrary: i)
  case (Cons b p)
  have "skip_stars p j \<noteq> i" if "i < j" for j
  proof -
    have "j \<le> skip_stars p j" by (induction p arbitrary: j) (auto intro: Suc_leD)
    then show ?thesis using that by simp
  qed
  then show ?case using Cons.IH [of "i + 1"] by auto
qed simp

section \<open>The loop computes it\<close>

text \<open>
  \<open>ginv p c i j star bt\<close>: the loop's invariant. After a star at \<open>s\<close>, the pattern between
  the star and \<open>i\<close> has no star and has matched the candidate between \<open>bt\<close> and \<open>j\<close>.
  \<open>gsem\<close> is what the loop still has to decide there: a match from here, or a match of what
  follows the last star from a later place.
\<close>

definition ginv :: "bytes \<Rightarrow> bytes \<Rightarrow> nat \<Rightarrow> nat \<Rightarrow> nat option \<Rightarrow> nat \<Rightarrow> bool" where
  "ginv p c i j star bt \<longleftrightarrow> i \<le> length p \<and> j \<le> length c \<and> bt \<le> j \<and>
     (case star of None \<Rightarrow> True
      | Some s \<Rightarrow> s < i \<and> take (i - (s + 1)) (drop (s + 1) p) = take (j - bt) (drop bt c)
          \<and> i - (s + 1) = j - bt)"

definition gsem :: "bytes \<Rightarrow> bytes \<Rightarrow> nat \<Rightarrow> nat \<Rightarrow> nat option \<Rightarrow> nat \<Rightarrow> bool" where
  "gsem p c i j star bt \<longleftrightarrow> glob_spec (drop i p) (drop j c) \<or>
     (case star of None \<Rightarrow> False
      | Some s \<Rightarrow> \<exists>k. bt < k \<and> k \<le> length c \<and> glob_spec (drop (s + 1) p) (drop k c))"

lemma ginv_literal:
  assumes "ginv p c i j (Some s) bt" and "0x2A \<notin> set c"
  shows "\<exists>seg. drop (s + 1) p = seg @ drop i p \<and> length seg = j - bt \<and> 0x2A \<notin> set seg"
proof -
  let ?seg = "take (i - (s + 1)) (drop (s + 1) p)"
  have "s + 1 \<le> i" using assms(1) by (simp add: ginv_def)
  then have "drop (i - (s + 1)) (drop (s + 1) p) = drop i p" by simp
  then have "drop (s + 1) p = ?seg @ drop i p"
    using append_take_drop_id [of "i - (s + 1)" "drop (s + 1) p"] by simp
  moreover have "length ?seg = j - bt" using assms(1) by (auto simp: ginv_def)
  moreover have "set ?seg \<subseteq> set c"
  proof -
    have "?seg = take (j - bt) (drop bt c)" using assms(1) unfolding ginv_def option.case by blast
    then show ?thesis using set_take_subset set_drop_subset by (metis subset_trans)
  qed
  ultimately show ?thesis using assms(2) by blast
qed

lemma take_grow:
  assumes "n < length xs" and "m < length ys" and "take n xs = take m ys" and "n = m"
    and "xs ! n = ys ! m"
  shows "take (Suc n) xs = take (Suc m) ys"
  using assms by (simp add: take_Suc_conv_app_nth)

lemma ginv_match:
  assumes "ginv p c i j star bt" and "j < length c" and "i < length p" and "p ! i = c ! j"
  shows "ginv p c (i + 1) (j + 1) star bt"
proof (cases star)
  case None
  then show ?thesis using assms by (auto simp: ginv_def)
next
  case (Some s)
  have s: "s < i" "bt \<le> j" "i - (s + 1) = j - bt"
    "take (i - (s + 1)) (drop (s + 1) p) = take (j - bt) (drop bt c)"
    using assms(1) Some by (auto simp: ginv_def)
  have "take (Suc (i - (s + 1))) (drop (s + 1) p) = take (Suc (j - bt)) (drop bt c)"
  proof (rule take_grow)
    have "s + 1 + (i - (s + 1)) = i" "bt + (j - bt) = j" using s by auto
    then show "drop (s + 1) p ! (i - (s + 1)) = drop bt c ! (j - bt)"
      using s assms by (simp only: nth_drop length_drop)
    show "i - (s + 1) < length (drop (s + 1) p)" "j - bt < length (drop bt c)"
      using s assms by auto
  qed (rule s)+
  moreover have "Suc (i - (s + 1)) = i + 1 - (s + 1)" "Suc (j - bt) = j + 1 - bt"
    using s by auto
  ultimately show ?thesis using s assms Some by (auto simp: ginv_def)
qed

lemma gsem_match:
  assumes "j < length c" and "i < length p" and "p ! i = c ! j" and "0x2A \<notin> set c"
  shows "gsem p c i j star bt = gsem p c (i + 1) (j + 1) star bt"
proof -
  have "drop i p = p ! i # drop (i + 1) p" "drop j c = c ! j # drop (j + 1) c"
    using assms(1,2) by (simp_all add: Cons_nth_drop_Suc)
  moreover have "c ! j \<noteq> 0x2A" using assms(1,4) nth_mem by metis
  ultimately show ?thesis using assms(3) by (simp add: gsem_def)
qed

lemma gsem_star:
  assumes "ginv p c i j star bt" and "j < length c" and "i < length p" and "p ! i = 0x2A"
    and "0x2A \<notin> set c"
  shows "gsem p c i j star bt = gsem p c (i + 1) j (Some i) j"
proof -
  have di: "drop i p = 0x2A # drop (i + 1) p"
    using assms(3,4) by (simp add: Cons_nth_drop_Suc [symmetric])
  have here: "glob_spec (drop i p) (drop j c)
      \<longleftrightarrow> (\<exists>k. j \<le> k \<and> k \<le> length c \<and> glob_spec (drop (i + 1) p) (drop k c))"
  proof -
    have "glob_spec (drop i p) (drop j c)
        \<longleftrightarrow> (\<exists>k \<le> length c - j. glob_spec (drop (i + 1) p) (drop (j + k) c))"
      by (simp add: di add.commute)
    also have "\<dots> \<longleftrightarrow> (\<exists>k. j \<le> k \<and> k \<le> length c \<and> glob_spec (drop (i + 1) p) (drop k c))"
      (is "?l \<longleftrightarrow> ?r")
    proof
      assume ?l
      then show ?r using assms(2) by (metis le_add1 le_diff_conv2 add.commute less_imp_le)
    next
      assume ?r
      then obtain k where "j \<le> k" "k \<le> length c" "glob_spec (drop (i + 1) p) (drop k c)" by blast
      then show ?l by (intro exI [of _ "k - j"]) auto
    qed
    finally show ?thesis .
  qed
  have later: "glob_spec (drop i p) (drop j c)"
    if "star = Some s" "bt < k" "k \<le> length c" "glob_spec (drop (s + 1) p) (drop k c)" for s k
  proof -
    note star = that(1) and tail = that(4) and k = that(2,3)
    obtain seg where seg: "drop (s + 1) p = seg @ drop i p" "length seg = j - bt" "0x2A \<notin> set seg"
      using ginv_literal [of p c i j s bt] assms(1,5) star by blast
    then obtain c' where c': "drop k c = seg @ c'" "glob_spec (drop i p) c'"
      using tail glob_spec_literal by auto
    have "c' = drop (length seg) (drop k c)" by (simp add: c'(1))
    then have "c' = drop (k + (j - bt)) c" by (simp add: seg(2) add.commute)
    then obtain k' where k': "k' \<le> length c'" "glob_spec (drop (i + 1) p) (drop k' (drop (k + (j - bt)) c))"
      using c'(2) by (auto simp: di)
    have "length c' + length seg = length c - k" using arg_cong [OF c'(1), of length] by simp
    moreover have "bt \<le> j" using assms(1) by (simp add: ginv_def)
    ultimately have "j \<le> k + (j - bt) + k'" "k + (j - bt) + k' \<le> length c"
      using k k'(1) seg(2) by linarith+
    then show ?thesis using k'(2) unfolding here
      by (intro exI [of _ "k + (j - bt) + k'"]) (simp add: add.commute add.left_commute)
  qed
  have "gsem p c i j star bt \<longleftrightarrow> glob_spec (drop i p) (drop j c)"
    using later by (auto simp: gsem_def split: option.splits)
  also have "\<dots> \<longleftrightarrow> gsem p c (i + 1) j (Some i) j"
    unfolding here gsem_def using assms(2) by (auto simp: le_less)
  finally show ?thesis .
qed

lemma ginv_star: "ginv p c i j star bt \<Longrightarrow> i < length p \<Longrightarrow> ginv p c (i + 1) j (Some i) j"
  by (auto simp: ginv_def)

lemma ginv_back:
  "ginv p c i j (Some s) bt \<Longrightarrow> j < length c \<Longrightarrow> ginv p c (s + 1) (bt + 1) (Some s) (bt + 1)"
  by (auto simp: ginv_def)

lemma no_match_here:
  assumes "j < length c" and "i \<le> length p" and "\<not> (i < length p \<and> p ! i = c ! j)"
    and "\<not> (i < length p \<and> p ! i = 0x2A)"
  shows "\<not> glob_spec (drop i p) (drop j c)"
proof (cases "i < length p")
  case True
  then have "drop i p = p ! i # drop (i + 1) p" "drop j c = c ! j # drop (j + 1) c"
    using assms(1) by (simp_all add: Cons_nth_drop_Suc)
  then show ?thesis using assms True by simp
next
  case False
  then show ?thesis using assms by simp
qed

lemma gsem_back:
  assumes "bt < length c" and "\<not> glob_spec (drop i p) (drop j c)"
  shows "gsem p c i j (Some s) bt = gsem p c (s + 1) (bt + 1) (Some s) (bt + 1)"
proof -
  have "(\<exists>k. bt < k \<and> k \<le> length c \<and> Q k) \<longleftrightarrow>
      Q (bt + 1) \<or> (\<exists>k. bt + 1 < k \<and> k \<le> length c \<and> Q k)" for Q :: "nat \<Rightarrow> bool"
    using assms(1)
    by (metis Suc_eq_plus1 Suc_leI le_neq_implies_less less_Suc_eq order_less_trans)
  then show ?thesis using assms(2) by (simp add: gsem_def)
qed

lemma gsem_end:
  assumes "ginv p c i (length c) star bt" and "0x2A \<notin> set c"
  shows "gsem p c i (length c) star bt \<longleftrightarrow> skip_stars (drop i p) i = length p"
proof -
  have "\<not> glob_spec (drop (s + 1) p) (drop k c)"
    if star: "star = Some s" and k: "bt < k" "k \<le> length c" for s k
  proof
    assume "glob_spec (drop (s + 1) p) (drop k c)"
    moreover obtain seg where seg: "drop (s + 1) p = seg @ drop i p" "length seg = length c - bt"
        "0x2A \<notin> set seg"
      using ginv_literal [of p c i "length c" s bt] assms star by blast
    ultimately obtain c' where c': "drop k c = seg @ c'" using glob_spec_literal by auto
    have "length c - k = length c - bt + length c'"
      using arg_cong [OF c', of length] seg(2) by simp
    then show False using k by linarith
  qed
  then have "gsem p c i (length c) star bt \<longleftrightarrow> glob_spec (drop i p) []"
    by (auto simp: gsem_def split: option.splits)
  also have "\<dots> \<longleftrightarrow> skip_stars (drop i p) i = i + length (drop i p)"
    by (simp only: glob_spec_empty skip_stars_iff)
  also have "\<dots> \<longleftrightarrow> skip_stars (drop i p) i = length p"
    using assms(1) by (simp add: ginv_def)
  finally show ?thesis .
qed

text \<open>The measure: stars still ahead, then the backtrack position, then the candidate index.\<close>

definition gmeasure :: "(nat \<times> nat option \<times> nat \<times> nat \<times> nat) rel" where
  "gmeasure = measures
     [\<lambda>(lp, star, lc, bt, j). lp - (case star of None \<Rightarrow> 0 | Some s \<Rightarrow> Suc s),
      \<lambda>(lp, star, lc, bt, j). lc - bt, \<lambda>(lp, star, lc, bt, j). lc - j]"

definition glob_end :: "bytes \<Rightarrow> nat option \<Rightarrow> bool" where
  "glob_end p r = (case r of None \<Rightarrow> False | Some i \<Rightarrow> skip_stars (drop i p) i = length p)"

lemma wf_gmeasure: "wf gmeasure"
  by (simp add: gmeasure_def)

lemma glob_loop_result:
  assumes "ginv p c i j star bt"
  shows "\<exists>r. glob_loop p c i j star bt = Some r
    \<and> (0x2A \<in> set c \<or> (glob_end p r \<longleftrightarrow> gsem p c i j star bt))"
  using assms
proof (induction "(length p, star, length c, bt, j)" arbitrary: i j star bt
    rule: wf_induct_rule [OF wf_gmeasure])
  case (1 j star bt i)
  note inv = \<open>ginv p c i j star bt\<close>
  consider (finished) "\<not> j < length c"
    | (same) "j < length c" "i < length p \<and> p ! i = c ! j"
    | (wild) "j < length c" "\<not> (i < length p \<and> p ! i = c ! j)" "i < length p \<and> p ! i = 0x2A"
    | (retry) s where "j < length c" "\<not> (i < length p \<and> p ! i = c ! j)"
        "\<not> (i < length p \<and> p ! i = 0x2A)" "star = Some s"
    | (mismatch) "j < length c" "\<not> (i < length p \<and> p ! i = c ! j)"
        "\<not> (i < length p \<and> p ! i = 0x2A)" "star = None"
    by blast
  then show ?case
  proof cases
    case finished
    then have "j = length c" using inv by (simp add: ginv_def)
    then show ?thesis
      using gsem_end [of p c i star bt] inv by (subst glob_loop.simps) (auto simp: glob_end_def)
  next
    case same
    have "\<exists>r. glob_loop p c (i + 1) (j + 1) star bt = Some r
        \<and> (0x2A \<in> set c \<or> (glob_end p r \<longleftrightarrow> gsem p c (i + 1) (j + 1) star bt))"
      using same inv ginv_match [of p c i j star bt] by (intro 1(1)) (auto simp: gmeasure_def)
    then show ?thesis
      using same gsem_match [of j c i p star bt] by (subst glob_loop.simps) auto
  next
    case wild
    have "\<exists>r. glob_loop p c (i + 1) j (Some i) j = Some r
        \<and> (0x2A \<in> set c \<or> (glob_end p r \<longleftrightarrow> gsem p c (i + 1) j (Some i) j))"
      using wild inv
      by (intro 1(1)) (auto simp: gmeasure_def ginv_def split: option.splits)
    then show ?thesis
      using wild inv gsem_star [of p c i j star bt] by (subst glob_loop.simps) auto
  next
    case retry
    have bt: "bt < length c" using retry inv by (simp add: ginv_def)
    have "\<exists>r. glob_loop p c (s + 1) (bt + 1) (Some s) (bt + 1) = Some r
        \<and> (0x2A \<in> set c \<or> (glob_end p r \<longleftrightarrow> gsem p c (s + 1) (bt + 1) (Some s) (bt + 1)))"
      using retry inv bt ginv_back [of p c i j s bt]
      by (intro 1(1)) (auto simp: gmeasure_def)
    moreover have "\<not> glob_spec (drop i p) (drop j c)"
      using retry inv by (intro no_match_here) (auto simp: ginv_def)
    ultimately show ?thesis
      using retry gsem_back [OF bt] by (subst glob_loop.simps) auto
  next
    case mismatch
    then have "\<not> gsem p c i j star bt"
      using no_match_here [of j c i p] inv by (auto simp: gsem_def ginv_def)
    then show ?thesis
      using mismatch by (subst glob_loop.simps) (auto simp: glob_end_def)
  qed
qed

lemma ginv_start: "ginv p c 0 0 None 0"
  by (simp add: ginv_def)

lemma glob_bytes_spec: "0x2A \<notin> set c \<Longrightarrow> glob_bytes p c \<longleftrightarrow> glob_spec p c"
  using glob_loop_result [OF ginv_start, of p c]
  by (auto simp: glob_bytes_def gsem_def glob_end_def split: option.splits)

lemma star_bytes:
  assumes "valid_str s"
  shows "0x2A \<in> set (str_bytes s) \<longleftrightarrow> 0x2A \<in> set s"
proof -
  have "(0x2A :: u8) \<in> set (utf8_char c) \<longleftrightarrow> c = 0x2A" if "is_scalar c" for c
  proof (cases "c < 0x80")
    case True
    then have "unat (word_of_nat c :: u8) = c"
      by (simp add: unat_of_nat take_bit_eq_mod)
    then have "(word_of_nat c :: u8) = 0x2A \<longleftrightarrow> c = 0x2A"
      using word_unat_eq_iff [of "word_of_nat c :: u8" "0x2A"] by simp
    then show ?thesis using True by (auto simp: utf8_char_def)
  next
    case False
    have byte: "(0x2A :: u8) \<noteq> word_of_nat n" if "0x80 \<le> n" "n < 0x100" for n
    proof
      assume "(0x2A :: u8) = word_of_nat n"
      from this [symmetric] have "unat (word_of_nat n :: u8) = 0x2A" by simp
      then show False using that by (simp add: unat_of_nat take_bit_eq_mod)
    qed
    have "c < 0x110000" using that by (auto simp: is_scalar_def)
    then show ?thesis using False
      by (auto simp: utf8_char_def byte simp del: of_nat_add)
  qed
  then show ?thesis using assms by (auto simp: str_bytes_def valid_str_def list_all_iff)
qed

lemma lower_star: "0x2A \<in> set (to_ascii_lowercase s) \<longleftrightarrow> 0x2A \<in> set s"
proof -
  have "ascii_lower c = 0x2A \<longleftrightarrow> c = 0x2A" for c by (simp add: ascii_lower_def)
  then show ?thesis by (force simp: to_ascii_lowercase_def)
qed

lemma lower_valid: "valid_str s \<Longrightarrow> valid_str (to_ascii_lowercase s)"
  by (auto simp: valid_str_def to_ascii_lowercase_def list_all_iff ascii_lower_def is_scalar_def)

section \<open>Properties\<close>

text \<open>
  C39. The matching loop ends on every pattern and every candidate.
\<close>

theorem glob_loop_returns: "\<exists>r. glob_loop pattern candidate 0 0 None 0 = Some r"
  using glob_loop_result [OF ginv_start] by blast

text \<open>
  C21. On every host without a star the greedy loop with one remembered
  backtrack position decides exactly what the pattern means, up to ASCII case: every star some
  run of bytes, everything else itself.
\<close>

theorem glob_matches_spec:
  assumes "valid_str host" and "0x2A \<notin> set host"
  shows "glob_matches pattern host \<longleftrightarrow>
    glob_spec (str_bytes (to_ascii_lowercase pattern)) (str_bytes (to_ascii_lowercase host))"
  unfolding glob_matches_def
  by (rule glob_bytes_spec) (simp add: assms star_bytes lower_valid lower_star)

theorem glob_matches_spec_witness:
  "glob_matches (lit ''*B'') (lit ''ab'') \<and> \<not> glob_matches (lit ''*B'') (lit ''ac'')"
proof
  have b: "str_bytes (to_ascii_lowercase (lit ''*B'')) = [0x2A, 0x62]"
    "str_bytes (to_ascii_lowercase (lit ''ab'')) = [0x61, 0x62]"
    "str_bytes (to_ascii_lowercase (lit ''ac'')) = [0x61, 0x63]"
    by (simp_all add: lit_def to_ascii_lowercase_def ascii_lower_def str_bytes_def utf8_char_def)
  have v: "valid_str (lit ''ab'')" "0x2A \<notin> set (lit ''ab'')"
    "valid_str (lit ''ac'')" "0x2A \<notin> set (lit ''ac'')"
    by (simp_all add: lit_def is_scalar_def)
  show "glob_matches (lit ''*B'') (lit ''ab'')"
    unfolding glob_matches_spec [OF v(1,2)] b by (auto intro: exI [of _ 1])
  have "\<not> glob_spec [0x62] (drop k [0x61, 0x63])" for k
    by (auto simp: drop_Cons split: nat.splits)
  then show "\<not> glob_matches (lit ''*B'') (lit ''ac'')"
    unfolding glob_matches_spec [OF v(3,4)] b by (auto simp: drop_Cons split: nat.splits)
qed

text \<open>
  On a host that has a star itself the loop is not the pattern's meaning: it
  matches the two stars as equal bytes and forgets that the pattern's was a wildcard.
\<close>

theorem glob_literal_star:
  "\<not> glob_matches (lit ''*b'') (lit ''*ab'')
    \<and> glob_spec (str_bytes (to_ascii_lowercase (lit ''*b''))) (str_bytes (to_ascii_lowercase (lit ''*ab'')))"
proof
  have b: "str_bytes (to_ascii_lowercase (lit ''*b'')) = [0x2A, 0x62]"
    "str_bytes (to_ascii_lowercase (lit ''*ab'')) = [0x2A, 0x61, 0x62]"
    by (simp_all add: lit_def to_ascii_lowercase_def ascii_lower_def str_bytes_def utf8_char_def)
  show "\<not> glob_matches (lit ''*b'') (lit ''*ab'')"
    unfolding glob_matches_def b glob_bytes_def by (simp add: glob_loop.simps)
  show "glob_spec (str_bytes (to_ascii_lowercase (lit ''*b'')))
      (str_bytes (to_ascii_lowercase (lit ''*ab'')))"
    unfolding b by (auto intro: exI [of _ 2])
qed

end
