(* ===== verification/Acl.thy ===== *)
theory Acl
  imports Models Net_Addr Glob
begin

text \<open>
  \<open>crates/rdg-core/src/acl.rs\<close>: the access rules. A rule matches by user, group, host pattern
  and port; the matching rule of the highest priority decides, and nothing matching means deny.
\<close>

datatype acl_decision = Allow | Deny

record acl_engine =
  ae_rules :: "acl_rule list"

section \<open>Address ranges\<close>

record cidr =
  cd_network :: ip_addr
  cd_prefix_len :: u8

definition ipv4_to_u32 :: "bytes \<Rightarrow> u32" where
  "ipv4_to_u32 octets = of_be octets"

definition ipv6_to_u128 :: "bytes \<Rightarrow> u128" where
  "ipv6_to_u128 octets = of_be octets"

text \<open>
  The shift distance \<open>32 - prefix_len\<close> does not underflow on what \<open>parse_cidr\<close> lets through
  (\<open>parse_cidr_prefix\<close> below).
\<close>

definition ipv4_mask :: "u8 \<Rightarrow> u32" where
  "ipv4_mask prefix_len = (if prefix_len = 0 then 0 else push_bit (32 - unat prefix_len) (- 1))"

definition ipv6_mask :: "u8 \<Rightarrow> u128" where
  "ipv6_mask prefix_len = (if prefix_len = 0 then 0 else push_bit (128 - unat prefix_len) (- 1))"

definition cidr_contains :: "cidr \<Rightarrow> ip_addr \<Rightarrow> bool" where
  "cidr_contains self ip =
     (case (cd_network self, ip) of
        (V4 network, V4 ip) \<Rightarrow>
          ipv4_to_u32 network AND ipv4_mask (cd_prefix_len self)
            = ipv4_to_u32 ip AND ipv4_mask (cd_prefix_len self)
      | (V6 network, V6 ip) \<Rightarrow>
          ipv6_to_u128 network AND ipv6_mask (cd_prefix_len self)
            = ipv6_to_u128 ip AND ipv6_mask (cd_prefix_len self)
      | _ \<Rightarrow> False)"

text \<open>\<open>str::split_once\<close> at a character.\<close>

definition split_once :: "nat \<Rightarrow> rstring \<Rightarrow> (rstring \<times> rstring) option" where
  "split_once sep s =
     (let l = takeWhile (\<lambda>c. c \<noteq> sep) s
      in if length l < length s then Some (l, drop (length l + 1) s) else None)"

definition parse_cidr :: "rstring \<Rightarrow> cidr option" where
  "parse_cidr pattern =
     Option.bind (split_once 47 pattern) (\<lambda>(network, prefix_len).
     Option.bind (parse_ip network) (\<lambda>network.
     Option.bind (parse_unsigned 255 prefix_len) (\<lambda>prefix_len.
     let max_prefix = (case network of V4 _ \<Rightarrow> 32 | V6 _ \<Rightarrow> 128)
     in if max_prefix < prefix_len then None
        else Some \<lparr>cd_network = network, cd_prefix_len = word_of_nat prefix_len\<rparr>)))"

definition host_matches :: "rstring \<Rightarrow> rstring \<Rightarrow> bool" where
  "host_matches pattern host =
     (if pattern = lit ''*'' then True
      else case parse_cidr pattern of
        Some cidr \<Rightarrow>
          (case parse_ip host of Some ip \<Rightarrow> cidr_contains cidr ip | None \<Rightarrow> False)
      | None \<Rightarrow> glob_matches pattern host)"

section \<open>Rules\<close>

definition rule_matches :: "acl_rule \<Rightarrow> int \<Rightarrow> int list \<Rightarrow> rstring \<Rightarrow> u16 \<Rightarrow> bool" where
  "rule_matches rule user_id user_group_ids target_host target_port =
     (if (case ar_user_id rule of Some u \<Rightarrow> u \<noteq> user_id | None \<Rightarrow> False) then False
      else if (case ar_group_id rule of Some g \<Rightarrow> g \<notin> set user_group_ids | None \<Rightarrow> False) then False
      else if (case ar_target_host rule of Some p \<Rightarrow> \<not> host_matches p target_host | None \<Rightarrow> False)
        then False
      else if (case ar_target_port rule of Some p \<Rightarrow> p \<noteq> uint target_port | None \<Rightarrow> False) then False
      else True)"

definition rule_action :: "acl_rule \<Rightarrow> acl_decision" where
  "rule_action rule =
     (if eq_ignore_ascii_case (ar_action rule) (lit ''allow'') then Allow else Deny)"

text \<open>\<open>Iterator::max_by_key\<close>: of several maxima the last.\<close>

primrec max_by_key_from :: "('a \<Rightarrow> int) \<Rightarrow> 'a \<Rightarrow> 'a list \<Rightarrow> 'a" where
  "max_by_key_from key m [] = m"
| "max_by_key_from key m (x # xs) = max_by_key_from key (if key x < key m then m else x) xs"

definition max_by_key :: "('a \<Rightarrow> int) \<Rightarrow> 'a list \<Rightarrow> 'a option" where
  "max_by_key key xs = (case xs of [] \<Rightarrow> None | x # xs \<Rightarrow> Some (max_by_key_from key x xs))"

definition evaluate_acl :: "acl_rule list \<Rightarrow> int \<Rightarrow> int list \<Rightarrow> rstring \<Rightarrow> u16 \<Rightarrow> acl_decision" where
  "evaluate_acl rules user_id user_group_ids target_host target_port =
     (case map_option rule_action (max_by_key ar_priority
            (filter (\<lambda>rule. rule_matches rule user_id user_group_ids target_host target_port) rules)) of
        Some d \<Rightarrow> d
      | None \<Rightarrow> Deny)"

text \<open>\<open>sort_by\<close> is stable, as HOL's \<open>sort_key\<close> is; descending by priority.\<close>

definition sorted_rules :: "acl_rule list \<Rightarrow> acl_rule list" where
  "sorted_rules rules = sort_key (\<lambda>rule. - ar_priority rule) rules"

section \<open>The engine\<close>

text \<open>\<open>from_db\<close> takes what \<open>DbProvider::get_acl_rules\<close> returned.\<close>

definition acl_engine_from_db ::
  "('e, acl_rule list) outcome \<Rightarrow> ('e, acl_engine) outcome" where
  "acl_engine_from_db get_acl_rules =
     rbind get_acl_rules (\<lambda>rules. Ok \<lparr>ae_rules = sorted_rules rules\<rparr>)"

definition check_access :: "acl_engine \<Rightarrow> int \<Rightarrow> int list \<Rightarrow> rstring \<Rightarrow> u16 \<Rightarrow> acl_decision" where
  "check_access self user_id user_group_ids target_host target_port =
     evaluate_acl (ae_rules self) user_id user_group_ids target_host target_port"

definition acl_engine_reload :: "acl_engine \<Rightarrow> acl_rule list \<Rightarrow> acl_engine" where
  "acl_engine_reload self rules = self\<lparr>ae_rules := sorted_rules rules\<rparr>"

section \<open>The deciding rule\<close>

text \<open>
  \<open>decides key xs r\<close>: \<open>r\<close> has the greatest key in \<open>xs\<close>, and no later element has as great a
  one.
\<close>

definition decides :: "('a \<Rightarrow> int) \<Rightarrow> 'a list \<Rightarrow> 'a \<Rightarrow> bool" where
  "decides key xs r \<longleftrightarrow> (\<exists>pre post. xs = pre @ r # post
     \<and> (\<forall>x \<in> set pre. key x \<le> key r) \<and> (\<forall>x \<in> set post. key x < key r))"

lemma decidesI: "xs = pre @ r # post \<Longrightarrow> \<forall>x \<in> set pre. key x \<le> key r \<Longrightarrow>
    \<forall>x \<in> set post. key x < key r \<Longrightarrow> decides key xs r"
  by (auto simp: decides_def)

lemma decides_unique:
  assumes "decides key xs r" and "decides key xs s"
  shows "r = s"
proof -
  obtain a b where 1: "xs = a @ r # b" "\<forall>x \<in> set a. key x \<le> key r" "\<forall>x \<in> set b. key x < key r"
    using assms(1) unfolding decides_def by blast
  obtain c d where 2: "xs = c @ s # d" "\<forall>x \<in> set c. key x \<le> key s" "\<forall>x \<in> set d. key x < key s"
    using assms(2) unfolding decides_def by blast
  from 1(1) 2(1) have "a @ r # b = c @ s # d" by simp
  then consider "r = s" | "r \<in> set c" "s \<in> set b" | "s \<in> set a" "r \<in> set d"
    by (auto simp: append_eq_append_conv2 append_eq_Cons_conv Cons_eq_append_conv)
  then show ?thesis using 1 2 by cases force+
qed

lemma max_by_key_from_decides: "decides key (m # xs) (max_by_key_from key m xs)"
proof (induction xs arbitrary: m)
  case Nil
  show ?case by (rule decidesI [of _ "[]" _ "[]"]) simp_all
next
  case (Cons x xs)
  let ?n = "if key x < key m then m else x"
  obtain pre M post where M: "max_by_key_from key ?n xs = M" "?n # xs = pre @ M # post"
      "\<forall>y \<in> set pre. key y \<le> key M" "\<forall>y \<in> set post. key y < key M"
    using Cons.IH [of ?n] unfolding decides_def by blast
  have n: "key ?n \<le> key M" using M(2,3) by (cases pre) auto
  have "decides key (m # x # xs) M"
  proof (cases "key x < key m")
    case True
    show ?thesis
    proof (cases pre)
      case Nil
      with M True show ?thesis by (intro decidesI [of _ "[]" _ "x # xs"]) auto
    next
      case (Cons y ys)
      with M True n show ?thesis by (intro decidesI [of _ "m # x # ys" _ post]) auto
    qed
  next
    case False
    with M n show ?thesis by (intro decidesI [of _ "m # pre" _ post]) auto
  qed
  then show ?case by (simp add: M(1))
qed

lemma max_by_key_iff: "max_by_key key xs = Some r \<longleftrightarrow> decides key xs r"
proof (cases xs)
  case Nil
  then show ?thesis by (simp add: max_by_key_def decides_def)
next
  case (Cons x ys)
  then have "decides key xs (max_by_key_from key x ys)"
    using max_by_key_from_decides by simp
  then show ?thesis using Cons decides_unique by (auto simp: max_by_key_def)
qed

lemma max_by_key_None: "max_by_key key xs = None \<longleftrightarrow> xs = []"
  by (auto simp: max_by_key_def split: list.splits)

lemma decides_last:
  "decides key xs r \<longleftrightarrow>
    r \<in> set xs \<and> (\<forall>x \<in> set xs. key x \<le> key r) \<and> last (filter (\<lambda>x. key x = key r) xs) = r"
  (is "_ \<longleftrightarrow> ?L xs r")
proof
  assume "decides key xs r"
  then obtain a b where *: "xs = a @ r # b" "\<forall>x \<in> set a. key x \<le> key r" "\<forall>x \<in> set b. key x < key r"
    unfolding decides_def by blast
  then have "filter (\<lambda>x. key x = key r) b = []" by (auto simp: filter_empty_conv)
  with * show "?L xs r" by auto
next
  assume r: "?L xs r"
  then obtain us x vs where x: "xs = us @ x # vs" "key x = key r" "\<forall>z \<in> set vs. key z \<noteq> key r"
    using split_list_last_prop [of xs "\<lambda>x. key x = key r"] by blast
  then have "filter (\<lambda>x. key x = key r) vs = []" by (auto simp: filter_empty_conv)
  then have "last (filter (\<lambda>x. key x = key r) xs) = x" using x by simp
  then have "x = r" using r by simp
  with r x show "decides key xs r"
    by (intro decidesI [of _ us _ vs]) (auto simp: le_less)
qed

lemma decides_sorted: "decides key (sort_key (\<lambda>x. - key x) xs) r \<longleftrightarrow> decides key xs r"
proof -
  have "filter (\<lambda>x. - key x = - key r) (sort_key (\<lambda>x. - key x) xs)
      = filter (\<lambda>x. - key x = - key r) xs"
    by (rule sort_key_stable)
  then show ?thesis by (simp add: decides_last)
qed

lemma filter_eq_appendD:
  "filter P xs = a @ b \<Longrightarrow> \<exists>us vs. xs = us @ vs \<and> filter P us = a \<and> filter P vs = b"
proof (induction a arbitrary: xs)
  case Nil
  then have "xs = [] @ xs" and "filter P [] = []" and "filter P xs = b" by simp_all
  then show ?case by blast
next
  case (Cons y a)
  then obtain us vs where *: "xs = us @ y # vs" "\<forall>u \<in> set us. \<not> P u" "P y" "filter P vs = a @ b"
    using filter_eq_ConsD [of P xs y "a @ b"] by auto
  obtain ws zs where "vs = ws @ zs" "filter P ws = a" "filter P zs = b"
    using Cons.IH [OF *(4)] by blast
  with * show ?case by (intro exI [of _ "us @ y # ws"] exI [of _ zs]) auto
qed

lemma decides_filter:
  "decides key (filter P xs) r \<longleftrightarrow> (\<exists>pre post. xs = pre @ r # post \<and> P r
    \<and> (\<forall>x \<in> set pre. P x \<longrightarrow> key x \<le> key r) \<and> (\<forall>x \<in> set post. P x \<longrightarrow> key x < key r))"
proof
  assume "decides key (filter P xs) r"
  then obtain a b where *: "filter P xs = a @ r # b"
      "\<forall>x \<in> set a. key x \<le> key r" "\<forall>x \<in> set b. key x < key r"
    unfolding decides_def by blast
  obtain us vs where u: "xs = us @ vs" "filter P us = a" "filter P vs = r # b"
    using filter_eq_appendD [OF *(1)] by blast
  obtain ws zs where w: "vs = ws @ r # zs" "\<forall>u \<in> set ws. \<not> P u" "P r" "b = filter P zs"
    using filter_eq_ConsD [OF u(3)] by blast
  have "xs = (us @ ws) @ r # zs" by (simp add: u(1) w(1))
  moreover have "\<forall>x \<in> set (us @ ws). P x \<longrightarrow> key x \<le> key r"
    using *(2) w(2) u(2) by auto
  moreover have "\<forall>x \<in> set zs. P x \<longrightarrow> key x < key r"
    using *(3) w(4) by auto
  ultimately show "\<exists>pre post. xs = pre @ r # post \<and> P r
      \<and> (\<forall>x \<in> set pre. P x \<longrightarrow> key x \<le> key r) \<and> (\<forall>x \<in> set post. P x \<longrightarrow> key x < key r)"
    using w(3) by blast
next
  assume "\<exists>pre post. xs = pre @ r # post \<and> P r
    \<and> (\<forall>x \<in> set pre. P x \<longrightarrow> key x \<le> key r) \<and> (\<forall>x \<in> set post. P x \<longrightarrow> key x < key r)"
  then obtain pre post where "xs = pre @ r # post" "P r"
    "\<forall>x \<in> set pre. P x \<longrightarrow> key x \<le> key r" "\<forall>x \<in> set post. P x \<longrightarrow> key x < key r"
    by blast
  then show "decides key (filter P xs) r"
    by (intro decidesI [of _ "filter P pre" _ "filter P post"]) auto
qed

lemma evaluate_sorted: "evaluate_acl (sorted_rules rules) u gs h p = evaluate_acl rules u gs h p"
proof -
  have "max_by_key ar_priority (filter P (sorted_rules rules)) = max_by_key ar_priority (filter P rules)"
    for P
  proof -
    have "filter P (sorted_rules rules) = sort_key (\<lambda>rule. - ar_priority rule) (filter P rules)"
      by (simp add: sorted_rules_def filter_sort)
    then have "max_by_key ar_priority (filter P (sorted_rules rules)) = Some r
        \<longleftrightarrow> max_by_key ar_priority (filter P rules) = Some r" for r
      by (simp add: max_by_key_iff decides_sorted)
    then show ?thesis by (metis not_None_eq)
  qed
  then show ?thesis by (simp add: evaluate_acl_def)
qed

section \<open>Masks\<close>

lemma and_mask_eq:
  fixes x y :: "'a::len word"
  shows "x AND push_bit k (- 1) = y AND push_bit k (- 1) \<longleftrightarrow> drop_bit k x = drop_bit k y"
proof
  assume e: "x AND push_bit k (- 1) = y AND push_bit k (- 1)"
  show "drop_bit k x = drop_bit k y"
  proof (rule bit_word_eqI)
    fix n assume "n < LENGTH('a)"
    have "bit (x AND push_bit k (- 1)) (k + n) = bit (y AND push_bit k (- 1)) (k + n)"
      by (simp only: e)
    then show "bit (drop_bit k x) n = bit (drop_bit k y) n"
      by (auto simp: bit_simps dest: bit_imp_le_length)
  qed
next
  assume e: "drop_bit k x = drop_bit k y"
  show "x AND push_bit k (- 1) = y AND push_bit k (- 1)"
  proof (rule bit_word_eqI)
    fix n assume n: "n < LENGTH('a)"
    have "bit (drop_bit k x) (n - k) = bit (drop_bit k y) (n - k)"
      by (simp only: e)
    then show "bit (x AND push_bit k (- 1)) n = bit (y AND push_bit k (- 1)) n"
      by (cases "k \<le> n") (auto simp: bit_simps)
  qed
qed

lemma drop_bit_all: "LENGTH('a::len) \<le> k \<Longrightarrow> drop_bit k (x :: 'a word) = 0"
  by (rule bit_word_eqI) (auto simp: bit_simps dest: bit_imp_le_length)

lemma contains_v4:
  "unat n \<le> 32 \<Longrightarrow> cidr_contains \<lparr>cd_network = V4 a, cd_prefix_len = n\<rparr> (V4 b)
    \<longleftrightarrow> drop_bit (32 - unat n) (ipv4_to_u32 a) = drop_bit (32 - unat n) (ipv4_to_u32 b)"
  by (auto simp: cidr_contains_def ipv4_mask_def and_mask_eq drop_bit_all
      simp del: push_bit_minus_one_eq_not_mask)

lemma contains_v6:
  "unat n \<le> 128 \<Longrightarrow> cidr_contains \<lparr>cd_network = V6 a, cd_prefix_len = n\<rparr> (V6 b)
    \<longleftrightarrow> drop_bit (128 - unat n) (ipv6_to_u128 a) = drop_bit (128 - unat n) (ipv6_to_u128 b)"
  by (auto simp: cidr_contains_def ipv6_mask_def and_mask_eq drop_bit_all
      simp del: push_bit_minus_one_eq_not_mask)

lemma parse_cidr_prefix:
  assumes "parse_cidr pattern = Some c"
  shows "unat (cd_prefix_len c) \<le> (case cd_network c of V4 _ \<Rightarrow> 32 | V6 _ \<Rightarrow> 128)"
proof -
  have u: "unat (word_of_nat n :: u8) = n" if "n \<le> 128" for n
    using that by (simp add: unat_of_nat take_bit_eq_mod)
  obtain net where "cd_network c = net" by simp
  with assms show ?thesis
    by (cases net) (auto simp: parse_cidr_def Let_def u bind_eq_Some_conv split: if_splits)
qed

lemma rule_action_Allow:
  "rule_action r = Allow \<longleftrightarrow> eq_ignore_ascii_case (ar_action r) (lit ''allow'')"
  by (simp add: rule_action_def)

section \<open>Properties\<close>

text \<open>
  C8. The decision is \<open>Allow\<close> exactly when the deciding rule says so, and the
  deciding rule is the matching one with the highest priority, the last of several. Without a
  matching rule the answer is \<open>Deny\<close>.
\<close>

theorem acl_decision_rule:
  "evaluate_acl rules user groups host port = Allow \<longleftrightarrow>
    (\<exists>pre r post. rules = pre @ r # post \<and> rule_matches r user groups host port
      \<and> eq_ignore_ascii_case (ar_action r) (lit ''allow'')
      \<and> (\<forall>x \<in> set pre. rule_matches x user groups host port \<longrightarrow> ar_priority x \<le> ar_priority r)
      \<and> (\<forall>x \<in> set post. rule_matches x user groups host port \<longrightarrow> ar_priority x < ar_priority r))"
proof -
  let ?P = "\<lambda>r. rule_matches r user groups host port"
  have "evaluate_acl rules user groups host port = Allow \<longleftrightarrow>
      (\<exists>r. decides ar_priority (filter ?P rules) r \<and> rule_action r = Allow)"
    by (cases "max_by_key ar_priority (filter ?P rules)")
      (auto simp: evaluate_acl_def max_by_key_iff [symmetric])
  also have "\<dots> \<longleftrightarrow> (\<exists>pre r post. rules = pre @ r # post \<and> ?P r \<and> rule_action r = Allow
      \<and> (\<forall>x \<in> set pre. ?P x \<longrightarrow> ar_priority x \<le> ar_priority r)
      \<and> (\<forall>x \<in> set post. ?P x \<longrightarrow> ar_priority x < ar_priority r))"
    unfolding decides_filter by blast
  finally show ?thesis unfolding rule_action_Allow .
qed

theorem acl_decision_rule_witness:
  "evaluate_acl [\<lparr>ar_id = 1, ar_priority = 10, ar_user_id = Some 42, ar_group_id = None,
       ar_target_host = Some (lit ''*''), ar_target_port = Some 3389, ar_action = lit ''Allow''\<rparr>,
     \<lparr>ar_id = 2, ar_priority = 20, ar_user_id = Some 7, ar_group_id = None,
       ar_target_host = None, ar_target_port = None, ar_action = lit ''deny''\<rparr>]
     42 [] (lit ''host'') 3389 = Allow"
  (is "evaluate_acl [?a, ?b] _ _ _ _ = _")
  unfolding acl_decision_rule
  by (rule exI [of _ "[]"], rule exI [of _ ?a], rule exI [of _ "[?b]"])
    (simp add: rule_matches_def host_matches_def eq_ignore_ascii_case_def to_ascii_lowercase_def
      lit_def ascii_lower_def)

text \<open>
  C35. The engine, which keeps its rules sorted by descending priority, decides
  as the unsorted rules do, after \<open>from_db\<close> and after \<open>reload\<close>: the stable sort keeps ties in
  order. A database error is passed on.
\<close>

theorem acl_engine_agrees:
  "check_access (acl_engine_reload engine rules) user groups host port
      = evaluate_acl rules user groups host port
   \<and> map_ok (\<lambda>e. check_access e user groups host port) (acl_engine_from_db db_rules)
      = map_ok (\<lambda>rs. evaluate_acl rs user groups host port) db_rules"
  by (cases db_rules)
    (simp_all add: check_access_def acl_engine_reload_def acl_engine_from_db_def evaluate_sorted)

lemma ipv4_string_chars: "c \<in> set (ipv4_to_string bs) \<Longrightarrow> c = 46 \<or> is_digit c"
proof (induction bs rule: ipv4_to_string.induct)
  case 1
  then show ?case by simp
next
  case (2 b)
  then show ?case using dec_digits_digits [of "unat b"] by (auto simp: list_all_iff)
next
  case (3 b v va)
  then show ?case using dec_digits_digits [of "unat b"] by (auto simp: list_all_iff)
qed

lemma split_once_append: "sep \<notin> set l \<Longrightarrow> split_once sep (l @ sep # r) = Some (l, r)"
  by (simp add: split_once_def takeWhile_append2 takeWhile_neq_append Let_def)

lemma parse_cidr_v4:
  assumes "length net = 4" and "n \<le> 32"
  shows "parse_cidr (ipv4_to_string net @ lit ''/'' @ dec_digits n)
    = Some \<lparr>cd_network = V4 net, cd_prefix_len = word_of_nat n\<rparr>"
proof -
  have "47 \<notin> set (ipv4_to_string net)"
    using ipv4_string_chars [of 47] by (auto simp: is_digit_def)
  then have "split_once 47 (ipv4_to_string net @ lit ''/'' @ dec_digits n)
      = Some (ipv4_to_string net, dec_digits n)"
    by (simp add: lit_def split_once_append)
  then show ?thesis
    using assms by (simp add: parse_cidr_def parse_ip_v4)
qed

text \<open>
  A host pattern \<open>a.b.c.d/n\<close> matches a dotted address exactly when the two
  addresses agree on their leading \<open>n\<close> bits, from the texts of both down to the masks.
\<close>

theorem cidr_pattern_v4:
  assumes "length net = 4" and "length ip = 4" and "n \<le> 32"
  shows "host_matches (ipv4_to_string net @ lit ''/'' @ dec_digits n) (ipv4_to_string ip)
    \<longleftrightarrow> drop_bit (32 - n) (of_be net :: u32) = drop_bit (32 - n) (of_be ip)"
proof -
  let ?pattern = "ipv4_to_string net @ lit ''/'' @ dec_digits n"
  have n: "unat (word_of_nat n :: u8) = n"
    using assms(3) by (simp add: unat_of_nat take_bit_eq_mod)
  have "parse_cidr ?pattern = Some \<lparr>cd_network = V4 net, cd_prefix_len = word_of_nat n\<rparr>"
    using assms(1,3) by (rule parse_cidr_v4)
  moreover have "?pattern \<noteq> lit ''*''"
    by (cases "ipv4_to_string net") (auto simp: lit_def)
  ultimately show ?thesis
    using assms contains_v4 [of "word_of_nat n" net ip]
    by (simp add: host_matches_def parse_ip_v4 n ipv4_to_u32_def)
qed

theorem cidr_pattern_v4_witness:
  "host_matches (ipv4_to_string [192, 168, 1, 0] @ lit ''/'' @ dec_digits 24)
      (ipv4_to_string [192, 168, 1, 42])
   \<and> \<not> host_matches (ipv4_to_string [192, 168, 1, 0] @ lit ''/'' @ dec_digits 24)
      (ipv4_to_string [192, 168, 2, 42])"
  using cidr_pattern_v4 [of "[192, 168, 1, 0]" "[192, 168, 1, 42]" 24]
    cidr_pattern_v4 [of "[192, 168, 1, 0]" "[192, 168, 2, 42]" 24]
  by (simp add: of_be_def)

text \<open>
  C24. Whatever pattern \<open>parse_cidr\<close> accepts, its prefix fits the address family (so
  no shift distance underflows), and membership is agreement on the leading prefix bits, never
  across families.
\<close>

theorem cidr_range:
  assumes "parse_cidr pattern = Some c"
  shows "unat (cd_prefix_len c) \<le> (case cd_network c of V4 _ \<Rightarrow> 32 | V6 _ \<Rightarrow> 128)
    \<and> cidr_contains c ip =
      (case (cd_network c, ip) of
         (V4 a, V4 b) \<Rightarrow> drop_bit (32 - unat (cd_prefix_len c)) (of_be a :: u32)
           = drop_bit (32 - unat (cd_prefix_len c)) (of_be b)
       | (V6 a, V6 b) \<Rightarrow> drop_bit (128 - unat (cd_prefix_len c)) (of_be a :: u128)
           = drop_bit (128 - unat (cd_prefix_len c)) (of_be b)
       | _ \<Rightarrow> False)"
proof -
  have len: "unat (cd_prefix_len c) \<le> (case cd_network c of V4 _ \<Rightarrow> 32 | V6 _ \<Rightarrow> 128)"
    using assms by (rule parse_cidr_prefix)
  have c: "c = \<lparr>cd_network = cd_network c, cd_prefix_len = cd_prefix_len c\<rparr>" by simp
  show ?thesis
  proof (cases "cd_network c"; cases ip)
    fix a b assume *: "cd_network c = V4 a" "ip = V4 b"
    show ?thesis using len contains_v4 [of "cd_prefix_len c" a b] *
      by (subst (2) c) (simp add: ipv4_to_u32_def)
  next
    fix a b assume *: "cd_network c = V6 a" "ip = V6 b"
    show ?thesis using len contains_v6 [of "cd_prefix_len c" a b] *
      by (subst (2) c) (simp add: ipv6_to_u128_def)
  qed (use len in \<open>simp_all add: cidr_contains_def\<close>)
qed

theorem cidr_range_witness:
  "cidr_contains \<lparr>cd_network = V4 [10, 0, 0, 0], cd_prefix_len = 8\<rparr> (V4 [10, 1, 2, 3])"
proof -
  have "parse_cidr (ipv4_to_string [10, 0, 0, 0] @ lit ''/'' @ dec_digits 8)
      = Some \<lparr>cd_network = V4 [10, 0, 0, 0], cd_prefix_len = word_of_nat 8\<rparr>"
    by (rule parse_cidr_v4) simp_all
  from cidr_range [OF this, of "V4 [10, 1, 2, 3]"] show ?thesis
    by (simp add: of_be_def)
qed

end
