(* ===== verification/Rpc.thy ===== *)
theory Rpc
  imports Prelude
begin

text \<open>
  \<open>crates/rdg-proto/src/rpc.rs\<close>: the DCE/RPC PDUs that carry TSG calls over the RPC-over-HTTP
  transport. A UUID is its 128-bit value; \<open>to_bytes_le\<close> writes its first three fields least
  significant byte first, as the documentation of the \<open>uuid\<close> crate says.
\<close>

abbreviation RPC_HEADER_SIZE :: nat where
  "RPC_HEADER_SIZE \<equiv> 16"

definition RPC_VERSION :: u8 where
  "RPC_VERSION = 5"

definition RPC_VERSION_MINOR :: u8 where
  "RPC_VERSION_MINOR = 0"

definition RPC_COMMON_DATA_REPRESENTATION :: bytes where
  "RPC_COMMON_DATA_REPRESENTATION = [0x10, 0x00, 0x00, 0x00]"

definition PFC_FIRST_FRAG :: u8 where
  "PFC_FIRST_FRAG = 0x01"

definition PFC_LAST_FRAG :: u8 where
  "PFC_LAST_FRAG = 0x02"

definition PFC_FIRST_AND_LAST_FRAG :: u8 where
  "PFC_FIRST_AND_LAST_FRAG = PFC_FIRST_FRAG OR PFC_LAST_FRAG"

definition DEFAULT_MAX_XMIT_FRAG :: u16 where
  "DEFAULT_MAX_XMIT_FRAG = 5840"

definition DEFAULT_MAX_RECV_FRAG :: u16 where
  "DEFAULT_MAX_RECV_FRAG = 5840"

definition BIND_FIXED_FIELDS_SIZE :: nat where
  "BIND_FIXED_FIELDS_SIZE = 12"

definition REQUEST_FIXED_FIELDS_SIZE :: nat where
  "REQUEST_FIXED_FIELDS_SIZE = 8"

definition RESPONSE_FIXED_FIELDS_SIZE :: nat where
  "RESPONSE_FIXED_FIELDS_SIZE = 8"

definition SYNTAX_ID_SIZE :: nat where
  "SYNTAX_ID_SIZE = 20"

lemmas rpc_sizes = BIND_FIXED_FIELDS_SIZE_def REQUEST_FIXED_FIELDS_SIZE_def
  RESPONSE_FIXED_FIELDS_SIZE_def SYNTAX_ID_SIZE_def

definition syntax_version :: "u16 \<Rightarrow> u16 \<Rightarrow> u32" where
  "syntax_version major minor = push_bit 16 (ucast minor) OR ucast major"

definition pad_to_4 :: "nat \<Rightarrow> nat" where
  "pad_to_4 len = (4 - (len mod 4)) mod 4"

lemma pad_to_4_less: "pad_to_4 len < 4"
  by (simp add: pad_to_4_def)

lemma pad_to_4_aligns: "(len + pad_to_4 len) mod 4 = 0"
proof -
  have "len mod 4 = 0 \<or> len mod 4 = 1 \<or> len mod 4 = 2 \<or> len mod 4 = 3" by linarith
  then have "(len mod 4 + pad_to_4 len) mod 4 = 0" by (auto simp: pad_to_4_def)
  then show ?thesis by (simp add: mod_add_left_eq)
qed

section \<open>UUIDs\<close>

definition uuid_swap :: "bytes \<Rightarrow> bytes" where
  "uuid_swap b = rev (take 4 b) @ rev (take 2 (drop 4 b)) @ rev (take 2 (drop 6 b)) @ drop 8 b"

definition uuid_to_bytes_le :: "u128 \<Rightarrow> bytes" where
  "uuid_to_bytes_le u = uuid_swap (be_bytes 16 u)"

definition uuid_from_bytes_le :: "bytes \<Rightarrow> u128" where
  "uuid_from_bytes_le b = of_be (uuid_swap b)"

lemma length_uuid_swap [simp]: "8 \<le> length b \<Longrightarrow> length (uuid_swap b) = length b"
  by (simp add: uuid_swap_def)

lemma uuid_swap_swap [simp]: "8 \<le> length b \<Longrightarrow> uuid_swap (uuid_swap b) = b"
proof -
  assume l: "8 \<le> length b"
  have "b = take 4 b @ take 2 (drop 4 b) @ take 2 (drop 6 b) @ drop 8 b"
    using append_take_drop_id [of 4 b] append_take_drop_id [of 2 "drop 4 b"]
      append_take_drop_id [of 2 "drop 6 b"] by simp
  with l show ?thesis by (simp add: uuid_swap_def)
qed

lemma length_uuid_to_bytes_le [simp]: "length (uuid_to_bytes_le u) = 16"
  by (simp add: uuid_to_bytes_le_def)

lemma uuid_from_to [simp]: "uuid_from_bytes_le (uuid_to_bytes_le u) = u"
  by (simp add: uuid_from_bytes_le_def uuid_to_bytes_le_def)

lemma uuid_to_from [simp]: "length b = 16 \<Longrightarrow> uuid_to_bytes_le (uuid_from_bytes_le b) = b"
  by (simp add: uuid_from_bytes_le_def uuid_to_bytes_le_def)

definition TSG_INTERFACE_UUID :: u128 where
  "TSG_INTERFACE_UUID = 0x44e265dd7daf42cd85603cdb6e7a2729"

definition TSG_INTERFACE_VERSION :: u32 where
  "TSG_INTERFACE_VERSION = syntax_version 1 3"

definition NDR_TRANSFER_SYNTAX_UUID :: u128 where
  "NDR_TRANSFER_SYNTAX_UUID = 0x8a885d041ceb11c99fe808002b104860"

definition NDR_TRANSFER_SYNTAX_VERSION :: u32 where
  "NDR_TRANSFER_SYNTAX_VERSION = syntax_version 2 0"

section \<open>PDU types and errors\<close>

datatype rpc_pdu_type =
    Request | Response | Bind | BindAck | BindNak | AlterContext | AlterContextResp

datatype rpc_error =
    BufferTooShort nat nat
  | UnknownPduType u8
  | UnexpectedPduType rpc_pdu_type rpc_pdu_type
  | InvalidVersion u8 u8
  | InvalidFragmentLength u16
  | InvalidContextCount u8
  | InvalidTransferSyntaxCount u8

fun rpc_pdu_type_code :: "rpc_pdu_type \<Rightarrow> u8" where
  "rpc_pdu_type_code Request = 0"
| "rpc_pdu_type_code Response = 2"
| "rpc_pdu_type_code Bind = 11"
| "rpc_pdu_type_code BindAck = 12"
| "rpc_pdu_type_code BindNak = 13"
| "rpc_pdu_type_code AlterContext = 14"
| "rpc_pdu_type_code AlterContextResp = 15"

definition rpc_pdu_type_from_u8 :: "u8 \<Rightarrow> rpc_pdu_type option" where
  "rpc_pdu_type_from_u8 v =
     (if v = 0 then Some Request
      else if v = 2 then Some Response
      else if v = 11 then Some Bind
      else if v = 12 then Some BindAck
      else if v = 13 then Some BindNak
      else if v = 14 then Some AlterContext
      else if v = 15 then Some AlterContextResp
      else None)"

lemma rpc_pdu_type_from_code [simp]: "rpc_pdu_type_from_u8 (rpc_pdu_type_code t) = Some t"
  by (cases t) (simp_all add: rpc_pdu_type_from_u8_def)

lemma rpc_pdu_type_from_Some: "rpc_pdu_type_from_u8 v = Some t \<longleftrightarrow> v = rpc_pdu_type_code t"
proof
  assume "rpc_pdu_type_from_u8 v = Some t"
  then show "v = rpc_pdu_type_code t" by (auto simp: rpc_pdu_type_from_u8_def split: if_splits)
qed simp

section \<open>The common header\<close>

record rpc_header =
  rh_vers :: u8
  rh_vers_minor :: u8
  rh_ptype :: rpc_pdu_type
  rh_pfc_flags :: u8
  rh_packed_drep :: bytes
  rh_frag_length :: u16
  rh_auth_length :: u16
  rh_call_id :: u32

definition rpc_header_new :: "rpc_pdu_type \<Rightarrow> u8 \<Rightarrow> u16 \<Rightarrow> u16 \<Rightarrow> u32 \<Rightarrow> rpc_header" where
  "rpc_header_new ptype pfc_flags frag_length auth_length call_id =
     \<lparr>rh_vers = RPC_VERSION, rh_vers_minor = RPC_VERSION_MINOR, rh_ptype = ptype,
      rh_pfc_flags = pfc_flags, rh_packed_drep = RPC_COMMON_DATA_REPRESENTATION,
      rh_frag_length = frag_length, rh_auth_length = auth_length, rh_call_id = call_id\<rparr>"

definition rpc_header_parse :: "bytes \<Rightarrow> (rpc_error, rpc_header) outcome" where
  "rpc_header_parse buf =
     (if length buf < RPC_HEADER_SIZE then Err (BufferTooShort RPC_HEADER_SIZE (length buf))
      else
        rbind (get_u8 buf) (\<lambda>(rpc_vers, r).
        rbind (get_u8 r) (\<lambda>(rpc_vers_minor, r).
        if rpc_vers \<noteq> RPC_VERSION \<or> rpc_vers_minor \<noteq> RPC_VERSION_MINOR
        then Err (InvalidVersion rpc_vers rpc_vers_minor)
        else
          rbind (get_u8 r) (\<lambda>(t, r).
          rbind (index_byte buf 2) (\<lambda>buf2.
          rbind (ok_or (UnknownPduType buf2) (rpc_pdu_type_from_u8 t)) (\<lambda>ptype.
          rbind (get_u8 r) (\<lambda>(pfc_flags, r).
          rbind (get_bytes 4 r) (\<lambda>(packed_drep, r).
          rbind (get_u16_le r) (\<lambda>(frag_length, r).
          if unat frag_length < RPC_HEADER_SIZE then Err (InvalidFragmentLength frag_length)
          else if length buf < unat frag_length
            then Err (BufferTooShort (unat frag_length) (length buf))
          else
            rbind (get_u16_le r) (\<lambda>(auth_length, r).
            rbind (get_u32_le r) (\<lambda>(call_id, r).
            Ok \<lparr>rh_vers = rpc_vers, rh_vers_minor = rpc_vers_minor, rh_ptype = ptype,
                rh_pfc_flags = pfc_flags, rh_packed_drep = packed_drep,
                rh_frag_length = frag_length, rh_auth_length = auth_length,
                rh_call_id = call_id\<rparr>)))))))))))"

definition rpc_header_write :: "rpc_header \<Rightarrow> bytes" where
  "rpc_header_write h =
     put_u8 (rh_vers h) @ put_u8 (rh_vers_minor h) @ put_u8 (rpc_pdu_type_code (rh_ptype h))
     @ put_u8 (rh_pfc_flags h) @ rh_packed_drep h @ put_u16_le (rh_frag_length h)
     @ put_u16_le (rh_auth_length h) @ put_u32_le (rh_call_id h)"

text \<open>What a header read from the wire looks like.\<close>

definition rpc_header_ok :: "rpc_header \<Rightarrow> bool" where
  "rpc_header_ok h \<longleftrightarrow> rh_vers h = RPC_VERSION \<and> rh_vers_minor h = RPC_VERSION_MINOR
     \<and> length (rh_packed_drep h) = 4 \<and> 16 \<le> unat (rh_frag_length h)"

lemma length_rpc_header_write [simp]: "rpc_header_ok h \<Longrightarrow> length (rpc_header_write h) = 16"
  by (simp add: rpc_header_write_def rpc_header_ok_def)

lemma rpc_header_parse_write:
  assumes "rpc_header_ok h" and "unat (rh_frag_length h) \<le> 16 + length rest"
  shows "rpc_header_parse (rpc_header_write h @ rest) = Ok h"
proof -
  have "index_byte (rpc_header_write h @ rest) 2 = (Ok i :: (rpc_error, u8) outcome)"
    if "i = (rpc_header_write h @ rest) ! 2" for i
    using assms(1) that by (simp add: index_byte_def)
  then show ?thesis
    using assms
    by (simp add: rpc_header_parse_def rpc_header_ok_def rpc_header_write_def not_le)
qed

lemma rpc_header_parse_no_panic [simp, no_panic]: "rpc_header_parse buf \<noteq> Panic"
  by (auto simp: rpc_header_parse_def get_enough rbind_eq_Panic)

lemma rpc_header_parse_Ok:
  assumes "rpc_header_parse buf = Ok h"
  obtains r where "buf = rpc_header_write h @ r" and "rpc_header_ok h"
    and "unat (rh_frag_length h) \<le> length buf"
  using assms
  by (auto simp: rpc_header_parse_def parse_inv rpc_pdu_type_from_Some rpc_header_write_def
      rpc_header_ok_def split: if_splits)

section \<open>Syntax identifiers\<close>

record syntax_id =
  sy_uuid :: u128
  sy_version :: u32

definition syntax_id_tsg :: syntax_id where
  "syntax_id_tsg = \<lparr>sy_uuid = TSG_INTERFACE_UUID, sy_version = TSG_INTERFACE_VERSION\<rparr>"

definition syntax_id_ndr :: syntax_id where
  "syntax_id_ndr = \<lparr>sy_uuid = NDR_TRANSFER_SYNTAX_UUID, sy_version = NDR_TRANSFER_SYNTAX_VERSION\<rparr>"

definition syntax_id_parse :: "bytes \<Rightarrow> (rpc_error, syntax_id \<times> bytes) outcome" where
  "syntax_id_parse buf =
     (if length buf < SYNTAX_ID_SIZE then Err (BufferTooShort SYNTAX_ID_SIZE (length buf))
      else
        rbind (get_bytes 16 buf) (\<lambda>(uuid_bytes, r).
        rbind (get_u32_le r) (\<lambda>(version, r).
        Ok (\<lparr>sy_uuid = uuid_from_bytes_le uuid_bytes, sy_version = version\<rparr>, r))))"

definition syntax_id_write :: "syntax_id \<Rightarrow> bytes" where
  "syntax_id_write s = uuid_to_bytes_le (sy_uuid s) @ put_u32_le (sy_version s)"

lemma length_syntax_id_write [simp]: "length (syntax_id_write s) = 20"
  by (simp add: syntax_id_write_def)

lemma syntax_id_roundtrip [simp]: "syntax_id_parse (syntax_id_write s @ r) = Ok (s, r)"
  by (simp add: syntax_id_parse_def syntax_id_write_def rpc_sizes)

lemma syntax_id_parse_no_panic [simp, no_panic]: "syntax_id_parse buf \<noteq> Panic"
  by (auto simp: syntax_id_parse_def get_enough rbind_eq_Panic rpc_sizes)

section \<open>Bind\<close>

record bind_pdu =
  bp_header :: rpc_header
  bp_max_xmit_frag :: u16
  bp_max_recv_frag :: u16
  bp_assoc_group_id :: u32
  bp_num_contexts :: u8
  bp_context_id :: u16
  bp_num_transfer_syntaxes :: u8
  bp_abstract_syntax :: syntax_id
  bp_transfer_syntax :: syntax_id

text \<open>
  The inner loop over the transfer syntaxes of a context: \<open>left\<close> of them are still to be read,
  the next has index \<open>transfer_index\<close>, and the first one is kept.
\<close>

fun bind_transfers ::
  "nat \<Rightarrow> nat \<Rightarrow> syntax_id option \<Rightarrow> bytes \<Rightarrow> (rpc_error, syntax_id option \<times> bytes) outcome" where
  "bind_transfers 0 transfer_index transfer_syntax r = Ok (transfer_syntax, r)"
| "bind_transfers (Suc left) transfer_index transfer_syntax r =
     rbind (syntax_id_parse r) (\<lambda>(parsed, r).
     bind_transfers left (transfer_index + 1)
       (if transfer_index = 0 then Some parsed else transfer_syntax) r)"

text \<open>The fields the outer loop keeps of the first context.\<close>

record bind_first =
  bf_context_id :: u16
  bf_num_transfer_syntaxes :: u8
  bf_abstract_syntax :: "syntax_id option"
  bf_transfer_syntax :: "syntax_id option"

fun bind_contexts ::
  "nat \<Rightarrow> nat \<Rightarrow> bind_first \<Rightarrow> bytes \<Rightarrow> (rpc_error, bind_first) outcome" where
  "bind_contexts 0 context_index first r = Ok first"
| "bind_contexts (Suc left) context_index first r =
     (if length r < 4 then Err (BufferTooShort 4 (length r))
      else
        rbind (get_u16_le r) (\<lambda>(context_id, r).
        rbind (get_u8 r) (\<lambda>(num_transfer_syntaxes, r).
        if num_transfer_syntaxes = 0
        then Err (InvalidTransferSyntaxCount num_transfer_syntaxes)
        else
          rbind (advance 1 r) (\<lambda>r.
          rbind (syntax_id_parse r) (\<lambda>(abstract_syntax, r).
          rbind (bind_transfers (unat num_transfer_syntaxes) 0 None r) (\<lambda>(transfer_syntax, r).
          bind_contexts left (context_index + 1)
            (if context_index = 0 then
               \<lparr>bf_context_id = context_id, bf_num_transfer_syntaxes = num_transfer_syntaxes,
                bf_abstract_syntax = Some abstract_syntax,
                bf_transfer_syntax = transfer_syntax\<rparr>
             else first) r))))))"

definition bind_pdu_parse :: "bytes \<Rightarrow> (rpc_error, bind_pdu) outcome" where
  "bind_pdu_parse buf =
     rbind (rpc_header_parse buf) (\<lambda>header.
     if rh_ptype header \<noteq> Bind then Err (UnexpectedPduType Bind (rh_ptype header))
     else
       rbind (ok_or (InvalidFragmentLength (rh_frag_length header))
           (if unat (rh_auth_length header) \<le> unat (rh_frag_length header)
            then Some (unat (rh_frag_length header) - unat (rh_auth_length header)) else None))
         (\<lambda>body_end.
       if body_end < RPC_HEADER_SIZE + BIND_FIXED_FIELDS_SIZE
       then Err (BufferTooShort (RPC_HEADER_SIZE + BIND_FIXED_FIELDS_SIZE) body_end)
       else
         rbind (slice RPC_HEADER_SIZE body_end buf) (\<lambda>r.
         rbind (get_u16_le r) (\<lambda>(max_xmit_frag, r).
         rbind (get_u16_le r) (\<lambda>(max_recv_frag, r).
         rbind (get_u32_le r) (\<lambda>(assoc_group_id, r).
         rbind (get_u8 r) (\<lambda>(num_contexts, r).
         if num_contexts = 0 then Err (InvalidContextCount num_contexts)
         else
           rbind (advance 3 r) (\<lambda>r.
           rbind (bind_contexts (unat num_contexts) 0
               \<lparr>bf_context_id = 0, bf_num_transfer_syntaxes = 0, bf_abstract_syntax = None,
                bf_transfer_syntax = None\<rparr> r) (\<lambda>first.
           rbind (ok_or (InvalidContextCount 0) (bf_abstract_syntax first)) (\<lambda>abstract_syntax.
           rbind (ok_or (InvalidTransferSyntaxCount 0) (bf_transfer_syntax first))
             (\<lambda>transfer_syntax.
           Ok \<lparr>bp_header = header, bp_max_xmit_frag = max_xmit_frag,
               bp_max_recv_frag = max_recv_frag, bp_assoc_group_id = assoc_group_id,
               bp_num_contexts = num_contexts, bp_context_id = bf_context_id first,
               bp_num_transfer_syntaxes = bf_num_transfer_syntaxes first,
               bp_abstract_syntax = abstract_syntax,
               bp_transfer_syntax = transfer_syntax\<rparr>)))))))))))"

definition is_tsg_bind :: "bind_pdu \<Rightarrow> bool" where
  "is_tsg_bind self \<longleftrightarrow>
     bp_abstract_syntax self = syntax_id_tsg \<and> bp_transfer_syntax self = syntax_id_ndr"

section \<open>Bind acknowledgement, request, response\<close>

record bind_ack_pdu =
  ba_header :: rpc_header
  ba_max_xmit_frag :: u16
  ba_max_recv_frag :: u16
  ba_assoc_group_id :: u32
  ba_sec_addr :: bytes
  ba_result :: u16
  ba_reason :: u16
  ba_transfer_syntax :: syntax_id

definition bind_ack_accepted :: "u32 \<Rightarrow> u32 \<Rightarrow> bytes \<Rightarrow> bind_ack_pdu" where
  "bind_ack_accepted call_id assoc_group_id sec_addr =
     \<lparr>ba_header = rpc_header_new BindAck PFC_FIRST_AND_LAST_FRAG 0 0 call_id,
      ba_max_xmit_frag = DEFAULT_MAX_XMIT_FRAG, ba_max_recv_frag = DEFAULT_MAX_RECV_FRAG,
      ba_assoc_group_id = assoc_group_id, ba_sec_addr = sec_addr, ba_result = 0, ba_reason = 0,
      ba_transfer_syntax = syntax_id_ndr\<rparr>"

definition bind_ack_encode :: "bind_ack_pdu \<Rightarrow> bytes" where
  "bind_ack_encode self =
     (let sec_addr_len = length (ba_sec_addr self);
          sec_addr_padding = pad_to_4 (2 + sec_addr_len);
          frag_length = RPC_HEADER_SIZE + 2 + 2 + 4 + 2 + sec_addr_len + sec_addr_padding
            + 1 + 3 + 2 + 2 + SYNTAX_ID_SIZE
      in rpc_header_write ((ba_header self)
           \<lparr>rh_frag_length := word_of_nat frag_length, rh_auth_length := 0\<rparr>)
         @ put_u16_le (ba_max_xmit_frag self) @ put_u16_le (ba_max_recv_frag self)
         @ put_u32_le (ba_assoc_group_id self) @ put_u16_le (word_of_nat sec_addr_len)
         @ ba_sec_addr self @ replicate sec_addr_padding 0
         @ put_u8 1 @ [0, 0, 0] @ put_u16_le (ba_result self) @ put_u16_le (ba_reason self)
         @ syntax_id_write (ba_transfer_syntax self))"

record request_pdu =
  rq_header :: rpc_header
  rq_alloc_hint :: u32
  rq_context_id :: u16
  rq_opnum :: u16
  rq_stub_data :: bytes

definition request_pdu_parse :: "bytes \<Rightarrow> (rpc_error, request_pdu) outcome" where
  "request_pdu_parse buf =
     rbind (rpc_header_parse buf) (\<lambda>header.
     if rh_ptype header \<noteq> Request then Err (UnexpectedPduType Request (rh_ptype header))
     else
       rbind (ok_or (InvalidFragmentLength (rh_frag_length header))
           (if unat (rh_auth_length header) \<le> unat (rh_frag_length header)
            then Some (unat (rh_frag_length header) - unat (rh_auth_length header)) else None))
         (\<lambda>body_end.
       let needed = RPC_HEADER_SIZE + REQUEST_FIXED_FIELDS_SIZE
       in if body_end < needed then Err (BufferTooShort needed body_end)
       else
         rbind (slice RPC_HEADER_SIZE body_end buf) (\<lambda>r.
         rbind (get_u32_le r) (\<lambda>(alloc_hint, r).
         rbind (get_u16_le r) (\<lambda>(context_id, r).
         rbind (get_u16_le r) (\<lambda>(opnum, r).
         Ok \<lparr>rq_header = header, rq_alloc_hint = alloc_hint, rq_context_id = context_id,
             rq_opnum = opnum, rq_stub_data = r\<rparr>))))))"

record response_pdu =
  rs_header :: rpc_header
  rs_alloc_hint :: u32
  rs_context_id :: u16
  rs_cancel_count :: u8
  rs_reserved :: u8
  rs_stub_data :: bytes

definition response_pdu_new :: "u32 \<Rightarrow> u16 \<Rightarrow> bytes \<Rightarrow> response_pdu" where
  "response_pdu_new call_id context_id stub_data =
     \<lparr>rs_header = rpc_header_new Response PFC_FIRST_AND_LAST_FRAG 0 0 call_id,
      rs_alloc_hint = word_of_nat (length stub_data), rs_context_id = context_id,
      rs_cancel_count = 0, rs_reserved = 0, rs_stub_data = stub_data\<rparr>"

definition response_pdu_encode :: "response_pdu \<Rightarrow> bytes" where
  "response_pdu_encode self =
     (let frag_length = RPC_HEADER_SIZE + RESPONSE_FIXED_FIELDS_SIZE + length (rs_stub_data self)
      in rpc_header_write ((rs_header self)
           \<lparr>rh_frag_length := word_of_nat frag_length, rh_auth_length := 0\<rparr>)
         @ put_u32_le (rs_alloc_hint self) @ put_u16_le (rs_context_id self)
         @ put_u8 (rs_cancel_count self) @ put_u8 (rs_reserved self) @ rs_stub_data self)"

section \<open>The contract of an encoder\<close>

text \<open>
  \<open>rpc_encoder\<close>: an encoder writes the message's header, completed with the length of the PDU
  and no authentication data, and then a body of the announced length. What a receiver can rely
  on follows for every encoder at once.
\<close>

locale rpc_encoder =
  fixes emit :: "'m \<Rightarrow> bytes" and header :: "'m \<Rightarrow> rpc_header" and body :: "'m \<Rightarrow> bytes"
  assumes emits: "emit m = rpc_header_write ((header m)
      \<lparr>rh_frag_length := word_of_nat (16 + length (body m)), rh_auth_length := 0\<rparr>) @ body m"
begin

definition wire_header :: "'m \<Rightarrow> rpc_header" where
  "wire_header m =
     (header m)\<lparr>rh_frag_length := word_of_nat (16 + length (body m)), rh_auth_length := 0\<rparr>"

definition fits :: "'m \<Rightarrow> bool" where
  "fits m \<longleftrightarrow> rh_vers (header m) = RPC_VERSION \<and> rh_vers_minor (header m) = RPC_VERSION_MINOR
     \<and> length (rh_packed_drep (header m)) = 4 \<and> 16 + length (body m) < 2 ^ 16"

lemma unat_len: "fits m \<Longrightarrow> unat (word_of_nat (16 + length (body m)) :: u16) = 16 + length (body m)"
  by (simp add: fits_def unat_of_nat take_bit_eq_mod del: of_nat_add)

lemma wire_ok: "fits m \<Longrightarrow> rpc_header_ok (wire_header m)"
  by (simp add: rpc_header_ok_def wire_header_def unat_len del: of_nat_add) (simp add: fits_def)

lemma reads_header: "fits m \<Longrightarrow> rpc_header_parse (emit m @ rest) = Ok (wire_header m)"
proof -
  assume m: "fits m"
  have "rpc_header_parse (rpc_header_write (wire_header m) @ body m @ rest) = Ok (wire_header m)"
    by (rule rpc_header_parse_write [OF wire_ok [OF m]])
      (simp add: wire_header_def unat_len [OF m] del: of_nat_add)
  then show ?thesis by (simp add: emits wire_header_def)
qed

lemma length_emit: "fits m \<Longrightarrow> length (emit m) = unat (rh_frag_length (wire_header m))"
proof -
  assume m: "fits m"
  have "length (emit m) = length (rpc_header_write (wire_header m)) + length (body m)"
    by (simp add: emits wire_header_def)
  also have "\<dots> = 16 + length (body m)" by (simp add: wire_ok m)
  finally show ?thesis using m by (simp add: wire_header_def unat_len del: of_nat_add)
qed

end

interpretation bind_ack: rpc_encoder bind_ack_encode ba_header
  "\<lambda>m. put_u16_le (ba_max_xmit_frag m) @ put_u16_le (ba_max_recv_frag m)
     @ put_u32_le (ba_assoc_group_id m) @ put_u16_le (word_of_nat (length (ba_sec_addr m)))
     @ ba_sec_addr m @ replicate (pad_to_4 (2 + length (ba_sec_addr m))) 0
     @ put_u8 1 @ [0, 0, 0] @ put_u16_le (ba_result m) @ put_u16_le (ba_reason m)
     @ syntax_id_write (ba_transfer_syntax m)"
  by unfold_locales (simp add: bind_ack_encode_def Let_def rpc_sizes algebra_simps)

interpretation response: rpc_encoder response_pdu_encode rs_header
  "\<lambda>m. put_u32_le (rs_alloc_hint m) @ put_u16_le (rs_context_id m)
     @ put_u8 (rs_cancel_count m) @ put_u8 (rs_reserved m) @ rs_stub_data m"
  by unfold_locales (simp add: response_pdu_encode_def Let_def rpc_sizes algebra_simps)

section \<open>Properties\<close>

lemma bind_transfers_no_panic [simp, no_panic]: "bind_transfers n i acc r \<noteq> Panic"
  by (induction n arbitrary: i acc r) (auto simp: rbind_eq_Panic)

lemma bind_contexts_no_panic [simp, no_panic]: "bind_contexts n i first r \<noteq> Panic"
  by (induction n arbitrary: i first r) (auto simp: rbind_eq_Panic get_enough)

text \<open>
  No input makes a PDU parser read outside its buffer: header, bind and
  request parsing end in a value or an error on every byte string.
\<close>

theorem rpc_parsers_total:
  "rpc_header_parse buf \<noteq> Panic \<and> bind_pdu_parse buf \<noteq> Panic \<and> request_pdu_parse buf \<noteq> Panic"
proof (intro conjI)
  have len: "rpc_header_parse buf = Ok h \<Longrightarrow> unat (rh_frag_length h) \<le> length buf" for h
    by (erule rpc_header_parse_Ok) simp
  show "bind_pdu_parse buf \<noteq> Panic"
    by (auto simp: bind_pdu_parse_def rbind_eq_Panic get_eq_Panic get_enough rpc_sizes
        split: if_splits dest!: len)
  show "request_pdu_parse buf \<noteq> Panic"
    by (auto simp: request_pdu_parse_def rbind_eq_Panic get_eq_Panic get_enough rpc_sizes Let_def
        split: if_splits dest!: len)
qed simp

text \<open>A presentation context as the wire has it: identifier, abstract syntax, transfer syntaxes.\<close>

type_synonym bind_ctx = "u16 \<times> u8 \<times> syntax_id \<times> syntax_id list"

definition ctx_bytes :: "bind_ctx \<Rightarrow> bytes" where
  "ctx_bytes c = (case c of (cid, reserved, asyn, transfers) \<Rightarrow>
     put_u16_le cid @ put_u8 (word_of_nat (length transfers)) @ [reserved]
     @ syntax_id_write asyn @ concat (map syntax_id_write transfers))"

definition ctx_ok :: "bind_ctx \<Rightarrow> bool" where
  "ctx_ok c = (case c of (_, _, _, transfers) \<Rightarrow> transfers \<noteq> [] \<and> length transfers < 256)"

lemma bind_transfers_write:
  "bind_transfers (length ts) i acc (concat (map syntax_id_write ts) @ r)
    = Ok (if i = 0 \<and> ts \<noteq> [] then Some (hd ts) else acc, r)"
  by (induction ts arbitrary: i acc) auto

lemma bind_contexts_write:
  "\<forall>c \<in> set cs. ctx_ok c \<Longrightarrow>
    bind_contexts (length cs) i first (concat (map ctx_bytes cs) @ r)
    = Ok (if i = 0 \<and> cs \<noteq> [] then
            (case hd cs of (cid, _, asyn, ts) \<Rightarrow>
               \<lparr>bf_context_id = cid, bf_num_transfer_syntaxes = word_of_nat (length ts),
                bf_abstract_syntax = Some asyn, bf_transfer_syntax = Some (hd ts)\<rparr>)
          else first)"
proof (induction cs arbitrary: i first)
  case Nil
  then show ?case by simp
next
  case (Cons c cs)
  obtain cid res asyn ts where c: "c = (cid, res, asyn, ts)" by (cases c)
  have ts: "ts \<noteq> []" "length ts < 256" using Cons.prems by (auto simp: c ctx_ok_def)
  have u: "unat (word_of_nat (length ts) :: u8) = length ts" using ts(2) by (rule unat_of_nat8)
  then have nz: "(word_of_nat (length ts) :: u8) \<noteq> 0"
    using ts(1) by (metis length_0_conv unat_0)
  show ?case
    using Cons ts
    by (simp add: c ctx_bytes_def nz u bind_transfers_write get_enough)
qed

lemma frag_slice:
  assumes "rpc_header_ok h" and "length body = n - 16" and "16 \<le> n"
  shows "slice 16 n (rpc_header_write h @ body @ rest) = Ok body"
  by (rule slice_append) (simp_all add: assms)

definition bind_body :: "u16 \<Rightarrow> u16 \<Rightarrow> u32 \<Rightarrow> bytes \<Rightarrow> bind_ctx list \<Rightarrow> bytes" where
  "bind_body xmit recv assoc reserved cs =
     put_u16_le xmit @ put_u16_le recv @ put_u32_le assoc @ put_u8 (word_of_nat (length cs))
     @ reserved @ concat (map ctx_bytes cs)"

text \<open>
  A well-formed bind with any number of contexts, each with any number of
  transfer syntaxes, is read whole, and what is kept is the first context and its first transfer
  syntax; so a bind counts as a TSG bind exactly when those two are the TSG and NDR ones.
\<close>

theorem bind_first_context:
  assumes "rpc_header_ok h" and "rh_ptype h = Bind" and "length reserved = 3"
    and "cs = (cid, res, asyn, t # ts) # cs'" and "length cs < 256" and "\<forall>c \<in> set cs. ctx_ok c"
    and "unat (rh_frag_length h) = 16 + length (bind_body xmit recv assoc reserved cs) + length auth"
    and "unat (rh_auth_length h) = length auth"
  shows "\<exists>p. bind_pdu_parse (rpc_header_write h @ bind_body xmit recv assoc reserved cs @ auth @ rest)
      = Ok p
    \<and> bp_header p = h \<and> bp_assoc_group_id p = assoc \<and> bp_context_id p = cid
    \<and> unat (bp_num_contexts p) = length cs
    \<and> bp_abstract_syntax p = asyn \<and> bp_transfer_syntax p = t
    \<and> (is_tsg_bind p \<longleftrightarrow> asyn = syntax_id_tsg \<and> t = syntax_id_ndr)"
proof -
  let ?b = "bind_body xmit recv assoc reserved cs"
  have hp: "rpc_header_parse (rpc_header_write h @ ?b @ auth @ rest) = Ok h"
    using assms(1,7) by (intro rpc_header_parse_write) simp_all
  have be: "unat (rh_frag_length h) - unat (rh_auth_length h) = 16 + length ?b"
    "unat (rh_auth_length h) \<le> unat (rh_frag_length h)"
    using assms(7,8) by simp_all
  have sl: "slice 16 (16 + length ?b) (rpc_header_write h @ ?b @ auth @ rest) = Ok ?b"
    using assms(1) by (intro frag_slice) simp_all
  have n: "unat (word_of_nat (length cs) :: u8) = length cs"
    using assms(5) by (rule unat_of_nat8)
  then have nz: "(word_of_nat (length cs) :: u8) \<noteq> 0"
    using assms(4) by (metis length_Cons nat.distinct(1) unat_0)
  have long: "\<not> 16 + length ?b < 16 + 12" using assms(3) by (simp add: bind_body_def)
  have bc: "bind_contexts (length cs) 0 first (concat (map ctx_bytes cs))
      = Ok \<lparr>bf_context_id = cid, bf_num_transfer_syntaxes = word_of_nat (length (t # ts)),
           bf_abstract_syntax = Some asyn, bf_transfer_syntax = Some t\<rparr>" for first
    using bind_contexts_write [OF assms(6), of 0 first "[]"] assms(4) by simp
  show ?thesis
    using nz n bc assms(2,3) long unfolding bind_pdu_parse_def hp
    by (simp add: be sl rpc_sizes) (simp add: bind_body_def is_tsg_bind_def)
qed

theorem bind_first_context_witness:
  "\<exists>p. bind_pdu_parse (rpc_header_write (rpc_header_new Bind 3 72 0 7)
      @ bind_body 5840 5840 0 [0, 0, 0] [(0, 0, syntax_id_tsg, [syntax_id_ndr])] @ [] @ []) = Ok p
    \<and> is_tsg_bind p"
proof -
  have "rpc_header_ok (rpc_header_new Bind 3 72 0 7)"
    by (simp add: rpc_header_ok_def rpc_header_new_def RPC_COMMON_DATA_REPRESENTATION_def)
  from bind_first_context [OF this, of "[0, 0, 0]" "[(0, 0, syntax_id_tsg, [syntax_id_ndr])]"
      0 0 syntax_id_tsg syntax_id_ndr "[]" "[]" 5840 5840 0 "[]" "[]"]
  show ?thesis
    by (auto simp: rpc_header_new_def ctx_ok_def bind_body_def ctx_bytes_def)
qed

text \<open>
  A request PDU gives its caller the identifiers and exactly the stub bytes:
  neither the authentication trailer nor bytes of a following PDU are part of them.
\<close>

theorem rpc_request_stub:
  assumes "rpc_header_ok h" and "rh_ptype h = Request"
    and "unat (rh_frag_length h) = 24 + length stub + length auth"
    and "unat (rh_auth_length h) = length auth"
  shows "request_pdu_parse (rpc_header_write h @ put_u32_le hint @ put_u16_le cid @ put_u16_le op
      @ stub @ auth @ rest)
    = Ok \<lparr>rq_header = h, rq_alloc_hint = hint, rq_context_id = cid, rq_opnum = op,
        rq_stub_data = stub\<rparr>"
proof -
  let ?b = "put_u32_le hint @ put_u16_le cid @ put_u16_le op @ stub"
  have hp: "rpc_header_parse (rpc_header_write h @ ?b @ auth @ rest) = Ok h"
    using assms by (intro rpc_header_parse_write) simp_all
  have be: "unat (rh_frag_length h) - unat (rh_auth_length h) = 24 + length stub"
    "unat (rh_auth_length h) \<le> unat (rh_frag_length h)"
    using assms by simp_all
  have sl: "slice 16 (24 + length stub) (rpc_header_write h @ ?b @ auth @ rest) = Ok ?b"
    using assms(1) by (intro frag_slice) simp_all
  have "request_pdu_parse (rpc_header_write h @ ?b @ auth @ rest)
      = Ok \<lparr>rq_header = h, rq_alloc_hint = hint, rq_context_id = cid, rq_opnum = op,
          rq_stub_data = stub\<rparr>"
    unfolding request_pdu_parse_def hp using assms(2) by (simp add: be sl [simplified] rpc_sizes)
  then show ?thesis by simp
qed

theorem rpc_request_stub_witness:
  "request_pdu_parse (rpc_header_write (rpc_header_new Request 3 28 2 7) @ put_u32_le 2
      @ put_u16_le 0 @ put_u16_le 4 @ [8, 9] @ [1, 2] @ [5])
    = Ok \<lparr>rq_header = rpc_header_new Request 3 28 2 7, rq_alloc_hint = 2, rq_context_id = 0,
        rq_opnum = 4, rq_stub_data = [8, 9]\<rparr>"
  by (rule rpc_request_stub)
    (simp_all add: rpc_header_ok_def rpc_header_new_def RPC_COMMON_DATA_REPRESENTATION_def)

lemma response_fits:
  "length stub < 65512 \<Longrightarrow> response.fits (response_pdu_new call cid stub)"
  unfolding response.fits_def
  by (simp add: response_pdu_new_def rpc_header_new_def RPC_COMMON_DATA_REPRESENTATION_def)

lemma bind_ack_fits:
  "length addr < 65400 \<Longrightarrow> bind_ack.fits (bind_ack_accepted call assoc addr)"
  unfolding bind_ack.fits_def
  using pad_to_4_less [of "2 + length addr"]
  by (simp add: bind_ack_accepted_def rpc_header_new_def RPC_COMMON_DATA_REPRESENTATION_def)

lemma response_reads:
  assumes "length stub < 65512"
  shows "\<exists>h. rpc_header_parse (response_pdu_encode (response_pdu_new call cid stub) @ rest) = Ok h
      \<and> rh_ptype h = Response \<and> rh_call_id h = call
      \<and> unat (rh_frag_length h) = length (response_pdu_encode (response_pdu_new call cid stub))"
proof -
  let ?r = "response_pdu_new call cid stub"
  have r: "response.fits ?r" using assms by (rule response_fits)
  have "rh_ptype (response.wire_header ?r) = Response" "rh_call_id (response.wire_header ?r) = call"
    unfolding response.wire_header_def by (simp_all add: response_pdu_new_def rpc_header_new_def)
  then show ?thesis
    using response.reads_header [OF r] response.length_emit [OF r]
    by (intro exI [of _ "response.wire_header ?r"] conjI) (simp_all only:)
qed

lemma bind_ack_reads:
  assumes "length addr < 65400"
  shows "\<exists>h. rpc_header_parse (bind_ack_encode (bind_ack_accepted call assoc addr) @ rest) = Ok h
      \<and> rh_ptype h = BindAck \<and> rh_call_id h = call
      \<and> unat (rh_frag_length h) = length (bind_ack_encode (bind_ack_accepted call assoc addr))"
proof -
  let ?b = "bind_ack_accepted call assoc addr"
  have b: "bind_ack.fits ?b" using assms by (rule bind_ack_fits)
  have "rh_ptype (bind_ack.wire_header ?b) = BindAck" "rh_call_id (bind_ack.wire_header ?b) = call"
    unfolding bind_ack.wire_header_def by (simp_all add: bind_ack_accepted_def rpc_header_new_def)
  then show ?thesis
    using bind_ack.reads_header [OF b] bind_ack.length_emit [OF b]
    by (intro exI [of _ "bind_ack.wire_header ?b"] conjI) (simp_all only:)
qed

text \<open>
  The two PDUs the server sends, a bind acknowledgement and a response, start
  with a header that names their type and call and announces exactly their length; the padding
  after the secondary address puts the result list of an acknowledgement on a multiple of four.
\<close>

theorem rpc_replies_framed:
  assumes "length stub < 65512" and "length addr < 65400"
  shows "(\<exists>h. rpc_header_parse (response_pdu_encode (response_pdu_new call cid stub) @ rest) = Ok h
      \<and> rh_ptype h = Response \<and> rh_call_id h = call
      \<and> unat (rh_frag_length h) = length (response_pdu_encode (response_pdu_new call cid stub)))
    \<and> (\<exists>h. rpc_header_parse (bind_ack_encode (bind_ack_accepted call assoc addr) @ rest) = Ok h
      \<and> rh_ptype h = BindAck \<and> rh_call_id h = call
      \<and> unat (rh_frag_length h) = length (bind_ack_encode (bind_ack_accepted call assoc addr)))
    \<and> (26 + length addr + pad_to_4 (2 + length addr)) mod 4 = 0"
  using response_reads [OF assms(1)] bind_ack_reads [OF assms(2)] pad_to_4_aligns [of "2 + length addr"]
  by presburger

theorem rpc_replies_framed_witness:
  "\<exists>h. rpc_header_parse (response_pdu_encode (response_pdu_new 9 0 [1, 2, 3]) @ [7]) = Ok h
    \<and> rh_call_id h = 9 \<and> unat (rh_frag_length h) = length (response_pdu_encode (response_pdu_new 9 0 [1, 2, 3]))"
  using rpc_replies_framed [of "[1, 2, 3]" "[]" 9 0 "[7]" 0] by auto

end
