(* ===== verification/Rpch.thy ===== *)
theory Rpch
  imports Rpc Machine
begin

text \<open>
  \<open>crates/rdg-proto/src/rpch.rs\<close>: the RTS PDUs of RPC over HTTP and the virtual connection,
  the state machine that ties an OUT channel and an IN channel together by a cookie.
\<close>

definition PTYPE_RTS :: u8 where
  "PTYPE_RTS = 20"

definition PACKED_DREP_LITTLE_ENDIAN :: bytes where
  "PACKED_DREP_LITTLE_ENDIAN = [0x10, 0x00, 0x00, 0x00]"

definition RPCH_PROTOCOL_VERSION :: u32 where
  "RPCH_PROTOCOL_VERSION = 1"

definition DEFAULT_RECEIVE_WINDOW_SIZE :: u32 where
  "DEFAULT_RECEIVE_WINDOW_SIZE = 262144"

definition DEFAULT_CONNECTION_TIMEOUT :: u32 where
  "DEFAULT_CONNECTION_TIMEOUT = 120000"

abbreviation RTS_HEADER_LEN :: nat where
  "RTS_HEADER_LEN \<equiv> 20"

definition CMD_RECEIVE_WINDOW_SIZE :: u16 where "CMD_RECEIVE_WINDOW_SIZE = 0x0000"
definition CMD_FLOW_CONTROL_ACK :: u16 where "CMD_FLOW_CONTROL_ACK = 0x0001"
definition CMD_CONNECTION_TIMEOUT :: u16 where "CMD_CONNECTION_TIMEOUT = 0x0002"
definition CMD_COOKIE :: u16 where "CMD_COOKIE = 0x0003"
definition CMD_CHANNEL_LIFETIME :: u16 where "CMD_CHANNEL_LIFETIME = 0x0004"
definition CMD_CLIENT_KEEPALIVE :: u16 where "CMD_CLIENT_KEEPALIVE = 0x0005"
definition CMD_VERSION :: u16 where "CMD_VERSION = 0x0006"
definition CMD_ASSOCIATION_GROUP_ID :: u16 where "CMD_ASSOCIATION_GROUP_ID = 0x000D"

lemmas cmd_defs = CMD_RECEIVE_WINDOW_SIZE_def CMD_FLOW_CONTROL_ACK_def CMD_CONNECTION_TIMEOUT_def
  CMD_COOKIE_def CMD_CHANNEL_LIFETIME_def CMD_CLIENT_KEEPALIVE_def CMD_VERSION_def
  CMD_ASSOCIATION_GROUP_ID_def

datatype vc_state = WaitingOutChannel | WaitingInChannel | ConnectionEstablished | DataTransfer

datatype rpch_error =
    BufferTooShort nat nat
  | InvalidRpcVersion u8 u8
  | InvalidPtype u8
  | InvalidPackedDrep bytes
  | InvalidFragLength nat nat
  | UnknownCommand u16
  | InvalidUuid
  | InvalidConnA1
  | InvalidConnB1
  | UnexpectedState vc_state vc_state
  | VirtualConnectionCookieMismatch u128 u128

section \<open>RTS commands\<close>

datatype rts_command =
    ReceiveWindowSize u32
  | FlowControlAck u32 u32 u128
  | ConnectionTimeout u32
  | Cookie u128
  | ChannelLifetime u32
  | ClientKeepalive u32
  | Version u32
  | AssociationGroupId u128

fun rts_encoded_len :: "rts_command \<Rightarrow> nat" where
  "rts_encoded_len (ReceiveWindowSize _) = 2 + 4"
| "rts_encoded_len (ConnectionTimeout _) = 2 + 4"
| "rts_encoded_len (ChannelLifetime _) = 2 + 4"
| "rts_encoded_len (ClientKeepalive _) = 2 + 4"
| "rts_encoded_len (Version _) = 2 + 4"
| "rts_encoded_len (FlowControlAck _ _ _) = 2 + 4 + 4 + 16"
| "rts_encoded_len (Cookie _) = 2 + 16"
| "rts_encoded_len (AssociationGroupId _) = 2 + 16"

definition put_uuid_le :: "u128 \<Rightarrow> bytes" where
  "put_uuid_le value = uuid_to_bytes_le value"

fun rts_command_write :: "rts_command \<Rightarrow> bytes" where
  "rts_command_write (ReceiveWindowSize v) = put_u16_le CMD_RECEIVE_WINDOW_SIZE @ put_u32_le v"
| "rts_command_write (FlowControlAck bytes_received available_window channel_cookie) =
     put_u16_le CMD_FLOW_CONTROL_ACK @ put_u32_le bytes_received @ put_u32_le available_window
     @ put_uuid_le channel_cookie"
| "rts_command_write (ConnectionTimeout v) = put_u16_le CMD_CONNECTION_TIMEOUT @ put_u32_le v"
| "rts_command_write (Cookie v) = put_u16_le CMD_COOKIE @ put_uuid_le v"
| "rts_command_write (ChannelLifetime v) = put_u16_le CMD_CHANNEL_LIFETIME @ put_u32_le v"
| "rts_command_write (ClientKeepalive v) = put_u16_le CMD_CLIENT_KEEPALIVE @ put_u32_le v"
| "rts_command_write (Version v) = put_u16_le CMD_VERSION @ put_u32_le v"
| "rts_command_write (AssociationGroupId v) =
     put_u16_le CMD_ASSOCIATION_GROUP_ID @ put_uuid_le v"

definition ensure_remaining :: "nat \<Rightarrow> nat \<Rightarrow> (rpch_error, unit) outcome" where
  "ensure_remaining available needed =
     (if available < needed then Err (BufferTooShort needed available) else Ok ())"

text \<open>
  \<open>Uuid::from_slice_le\<close> fails only on a slice whose length is not 16, which the slice before it
  has, so \<open>InvalidUuid\<close> never arises.
\<close>

definition get_uuid_le :: "bytes \<Rightarrow> (rpch_error, u128 \<times> bytes) outcome" where
  "get_uuid_le buf =
     rbind (ensure_remaining (length buf) 16) (\<lambda>_.
     rbind (slice 0 16 buf) (\<lambda>raw.
     rbind (ok_or InvalidUuid
       (if length raw = 16 then Some (uuid_from_bytes_le raw) else None)) (\<lambda>uuid.
     rbind (advance 16 buf) (\<lambda>buf. Ok (uuid, buf)))))"

definition get_u32_checked :: "bytes \<Rightarrow> (rpch_error, u32 \<times> bytes) outcome" where
  "get_u32_checked buf = rbind (ensure_remaining (length buf) 4) (\<lambda>_. get_u32_le buf)"

definition rts_command_parse :: "bytes \<Rightarrow> (rpch_error, rts_command \<times> bytes) outcome" where
  "rts_command_parse buf =
     rbind (ensure_remaining (length buf) 2) (\<lambda>_.
     rbind (get_u16_le buf) (\<lambda>(command_type, buf).
     if command_type = CMD_RECEIVE_WINDOW_SIZE then
       rbind (get_u32_checked buf) (\<lambda>(v, buf). Ok (ReceiveWindowSize v, buf))
     else if command_type = CMD_FLOW_CONTROL_ACK then
       rbind (ensure_remaining (length buf) 24) (\<lambda>_.
       rbind (get_u32_le buf) (\<lambda>(bytes_received, buf).
       rbind (get_u32_le buf) (\<lambda>(available_window, buf).
       rbind (get_uuid_le buf) (\<lambda>(channel_cookie, buf).
       Ok (FlowControlAck bytes_received available_window channel_cookie, buf)))))
     else if command_type = CMD_CONNECTION_TIMEOUT then
       rbind (get_u32_checked buf) (\<lambda>(v, buf). Ok (ConnectionTimeout v, buf))
     else if command_type = CMD_COOKIE then
       rbind (get_uuid_le buf) (\<lambda>(v, buf). Ok (Cookie v, buf))
     else if command_type = CMD_CHANNEL_LIFETIME then
       rbind (get_u32_checked buf) (\<lambda>(v, buf). Ok (ChannelLifetime v, buf))
     else if command_type = CMD_CLIENT_KEEPALIVE then
       rbind (get_u32_checked buf) (\<lambda>(v, buf). Ok (ClientKeepalive v, buf))
     else if command_type = CMD_VERSION then
       rbind (get_u32_checked buf) (\<lambda>(v, buf). Ok (Version v, buf))
     else if command_type = CMD_ASSOCIATION_GROUP_ID then
       rbind (get_uuid_le buf) (\<lambda>(v, buf). Ok (AssociationGroupId v, buf))
     else Err (UnknownCommand command_type)))"

text \<open>Reading inverts writing, and what is read is what writing it would have produced.\<close>

lemma ensure_remaining_simps [simp]:
  "needed \<le> available \<Longrightarrow> ensure_remaining available needed = Ok ()"
  "ensure_remaining available needed = Ok u \<longleftrightarrow> needed \<le> available"
  "ensure_remaining available needed \<noteq> Panic"
  by (auto simp: ensure_remaining_def)

lemma length_put_uuid [simp]: "length (put_uuid_le u) = 16"
  by (simp add: put_uuid_le_def)

lemma get_uuid_put [simp]: "get_uuid_le (put_uuid_le u @ r) = Ok (u, r)"
  by (simp add: get_uuid_le_def put_uuid_le_def get_enough)

lemma get_uuid_eq_Ok: "get_uuid_le buf = Ok (u, r) \<longleftrightarrow> buf = put_uuid_le u @ r"
proof
  assume "get_uuid_le buf = Ok (u, r)"
  then have *: "16 \<le> length buf" "u = uuid_from_bytes_le (take 16 buf)" "r = drop 16 buf"
    by (auto simp: get_uuid_le_def rbind_eq_Ok slice_def advance_def split: if_splits)
  then have "put_uuid_le u = take 16 buf" by (simp add: put_uuid_le_def)
  then show "buf = put_uuid_le u @ r" using * by simp
qed simp

lemma get_u32_checked_put [simp]: "get_u32_checked (put_u32_le v @ r) = Ok (v, r)"
  by (simp add: get_u32_checked_def)

lemma get_u32_checked_eq_Ok: "get_u32_checked buf = Ok (v, r) \<longleftrightarrow> buf = put_u32_le v @ r"
  by (auto simp: get_u32_checked_def parse_inv)

lemma get_checked_no_panic [simp, no_panic]: "get_u32_checked buf \<noteq> Panic" "get_uuid_le buf \<noteq> Panic"
  by (auto simp: get_u32_checked_def get_uuid_le_def rbind_eq_Panic get_enough get_eq_Panic)

lemma rts_command_roundtrip [simp]: "rts_command_parse (rts_command_write c @ r) = Ok (c, r)"
  by (cases c) (simp_all add: rts_command_parse_def cmd_defs)

lemma length_rts_command_write [simp]: "length (rts_command_write c) = rts_encoded_len c"
  by (cases c) simp_all

lemma rts_command_parse_Ok: "rts_command_parse buf = Ok (c, r) \<longleftrightarrow> buf = rts_command_write c @ r"
proof
  assume "rts_command_parse buf = Ok (c, r)"
  then show "buf = rts_command_write c @ r"
    by (auto simp: rts_command_parse_def parse_inv get_u32_checked_eq_Ok get_uuid_eq_Ok
        split: if_splits)
qed simp

lemma rts_command_parse_no_panic [simp, no_panic]: "rts_command_parse buf \<noteq> Panic"
  by (auto simp: rts_command_parse_def rbind_eq_Panic get_enough get_eq_Panic parse_inv)

section \<open>RTS PDUs\<close>

record rts_pdu =
  rp_rpc_version :: u8
  rp_rpc_version_minor :: u8
  rp_ptype :: u8
  rp_pfc_flags :: u8
  rp_packed_drep :: bytes
  rp_auth_length :: u16
  rp_call_id :: u32
  rp_flags :: u16
  rp_commands :: "rts_command list"

definition rts_pdu_new :: "u32 \<Rightarrow> u16 \<Rightarrow> rts_command list \<Rightarrow> rts_pdu" where
  "rts_pdu_new call_id flags commands =
     \<lparr>rp_rpc_version = RPC_VERSION, rp_rpc_version_minor = RPC_VERSION_MINOR,
      rp_ptype = PTYPE_RTS, rp_pfc_flags = 0, rp_packed_drep = PACKED_DREP_LITTLE_ENDIAN,
      rp_auth_length = 0, rp_call_id = call_id, rp_flags = flags, rp_commands = commands\<rparr>"

text \<open>The loop \<open>for _ in 0..num_commands\<close>.\<close>

fun rts_commands_parse :: "nat \<Rightarrow> bytes \<Rightarrow> (rpch_error, rts_command list \<times> bytes) outcome" where
  "rts_commands_parse 0 buf = Ok ([], buf)"
| "rts_commands_parse (Suc n) buf =
     rbind (rts_command_parse buf) (\<lambda>(c, buf).
     rbind (rts_commands_parse n buf) (\<lambda>(cs, buf).
     Ok (c # cs, buf)))"

definition rts_pdu_parse :: "bytes \<Rightarrow> (rpch_error, rts_pdu) outcome" where
  "rts_pdu_parse data =
     rbind (ensure_remaining (length data) RTS_HEADER_LEN) (\<lambda>_.
     rbind (get_u8 data) (\<lambda>(rpc_version, buf).
     rbind (get_u8 buf) (\<lambda>(rpc_version_minor, buf).
     rbind (get_u8 buf) (\<lambda>(ptype, buf).
     rbind (get_u8 buf) (\<lambda>(pfc_flags, buf).
     rbind (get_bytes 4 buf) (\<lambda>(packed_drep, buf).
     rbind (get_u16_le buf) (\<lambda>(frag_length, buf).
     rbind (get_u16_le buf) (\<lambda>(auth_length, buf).
     rbind (get_u32_le buf) (\<lambda>(call_id, buf).
     rbind (get_u16_le buf) (\<lambda>(flags, buf).
     rbind (get_u16_le buf) (\<lambda>(num_commands, buf).
     if rpc_version \<noteq> RPC_VERSION \<or> rpc_version_minor \<noteq> RPC_VERSION_MINOR
     then Err (InvalidRpcVersion rpc_version rpc_version_minor)
     else if ptype \<noteq> PTYPE_RTS then Err (InvalidPtype ptype)
     else if packed_drep \<noteq> PACKED_DREP_LITTLE_ENDIAN then Err (InvalidPackedDrep packed_drep)
     else if unat frag_length \<noteq> length data
     then Err (InvalidFragLength (unat frag_length) (length data))
     else
       rbind (rts_commands_parse (unat num_commands) buf) (\<lambda>(commands, buf).
       if buf \<noteq> [] then Err (InvalidFragLength (unat frag_length) (length data - length buf))
       else Ok \<lparr>rp_rpc_version = rpc_version, rp_rpc_version_minor = rpc_version_minor,
              rp_ptype = ptype, rp_pfc_flags = pfc_flags, rp_packed_drep = packed_drep,
              rp_auth_length = auth_length, rp_call_id = call_id, rp_flags = flags,
              rp_commands = commands\<rparr>))))))))))))"

definition rts_pdu_to_bytes :: "rts_pdu \<Rightarrow> bytes" where
  "rts_pdu_to_bytes self =
     (let total_len = RTS_HEADER_LEN + sum_list (map rts_encoded_len (rp_commands self))
      in put_u8 (rp_rpc_version self) @ put_u8 (rp_rpc_version_minor self)
         @ put_u8 (rp_ptype self) @ put_u8 (rp_pfc_flags self) @ rp_packed_drep self
         @ put_u16_le (word_of_nat total_len) @ put_u16_le (rp_auth_length self)
         @ put_u32_le (rp_call_id self) @ put_u16_le (rp_flags self)
         @ put_u16_le (word_of_nat (length (rp_commands self)))
         @ concat (map rts_command_write (rp_commands self)))"

definition rts_conn_a1 :: "u32 \<Rightarrow> u128 \<Rightarrow> u128 \<Rightarrow> rts_pdu" where
  "rts_conn_a1 call_id virtual_connection_cookie out_channel_cookie =
     rts_pdu_new call_id 0
       [Version RPCH_PROTOCOL_VERSION, Cookie virtual_connection_cookie,
        Cookie out_channel_cookie, ReceiveWindowSize DEFAULT_RECEIVE_WINDOW_SIZE]"

definition rts_conn_b1 :: "u32 \<Rightarrow> u128 \<Rightarrow> u128 \<Rightarrow> u128 \<Rightarrow> rts_pdu" where
  "rts_conn_b1 call_id virtual_connection_cookie in_channel_cookie association_group_id =
     rts_pdu_new call_id 0
       [Version RPCH_PROTOCOL_VERSION, Cookie virtual_connection_cookie,
        Cookie in_channel_cookie, ChannelLifetime 1073741824, ClientKeepalive 300000,
        AssociationGroupId association_group_id]"

section \<open>The connection PDUs\<close>

record conn_a1 =
  a1_call_id :: u32
  a1_version :: u32
  a1_virtual_connection_cookie :: u128
  a1_out_channel_cookie :: u128
  a1_receive_window_size :: u32

definition conn_a1_from_pdu :: "rts_pdu \<Rightarrow> (rpch_error, conn_a1) outcome" where
  "conn_a1_from_pdu pdu =
     (if rp_flags pdu \<noteq> 0 \<or> length (rp_commands pdu) \<noteq> 4 then Err InvalidConnA1
      else case rp_commands pdu of
        [Version version, Cookie virtual_connection_cookie, Cookie out_channel_cookie,
         ReceiveWindowSize receive_window_size] \<Rightarrow>
          Ok \<lparr>a1_call_id = rp_call_id pdu, a1_version = version,
              a1_virtual_connection_cookie = virtual_connection_cookie,
              a1_out_channel_cookie = out_channel_cookie,
              a1_receive_window_size = receive_window_size\<rparr>
      | _ \<Rightarrow> Err InvalidConnA1)"

record conn_b1 =
  b1_call_id :: u32
  b1_version :: u32
  b1_virtual_connection_cookie :: u128
  b1_in_channel_cookie :: u128
  b1_channel_lifetime :: u32
  b1_client_keepalive :: u32
  b1_association_group_id :: u128

definition conn_b1_from_pdu :: "rts_pdu \<Rightarrow> (rpch_error, conn_b1) outcome" where
  "conn_b1_from_pdu pdu =
     (if rp_flags pdu \<noteq> 0 \<or> length (rp_commands pdu) \<noteq> 6 then Err InvalidConnB1
      else case rp_commands pdu of
        [Version version, Cookie virtual_connection_cookie, Cookie in_channel_cookie,
         ChannelLifetime channel_lifetime, ClientKeepalive client_keepalive,
         AssociationGroupId association_group_id] \<Rightarrow>
          Ok \<lparr>b1_call_id = rp_call_id pdu, b1_version = version,
              b1_virtual_connection_cookie = virtual_connection_cookie,
              b1_in_channel_cookie = in_channel_cookie,
              b1_channel_lifetime = channel_lifetime, b1_client_keepalive = client_keepalive,
              b1_association_group_id = association_group_id\<rparr>
      | _ \<Rightarrow> Err InvalidConnB1)"

definition conn_a1_parse :: "bytes \<Rightarrow> (rpch_error, conn_a1) outcome" where
  "conn_a1_parse data = rbind (rts_pdu_parse data) conn_a1_from_pdu"

definition conn_b1_parse :: "bytes \<Rightarrow> (rpch_error, conn_b1) outcome" where
  "conn_b1_parse data = rbind (rts_pdu_parse data) conn_b1_from_pdu"

record conn_c2 =
  c2_version :: u32
  c2_receive_window_size :: u32
  c2_connection_timeout :: u32

definition conn_c2_default :: conn_c2 where
  "conn_c2_default = \<lparr>c2_version = RPCH_PROTOCOL_VERSION,
     c2_receive_window_size = DEFAULT_RECEIVE_WINDOW_SIZE,
     c2_connection_timeout = DEFAULT_CONNECTION_TIMEOUT\<rparr>"

definition conn_c2_to_pdu :: "conn_c2 \<Rightarrow> u32 \<Rightarrow> rts_pdu" where
  "conn_c2_to_pdu self call_id =
     rts_pdu_new call_id 0
       [Version (c2_version self), ReceiveWindowSize (c2_receive_window_size self),
        ConnectionTimeout (c2_connection_timeout self)]"

section \<open>The virtual connection\<close>

datatype channel_type = In | Out

record virtual_connection =
  vc_state :: vc_state
  vc_version :: "u32 option"
  vc_virtual_connection_cookie :: "u128 option"
  vc_out_channel_cookie :: "u128 option"
  vc_in_channel_cookie :: "u128 option"
  vc_association_group_id :: "u128 option"
  vc_receive_window_size :: "u32 option"
  vc_channel_lifetime :: "u32 option"
  vc_client_keepalive :: "u32 option"
  vc_out_call_id :: "u32 option"
  vc_in_call_id :: "u32 option"

definition virtual_connection_new :: virtual_connection where
  "virtual_connection_new = \<lparr>vc_state = WaitingOutChannel, vc_version = None,
     vc_virtual_connection_cookie = None, vc_out_channel_cookie = None,
     vc_in_channel_cookie = None, vc_association_group_id = None,
     vc_receive_window_size = None, vc_channel_lifetime = None, vc_client_keepalive = None,
     vc_out_call_id = None, vc_in_call_id = None\<rparr>"

definition accept_out_channel ::
  "virtual_connection \<Rightarrow> conn_a1 \<Rightarrow> virtual_connection \<times> (rpch_error, unit) outcome" where
  "accept_out_channel self conn =
     (if vc_state self \<noteq> WaitingOutChannel
      then (self, Err (UnexpectedState WaitingOutChannel (vc_state self)))
      else
        (self\<lparr>vc_version := Some (a1_version conn),
           vc_virtual_connection_cookie := Some (a1_virtual_connection_cookie conn),
           vc_out_channel_cookie := Some (a1_out_channel_cookie conn),
           vc_receive_window_size := Some (a1_receive_window_size conn),
           vc_out_call_id := Some (a1_call_id conn),
           vc_state := WaitingInChannel\<rparr>, Ok ()))"

definition accept_in_channel ::
  "virtual_connection \<Rightarrow> conn_b1 \<Rightarrow> virtual_connection \<times> (rpch_error, rts_pdu) outcome" where
  "accept_in_channel self conn =
     (if vc_state self \<noteq> WaitingInChannel
      then (self, Err (UnexpectedState WaitingInChannel (vc_state self)))
      else case vc_virtual_connection_cookie self of
        None \<Rightarrow> (self, Err (UnexpectedState WaitingInChannel WaitingOutChannel))
      | Some expected_cookie \<Rightarrow>
          if b1_virtual_connection_cookie conn \<noteq> expected_cookie
          then (self, Err (VirtualConnectionCookieMismatch expected_cookie
                             (b1_virtual_connection_cookie conn)))
          else
            (let self = self\<lparr>vc_version := Some (b1_version conn),
                   vc_in_channel_cookie := Some (b1_in_channel_cookie conn),
                   vc_association_group_id := Some (b1_association_group_id conn),
                   vc_channel_lifetime := Some (b1_channel_lifetime conn),
                   vc_client_keepalive := Some (b1_client_keepalive conn),
                   vc_in_call_id := Some (b1_call_id conn),
                   vc_state := ConnectionEstablished\<rparr>
             in (self, Ok (conn_c2_to_pdu conn_c2_default
                  (case vc_out_call_id self of Some i \<Rightarrow> i | None \<Rightarrow> b1_call_id conn)))))"

definition enter_data_transfer ::
  "virtual_connection \<Rightarrow> virtual_connection \<times> (rpch_error, unit) outcome" where
  "enter_data_transfer self =
     (if vc_state self \<noteq> ConnectionEstablished
      then (self, Err (UnexpectedState ConnectionEstablished (vc_state self)))
      else (self\<lparr>vc_state := DataTransfer\<rparr>, Ok ()))"

definition process_rts ::
  "virtual_connection \<Rightarrow> channel_type \<Rightarrow> bytes
    \<Rightarrow> virtual_connection \<times> (rpch_error, rts_pdu option) outcome" where
  "process_rts self channel data =
     (case rts_pdu_parse data of
        Err e \<Rightarrow> (self, Err e) | Panic \<Rightarrow> (self, Panic)
      | Ok pdu \<Rightarrow>
          (case channel of
             Out \<Rightarrow>
               (case conn_a1_from_pdu pdu of
                  Err e \<Rightarrow> (self, Err e) | Panic \<Rightarrow> (self, Panic)
                | Ok conn \<Rightarrow>
                    (let (self, res) = accept_out_channel self conn
                     in (self, map_ok (\<lambda>_. None) res)))
           | In \<Rightarrow>
               (case conn_b1_from_pdu pdu of
                  Err e \<Rightarrow> (self, Err e) | Panic \<Rightarrow> (self, Panic)
                | Ok conn \<Rightarrow>
                    (let (self, res) = accept_in_channel self conn
                     in (self, map_ok Some res)))))"

section \<open>Parsing and writing are inverse\<close>

lemma rts_commands_parse_Ok:
  "rts_commands_parse n buf = Ok (cs, r) \<longleftrightarrow>
     length cs = n \<and> buf = concat (map rts_command_write cs) @ r"
proof (induction n arbitrary: buf cs)
  case 0
  then show ?case by auto
next
  case (Suc n)
  show ?case
    by (cases cs) (auto simp: rbind_eq_Ok rts_command_parse_Ok Suc)
qed

lemma rts_commands_parse_no_panic [simp, no_panic]: "rts_commands_parse n buf \<noteq> Panic"
  by (induction n arbitrary: buf) (auto simp: rbind_eq_Panic)

text \<open>What \<open>RtsPdu::parse\<close> lets through, besides the sizes of the fields.\<close>

definition rts_ok :: "rts_pdu \<Rightarrow> bool" where
  "rts_ok p \<longleftrightarrow> rp_rpc_version p = RPC_VERSION \<and> rp_rpc_version_minor p = RPC_VERSION_MINOR
     \<and> rp_ptype p = PTYPE_RTS \<and> rp_packed_drep p = PACKED_DREP_LITTLE_ENDIAN
     \<and> 20 + sum_list (map rts_encoded_len (rp_commands p)) < 65536"

lemma length_commands: "length (concat (map rts_command_write cs)) = sum_list (map rts_encoded_len cs)"
  by (induction cs) simp_all

lemma length_commands_le: "length cs \<le> sum_list (map rts_encoded_len cs)"
proof (induction cs)
  case (Cons c cs)
  have "1 \<le> rts_encoded_len c" by (cases c) simp_all
  then show ?case using Cons by simp
qed simp

lemma length_drep [simp]: "length PACKED_DREP_LITTLE_ENDIAN = 4"
  by (simp add: PACKED_DREP_LITTLE_ENDIAN_def)

lemma length_rts_pdu_to_bytes:
  "rp_packed_drep p = PACKED_DREP_LITTLE_ENDIAN \<Longrightarrow>
    length (rts_pdu_to_bytes p) = 20 + sum_list (map rts_encoded_len (rp_commands p))"
  by (simp add: rts_pdu_to_bytes_def Let_def length_commands)

lemma unat_u16: "n < 65536 \<Longrightarrow> unat (word_of_nat n :: u16) = n"
  by (simp add: unat_of_nat take_bit_eq_mod)

lemma u16_of_unat: "unat (w :: u16) = n \<Longrightarrow> word_of_nat n = w"
  by auto

lemma rts_pdu_roundtrip:
  assumes "rts_ok p"
  shows "rts_pdu_parse (rts_pdu_to_bytes p) = Ok p"
proof -
  let ?cs = "rp_commands p"
  let ?len = "20 + sum_list (map rts_encoded_len ?cs)"
  have l: "unat (word_of_nat ?len :: u16) = ?len"
    using assms by (intro unat_u16) (simp add: rts_ok_def)
  have n: "unat (word_of_nat (length ?cs) :: u16) = length ?cs"
    using assms length_commands_le [of ?cs] by (intro unat_u16) (simp add: rts_ok_def)
  have cs: "rts_commands_parse (length ?cs) (concat (map rts_command_write ?cs)) = Ok (?cs, [])"
    by (simp add: rts_commands_parse_Ok)
  have d: "length (rp_packed_drep p) = 4" using assms by (simp add: rts_ok_def)
  have len: "length (rts_pdu_to_bytes p) = ?len"
    using assms by (intro length_rts_pdu_to_bytes) (simp add: rts_ok_def)
  show ?thesis
    unfolding rts_pdu_parse_def len
    unfolding rts_pdu_to_bytes_def Let_def
    using assms d by (simp add: l n cs rts_ok_def del: of_nat_add)
qed

lemma rts_pdu_parse_canonical:
  assumes "rts_pdu_parse data = Ok p"
  shows "data = rts_pdu_to_bytes p \<and> rts_ok p"
proof -
  from assms obtain fl nc cs where *:
    "data = put_u8 (rp_rpc_version p) @ put_u8 (rp_rpc_version_minor p) @ put_u8 (rp_ptype p)
       @ put_u8 (rp_pfc_flags p) @ rp_packed_drep p @ put_u16_le fl
       @ put_u16_le (rp_auth_length p) @ put_u32_le (rp_call_id p) @ put_u16_le (rp_flags p)
       @ put_u16_le nc @ concat (map rts_command_write (rp_commands p))"
    "length (rp_commands p) = unat nc" "unat fl = length data"
    "rp_rpc_version p = RPC_VERSION" "rp_rpc_version_minor p = RPC_VERSION_MINOR"
    "rp_ptype p = PTYPE_RTS" "rp_packed_drep p = PACKED_DREP_LITTLE_ENDIAN"
    by (auto simp: rts_pdu_parse_def parse_inv rts_commands_parse_Ok split: if_splits)
  have len: "length data = 20 + sum_list (map rts_encoded_len (rp_commands p))"
    by (subst *(1)) (simp add: *(7) length_commands)
  have "word_of_nat (20 + sum_list (map rts_encoded_len (rp_commands p))) = fl"
    using *(3) len by (intro u16_of_unat) simp
  moreover have "word_of_nat (length (rp_commands p)) = nc"
    using *(2) by (intro u16_of_unat) simp
  ultimately have "data = rts_pdu_to_bytes p"
    unfolding rts_pdu_to_bytes_def Let_def using *(1) by simp
  moreover have "unat fl < 65536"
    using unsigned_less [of fl, where 'a = nat] by simp
  ultimately show ?thesis using * len by (simp add: rts_ok_def)
qed

lemma rts_pdu_parse_no_panic [simp, no_panic]: "rts_pdu_parse data \<noteq> Panic"
  by (auto simp: rts_pdu_parse_def rbind_eq_Panic get_enough get_eq_Panic parse_inv)

lemma conn_from_pdu_no_panic [simp, no_panic]: "conn_a1_from_pdu p \<noteq> Panic" "conn_b1_from_pdu p \<noteq> Panic"
  by (auto simp: conn_a1_from_pdu_def conn_b1_from_pdu_def split: list.splits rts_command.splits)

section \<open>The virtual connection as a state machine\<close>

text \<open>The calls the channels make: an RTS PDU on one of them, or the switch to data.\<close>

datatype vc_event = Rts channel_type bytes | EnterData

fun vc_call ::
  "virtual_connection \<Rightarrow> vc_event \<Rightarrow> virtual_connection \<times> (rpch_error, rts_pdu option) outcome" where
  "vc_call s (Rts channel data) = process_rts s channel data"
| "vc_call s EnterData = (let (s, res) = enter_data_transfer s in (s, map_ok (\<lambda>_. None) res))"

definition vc_opened :: "virtual_connection \<Rightarrow> conn_a1 \<Rightarrow> virtual_connection" where
  "vc_opened s a = s\<lparr>vc_version := Some (a1_version a),
     vc_virtual_connection_cookie := Some (a1_virtual_connection_cookie a),
     vc_out_channel_cookie := Some (a1_out_channel_cookie a),
     vc_receive_window_size := Some (a1_receive_window_size a),
     vc_out_call_id := Some (a1_call_id a), vc_state := WaitingInChannel\<rparr>"

definition vc_joined :: "virtual_connection \<Rightarrow> conn_b1 \<Rightarrow> virtual_connection" where
  "vc_joined s b = s\<lparr>vc_version := Some (b1_version b),
     vc_in_channel_cookie := Some (b1_in_channel_cookie b),
     vc_association_group_id := Some (b1_association_group_id b),
     vc_channel_lifetime := Some (b1_channel_lifetime b),
     vc_client_keepalive := Some (b1_client_keepalive b),
     vc_in_call_id := Some (b1_call_id b), vc_state := ConnectionEstablished\<rparr>"

lemma vc_call_cases:
  fixes s :: virtual_connection
  obtains (Opened) data a where "e = Rts Out data" and "conn_a1_parse data = Ok a"
      and "vc_state s = WaitingOutChannel" and "vc_call s e = (vc_opened s a, Ok None)"
  | (Joined) data b where "e = Rts In data" and "conn_b1_parse data = Ok b"
      and "vc_state s = WaitingInChannel"
      and "vc_virtual_connection_cookie s = Some (b1_virtual_connection_cookie b)"
      and "vc_call s e = (vc_joined s b, Ok (Some (conn_c2_to_pdu conn_c2_default
             (case vc_out_call_id s of Some i \<Rightarrow> i | None \<Rightarrow> b1_call_id b))))"
  | (Entered) "e = EnterData" and "vc_state s = ConnectionEstablished"
      and "vc_call s e = (s\<lparr>vc_state := DataTransfer\<rparr>, Ok None)"
  | (Refused) err where "vc_call s e = (s, Err err)"
proof (cases e)
  case EnterData
  then show thesis
    by (cases "vc_state s = ConnectionEstablished")
      (auto simp: enter_data_transfer_def intro: that(3,4))
next
  case (Rts channel data)
  show thesis
  proof (cases "rts_pdu_parse data")
    case (Err err)
    then show thesis using Rts by (intro that(4)) (simp add: process_rts_def)
  next
    case (Ok pdu)
    show thesis
    proof (cases channel)
      case Out
      then show thesis
        using Rts Ok that(1,4)
        by (cases "conn_a1_from_pdu pdu"; cases "vc_state s = WaitingOutChannel")
          (auto simp: process_rts_def accept_out_channel_def conn_a1_parse_def vc_opened_def)
    next
      case In
      show thesis
      proof (cases "conn_b1_from_pdu pdu")
        case (Ok b)
        show thesis
        proof (cases "vc_state s = WaitingInChannel
            \<and> vc_virtual_connection_cookie s = Some (b1_virtual_connection_cookie b)")
          case True
          then show thesis
            using Rts Ok In \<open>rts_pdu_parse data = Ok pdu\<close>
            by (intro that(2) [of data b])
              (auto simp: process_rts_def accept_in_channel_def conn_b1_parse_def vc_joined_def Let_def)
        next
          case False
          then have "\<exists>err. vc_call s e = (s, Err err)"
            using Rts Ok In \<open>rts_pdu_parse data = Ok pdu\<close>
            by (cases "vc_state s = WaitingInChannel"; cases "vc_virtual_connection_cookie s")
              (auto simp: process_rts_def accept_in_channel_def)
          then show thesis using that(4) by blast
        qed
      qed (use Rts Ok In that(4) in \<open>auto simp: process_rts_def\<close>)
    qed
  qed (use that in simp)
qed

fun vc_rank :: "vc_state \<Rightarrow> nat" where
  "vc_rank WaitingOutChannel = 0"
| "vc_rank WaitingInChannel = 1"
| "vc_rank ConnectionEstablished = 2"
| "vc_rank DataTransfer = 3"

text \<open>Which fields a state has.\<close>

definition vc_inv :: "virtual_connection \<Rightarrow> bool" where
  "vc_inv s \<longleftrightarrow>
     (vc_virtual_connection_cookie s \<noteq> None \<longleftrightarrow> 1 \<le> vc_rank (vc_state s))
     \<and> (vc_out_channel_cookie s \<noteq> None \<longleftrightarrow> 1 \<le> vc_rank (vc_state s))
     \<and> (vc_out_call_id s \<noteq> None \<longleftrightarrow> 1 \<le> vc_rank (vc_state s))
     \<and> (vc_in_channel_cookie s \<noteq> None \<longleftrightarrow> 2 \<le> vc_rank (vc_state s))
     \<and> (vc_association_group_id s \<noteq> None \<longleftrightarrow> 2 \<le> vc_rank (vc_state s))
     \<and> (vc_in_call_id s \<noteq> None \<longleftrightarrow> 2 \<le> vc_rank (vc_state s))"

lemma vc_inv_new: "vc_inv virtual_connection_new"
  by (simp add: vc_inv_def virtual_connection_new_def)

lemma vc_inv_step: "vc_inv s \<Longrightarrow> vc_inv (fst (vc_call s e))"
  by (cases rule: vc_call_cases [of e s]) (auto simp: vc_inv_def vc_opened_def vc_joined_def)

interpretation vcm: ranked_machine "\<lambda>s e. fst (vc_call s e)" vc_inv "\<lambda>s. vc_rank (vc_state s)" 3
proof unfold_locales
  fix s e
  show "vc_inv s \<Longrightarrow> vc_inv (fst (vc_call s e))" by (rule vc_inv_step)
  show "vc_rank (vc_state s) \<le> vc_rank (vc_state (fst (vc_call s e)))"
    by (cases rule: vc_call_cases [of e s]) (auto simp: vc_opened_def vc_joined_def)
  show "vc_rank (vc_state s) \<le> 3" by (cases "vc_state s") simp_all
qed

text \<open>\<open>vc_serves es s\<close>: a new virtual connection that accepted exactly the calls \<open>es\<close>.\<close>

inductive vc_serves :: "vc_event list \<Rightarrow> virtual_connection \<Rightarrow> bool" where
  start: "vc_serves [] virtual_connection_new"
| accept: "vc_serves es s \<Longrightarrow> vc_call s e = (s', Ok r) \<Longrightarrow> vc_serves (es @ [e]) s'"
| refuse: "vc_serves es s \<Longrightarrow> vc_call s e = (s', Err err) \<Longrightarrow> vc_serves es s'"

definition vc_accepted :: "virtual_connection \<Rightarrow> vc_event list \<Rightarrow> bool" where
  "vc_accepted s es \<longleftrightarrow>
     (case vc_state s of
        WaitingOutChannel \<Rightarrow> es = []
      | WaitingInChannel \<Rightarrow> \<exists>d a. es = [Rts Out d] \<and> conn_a1_parse d = Ok a
          \<and> vc_virtual_connection_cookie s = Some (a1_virtual_connection_cookie a)
          \<and> vc_out_channel_cookie s = Some (a1_out_channel_cookie a)
      | state \<Rightarrow> \<exists>d a d' b.
          es = [Rts Out d, Rts In d'] @ (if state = DataTransfer then [EnterData] else [])
          \<and> conn_a1_parse d = Ok a \<and> conn_b1_parse d' = Ok b
          \<and> a1_virtual_connection_cookie a = b1_virtual_connection_cookie b
          \<and> vc_virtual_connection_cookie s = Some (a1_virtual_connection_cookie a)
          \<and> vc_out_channel_cookie s = Some (a1_out_channel_cookie a)
          \<and> vc_in_channel_cookie s = Some (b1_in_channel_cookie b))"

lemma vc_serves_accepted: "vc_serves es s \<Longrightarrow> vc_accepted s es"
proof (induction rule: vc_serves.induct)
  case start
  then show ?case by (simp add: vc_accepted_def virtual_connection_new_def)
next
  case (accept es s e s' r)
  then show ?case
    by (cases rule: vc_call_cases [of e s])
      (auto simp: vc_accepted_def vc_opened_def vc_joined_def)
next
  case (refuse es s e s' err)
  then show ?case by (cases rule: vc_call_cases [of e s]) auto
qed

section \<open>Properties\<close>

text \<open>
  C23. The RTS parser accepts exactly the bytes the writer produces for a PDU of the
  right version, type and data representation whose length fits 16 bits, and gives back that PDU:
  no two byte strings read as the same PDU and no input panics.
\<close>

theorem rts_canonical:
  "(rts_pdu_parse data = Ok p \<longleftrightarrow> rts_ok p \<and> data = rts_pdu_to_bytes p) \<and> rts_pdu_parse data \<noteq> Panic"
  using rts_pdu_roundtrip [of p] rts_pdu_parse_canonical [of data p] by auto

text \<open>
  C4. A virtual connection is established only by a CONN/A1 on the OUT channel
  followed by a CONN/B1 on the IN channel that carries the same virtual connection cookie, and it
  carries data only after that; the cookies it keeps are those of the two PDUs, whatever was
  refused in between.
\<close>

theorem vc_established:
  assumes "vc_serves es s" and "vc_state s \<in> {ConnectionEstablished, DataTransfer}"
  shows "\<exists>d a d' b. es = [Rts Out d, Rts In d'] @ (if vc_state s = DataTransfer then [EnterData] else [])
    \<and> conn_a1_parse d = Ok a \<and> conn_b1_parse d' = Ok b
    \<and> a1_virtual_connection_cookie a = b1_virtual_connection_cookie b
    \<and> vc_virtual_connection_cookie s = Some (a1_virtual_connection_cookie a)
    \<and> vc_out_channel_cookie s = Some (a1_out_channel_cookie a)
    \<and> vc_in_channel_cookie s = Some (b1_in_channel_cookie b)"
  using vc_serves_accepted [OF assms(1)] assms(2) by (auto simp: vc_accepted_def)

lemma conn_a1_ok: "conn_a1_parse (rts_pdu_to_bytes (rts_conn_a1 i v out)) = Ok \<lparr>a1_call_id = i,
    a1_version = 1, a1_virtual_connection_cookie = v, a1_out_channel_cookie = out,
    a1_receive_window_size = 262144\<rparr>"
proof -
  have "rts_ok (rts_conn_a1 i v out)"
    by (simp add: rts_ok_def rts_conn_a1_def rts_pdu_new_def)
  then show ?thesis
    by (simp add: conn_a1_parse_def rts_pdu_roundtrip)
      (simp add: conn_a1_from_pdu_def rts_conn_a1_def rts_pdu_new_def RPCH_PROTOCOL_VERSION_def
        DEFAULT_RECEIVE_WINDOW_SIZE_def)
qed

lemma conn_b1_ok: "conn_b1_parse (rts_pdu_to_bytes (rts_conn_b1 i v inn g)) = Ok \<lparr>b1_call_id = i,
    b1_version = 1, b1_virtual_connection_cookie = v, b1_in_channel_cookie = inn,
    b1_channel_lifetime = 1073741824, b1_client_keepalive = 300000, b1_association_group_id = g\<rparr>"
proof -
  have "rts_ok (rts_conn_b1 i v inn g)"
    by (simp add: rts_ok_def rts_conn_b1_def rts_pdu_new_def)
  then show ?thesis
    by (simp add: conn_b1_parse_def rts_pdu_roundtrip)
      (simp add: conn_b1_from_pdu_def rts_conn_b1_def rts_pdu_new_def RPCH_PROTOCOL_VERSION_def)
qed

lemma process_out: "process_rts s Out data =
    (case conn_a1_parse data of Err e \<Rightarrow> (s, Err e) | Panic \<Rightarrow> (s, Panic)
     | Ok a \<Rightarrow> (let (s, res) = accept_out_channel s a in (s, map_ok (\<lambda>_. None) res)))"
  by (cases "rts_pdu_parse data") (simp_all add: process_rts_def conn_a1_parse_def)

lemma process_in: "process_rts s In data =
    (case conn_b1_parse data of Err e \<Rightarrow> (s, Err e) | Panic \<Rightarrow> (s, Panic)
     | Ok b \<Rightarrow> (let (s, res) = accept_in_channel s b in (s, map_ok Some res)))"
  by (cases "rts_pdu_parse data") (simp_all add: process_rts_def conn_b1_parse_def)

text \<open>
  The two PDUs a client builds for the same virtual connection establish it and
  are answered with CONN/C2 under the OUT channel's call id; with any other cookie the IN channel
  is refused with both cookies and the connection stays as it was.
\<close>

theorem vc_handshake:
  "let (s, r) = process_rts virtual_connection_new Out (rts_pdu_to_bytes (rts_conn_a1 i v out));
       (s', r') = process_rts s In (rts_pdu_to_bytes (rts_conn_b1 j w inn g))
   in r = Ok None \<and> vc_state s = WaitingInChannel
      \<and> (if v = w
         then vc_state s' = ConnectionEstablished
           \<and> r' = Ok (Some (conn_c2_to_pdu conn_c2_default i))
           \<and> fst (enter_data_transfer s') = s'\<lparr>vc_state := DataTransfer\<rparr>
         else s' = s \<and> r' = Err (VirtualConnectionCookieMismatch v w))"
  by (simp add: process_out process_in conn_a1_ok conn_b1_ok accept_out_channel_def
      accept_in_channel_def virtual_connection_new_def enter_data_transfer_def Let_def)

theorem vc_established_witness:
  "\<exists>s :: virtual_connection. vc_state s = ConnectionEstablished \<and> vc_virtual_connection_cookie s = Some 5
    \<and> vc_out_channel_cookie s = Some 6 \<and> vc_in_channel_cookie s = Some 7"
proof -
  let ?a = "Rts Out (rts_pdu_to_bytes (rts_conn_a1 1 5 6))"
  let ?b = "Rts In (rts_pdu_to_bytes (rts_conn_b1 2 5 7 8))"
  note calls = process_out process_in conn_a1_ok conn_b1_ok accept_out_channel_def
    accept_in_channel_def virtual_connection_new_def Let_def
  obtain s r where 1: "vc_call virtual_connection_new ?a = (s, Ok r)"
      "vc_state s = WaitingInChannel" "vc_virtual_connection_cookie s = Some 5"
    by (simp add: calls)
  then obtain s' r' where 2: "vc_call s ?b = (s', Ok r')" "vc_state s' = ConnectionEstablished"
    by (simp add: calls)
  have serves: "vc_serves (([] @ [?a]) @ [?b]) s'"
    by (rule vc_serves.accept [OF vc_serves.accept [OF vc_serves.start 1(1)] 2(1)])
  have "vc_state s' \<in> {ConnectionEstablished, DataTransfer}" using 2(2) by simp
  from vc_established [OF serves this] 2(2)
  have "vc_virtual_connection_cookie s' = Some 5" "vc_out_channel_cookie s' = Some 6"
    "vc_in_channel_cookie s' = Some 7"
    by (auto simp: conn_a1_ok conn_b1_ok)
  then show ?thesis using 2(2) by blast
qed

text \<open>
  No sequence of calls, accepted or refused, moves a virtual connection back to an
  earlier state, and the cookies and call ids are there exactly in the states that need them.
\<close>

theorem vc_forward:
  "vc_inv (run (\<lambda>s e. fst (vc_call s e)) virtual_connection_new es)
    \<and> vc_rank (vc_state (run (\<lambda>s e. fst (vc_call s e)) virtual_connection_new es))
      \<le> vc_rank (vc_state (run (\<lambda>s e. fst (vc_call s e)) virtual_connection_new (es @ es')))"
  using vcm.run_inv [OF vc_inv_new] vcm.rank_run [OF vcm.run_inv [OF vc_inv_new]]
  by (simp add: run_append)

end
