(* ===== verification/Ntlm.thy ===== *)
theory Ntlm
  imports Rust_Strings
begin

text \<open>
  \<open>crates/rdg-proto/src/ntlm.rs\<close>: parsing and validating NTLM messages. The code outside the
  repository is a parameter: \<open>hmac_md5\<close> (\<open>None\<close> for a key the crate would refuse), \<open>md4\<close>,
  \<open>to_uppercase\<close> of the Unicode tables, the random challenge and the clock's seconds.
\<close>

definition NTLMSSP_SIGNATURE :: bytes where
  "NTLMSSP_SIGNATURE = [0x4E, 0x54, 0x4C, 0x4D, 0x53, 0x53, 0x50, 0x00]"

definition NTLMSSP_NEGOTIATE_UNICODE :: u32 where "NTLMSSP_NEGOTIATE_UNICODE = 0x00000001"
definition NTLMSSP_REQUEST_TARGET :: u32 where "NTLMSSP_REQUEST_TARGET = 0x00000004"
definition NTLMSSP_NEGOTIATE_SIGN :: u32 where "NTLMSSP_NEGOTIATE_SIGN = 0x00000010"
definition NTLMSSP_NEGOTIATE_SEAL :: u32 where "NTLMSSP_NEGOTIATE_SEAL = 0x00000020"
definition NTLMSSP_NEGOTIATE_NTLM :: u32 where "NTLMSSP_NEGOTIATE_NTLM = 0x00000200"
definition NTLMSSP_NEGOTIATE_ALWAYS_SIGN :: u32 where "NTLMSSP_NEGOTIATE_ALWAYS_SIGN = 0x00008000"
definition NTLMSSP_TARGET_TYPE_SERVER :: u32 where "NTLMSSP_TARGET_TYPE_SERVER = 0x00020000"
definition NTLMSSP_NEGOTIATE_EXTENDED_SESSION_SECURITY :: u32 where
  "NTLMSSP_NEGOTIATE_EXTENDED_SESSION_SECURITY = 0x00080000"
definition NTLMSSP_NEGOTIATE_TARGET_INFO :: u32 where "NTLMSSP_NEGOTIATE_TARGET_INFO = 0x00800000"
definition NTLMSSP_NEGOTIATE_VERSION :: u32 where "NTLMSSP_NEGOTIATE_VERSION = 0x02000000"
definition NTLMSSP_NEGOTIATE_128 :: u32 where "NTLMSSP_NEGOTIATE_128 = 0x20000000"
definition NTLMSSP_NEGOTIATE_KEY_EXCH :: u32 where "NTLMSSP_NEGOTIATE_KEY_EXCH = 0x40000000"
definition NTLMSSP_NEGOTIATE_56 :: u32 where "NTLMSSP_NEGOTIATE_56 = 0x80000000"

definition MSV_AV_EOL :: u16 where "MSV_AV_EOL = 0x0000"
definition MSV_AV_NB_COMPUTER_NAME :: u16 where "MSV_AV_NB_COMPUTER_NAME = 0x0001"
definition MSV_AV_NB_DOMAIN_NAME :: u16 where "MSV_AV_NB_DOMAIN_NAME = 0x0002"
definition MSV_AV_DNS_COMPUTER_NAME :: u16 where "MSV_AV_DNS_COMPUTER_NAME = 0x0003"
definition MSV_AV_DNS_DOMAIN_NAME :: u16 where "MSV_AV_DNS_DOMAIN_NAME = 0x0004"
definition MSV_AV_TIMESTAMP :: u16 where "MSV_AV_TIMESTAMP = 0x0007"

datatype ntlm_error =
    InvalidSignature | UnexpectedType u32 | BufferTooShort | HmacError | AuthFailed

record ntlm_negotiate =
  nn_flags :: u32
  nn_domain :: rstring
  nn_workstation :: rstring

record ntlm_challenge =
  nc_target_name :: rstring
  nc_server_challenge :: bytes
  nc_flags :: u32
  nc_target_info :: bytes

record ntlm_authenticate =
  na_flags :: u32
  na_domain :: rstring
  na_username :: rstring
  na_workstation :: rstring
  na_lm_response :: bytes
  na_nt_response :: bytes
  na_encrypted_random_session_key :: bytes

section \<open>Security buffers\<close>

text \<open>
  A security buffer is a length, a maximal length and an offset into the same message. The end
  \<open>buf_offset + len\<close> is computed in \<open>usize\<close>, where a 32-bit offset and a 16-bit length do
  not wrap.
\<close>

definition read_security_buffer_raw :: "bytes \<Rightarrow> nat \<Rightarrow> (ntlm_error, bytes) outcome" where
  "read_security_buffer_raw data offset =
     (if length data < offset + 8 then Err BufferTooShort
      else
        rbind (slice offset (offset + 2) data) (\<lambda>l.
        rbind (slice (offset + 4) (offset + 8) data) (\<lambda>off.
        let len = unat (of_le l :: u16);
            buf_offset = unat (of_le off :: u32)
        in if len = 0 then Ok []
           else if length data < buf_offset + len then Err BufferTooShort
           else slice buf_offset (buf_offset + len) data)))"

text \<open>\<open>chunks_exact(2)\<close> drops an odd last byte, as \<open>u16_units\<close> does.\<close>

definition read_security_buffer :: "bytes \<Rightarrow> nat \<Rightarrow> rstring option" where
  "read_security_buffer data offset =
     Option.bind (ok_opt (read_security_buffer_raw data offset)) (\<lambda>raw.
     if raw = [] then Some []
     else if length raw mod 2 = 0 then Some (from_utf16_lossy (u16_units raw))
     else Some (from_utf8_lossy raw))"

section \<open>Type 1\<close>

definition parse_negotiate :: "bytes \<Rightarrow> (ntlm_error, ntlm_negotiate) outcome" where
  "parse_negotiate data =
     (if length data < 32 then Err BufferTooShort
      else
        rbind (slice 0 8 data) (\<lambda>sig.
        if sig \<noteq> NTLMSSP_SIGNATURE then Err InvalidSignature
        else
          rbind (slice 8 12 data) (\<lambda>t.
          let msg_type = of_le t :: u32
          in if msg_type \<noteq> 1 then Err (UnexpectedType msg_type)
          else
            rbind (slice 12 16 data) (\<lambda>f.
            Ok \<lparr>nn_flags = of_le f,
                nn_domain = unwrap_or [] (read_security_buffer data 16),
                nn_workstation = unwrap_or [] (read_security_buffer data 24)\<rparr>))))"

section \<open>Type 2\<close>

definition ntlm_encode_utf16le :: "rstring \<Rightarrow> bytes" where
  "ntlm_encode_utf16le s = units_bytes (encode_utf16 s)"

definition windows_filetime :: "u64 \<Rightarrow> u64" where
  "windows_filetime unix_secs = (unix_secs + 11644473600) * 10000000"

definition build_target_info :: "u64 \<Rightarrow> rstring \<Rightarrow> bytes" where
  "build_target_info unix_secs server_name =
     (let name_utf16 = ntlm_encode_utf16le server_name;
          name_len = put_u16_le (word_of_nat (length name_utf16))
      in put_u16_le MSV_AV_NB_COMPUTER_NAME @ name_len @ name_utf16
         @ put_u16_le MSV_AV_NB_DOMAIN_NAME @ name_len @ name_utf16
         @ put_u16_le MSV_AV_DNS_COMPUTER_NAME @ name_len @ name_utf16
         @ put_u16_le MSV_AV_DNS_DOMAIN_NAME @ name_len @ name_utf16
         @ put_u16_le MSV_AV_TIMESTAMP @ put_u16_le 8 @ put_u64_le (windows_filetime unix_secs)
         @ put_u16_le MSV_AV_EOL @ put_u16_le 0)"

definition challenge_flags :: u32 where
  "challenge_flags = NTLMSSP_NEGOTIATE_UNICODE OR NTLMSSP_REQUEST_TARGET OR NTLMSSP_NEGOTIATE_NTLM
     OR NTLMSSP_NEGOTIATE_ALWAYS_SIGN OR NTLMSSP_TARGET_TYPE_SERVER
     OR NTLMSSP_NEGOTIATE_EXTENDED_SESSION_SECURITY OR NTLMSSP_NEGOTIATE_TARGET_INFO
     OR NTLMSSP_NEGOTIATE_VERSION OR NTLMSSP_NEGOTIATE_128 OR NTLMSSP_NEGOTIATE_KEY_EXCH
     OR NTLMSSP_NEGOTIATE_56 OR NTLMSSP_NEGOTIATE_SEAL OR NTLMSSP_NEGOTIATE_SIGN"

definition generate_challenge :: "u64 \<Rightarrow> rstring \<Rightarrow> bytes \<Rightarrow> ntlm_challenge" where
  "generate_challenge unix_secs target_name server_challenge =
     \<lparr>nc_target_name = target_name, nc_server_challenge = server_challenge,
      nc_flags = challenge_flags, nc_target_info = build_target_info unix_secs target_name\<rparr>"

definition serialize_challenge :: "ntlm_challenge \<Rightarrow> bytes" where
  "serialize_challenge challenge =
     (let target_name_bytes = ntlm_encode_utf16le (nc_target_name challenge);
          target_info = nc_target_info challenge;
          header_size = 56;
          target_name_offset = header_size;
          target_info_offset = target_name_offset + length target_name_bytes
      in NTLMSSP_SIGNATURE @ put_u32_le 2
         @ put_u16_le (word_of_nat (length target_name_bytes))
         @ put_u16_le (word_of_nat (length target_name_bytes))
         @ put_u32_le (word_of_nat target_name_offset)
         @ put_u32_le (nc_flags challenge)
         @ nc_server_challenge challenge
         @ put_u64_le 0
         @ put_u16_le (word_of_nat (length target_info))
         @ put_u16_le (word_of_nat (length target_info))
         @ put_u32_le (word_of_nat target_info_offset)
         @ [0x0a, 0x00, 0xf4, 0x65, 0x00, 0x00, 0x00, 0x0f]
         @ target_name_bytes @ target_info)"

section \<open>Type 3\<close>

definition parse_authenticate :: "bytes \<Rightarrow> (ntlm_error, ntlm_authenticate) outcome" where
  "parse_authenticate data =
     (if length data < 64 then Err BufferTooShort
      else
        rbind (slice 0 8 data) (\<lambda>sig.
        if sig \<noteq> NTLMSSP_SIGNATURE then Err InvalidSignature
        else
          rbind (slice 8 12 data) (\<lambda>t.
          let msg_type = of_le t :: u32
          in if msg_type \<noteq> 3 then Err (UnexpectedType msg_type)
          else
            rbind (read_security_buffer_raw data 12) (\<lambda>lm_response.
            rbind (read_security_buffer_raw data 20) (\<lambda>nt_response.
            rbind (read_security_buffer_raw data 28) (\<lambda>domain_buf.
            rbind (read_security_buffer_raw data 36) (\<lambda>username_buf.
            rbind (read_security_buffer_raw data 44) (\<lambda>workstation_buf.
            let session_key = unwrap_or [] (ok_opt (read_security_buffer_raw data 52))
            in rbind (if 64 \<le> length data
                  then rbind (slice 60 64 data) (\<lambda>f. Ok (of_le f)) else Ok 0) (\<lambda>flags.
            Ok \<lparr>na_flags = flags,
                na_domain = from_utf16_lossy (u16_units domain_buf),
                na_username = from_utf16_lossy (u16_units username_buf),
                na_workstation = from_utf16_lossy (u16_units workstation_buf),
                na_lm_response = lm_response, na_nt_response = nt_response,
                na_encrypted_random_session_key = session_key\<rparr>)))))))))"

text \<open>The comparison loop accumulates the differing bits of all bytes.\<close>

definition constant_time_eq :: "bytes \<Rightarrow> bytes \<Rightarrow> bool" where
  "constant_time_eq a b =
     (if length a \<noteq> length b then False
      else foldl (\<lambda>diff (x, y). diff OR (x XOR y)) 0 (zip a b) = 0)"

definition validate_ntlmv2 ::
  "(bytes \<Rightarrow> bytes \<Rightarrow> bytes option) \<Rightarrow> (rstring \<Rightarrow> rstring)
    \<Rightarrow> bytes \<Rightarrow> bytes \<Rightarrow> ntlm_authenticate \<Rightarrow> (ntlm_error, unit) outcome" where
  "validate_ntlmv2 hmac_md5 to_uppercase nt_hash server_challenge authenticate =
     (if length (na_nt_response authenticate) < 24 then Err AuthFailed
      else
        let user_upper = to_uppercase (na_username authenticate);
            identity = user_upper @ na_domain authenticate;
            identity_bytes = ntlm_encode_utf16le identity
        in rbind (ok_or HmacError (hmac_md5 nt_hash identity_bytes)) (\<lambda>response_key.
           rbind (slice 0 16 (na_nt_response authenticate)) (\<lambda>nt_proof_str.
           rbind (slice 16 (length (na_nt_response authenticate)) (na_nt_response authenticate))
             (\<lambda>nt_client_challenge.
           let verify_input = server_challenge @ nt_client_challenge
           in rbind (ok_or HmacError (hmac_md5 response_key verify_input)) (\<lambda>expected.
           if constant_time_eq nt_proof_str expected then Ok () else Err AuthFailed)))))"

definition compute_nt_hash :: "(bytes \<Rightarrow> bytes) \<Rightarrow> rstring \<Rightarrow> bytes" where
  "compute_nt_hash md4 password = md4 (units_bytes (encode_utf16 password))"

section \<open>Facts about the parts\<close>

lemma read_raw_no_panic [simp, no_panic]: "read_security_buffer_raw data offset \<noteq> Panic"
  by (auto simp: read_security_buffer_raw_def rbind_eq_Panic get_eq_Panic Let_def)

lemma read_raw_layout:
  assumes "data = pre @ put_u16_le l @ m @ put_u32_le off @ post" and "length pre = offset"
    and "length m = 2" and "data = pre' @ payload @ post'" and "length pre' = unat off"
    and "length payload = unat l"
  shows "read_security_buffer_raw data offset = Ok payload"
proof -
  have len: "offset + 8 \<le> length data" using assms(2,3) by (simp add: assms(1))
  have a: "slice offset (offset + 2) data = Ok (put_u16_le l)"
    unfolding assms(1) by (rule slice_append) (simp_all add: assms)
  have b: "slice (offset + 4) (offset + 8) data = Ok (put_u32_le off)"
  proof -
    have "slice (offset + 4) (offset + 8) ((pre @ put_u16_le l @ m) @ put_u32_le off @ post)
        = Ok (put_u32_le off)"
      by (rule slice_append) (simp_all add: assms(2,3))
    then show ?thesis by (simp add: assms(1))
  qed
  have c: "slice (unat off) (unat off + unat l) data = Ok payload"
    unfolding assms(4) by (rule slice_append) (simp_all add: assms)
  have d: "unat off + unat l \<le> length data"
    by (simp add: assms(4-6))
  have e: "of_le (put_u16_le l) = l" "of_le (put_u32_le off) = off"
    by (simp_all add: put_u16_le_def put_u32_le_def)
  show ?thesis
    using len d assms(6) unfolding read_security_buffer_raw_def a b rbind.simps Let_def e
    by (auto simp: c)
qed

lemma unat_nat16: "n < 65536 \<Longrightarrow> unat (word_of_nat n :: u16) = n"
  by (simp add: unat_of_nat take_bit_eq_mod)

lemma unat_nat32: "n < 4294967296 \<Longrightarrow> unat (word_of_nat n :: u32) = n"
  by (simp add: unat_of_nat take_bit_eq_mod)

lemma xor_zero_iff: "(x :: 'a::len word) XOR y = 0 \<longleftrightarrow> x = y"
proof
  assume "x XOR y = 0"
  then have "(x XOR y) XOR y = y" by simp
  then show "x = y" by (simp add: xor.assoc)
qed simp

lemma constant_time_eq_iff: "constant_time_eq a b \<longleftrightarrow> a = b"
proof -
  have "foldl (\<lambda>diff (x, y). diff OR (x XOR y)) d (zip a b) = 0 \<longleftrightarrow> d = 0 \<and> a = b"
    if "length a = length b" for d :: u8
    using that
  proof (induction a b arbitrary: d rule: list_induct2)
    case Nil
    then show ?case by simp
  next
    case (Cons x xs y ys)
    have "d OR (x XOR y) = 0 \<longleftrightarrow> d = 0 \<and> x = y"
      by (auto simp: or_eq_0_iff xor_zero_iff)
    then show ?case using Cons.IH by auto
  qed
  then show ?thesis by (auto simp: constant_time_eq_def)
qed

section \<open>Properties\<close>

text \<open>
  Whatever bytes a client sends as a Type 1 or Type 3 message, parsing them
  ends in a value or an error: no offset or length of a security buffer leads outside.
\<close>

theorem ntlm_parsers_total: "parse_negotiate data \<noteq> Panic \<and> parse_authenticate data \<noteq> Panic"
  by (auto simp: parse_negotiate_def parse_authenticate_def rbind_eq_Panic get_eq_Panic get_enough
      Let_def)

text \<open>
  A security buffer that reads with some content lies wholly inside the
  message: the content is the announced number of bytes at the announced offset.
\<close>

theorem ntlm_security_buffer:
  assumes "read_security_buffer_raw data offset = Ok raw"
  shows "offset + 8 \<le> length data
    \<and> length raw = unat (of_le (take 2 (drop offset data)) :: u16)
    \<and> (raw = [] \<or>
        raw = take (length raw) (drop (unat (of_le (take 4 (drop (offset + 4) data)) :: u32)) data)
        \<and> unat (of_le (take 4 (drop (offset + 4) data)) :: u32) + length raw \<le> length data)"
  using assms
  by (auto simp: read_security_buffer_raw_def Let_def slice_def split: if_splits)

theorem ntlm_security_buffer_witness:
  "length ([7, 8] :: bytes) = unat (of_le (take 2 (drop 0 (put_u16_le 2 @ [0, 0] @ put_u32_le 8 @ [7, 8]))) :: u16)"
proof -
  have "read_security_buffer_raw (put_u16_le 2 @ [0, 0] @ put_u32_le 8 @ [7, 8]) 0 = Ok [7, 8]"
    by (rule read_raw_layout [of _ "[]" 2 "[0, 0]" 8 "[7, 8]" _ "put_u16_le 2 @ [0, 0] @ put_u32_le 8"
          _ "[]"]) simp_all
  from ntlm_security_buffer [OF this] show ?thesis by simp
qed

lemma challenge_layout:
  assumes "length (nc_server_challenge c) = 8"
    and "length (encode_utf16 (nc_target_name c)) < 2 ^ 15" and "length (nc_target_info c) < 2 ^ 16"
  shows "take 8 (serialize_challenge c) = NTLMSSP_SIGNATURE
    \<and> of_le (take 4 (drop 8 (serialize_challenge c))) = (2 :: u32)
    \<and> take 8 (drop 24 (serialize_challenge c)) = nc_server_challenge c
    \<and> read_security_buffer_raw (serialize_challenge c) 12
        = Ok (units_bytes (encode_utf16 (nc_target_name c)))
    \<and> read_security_buffer_raw (serialize_challenge c) 40 = Ok (nc_target_info c)
    \<and> length (serialize_challenge c)
        = 56 + 2 * length (encode_utf16 (nc_target_name c)) + length (nc_target_info c)"
proof -
  let ?d = "serialize_challenge c"
  let ?n = "ntlm_encode_utf16le (nc_target_name c)" and ?i = "nc_target_info c"
  have ln: "length ?n = 2 * length (encode_utf16 (nc_target_name c))"
    by (simp add: ntlm_encode_utf16le_def)
  have u: "unat (word_of_nat (length ?n) :: u16) = length ?n"
    "unat (word_of_nat (length ?i) :: u16) = length ?i"
    "unat (word_of_nat (56 + length ?n) :: u32) = 56 + length ?n"
    using assms ln by (intro unat_nat16 unat_nat32; simp)+
  have sig: "length NTLMSSP_SIGNATURE = 8" by (simp add: NTLMSSP_SIGNATURE_def)
  have d: "?d = NTLMSSP_SIGNATURE @ put_u32_le 2 @ put_u16_le (word_of_nat (length ?n))
      @ put_u16_le (word_of_nat (length ?n)) @ put_u32_le 56 @ put_u32_le (nc_flags c)
      @ nc_server_challenge c @ put_u64_le 0 @ put_u16_le (word_of_nat (length ?i))
      @ put_u16_le (word_of_nat (length ?i)) @ put_u32_le (word_of_nat (56 + length ?n))
      @ [0x0a, 0x00, 0xf4, 0x65, 0x00, 0x00, 0x00, 0x0f] @ ?n @ ?i"
    by (simp add: serialize_challenge_def Let_def)
  have name: "read_security_buffer_raw ?d 12 = Ok ?n"
  proof (rule read_raw_layout)
    show "?d = (NTLMSSP_SIGNATURE @ put_u32_le 2) @ put_u16_le (word_of_nat (length ?n))
        @ put_u16_le (word_of_nat (length ?n)) @ put_u32_le 56 @ drop 20 ?d"
      unfolding d by (simp add: sig)
    show "?d = take 56 ?d @ ?n @ ?i"
      unfolding d by (simp add: sig assms(1))
    show "length (take 56 ?d) = unat (56 :: u32)"
      unfolding d by (simp add: sig assms(1))
  qed (simp_all add: sig u)
  have info: "read_security_buffer_raw ?d 40 = Ok ?i"
  proof (rule read_raw_layout)
    show "?d = take 40 ?d @ put_u16_le (word_of_nat (length ?i))
        @ put_u16_le (word_of_nat (length ?i)) @ put_u32_le (word_of_nat (56 + length ?n)) @ drop 48 ?d"
      unfolding d by (simp add: sig assms(1))
    show "?d = (take 56 ?d @ ?n) @ ?i @ []"
      unfolding d by (simp add: sig assms(1))
    show "length (take 56 ?d @ ?n) = unat (word_of_nat (56 + length ?n) :: u32)"
      unfolding u(3) d by (simp add: sig assms(1))
    show "length (take 40 ?d) = 40" unfolding d by (simp add: sig assms(1))
  qed (simp_all add: u)
  have "length ?d = 56 + length ?n + length ?i"
    unfolding d by (simp add: sig assms(1))
  moreover have "take 8 ?d = NTLMSSP_SIGNATURE" "take 4 (drop 8 ?d) = put_u32_le 2"
      "take 8 (drop 24 ?d) = nc_server_challenge c"
    unfolding d by (simp_all add: sig assms(1))
  ultimately show ?thesis
    using name info ln by (simp add: ntlm_encode_utf16le_def put_u32_le_def)
qed

lemma length_target_info:
  "length (build_target_info unix_secs name) = 32 + 8 * length (encode_utf16 name)"
  by (simp add: build_target_info_def Let_def ntlm_encode_utf16le_def)

lemma challenge_tells_name:
  assumes "valid_str name" and "length (encode_utf16 name) < 2 ^ 12" and "length challenge = 8"
  shows "\<exists>bs. read_security_buffer_raw (serialize_challenge (generate_challenge t name challenge)) 12 = Ok bs
    \<and> from_utf16 (u16_units bs) = Some name"
proof -
  have "length (encode_utf16 name) < 2 ^ 15" "length (build_target_info t name) < 2 ^ 16"
    using assms(2) by (simp_all add: length_target_info)
  then show ?thesis
    using challenge_layout [of "generate_challenge t name challenge"] assms(1,3)
    by (simp add: generate_challenge_def)
qed

lemma validate_ntlmv2_eq:
  assumes "\<And>k d. hmac_md5 k d = Some (h k d)"
  shows "validate_ntlmv2 hmac_md5 up nt_hash challenge a =
    (if 24 \<le> length (na_nt_response a)
       \<and> take 16 (na_nt_response a)
         = h (h nt_hash (units_bytes (encode_utf16 (up (na_username a) @ na_domain a))))
             (challenge @ drop 16 (na_nt_response a))
     then Ok () else Err AuthFailed)"
  by (simp add: validate_ntlmv2_def Let_def assms get_enough constant_time_eq_iff
      ntlm_encode_utf16le_def not_less)

text \<open>
  In the Type 2 message the server sends, the two security buffers point at
  the target name and at the target information, the signature, type and challenge stand where
  the client looks for them, and nothing else follows.
\<close>

theorem challenge_buffers:
  assumes "length (nc_server_challenge c) = 8"
    and "length (encode_utf16 (nc_target_name c)) < 2 ^ 15" and "length (nc_target_info c) < 2 ^ 16"
  shows "take 8 (serialize_challenge c) = NTLMSSP_SIGNATURE
    \<and> of_le (take 4 (drop 8 (serialize_challenge c))) = (2 :: u32)
    \<and> take 8 (drop 24 (serialize_challenge c)) = nc_server_challenge c
    \<and> read_security_buffer_raw (serialize_challenge c) 12
        = Ok (units_bytes (encode_utf16 (nc_target_name c)))
    \<and> read_security_buffer_raw (serialize_challenge c) 40 = Ok (nc_target_info c)
    \<and> length (serialize_challenge c)
        = 56 + 2 * length (encode_utf16 (nc_target_name c)) + length (nc_target_info c)"
  using assms by (rule challenge_layout)

theorem challenge_buffers_witness:
  "read_security_buffer_raw (serialize_challenge (generate_challenge 0 (lit ''SRV'') [1, 2, 3, 4, 5, 6, 7, 8])) 12
    = Ok [83, 0, 82, 0, 86, 0]"
proof -
  let ?c = "generate_challenge 0 (lit ''SRV'') [1, 2, 3, 4, 5, 6, 7, 8]"
  have e: "encode_utf16 (nc_target_name ?c) = [83, 82, 86]"
    by (simp add: generate_challenge_def lit_def encode_utf16_def utf16_char_def)
  have "length (nc_target_info ?c) < 2 ^ 16"
    by (simp add: generate_challenge_def build_target_info_def Let_def ntlm_encode_utf16le_def
        lit_def encode_utf16_def utf16_char_def)
  then have "read_security_buffer_raw (serialize_challenge ?c) 12 = Ok (units_bytes [83, 82, 86])"
    using challenge_buffers [of ?c] by (simp add: e) (simp add: generate_challenge_def)
  then show ?thesis
    by (simp add: units_bytes_def put_u16_le_def le_bytes_def upt_rec)
qed

text \<open>
  C15. With a sound HMAC, validation accepts a response exactly when it has at least
  24 bytes and its first 16 are the HMAC, under the key derived from the stored hash and the
  claimed identity, of the server's own challenge and the rest of the response; the comparison in
  constant time is equality, and every other response is \<open>AuthFailed\<close>.
\<close>

theorem ntlmv2_decision:
  assumes "\<And>k d. hmac_md5 k d = Some (h k d)"
  shows "validate_ntlmv2 hmac_md5 up nt_hash challenge a =
    (if 24 \<le> length (na_nt_response a)
       \<and> take 16 (na_nt_response a)
         = h (h nt_hash (units_bytes (encode_utf16 (up (na_username a) @ na_domain a))))
             (challenge @ drop 16 (na_nt_response a))
     then Ok () else Err AuthFailed)"
  using assms by (rule validate_ntlmv2_eq)

text \<open>
  The instance evaluates the code with a keyed sum in place of the HMAC: the first 16 bytes are
  the length of the input, added to the first byte of the key.
\<close>

theorem ntlmv2_decision_witness:
  "validate_ntlmv2 (\<lambda>k d. Some (replicate 16 (word_of_nat (length d) + hd (k @ [0])))) (\<lambda>s. s)
      [3] [1, 2, 3, 4, 5, 6, 7, 8]
      \<lparr>na_flags = 0, na_domain = [], na_username = [65], na_workstation = [], na_lm_response = [],
       na_nt_response = replicate 16 21 @ [0, 0, 0, 0, 0, 0, 0, 0],
       na_encrypted_random_session_key = []\<rparr> = Ok ()"
  by (subst ntlmv2_decision [of _ "\<lambda>k d. replicate 16 (word_of_nat (length d) + hd (k @ [0]))"])
    (simp_all add: encode_utf16_def utf16_char_def)

end
