(* ===== verification/Db.thy ===== *)
theory Db
  imports Models Acl Machine "HOL-Library.List_Lexorder"
begin

text \<open>
  \<open>crates/rdg-core/src/db/provider.rs\<close> and \<open>sqlite.rs\<close>: the provider's operations, each as
  what its SQL statement does to the tables. A table keeps its rows in \<open>rowid\<close> order with the
  AUTOINCREMENT counter; a constraint of the schema that a statement breaks is the error of the
  call, and the database is then as before. \<open>now\<close> is CURRENT_TIMESTAMP. Failures of the database
  itself (I/O, locks) are not modelled. SQLite does not fix the order of rows a query leaves
  open; rows come in \<open>rowid\<close> order here, which is what its table scan gives.
\<close>

datatype sql_error = UniqueViolation | ForeignKeyViolation | CheckViolation

datatype db_error = Database sql_error | NotFound rstring | Migration rstring

section \<open>Tables\<close>

record 'r table =
  tb_rows :: "'r list"
  tb_seq :: int

definition table_empty :: "'r table" where
  "table_empty = \<lparr>tb_rows = [], tb_seq = 0\<rparr>"

text \<open>INSERT: \<open>mk\<close> makes the row of a fresh id, which is \<open>last_insert_rowid()\<close>.\<close>

definition table_insert :: "(int \<Rightarrow> 'r) \<Rightarrow> 'r table \<Rightarrow> 'r table \<times> int" where
  "table_insert mk t =
     (let i = tb_seq t + 1 in (\<lparr>tb_rows = tb_rows t @ [mk i], tb_seq = i\<rparr>, i))"

definition table_delete :: "('r \<Rightarrow> bool) \<Rightarrow> 'r table \<Rightarrow> 'r table" where
  "table_delete p t = t\<lparr>tb_rows := filter (\<lambda>r. \<not> p r) (tb_rows t)\<rparr>"

definition table_update :: "('r \<Rightarrow> bool) \<Rightarrow> ('r \<Rightarrow> 'r) \<Rightarrow> 'r table \<Rightarrow> 'r table" where
  "table_update p f t = t\<lparr>tb_rows := map (\<lambda>r. if p r then f r else r) (tb_rows t)\<rparr>"

text \<open>Every row has an id the counter has given out, and no two rows the same.\<close>

definition table_ok :: "('r \<Rightarrow> int) \<Rightarrow> 'r table \<Rightarrow> bool" where
  "table_ok rid t \<longleftrightarrow> distinct (map rid (tb_rows t)) \<and> (\<forall>r \<in> set (tb_rows t). rid r \<le> tb_seq t)"

definition table_find :: "('r \<Rightarrow> int) \<Rightarrow> int \<Rightarrow> 'r table \<Rightarrow> 'r option" where
  "table_find rid i t = find (\<lambda>r. rid r = i) (tb_rows t)"

lemma table_ok_empty [simp]: "table_ok rid table_empty"
  by (simp add: table_ok_def table_empty_def)

lemma find_append: "find P (xs @ ys) = (case find P xs of None \<Rightarrow> find P ys | Some x \<Rightarrow> Some x)"
  by (induction xs) auto

lemma table_ok_insert:
  "table_ok rid t \<Longrightarrow> rid (mk (tb_seq t + 1)) = tb_seq t + 1 \<Longrightarrow>
    table_ok rid (fst (table_insert mk t))"
  by (fastforce simp: table_ok_def table_insert_def Let_def)

lemma table_ok_delete: "table_ok rid t \<Longrightarrow> table_ok rid (table_delete p t)"
  by (auto simp: table_ok_def table_delete_def distinct_map_filter)

lemma table_ok_update:
  assumes "table_ok rid t" and "\<And>r. rid (f r) = rid r"
  shows "table_ok rid (table_update p f t)"
proof -
  have "rid \<circ> (\<lambda>r. if p r then f r else r) = rid"
    using assms(2) by auto
  then show ?thesis using assms by (auto simp: table_ok_def table_update_def)
qed

lemma table_find_insert:
  assumes "table_ok rid t" and "rid (mk (tb_seq t + 1)) = tb_seq t + 1"
  shows "table_find rid j (fst (table_insert mk t))
    = (if j = tb_seq t + 1 then Some (mk j) else table_find rid j t)"
proof -
  have "find (\<lambda>r. rid r = tb_seq t + 1) (tb_rows t) = None"
    using assms(1) by (force simp: table_ok_def find_None_iff)
  then show ?thesis using assms(2)
    by (auto simp: table_find_def table_insert_def Let_def find_append split: option.splits)
qed

lemma table_find_delete:
  "table_find rid j (table_delete (\<lambda>r. rid r = i) t) = (if j = i then None else table_find rid j t)"
proof -
  have "find (\<lambda>r. rid r = j) (filter (\<lambda>r. rid r \<noteq> i) xs)
      = (if j = i then None else find (\<lambda>r. rid r = j) xs)" for xs
    by (induction xs) auto
  then show ?thesis by (simp add: table_find_def table_delete_def)
qed

lemma table_find_update:
  assumes "\<And>r. rid (f r) = rid r"
  shows "table_find rid j (table_update (\<lambda>r. rid r = i) f t)
    = (if j = i then map_option f (table_find rid j t) else table_find rid j t)"
proof -
  have "find (\<lambda>r. rid r = j) (map (\<lambda>r. if rid r = i then f r else r) xs)
      = (if j = i then map_option f (find (\<lambda>r. rid r = j) xs) else find (\<lambda>r. rid r = j) xs)" for xs
    by (induction xs) (auto simp: assms)
  then show ?thesis by (simp add: table_find_def table_update_def)
qed

lemma table_fresh: "table_ok rid t \<Longrightarrow> table_find rid (tb_seq t + 1) t = None"
  by (force simp: table_find_def find_None_iff table_ok_def)

section \<open>The database\<close>

record database =
  db_users :: "user table"
  db_groups :: "user_group table"
  db_user_groups :: "membership list"
  db_acl_rules :: "acl_rule table"
  db_sessions :: "session_row list"
  db_certificates :: "certificate_info table"
  db_connections :: "connection table"

definition database_empty :: database where
  "database_empty = \<lparr>db_users = table_empty, db_groups = table_empty, db_user_groups = [],
     db_acl_rules = table_empty, db_sessions = [], db_certificates = table_empty,
     db_connections = table_empty\<rparr>"

definition has_user :: "database \<Rightarrow> int \<Rightarrow> bool" where
  "has_user db i \<longleftrightarrow> i \<in> set (map u_id (tb_rows (db_users db)))"

definition has_group :: "database \<Rightarrow> int \<Rightarrow> bool" where
  "has_group db i \<longleftrightarrow> i \<in> set (map g_id (tb_rows (db_groups db)))"

subsection \<open>Users and groups\<close>

text \<open>\<open>COLLATE NOCASE\<close> folds the ASCII letters; the UNIQUE constraint compares bytes.\<close>

definition get_user_by_username :: "database \<Rightarrow> rstring \<Rightarrow> (db_error, user option) outcome" where
  "get_user_by_username db username =
     Ok (find (\<lambda>u. eq_ignore_ascii_case (u_username u) username) (tb_rows (db_users db)))"

definition insert_user ::
  "database \<Rightarrow> rstring \<Rightarrow> bytes \<Rightarrow> rstring option \<Rightarrow> database \<times> (db_error, user) outcome" where
  "insert_user db username nt_hash password_hash =
     (if username \<in> set (map u_username (tb_rows (db_users db)))
      then (db, Err (Database UniqueViolation))
      else
        let mk = (\<lambda>i. \<lparr>u_id = i, u_username = username, u_nt_hash = nt_hash, u_enabled = True,
              u_password_hash = password_hash\<rparr>);
            (t, i) = table_insert mk (db_users db)
        in (db\<lparr>db_users := t\<rparr>, Ok (mk i)))"

definition create_user :: "database \<Rightarrow> rstring \<Rightarrow> bytes \<Rightarrow> database \<times> (db_error, user) outcome" where
  "create_user db username nt_hash = insert_user db username nt_hash None"

definition create_user_with_password ::
  "database \<Rightarrow> rstring \<Rightarrow> bytes \<Rightarrow> rstring \<Rightarrow> database \<times> (db_error, user) outcome" where
  "create_user_with_password db username nt_hash password_hash =
     insert_user db username nt_hash (Some password_hash)"

definition list_users :: "database \<Rightarrow> (db_error, user list) outcome" where
  "list_users db = Ok (tb_rows (db_users db))"

definition set_user_enabled :: "database \<Rightarrow> int \<Rightarrow> bool \<Rightarrow> database \<times> (db_error, unit) outcome" where
  "set_user_enabled db user_id enabled =
     (db\<lparr>db_users := table_update (\<lambda>u. u_id u = user_id) (\<lambda>u. u\<lparr>u_enabled := enabled\<rparr>) (db_users db)\<rparr>,
      Ok ())"

definition get_user_groups :: "database \<Rightarrow> int \<Rightarrow> (db_error, user_group list) outcome" where
  "get_user_groups db user_id =
     Ok (filter (\<lambda>g. \<exists>ug \<in> set (db_user_groups db). ug_group_id ug = g_id g \<and> ug_user_id ug = user_id)
           (tb_rows (db_groups db)))"

definition create_group :: "database \<Rightarrow> rstring \<Rightarrow> database \<times> (db_error, user_group) outcome" where
  "create_group db nm =
     (if nm \<in> set (map g_name (tb_rows (db_groups db))) then (db, Err (Database UniqueViolation))
      else
        let mk = (\<lambda>i. \<lparr>g_id = i, g_name = nm\<rparr>);
            (t, i) = table_insert mk (db_groups db)
        in (db\<lparr>db_groups := t\<rparr>, Ok (mk i)))"

definition list_groups :: "database \<Rightarrow> (db_error, user_group list) outcome" where
  "list_groups db = Ok (tb_rows (db_groups db))"

text \<open>INSERT OR IGNORE passes over a duplicate, not over a missing user or group.\<close>

definition add_user_to_group :: "database \<Rightarrow> int \<Rightarrow> int \<Rightarrow> database \<times> (db_error, unit) outcome" where
  "add_user_to_group db user_id group_id =
     (let ug = \<lparr>ug_user_id = user_id, ug_group_id = group_id\<rparr> in
      if ug \<in> set (db_user_groups db) then (db, Ok ())
      else if \<not> has_user db user_id \<or> \<not> has_group db group_id
        then (db, Err (Database ForeignKeyViolation))
      else (db\<lparr>db_user_groups := db_user_groups db @ [ug]\<rparr>, Ok ()))"

subsection \<open>Access rules\<close>

definition get_acl_rules :: "database \<Rightarrow> (db_error, acl_rule list) outcome" where
  "get_acl_rules db = Ok (sort_key (\<lambda>r. - ar_priority r) (tb_rows (db_acl_rules db)))"

definition create_acl_rule :: "database \<Rightarrow> acl_rule \<Rightarrow> database \<times> (db_error, acl_rule) outcome" where
  "create_acl_rule db rule =
     (if ar_action rule \<noteq> lit ''allow'' \<and> ar_action rule \<noteq> lit ''deny''
      then (db, Err (Database CheckViolation))
      else if (case ar_user_id rule of Some u \<Rightarrow> \<not> has_user db u | None \<Rightarrow> False)
        \<or> (case ar_group_id rule of Some g \<Rightarrow> \<not> has_group db g | None \<Rightarrow> False)
      then (db, Err (Database ForeignKeyViolation))
      else
        let (t, i) = table_insert (\<lambda>i. rule\<lparr>ar_id := i\<rparr>) (db_acl_rules db)
        in (db\<lparr>db_acl_rules := t\<rparr>, Ok (rule\<lparr>ar_id := i\<rparr>)))"

definition delete_acl_rule :: "database \<Rightarrow> int \<Rightarrow> database \<times> (db_error, unit) outcome" where
  "delete_acl_rule db rule_id =
     (db\<lparr>db_acl_rules := table_delete (\<lambda>r. ar_id r = rule_id) (db_acl_rules db)\<rparr>, Ok ())"

subsection \<open>Sessions\<close>

definition create_session ::
  "rstring \<Rightarrow> database \<Rightarrow> session_row \<Rightarrow> database \<times> (db_error, unit) outcome" where
  "create_session now db session =
     (if se_id session \<in> set (map se_id (db_sessions db)) then (db, Err (Database UniqueViolation))
      else if \<not> has_user db (se_user_id session) then (db, Err (Database ForeignKeyViolation))
      else (db\<lparr>db_sessions := db_sessions db
              @ [session\<lparr>se_connected_at := now, se_disconnected_at := None\<rparr>]\<rparr>, Ok ()))"

definition end_session :: "rstring \<Rightarrow> database \<Rightarrow> rstring \<Rightarrow> database \<times> (db_error, unit) outcome" where
  "end_session now db session_id =
     (db\<lparr>db_sessions := map (\<lambda>s. if se_id s = session_id then s\<lparr>se_disconnected_at := Some now\<rparr> else s)
           (db_sessions db)\<rparr>, Ok ())"

definition get_active_sessions :: "database \<Rightarrow> (db_error, session_row list) outcome" where
  "get_active_sessions db = Ok (filter (\<lambda>s. se_disconnected_at s = None) (db_sessions db))"

subsection \<open>Certificates\<close>

text \<open>ORDER BY id DESC LIMIT 1.\<close>

definition get_certificate :: "database \<Rightarrow> (db_error, certificate_info option) outcome" where
  "get_certificate db =
     Ok (case sort_key (\<lambda>c. - ci_id c) (tb_rows (db_certificates db)) of
           [] \<Rightarrow> None | c # _ \<Rightarrow> Some c)"

definition save_certificate ::
  "rstring \<Rightarrow> database \<Rightarrow> certificate_info \<Rightarrow> database \<times> (db_error, unit) outcome" where
  "save_certificate now db cert =
     (db\<lparr>db_certificates :=
        fst (table_insert (\<lambda>i. cert\<lparr>ci_id := i, ci_created_at := now\<rparr>) (db_certificates db))\<rparr>, Ok ())"

subsection \<open>Connections\<close>

definition list_connections :: "database \<Rightarrow> (db_error, connection list) outcome" where
  "list_connections db = Ok (sort_key cn_name (tb_rows (db_connections db)))"

definition get_connection :: "database \<Rightarrow> int \<Rightarrow> (db_error, connection option) outcome" where
  "get_connection db i = Ok (table_find cn_id i (db_connections db))"

definition create_connection ::
  "rstring \<Rightarrow> database \<Rightarrow> rstring \<Rightarrow> rstring \<Rightarrow> int \<Rightarrow> rstring option \<Rightarrow> rstring
    \<Rightarrow> database \<times> (db_error, connection) outcome" where
  "create_connection now db nm host port description icon =
     (let row = (\<lambda>i. \<lparr>cn_id = i, cn_name = nm, cn_host = host, cn_port = port,
            cn_description = description, cn_icon = icon, cn_created_at = now,
            cn_updated_at = now\<rparr>);
          (t, i) = table_insert row (db_connections db)
      in (db\<lparr>db_connections := t\<rparr>, Ok ((row i)\<lparr>cn_created_at := [], cn_updated_at := []\<rparr>)))"

definition update_connection ::
  "rstring \<Rightarrow> database \<Rightarrow> int \<Rightarrow> rstring \<Rightarrow> rstring \<Rightarrow> int \<Rightarrow> rstring option \<Rightarrow> rstring
    \<Rightarrow> database \<times> (db_error, unit) outcome" where
  "update_connection now db i nm host port description icon =
     (db\<lparr>db_connections := table_update (\<lambda>c. cn_id c = i)
         (\<lambda>c. c\<lparr>cn_name := nm, cn_host := host, cn_port := port, cn_description := description,
            cn_icon := icon, cn_updated_at := now\<rparr>) (db_connections db)\<rparr>, Ok ())"

definition delete_connection :: "database \<Rightarrow> int \<Rightarrow> database \<times> (db_error, unit) outcome" where
  "delete_connection db i =
     (db\<lparr>db_connections := table_delete (\<lambda>c. cn_id c = i) (db_connections db)\<rparr>, Ok ())"

section \<open>The invariant of the schema\<close>

definition db_inv :: "database \<Rightarrow> bool" where
  "db_inv db \<longleftrightarrow>
     table_ok u_id (db_users db) \<and> table_ok g_id (db_groups db)
     \<and> table_ok ar_id (db_acl_rules db) \<and> table_ok ci_id (db_certificates db)
     \<and> table_ok cn_id (db_connections db)
     \<and> distinct (map u_username (tb_rows (db_users db)))
     \<and> distinct (map g_name (tb_rows (db_groups db)))
     \<and> distinct (db_user_groups db)
     \<and> (\<forall>ug \<in> set (db_user_groups db). has_user db (ug_user_id ug) \<and> has_group db (ug_group_id ug))
     \<and> (\<forall>r \<in> set (tb_rows (db_acl_rules db)).
          (ar_action r = lit ''allow'' \<or> ar_action r = lit ''deny'')
          \<and> (\<forall>u. ar_user_id r = Some u \<longrightarrow> has_user db u)
          \<and> (\<forall>g. ar_group_id r = Some g \<longrightarrow> has_group db g))
     \<and> distinct (map se_id (db_sessions db))
     \<and> (\<forall>s \<in> set (db_sessions db). has_user db (se_user_id s))"

text \<open>The calls of the provider that write, and what each leaves.\<close>

datatype db_op =
    CreateUser rstring bytes | CreateUserWithPassword rstring bytes rstring
  | SetUserEnabled int bool | CreateGroup rstring | AddUserToGroup int int
  | CreateAclRule acl_rule | DeleteAclRule int
  | CreateSession rstring session_row | EndSession rstring rstring
  | SaveCertificate rstring certificate_info
  | CreateConnection rstring rstring rstring int "rstring option" rstring
  | UpdateConnection rstring int rstring rstring int "rstring option" rstring
  | DeleteConnection int

fun db_apply :: "database \<Rightarrow> db_op \<Rightarrow> database" where
  "db_apply db (CreateUser n h) = fst (create_user db n h)"
| "db_apply db (CreateUserWithPassword n h p) = fst (create_user_with_password db n h p)"
| "db_apply db (SetUserEnabled i b) = fst (set_user_enabled db i b)"
| "db_apply db (CreateGroup n) = fst (create_group db n)"
| "db_apply db (AddUserToGroup u g) = fst (add_user_to_group db u g)"
| "db_apply db (CreateAclRule r) = fst (create_acl_rule db r)"
| "db_apply db (DeleteAclRule i) = fst (delete_acl_rule db i)"
| "db_apply db (CreateSession now s) = fst (create_session now db s)"
| "db_apply db (EndSession now i) = fst (end_session now db i)"
| "db_apply db (SaveCertificate now c) = fst (save_certificate now db c)"
| "db_apply db (CreateConnection now n h p d ic) = fst (create_connection now db n h p d ic)"
| "db_apply db (UpdateConnection now i n h p d ic) = fst (update_connection now db i n h p d ic)"
| "db_apply db (DeleteConnection i) = fst (delete_connection db i)"

lemma db_inv_empty: "db_inv database_empty"
  by (simp add: db_inv_def database_empty_def) (simp add: table_empty_def)

lemma rows_insert [simp]:
  "tb_rows (fst (table_insert mk t)) = tb_rows t @ [mk (tb_seq t + 1)]"
  "snd (table_insert mk t) = tb_seq t + 1"
  by (simp_all add: table_insert_def Let_def)

lemma insert_user_eq:
  "insert_user db n h p =
     (if n \<in> set (map u_username (tb_rows (db_users db))) then (db, Err (Database UniqueViolation))
      else
        let mk = \<lambda>i. \<lparr>u_id = i, u_username = n, u_nt_hash = h, u_enabled = True, u_password_hash = p\<rparr>
        in (db\<lparr>db_users := fst (table_insert mk (db_users db))\<rparr>, Ok (mk (tb_seq (db_users db) + 1))))"
  by (simp add: insert_user_def Let_def split_beta)

lemma db_inv_insert_user: "db_inv db \<Longrightarrow> db_inv (fst (insert_user db n h p))"
  by (auto simp: insert_user_eq Let_def db_inv_def has_user_def has_group_def
      intro!: table_ok_insert)

lemma map_if_same: "(\<And>r. f (g r) = f r) \<Longrightarrow> map f (map (\<lambda>r. if p r then g r else r) xs) = map f xs"
  by (induction xs) auto

lemma map_update_rows:
  "(\<And>r. f (g r) = f r) \<Longrightarrow> map f (tb_rows (table_update p g t)) = map f (tb_rows t)"
  by (simp add: table_update_def comp_def if_distrib [of f] cong: if_cong)

lemma db_inv_set_enabled: "db_inv db \<Longrightarrow> db_inv (fst (set_user_enabled db i b))"
proof -
  assume inv: "db_inv db"
  let ?t = "table_update (\<lambda>u. u_id u = i) (\<lambda>u. u\<lparr>u_enabled := b\<rparr>) (db_users db)"
  have "map u_id (tb_rows ?t) = map u_id (tb_rows (db_users db))"
    "map u_username (tb_rows ?t) = map u_username (tb_rows (db_users db))"
    by (rule map_update_rows; simp)+
  moreover have "table_ok u_id ?t"
    using inv by (intro table_ok_update) (simp_all add: db_inv_def)
  moreover from calculation(1) have "has_user (db\<lparr>db_users := ?t\<rparr>) = has_user db"
    "has_group (db\<lparr>db_users := ?t\<rparr>) = has_group db"
    by (simp_all add: fun_eq_iff has_user_def has_group_def del: set_map)
  ultimately show ?thesis
    using inv by (simp add: db_inv_def set_user_enabled_def)
qed

lemma db_inv_groups:
  "db_inv db \<Longrightarrow> db_inv (fst (create_group db n))"
  "db_inv db \<Longrightarrow> db_inv (fst (add_user_to_group db u g))"
  by (auto simp: create_group_def add_user_to_group_def Let_def split_beta db_inv_def has_user_def
      has_group_def intro!: table_ok_insert)

lemma db_inv_acl:
  "db_inv db \<Longrightarrow> db_inv (fst (create_acl_rule db r))"
  "db_inv db \<Longrightarrow> db_inv (fst (delete_acl_rule db i))"
  by (auto simp: create_acl_rule_def delete_acl_rule_def Let_def split_beta db_inv_def has_user_def
      has_group_def table_ok_delete split: option.splits intro!: table_ok_insert)
    (auto simp: table_delete_def)

lemma db_inv_sessions:
  "db_inv db \<Longrightarrow> db_inv (fst (create_session now db s))"
  "db_inv db \<Longrightarrow> db_inv (fst (end_session now db i))"
proof -
  assume inv: "db_inv db"
  then show "db_inv (fst (create_session now db s))"
    by (auto simp: create_session_def db_inv_def has_user_def has_group_def)
  let ?ended = "\<lambda>s. if se_id s = i then s\<lparr>se_disconnected_at := Some now\<rparr> else s"
  have "map se_id (map ?ended (db_sessions db)) = map se_id (db_sessions db)"
    "map se_user_id (map ?ended (db_sessions db)) = map se_user_id (db_sessions db)"
    by (rule map_if_same; simp)+
  then have "distinct (map se_id (map ?ended (db_sessions db)))"
    "\<forall>u \<in> set (map se_user_id (map ?ended (db_sessions db))). has_user db u"
    using inv by (auto simp: db_inv_def simp del: map_map)
  then show "db_inv (fst (end_session now db i))"
    using inv by (auto simp: end_session_def db_inv_def has_user_def has_group_def)
qed

lemma db_inv_certificates: "db_inv db \<Longrightarrow> db_inv (fst (save_certificate now db c))"
  by (auto simp: save_certificate_def db_inv_def has_user_def has_group_def intro!: table_ok_insert)

lemma db_inv_connections:
  "db_inv db \<Longrightarrow> db_inv (fst (create_connection now db n h p d ic))"
  "db_inv db \<Longrightarrow> db_inv (fst (update_connection now db i n h p d ic))"
  "db_inv db \<Longrightarrow> db_inv (fst (delete_connection db i))"
  by (auto simp: create_connection_def update_connection_def delete_connection_def Let_def split_beta
      db_inv_def has_user_def has_group_def table_ok_delete table_ok_update intro!: table_ok_insert)

lemma db_inv_apply: "db_inv db \<Longrightarrow> db_inv (db_apply db op)"
  by (cases op)
    (simp_all add: create_user_def create_user_with_password_def db_inv_insert_user
      db_inv_set_enabled db_inv_groups db_inv_acl db_inv_sessions db_inv_certificates
      db_inv_connections)

interpretation dbm: machine db_apply db_inv
  by unfold_locales (rule db_inv_apply)

section \<open>The contracts the clients rely on\<close>

text \<open>
  \<open>user_directory\<close> is what authentication asks of the provider: who a name is, and that
  switching an account off is seen by every later lookup.
\<close>

locale user_directory =
  fixes lookup :: "'db \<Rightarrow> rstring \<Rightarrow> user option"
    and add :: "'db \<Rightarrow> rstring \<Rightarrow> bytes \<Rightarrow> 'db option"
    and enable :: "'db \<Rightarrow> int \<Rightarrow> bool \<Rightarrow> 'db"
  assumes lookup_name: "lookup db n = Some u \<Longrightarrow> eq_ignore_ascii_case (u_username u) n"
    and lookup_add: "add db n h = Some db' \<Longrightarrow> lookup db n = None \<Longrightarrow>
      \<exists>u. lookup db' n = Some u \<and> u_nt_hash u = h \<and> u_enabled u \<and> u_username u = n"
    and lookup_add_kept: "add db n h = Some db' \<Longrightarrow> lookup db m = Some u \<Longrightarrow> lookup db' m = Some u"
    and lookup_enable: "lookup (enable db i b) m =
      map_option (\<lambda>u. if u_id u = i then u\<lparr>u_enabled := b\<rparr> else u) (lookup db m)"
begin

lemma disabled_stays: "lookup db n = Some u \<Longrightarrow>
    \<exists>u'. lookup (enable db (u_id u) False) n = Some u' \<and> \<not> u_enabled u' \<and> u_nt_hash u' = u_nt_hash u"
  by (simp add: lookup_enable)

lemma enable_again: "lookup db n = Some u \<Longrightarrow> u_enabled u \<Longrightarrow>
    lookup (enable (enable db (u_id u) False) (u_id u) True) n = Some u"
  by (simp add: lookup_enable)

lemma shadowed: "add db n h = Some db' \<Longrightarrow> lookup db n = Some u \<Longrightarrow> lookup db' n = Some u"
  by (rule lookup_add_kept)

end

definition lookup_user :: "database \<Rightarrow> rstring \<Rightarrow> user option" where
  "lookup_user db n = (case get_user_by_username db n of Ok u \<Rightarrow> u | _ \<Rightarrow> None)"

definition add_user :: "database \<Rightarrow> rstring \<Rightarrow> bytes \<Rightarrow> database option" where
  "add_user db n h = (case create_user db n h of (db', Ok _) \<Rightarrow> Some db' | _ \<Rightarrow> None)"

lemma lookup_user_eq:
  "lookup_user db n = find (\<lambda>u. eq_ignore_ascii_case (u_username u) n) (tb_rows (db_users db))"
  by (simp add: lookup_user_def get_user_by_username_def)

lemma add_user_Some: "add_user db n h = Some db' \<Longrightarrow> db' = db\<lparr>db_users := fst (table_insert
    (\<lambda>i. \<lparr>u_id = i, u_username = n, u_nt_hash = h, u_enabled = True, u_password_hash = None\<rparr>)
    (db_users db))\<rparr>"
  by (auto simp: add_user_def create_user_def insert_user_eq Let_def split: if_splits)

lemma find_map_update:
  assumes "\<And>u. P (f u) = P u"
  shows "find P (map (\<lambda>u. if Q u then f u else u) xs)
    = map_option (\<lambda>u. if Q u then f u else u) (find P xs)"
  by (induction xs) (auto simp: assms)

interpretation users: user_directory lookup_user add_user "\<lambda>db i b. fst (set_user_enabled db i b)"
proof unfold_locales
  fix db db' :: database and n m :: rstring and h :: bytes and u :: user and i :: int and b :: bool
  show "lookup_user db n = Some u \<Longrightarrow> eq_ignore_ascii_case (u_username u) n"
    by (auto simp: lookup_user_eq find_Some_iff)
  show "\<exists>u. lookup_user db' n = Some u \<and> u_nt_hash u = h \<and> u_enabled u \<and> u_username u = n"
    if "add_user db n h = Some db'" and "lookup_user db n = None"
    using that(2) add_user_Some [OF that(1)]
    by (simp add: lookup_user_eq find_append eq_ignore_ascii_case_def)
  show "lookup_user db' m = Some u" if "add_user db n h = Some db'" and "lookup_user db m = Some u"
    using that(2) add_user_Some [OF that(1)] by (simp add: lookup_user_eq find_append)
  show "lookup_user (fst (set_user_enabled db i b)) m
      = map_option (\<lambda>u. if u_id u = i then u\<lparr>u_enabled := b\<rparr> else u) (lookup_user db m)"
    by (simp add: lookup_user_eq set_user_enabled_def table_update_def find_map_update)
qed

text \<open>
  \<open>keyed_store\<close>: rows under ids the store chooses. \<open>add\<close> gives an id that was not in use,
  and a row stays under its id until it is removed.
\<close>

locale keyed_store =
  fixes ok :: "'db \<Rightarrow> bool"
    and get :: "'db \<Rightarrow> int \<Rightarrow> 'r option"
    and add :: "'db \<Rightarrow> 'r \<Rightarrow> ('db \<times> int) option"
    and del :: "'db \<Rightarrow> int \<Rightarrow> 'db"
    and stored :: "int \<Rightarrow> 'r \<Rightarrow> 'r"
  assumes fresh: "ok db \<Longrightarrow> add db r = Some (db', i) \<Longrightarrow> get db i = None"
    and get_add: "ok db \<Longrightarrow> add db r = Some (db', i) \<Longrightarrow>
      get db' j = (if j = i then Some (stored i r) else get db j)"
    and get_del: "get (del db i) j = (if j = i then None else get db j)"
    and ok_add: "ok db \<Longrightarrow> add db r = Some (db', i) \<Longrightarrow> ok db'"
    and ok_del: "ok db \<Longrightarrow> ok (del db i)"
begin

lemma add_then_del: "ok db \<Longrightarrow> add db r = Some (db', i) \<Longrightarrow> get (del db' i) j = get db j"
  using fresh get_add get_del by metis

lemma two_adds: "ok db \<Longrightarrow> add db r = Some (db', i) \<Longrightarrow> add db' r' = Some (db'', k) \<Longrightarrow>
    i \<noteq> k \<and> get db'' i = Some (stored i r) \<and> get db'' k = Some (stored k r')"
  using fresh [of db' r' db'' k] get_add [of db r db' i] get_add [of db' r' db'' k] ok_add
  by (metis option.distinct(1))

lemma del_other: "j \<noteq> i \<Longrightarrow> get (del db i) j = get db j"
  by (simp add: get_del)

end

definition add_connection :: "rstring \<Rightarrow> database \<Rightarrow> connection \<Rightarrow> (database \<times> int) option" where
  "add_connection now db c =
     (case create_connection now db (cn_name c) (cn_host c) (cn_port c) (cn_description c) (cn_icon c) of
        (db', Ok c') \<Rightarrow> Some (db', cn_id c')
      | _ \<Rightarrow> None)"

definition find_connection :: "database \<Rightarrow> int \<Rightarrow> connection option" where
  "find_connection db i = (case get_connection db i of Ok c \<Rightarrow> c | _ \<Rightarrow> None)"

lemma add_connection_eq:
  "add_connection now db c = Some (db\<lparr>db_connections := fst (table_insert
      (\<lambda>i. c\<lparr>cn_id := i, cn_created_at := now, cn_updated_at := now\<rparr>) (db_connections db))\<rparr>,
    tb_seq (db_connections db) + 1)"
  by (simp add: add_connection_def create_connection_def Let_def split_beta)
    (simp add: table_insert_def Let_def)

interpretation conns: keyed_store "\<lambda>db. table_ok cn_id (db_connections db)" find_connection
  "add_connection now" "\<lambda>db i. fst (delete_connection db i)"
  "\<lambda>i c. c\<lparr>cn_id := i, cn_created_at := now, cn_updated_at := now\<rparr>" for now
  by unfold_locales
    (auto simp: add_connection_eq find_connection_def get_connection_def delete_connection_def
      table_fresh table_find_insert table_find_delete table_ok_delete intro!: table_ok_insert
      split: if_splits)

definition add_acl :: "database \<Rightarrow> acl_rule \<Rightarrow> (database \<times> int) option" where
  "add_acl db r = (case create_acl_rule db r of (db', Ok r') \<Rightarrow> Some (db', ar_id r') | _ \<Rightarrow> None)"

lemma add_acl_Some: "add_acl db r = Some (db', i) \<Longrightarrow>
    i = tb_seq (db_acl_rules db) + 1
    \<and> db' = db\<lparr>db_acl_rules := fst (table_insert (\<lambda>i. r\<lparr>ar_id := i\<rparr>) (db_acl_rules db))\<rparr>"
  by (auto simp: add_acl_def create_acl_rule_def Let_def split_beta split: if_splits)

interpretation rules: keyed_store "\<lambda>db. table_ok ar_id (db_acl_rules db)"
  "\<lambda>db i. table_find ar_id i (db_acl_rules db)" add_acl "\<lambda>db i. fst (delete_acl_rule db i)"
  "\<lambda>i r. r\<lparr>ar_id := i\<rparr>"
  by unfold_locales
    (auto simp: delete_acl_rule_def table_fresh table_find_insert table_find_delete table_ok_delete
      intro!: table_ok_insert dest!: add_acl_Some split: if_splits)

section \<open>Properties\<close>

text \<open>
  C32. After any sequence of provider calls, failed ones included, the database keeps
  its schema: ids, user names and group names are unique, every membership, rule and session
  refers to a user and a group that exist, and every rule's action is \<open>allow\<close> or \<open>deny\<close>.
\<close>

theorem db_integrity: "db_inv (run db_apply database_empty ops)"
  by (rule dbm.run_inv [OF db_inv_empty])

text \<open>
  The lookup of a name ignores case while the uniqueness of names does not:
  when a user is created under a name that already answers the lookup, in whatever case, the
  call can succeed, yet the name still means the earlier user, whose password is the one checked.
\<close>

theorem user_name_shadowed:
  assumes "create_user db n h = (db', Ok new)" and "get_user_by_username db n = Ok (Some old)"
  shows "get_user_by_username db' n = Ok (Some old)"
proof -
  have "add_user db n h = Some db'" "lookup_user db n = Some old"
    using assms by (simp_all add: add_user_def lookup_user_def)
  then have "lookup_user db' n = Some old" by (rule users.shadowed)
  then show ?thesis by (simp add: lookup_user_eq get_user_by_username_def)
qed

theorem user_name_shadowed_witness:
  "\<exists>db new. create_user (fst (create_user database_empty [97] [1])) [65] [2] = (db, Ok new)
    \<and> get_user_by_username db [65] = Ok (Some \<lparr>u_id = 1, u_username = [97], u_nt_hash = [1],
        u_enabled = True, u_password_hash = None\<rparr>)"
proof -
  let ?db = "fst (create_user database_empty [97] [1])"
  have c: "create_user ?db [65] [2] = (fst (create_user ?db [65] [2]), Ok \<lparr>u_id = 2,
      u_username = [65], u_nt_hash = [2], u_enabled = True, u_password_hash = None\<rparr>)"
    by (simp add: create_user_def insert_user_eq Let_def database_empty_def table_empty_def)
      (simp add: table_insert_def Let_def)
  have l: "get_user_by_username ?db [65] = Ok (Some \<lparr>u_id = 1, u_username = [97],
      u_nt_hash = [1], u_enabled = True, u_password_hash = None\<rparr>)"
    by (simp add: create_user_def insert_user_eq Let_def database_empty_def table_empty_def
        get_user_by_username_def eq_ignore_ascii_case_def to_ascii_lowercase_def ascii_lower_def)
  show ?thesis using user_name_shadowed [OF c l] c by blast
qed

text \<open>
  Switching a user off is seen by every later lookup of the name, in any
  case, and keeps the rest of the account; switching it on again restores the account exactly.
\<close>

theorem disabled_user_found:
  assumes "get_user_by_username db n = Ok (Some u)" and "u_enabled u"
  shows "get_user_by_username (fst (set_user_enabled db (u_id u) False)) n
      = Ok (Some (u\<lparr>u_enabled := False\<rparr>))
    \<and> get_user_by_username
        (fst (set_user_enabled (fst (set_user_enabled db (u_id u) False)) (u_id u) True)) n = Ok (Some u)"
proof -
  have l: "lookup_user db n = Some u" using assms(1) by (simp add: lookup_user_def)
  show ?thesis
    using users.lookup_enable [of db "u_id u" False n] users.enable_again [OF l assms(2)] l
    by (simp add: lookup_user_eq get_user_by_username_def)
qed

theorem disabled_user_found_witness:
  "\<exists>u. get_user_by_username (fst (set_user_enabled (fst (create_user database_empty [97] [1])) 1 False)) [65]
    = Ok (Some u) \<and> \<not> u_enabled u"
proof -
  let ?db = "fst (create_user database_empty [97] [1])"
  let ?u = "\<lparr>u_id = 1, u_username = [97], u_nt_hash = [1], u_enabled = True, u_password_hash = None\<rparr>"
  have "get_user_by_username ?db [65] = Ok (Some ?u)"
    by (simp add: create_user_def insert_user_eq Let_def database_empty_def table_empty_def
        get_user_by_username_def eq_ignore_ascii_case_def to_ascii_lowercase_def ascii_lower_def)
  from disabled_user_found [OF this] show ?thesis by simp
qed

text \<open>
  An engine loaded from the database decides by the stored rules, and
  a rule that was created and deleted again leaves no trace in its decisions.
\<close>

theorem stored_rules_decide:
  assumes "db_inv db" and "create_acl_rule db r = (db', Ok r')"
  shows "map_ok (\<lambda>e. check_access e user groups host port) (acl_engine_from_db (get_acl_rules db'))
      = Ok (evaluate_acl (tb_rows (db_acl_rules db) @ [r']) user groups host port)
    \<and> map_ok (\<lambda>e. check_access e user groups host port)
        (acl_engine_from_db (get_acl_rules (fst (delete_acl_rule db' (ar_id r')))))
      = Ok (evaluate_acl (tb_rows (db_acl_rules db)) user groups host port)"
proof -
  let ?i = "tb_seq (db_acl_rules db) + 1"
  have new: "tb_rows (db_acl_rules db') = tb_rows (db_acl_rules db) @ [r\<lparr>ar_id := ?i\<rparr>]"
    "r' = r\<lparr>ar_id := ?i\<rparr>"
    using assms(2)
    by (auto simp: create_acl_rule_def Let_def split_beta split: if_splits)
  have "\<forall>x \<in> set (tb_rows (db_acl_rules db)). ar_id x \<noteq> ?i"
    using assms(1) by (fastforce simp: db_inv_def table_ok_def)
  then have del: "tb_rows (db_acl_rules (fst (delete_acl_rule db' ?i))) = tb_rows (db_acl_rules db)"
    by (auto simp: delete_acl_rule_def table_delete_def new filter_empty_conv)
  have load: "map_ok (\<lambda>e. check_access e user groups host port) (acl_engine_from_db (get_acl_rules d))
      = Ok (evaluate_acl (tb_rows (db_acl_rules d)) user groups host port)" for d
    by (simp add: get_acl_rules_def acl_engine_from_db_def check_access_def evaluate_sorted
        evaluate_sorted [unfolded sorted_rules_def])
  show ?thesis by (simp add: load del new)
qed

theorem stored_rules_decide_witness:
  "map_ok (\<lambda>e. check_access e 7 [] (lit ''h'') 22) (acl_engine_from_db (get_acl_rules
      (fst (create_acl_rule database_empty \<lparr>ar_id = 0, ar_priority = 1, ar_user_id = None,
        ar_group_id = None, ar_target_host = None, ar_target_port = Some 22,
        ar_action = lit ''allow''\<rparr>)))) = Ok Allow"
proof -
  let ?r = "\<lparr>ar_id = 0, ar_priority = 1, ar_user_id = None, ar_group_id = None,
    ar_target_host = None, ar_target_port = Some 22, ar_action = lit ''allow''\<rparr>"
  have c: "create_acl_rule database_empty ?r
      = (fst (create_acl_rule database_empty ?r), Ok (?r\<lparr>ar_id := 1\<rparr>))"
    by (simp add: create_acl_rule_def database_empty_def table_empty_def table_insert_def Let_def)
  show ?thesis
    using stored_rules_decide [OF db_inv_empty c, of 7 "[]" "lit ''h''" 22]
    by (simp add: database_empty_def table_empty_def evaluate_acl_def max_by_key_def
        rule_matches_def rule_action_def eq_ignore_ascii_case_def)
qed

end
