(* ===== verification/Auth.thy ===== *)
theory Auth
  imports Ntlm Db
begin

text \<open>
  \<open>crates/rdg-core/src/auth.rs\<close> and \<open>negotiate.rs\<close>: NTLM authentication against the user
  directory, and the context of an \<open>Authorization: Negotiate\<close> exchange. Parameters beside those
  of \<open>Ntlm\<close>: \<open>get_user\<close> is the provider's \<open>get_user_by_username\<close>, \<open>show_db\<close> the text of a
  provider error, \<open>b64_decode\<close> and \<open>b64_encode\<close> the base64 engine. This is the default
  build, without Kerberos; the build with the feature \<open>kerberos\<close> is in \<open>Krb5\<close>.
\<close>

section \<open>NTLM against the directory\<close>

datatype auth_error =
    Ntlm ntlm_error
  | UserNotFound rstring
  | UserDisabled rstring
  | Database rstring

record ntlm_auth_context =
  nx_server_challenge :: bytes
  nx_challenge_msg :: ntlm_challenge
  nx_negotiate :: "ntlm_negotiate option"
  nx_authenticated_user :: "rstring option"

text \<open>\<open>challenge\<close> is what \<open>generate_server_challenge\<close> drew, \<open>unix_secs\<close> the clock.\<close>

definition ntlm_auth_context_new :: "u64 \<Rightarrow> bytes \<Rightarrow> rstring \<Rightarrow> ntlm_auth_context" where
  "ntlm_auth_context_new unix_secs challenge server_name =
     \<lparr>nx_server_challenge = challenge,
      nx_challenge_msg = generate_challenge unix_secs server_name challenge,
      nx_negotiate = None, nx_authenticated_user = None\<rparr>"

definition process_negotiate ::
  "ntlm_auth_context \<Rightarrow> bytes \<Rightarrow> ntlm_auth_context \<times> (auth_error, bytes) outcome" where
  "process_negotiate self type1_bytes =
     (case parse_negotiate type1_bytes of
        Ok negotiate \<Rightarrow>
          (self\<lparr>nx_negotiate := Some negotiate\<rparr>, Ok (serialize_challenge (nx_challenge_msg self)))
      | Err e \<Rightarrow> (self, Err (Ntlm e))
      | Panic \<Rightarrow> (self, Panic))"

definition check_user ::
  "(bytes \<Rightarrow> bytes \<Rightarrow> bytes option) \<Rightarrow> (rstring \<Rightarrow> rstring) \<Rightarrow> ('e \<Rightarrow> rstring)
    \<Rightarrow> (rstring \<Rightarrow> ('e, user option) outcome) \<Rightarrow> bytes \<Rightarrow> bytes \<Rightarrow> (auth_error, rstring) outcome" where
  "check_user hmac_md5 to_uppercase show_db get_user server_challenge type3_bytes =
     rbind (map_err Ntlm (parse_authenticate type3_bytes)) (\<lambda>auth.
     let username = na_username auth
     in rbind (map_err (\<lambda>e. Database (show_db e)) (get_user username)) (\<lambda>found.
        rbind (ok_or (UserNotFound username) found) (\<lambda>user.
        if \<not> u_enabled user then Err (UserDisabled username)
        else
          rbind (ok_or (Database (lit ''invalid NT hash in database''))
             (if length (u_nt_hash user) = 16 then Some (u_nt_hash user) else None)) (\<lambda>nt_hash.
          rbind (map_err Ntlm (validate_ntlmv2 hmac_md5 to_uppercase nt_hash server_challenge auth))
            (\<lambda>_. Ok username)))))"

definition process_authenticate ::
  "(bytes \<Rightarrow> bytes \<Rightarrow> bytes option) \<Rightarrow> (rstring \<Rightarrow> rstring) \<Rightarrow> ('e \<Rightarrow> rstring)
    \<Rightarrow> (rstring \<Rightarrow> ('e, user option) outcome) \<Rightarrow> ntlm_auth_context \<Rightarrow> bytes
    \<Rightarrow> ntlm_auth_context \<times> (auth_error, rstring) outcome" where
  "process_authenticate hmac_md5 to_uppercase show_db get_user self type3_bytes =
     (case check_user hmac_md5 to_uppercase show_db get_user (nx_server_challenge self) type3_bytes of
        Ok username \<Rightarrow> (self\<lparr>nx_authenticated_user := Some username\<rparr>, Ok username)
      | Err e \<Rightarrow> (self, Err e)
      | Panic \<Rightarrow> (self, Panic))"

definition challenge_base64 :: "(bytes \<Rightarrow> rstring) \<Rightarrow> ntlm_auth_context \<Rightarrow> rstring" where
  "challenge_base64 b64_encode self = b64_encode (serialize_challenge (nx_challenge_msg self))"

section \<open>Negotiate\<close>

definition SPNEGO_OID_PREFIX :: bytes where
  "SPNEGO_OID_PREFIX = [0x06, 0x06, 0x2b, 0x06, 0x01, 0x05, 0x05, 0x02]"

datatype negotiate_error =
    InvalidBase64 | NegotiateNtlm auth_error | Kerberos rstring | KerberosNotAvailable
  | UnsupportedToken | Incomplete

datatype token_type = NtlmToken | KerberosToken | UnknownToken

text \<open>\<open>windows(n).any(|w| w == x)\<close> for a nonempty \<open>x\<close> of length \<open>n\<close>.\<close>

fun has_window :: "bytes \<Rightarrow> bytes \<Rightarrow> bool" where
  "has_window x [] \<longleftrightarrow> False"
| "has_window x (b # bs) \<longleftrightarrow> take (length x) (b # bs) = x \<or> has_window x bs"

definition first_byte :: "bytes \<Rightarrow> u8 option" where
  "first_byte bs = (case bs of [] \<Rightarrow> None | b # _ \<Rightarrow> Some b)"

definition detect_token_type :: "bytes \<Rightarrow> token_type" where
  "detect_token_type token =
     (if 8 \<le> length token \<and> take 8 token = NTLMSSP_SIGNATURE then NtlmToken
      else if first_byte token = Some 0x60 \<and> 10 < length token \<and> has_window SPNEGO_OID_PREFIX token
        then KerberosToken
      else if first_byte token = Some 0x6E \<or> first_byte token = Some 0x60 then KerberosToken
      else UnknownToken)"

datatype negotiate_result = Success rstring | Challenge rstring

record negotiate_context =
  ng_server_name :: rstring
  ng_ntlm_ctx :: "ntlm_auth_context option"

definition negotiate_context_new :: "rstring \<Rightarrow> negotiate_context" where
  "negotiate_context_new server_name = \<lparr>ng_server_name = server_name, ng_ntlm_ctx = None\<rparr>"

text \<open>What the outside world supplies to one exchange.\<close>

record 'e world =
  w_hmac_md5 :: "bytes \<Rightarrow> bytes \<Rightarrow> bytes option"
  w_to_uppercase :: "rstring \<Rightarrow> rstring"
  w_show_db :: "'e \<Rightarrow> rstring"
  w_get_user :: "rstring \<Rightarrow> ('e, user option) outcome"
  w_b64_decode :: "rstring \<Rightarrow> bytes option"
  w_b64_encode :: "bytes \<Rightarrow> rstring"
  w_challenge :: bytes
  w_unix_secs :: u64

definition process_ntlm ::
  "'e world \<Rightarrow> 'x negotiate_context_scheme \<Rightarrow> bytes
    \<Rightarrow> 'x negotiate_context_scheme \<times> (negotiate_error, negotiate_result) outcome" where
  "process_ntlm w self token =
     (if 12 \<le> length token then
        let msg_type = of_le (take 4 (drop 8 token)) :: u32
        in if msg_type = 1 then
             let ctx = ntlm_auth_context_new (w_unix_secs w) (w_challenge w) (ng_server_name self);
                 challenge_b64 = challenge_base64 (w_b64_encode w) ctx
             in (self\<lparr>ng_ntlm_ctx := Some ctx\<rparr>, Ok (Challenge challenge_b64))
           else if msg_type = 3 then
             (case ng_ntlm_ctx self of
                None \<Rightarrow> (self, Err (NegotiateNtlm (Ntlm BufferTooShort)))
              | Some ctx \<Rightarrow>
                  let (ctx, res) = process_authenticate (w_hmac_md5 w) (w_to_uppercase w)
                        (w_show_db w) (w_get_user w) ctx token;
                      self = self\<lparr>ng_ntlm_ctx := Some ctx\<rparr>
                  in (self, rbind (map_err NegotiateNtlm res) (\<lambda>username. Ok (Success username))))
           else (self, Err UnsupportedToken)
      else (self, Err UnsupportedToken))"

text \<open>The build without the feature \<open>kerberos\<close>.\<close>

definition process_kerberos ::
  "negotiate_context \<Rightarrow> bytes \<Rightarrow> negotiate_context \<times> (negotiate_error, negotiate_result) outcome" where
  "process_kerberos self token = (self, Err KerberosNotAvailable)"

definition process_token ::
  "'e world \<Rightarrow> negotiate_context \<Rightarrow> rstring
    \<Rightarrow> negotiate_context \<times> (negotiate_error, negotiate_result) outcome" where
  "process_token w self base64_token =
     (case w_b64_decode w base64_token of
        None \<Rightarrow> (self, Err InvalidBase64)
      | Some token_bytes \<Rightarrow>
          (case detect_token_type token_bytes of
             NtlmToken \<Rightarrow> process_ntlm w self token_bytes
           | KerberosToken \<Rightarrow> process_kerberos self token_bytes
           | UnknownToken \<Rightarrow> (self, Err UnsupportedToken)))"

section \<open>What a success means\<close>

lemma check_user_Ok: "check_user hmac up show_db get_user challenge data = Ok name \<longleftrightarrow>
    (\<exists>a u. parse_authenticate data = Ok a \<and> name = na_username a \<and> get_user name = Ok (Some u)
      \<and> u_enabled u \<and> length (u_nt_hash u) = 16
      \<and> validate_ntlmv2 hmac up (u_nt_hash u) challenge a = Ok ())"
  by (auto simp: check_user_def rbind_eq_Ok Let_def split: if_splits)

lemma process_authenticate_Ok:
  "process_authenticate hmac up show_db get_user ctx data = (ctx', Ok name) \<longleftrightarrow>
    check_user hmac up show_db get_user (nx_server_challenge ctx) data = Ok name
    \<and> ctx' = ctx\<lparr>nx_authenticated_user := Some name\<rparr>"
  by (auto simp: process_authenticate_def split: outcome.splits)

definition is_type1 :: "bytes \<Rightarrow> bool" where
  "is_type1 token \<longleftrightarrow> detect_token_type token = NtlmToken \<and> 12 \<le> length token
     \<and> (of_le (take 4 (drop 8 token)) :: u32) = 1"

definition is_type3 :: "bytes \<Rightarrow> bool" where
  "is_type3 token \<longleftrightarrow> detect_token_type token = NtlmToken \<and> 12 \<le> length token
     \<and> (of_le (take 4 (drop 8 token)) :: u32) = 3"

text \<open>Every token either starts an exchange, ends one, or leaves the context as it was.\<close>

lemma process_token_cases:
  obtains (Start) token where "w_b64_decode w t = Some token" and "is_type1 token"
      and "process_token w s t = (s\<lparr>ng_ntlm_ctx := Some (ntlm_auth_context_new (w_unix_secs w)
             (w_challenge w) (ng_server_name s))\<rparr>,
           Ok (Challenge (challenge_base64 (w_b64_encode w) (ntlm_auth_context_new (w_unix_secs w)
             (w_challenge w) (ng_server_name s)))))"
  | (Finish) token ctx where "w_b64_decode w t = Some token" and "is_type3 token"
      and "ng_ntlm_ctx s = Some ctx"
      and "process_token w s t = (s\<lparr>ng_ntlm_ctx := Some (fst (process_authenticate (w_hmac_md5 w)
             (w_to_uppercase w) (w_show_db w) (w_get_user w) ctx token))\<rparr>,
           rbind (map_err NegotiateNtlm (snd (process_authenticate (w_hmac_md5 w)
             (w_to_uppercase w) (w_show_db w) (w_get_user w) ctx token))) (\<lambda>u. Ok (Success u)))"
  | (Refuse) e where "process_token w s t = (s, Err e)"
proof (cases "w_b64_decode w t")
  case None
  then show thesis using Refuse by (simp add: process_token_def)
next
  case (Some token)
  show thesis
  proof (cases "detect_token_type token")
    case NtlmToken
    consider "is_type1 token" | "is_type3 token" "ng_ntlm_ctx s = None"
      | ctx where "is_type3 token" "ng_ntlm_ctx s = Some ctx"
      | "\<not> is_type1 token" "\<not> is_type3 token" by (cases "ng_ntlm_ctx s") auto
    then show thesis
    proof cases
      case 1
      then show thesis using Some NtlmToken
        by (intro Start [of token]) (simp_all add: process_token_def process_ntlm_def is_type1_def Let_def)
    next
      case 2
      then show thesis using Some NtlmToken
        by (intro Refuse) (simp add: process_token_def process_ntlm_def is_type3_def)
    next
      case (3 ctx)
      then show thesis using Some NtlmToken
        by (intro Finish [of token ctx])
          (simp_all add: process_token_def process_ntlm_def is_type3_def Let_def split_beta)
    next
      case 4
      then show thesis using Some NtlmToken
        by (intro Refuse) (auto simp: process_token_def process_ntlm_def is_type1_def is_type3_def Let_def)
    qed
  qed (use Some Refuse in \<open>simp_all add: process_token_def process_kerberos_def\<close>)
qed

text \<open>
  The invariant of an exchange: the stored challenge was issued for a Type 1 token of this very
  exchange.
\<close>

abbreviation negotiate_step :: "negotiate_context \<Rightarrow> 'e world \<times> rstring \<Rightarrow> negotiate_context" where
  "negotiate_step s e \<equiv> fst (process_token (fst e) s (snd e))"

definition issued :: "negotiate_context \<Rightarrow> ('e world \<times> rstring) list \<Rightarrow> bool" where
  "issued s es \<longleftrightarrow> (\<forall>ctx. ng_ntlm_ctx s = Some ctx \<longrightarrow>
     (\<exists>(w, t) \<in> set es. nx_server_challenge ctx = w_challenge w
        \<and> (\<exists>token. w_b64_decode w t = Some token \<and> is_type1 token)))"

lemma fst_process_authenticate_challenge:
  "nx_server_challenge (fst (process_authenticate h u sd g ctx token)) = nx_server_challenge ctx"
  by (simp add: process_authenticate_def split: outcome.split)

lemma issued_mono: "issued s es \<Longrightarrow> issued s (es @ fs)"
  unfolding issued_def by fastforce

lemma issued_step: "issued s es \<Longrightarrow> issued (negotiate_step s e) (es @ [e])"
proof (cases rule: process_token_cases [of "fst e" "snd e" s])
  case (Start token)
  then show ?thesis
    by (auto simp: issued_def ntlm_auth_context_new_def intro!: bexI [of _ e] split: prod.split)
next
  case (Finish token ctx)
  assume i: "issued s es"
  have "issued (negotiate_step s e) es"
    using i Finish by (simp add: issued_def fst_process_authenticate_challenge)
  then show ?thesis by (rule issued_mono)
next
  case (Refuse err)
  assume "issued s es"
  then show ?thesis using Refuse issued_mono by simp
qed

lemma issued_run: "issued (run negotiate_step s es) (es0 @ es)" if "issued s es0" for es0
  using that
proof (induction es arbitrary: s es0)
  case Nil
  then show ?case by simp
next
  case (Cons e es)
  have "issued (run negotiate_step (negotiate_step s e) es) ((es0 @ [e]) @ es)"
    by (rule Cons.IH) (rule issued_step [OF Cons.prems])
  then show ?case by simp
qed

section \<open>A concrete exchange\<close>

text \<open>
  The exchange the instances below run: a Type 1 and a Type 3 token of user \<open>A\<close>, a base64 engine
  that keeps bytes as characters, an HMAC that always answers zeros, and one enabled account.
\<close>

definition example_type1 :: bytes where
  "example_type1 = [0x4e, 0x54, 0x4c, 0x4d, 0x53, 0x53, 0x50, 0, 1, 0, 0, 0]"

definition example_type3 :: bytes where
  "example_type3 = [0x4e, 0x54, 0x4c, 0x4d, 0x53, 0x53, 0x50, 0, 3, 0, 0, 0,
     0, 0, 0, 0, 0, 0, 0, 0, 24, 0, 24, 0, 66, 0, 0, 0, 0, 0, 0, 0, 0, 0, 0, 0,
     2, 0, 2, 0, 64, 0, 0, 0, 0, 0, 0, 0, 0, 0, 0, 0, 0, 0, 0, 0, 0, 0, 0, 0, 0, 0, 0, 0,
     65, 0,
     0, 0, 0, 0, 0, 0, 0, 0, 0, 0, 0, 0, 0, 0, 0, 0, 0, 0, 0, 0, 0, 0, 0, 0]"

definition example_user :: user where
  "example_user = \<lparr>u_id = 1, u_username = [65], u_nt_hash = replicate 16 0, u_enabled = True,
     u_password_hash = None\<rparr>"

definition example_world :: "unit world" where
  "example_world = \<lparr>w_hmac_md5 = (\<lambda>k d. Some (replicate 16 0)), w_to_uppercase = (\<lambda>s. s),
     w_show_db = (\<lambda>e. []), w_get_user = (\<lambda>name. Ok (Some example_user)),
     w_b64_decode = (\<lambda>s. Some (map word_of_nat s)), w_b64_encode = map unat,
     w_challenge = replicate 8 7, w_unix_secs = 0\<rparr>"

definition example_authenticate :: ntlm_authenticate where
  "example_authenticate = \<lparr>na_flags = 0, na_domain = [], na_username = [65], na_workstation = [],
     na_lm_response = [],
     na_nt_response = [0, 0, 0, 0, 0, 0, 0, 0, 0, 0, 0, 0, 0, 0, 0, 0, 0, 0, 0, 0, 0, 0, 0, 0],
     na_encrypted_random_session_key = []\<rparr>"

lemma example_type3_parses: "parse_authenticate example_type3 = Ok example_authenticate"
  by (simp add: parse_authenticate_def example_type3_def example_authenticate_def slice_def
      NTLMSSP_SIGNATURE_def read_security_buffer_raw_def Let_def unwrap_or_def
      is_low_surrogate_def is_high_surrogate_def)

lemma example_is_type3: "is_type3 example_type3"
  by (simp add: is_type3_def detect_token_type_def example_type3_def NTLMSSP_SIGNATURE_def)

lemma example_is_type1: "is_type1 example_type1"
  by (simp add: is_type1_def detect_token_type_def example_type1_def NTLMSSP_SIGNATURE_def)

lemma replicate16: "replicate 16 x = [x, x, x, x, x, x, x, x, x, x, x, x, x, x, x, x]"
  by (simp add: numeral_eq_Suc)

lemma example_validates:
  "validate_ntlmv2 (w_hmac_md5 example_world) up (u_nt_hash example_user) challenge
     example_authenticate = Ok ()"
  by (simp add: validate_ntlmv2_def Let_def example_world_def example_authenticate_def slice_def
      constant_time_eq_iff replicate16)

lemma example_check_user:
  "check_user (w_hmac_md5 example_world) up sd (w_get_user example_world) challenge example_type3
     = Ok [65]"
  unfolding check_user_Ok
  by (rule exI [of _ example_authenticate], rule exI [of _ example_user])
    (simp add: example_type3_parses example_validates, simp add: example_world_def
      example_user_def example_authenticate_def)

definition example_context :: ntlm_auth_context where
  "example_context = ntlm_auth_context_new 0 (replicate 8 7) []"

lemma example_b64: "w_b64_decode example_world (map unat bs) = Some bs"
  by (simp add: example_world_def comp_def)

lemma example_start:
  "fst (process_token example_world (negotiate_context_new []) (map unat example_type1))
    = (negotiate_context_new [])\<lparr>ng_ntlm_ctx := Some example_context\<rparr>"
proof (cases rule: process_token_cases [of example_world "map unat example_type1" "negotiate_context_new []"])
  case (Start token)
  then show ?thesis
    by (simp add: example_context_def example_world_def negotiate_context_new_def)
qed (use example_is_type1 in \<open>auto simp: example_b64 is_type1_def is_type3_def process_token_def
    process_ntlm_def Let_def\<close>)

lemma example_finish:
  assumes "ng_ntlm_ctx s = Some example_context"
  shows "process_token example_world s (map unat example_type3)
    = (s\<lparr>ng_ntlm_ctx := Some (example_context\<lparr>nx_authenticated_user := Some [65]\<rparr>)\<rparr>, Ok (Success [65]))"
proof -
  have "process_authenticate (w_hmac_md5 example_world) (w_to_uppercase example_world)
      (w_show_db example_world) (w_get_user example_world) example_context example_type3
    = (example_context\<lparr>nx_authenticated_user := Some [65]\<rparr>, Ok [65])"
    by (simp add: process_authenticate_Ok example_check_user)
  then show ?thesis
    using example_is_type3 assms
    by (simp add: process_token_def example_b64 process_ntlm_def is_type3_def Let_def)
qed

section \<open>Properties\<close>

text \<open>
  A Type 3 message authenticates exactly when it parses, the directory
  knows the user it names, the account is enabled and has a 16-byte hash, and the response is the
  NTLMv2 proof for this context's own challenge; then the context records that user and nothing
  else changes. On any failure the context is unchanged.
\<close>

theorem authenticate_decision:
  "(process_authenticate hmac up show_db get_user ctx data = (ctx', Ok name) \<longleftrightarrow>
      ctx' = ctx\<lparr>nx_authenticated_user := Some name\<rparr>
      \<and> (\<exists>a u. parse_authenticate data = Ok a \<and> name = na_username a \<and> get_user name = Ok (Some u)
          \<and> u_enabled u \<and> length (u_nt_hash u) = 16
          \<and> validate_ntlmv2 hmac up (u_nt_hash u) (nx_server_challenge ctx) a = Ok ()))
    \<and> (process_authenticate hmac up show_db get_user ctx data = (ctx', Err e) \<longrightarrow> ctx' = ctx)"
  by (auto simp: process_authenticate_Ok check_user_Ok)
    (auto simp: process_authenticate_def split: outcome.splits)

theorem authenticate_decision_witness:
  "snd (process_authenticate (w_hmac_md5 example_world) (\<lambda>s. s) (\<lambda>e. []) (w_get_user example_world)
      example_context example_type3) = Ok [65]"
proof -
  have "process_authenticate (w_hmac_md5 example_world) (\<lambda>s. s) (\<lambda>e. []) (w_get_user example_world)
      example_context example_type3 = (example_context\<lparr>nx_authenticated_user := Some [65]\<rparr>, Ok [65])"
    by (rule iffD2 [OF conjunct1 [OF authenticate_decision]], rule conjI [OF refl])
      (use example_check_user [unfolded check_user_Ok] in fast)
  then show ?thesis by simp
qed

text \<open>
  Once the directory has an account switched off, no message that names
  it, in any case and however well proved, authenticates.
\<close>

theorem disabled_user_refused:
  assumes "get_user_by_username db name = Ok (Some u)"
  shows "snd (process_authenticate hmac up show_db
      (get_user_by_username (fst (set_user_enabled db (u_id u) False))) ctx data) \<noteq> Ok name"
proof
  let ?db = "fst (set_user_enabled db (u_id u) False)"
  assume "snd (process_authenticate hmac up show_db (get_user_by_username ?db) ctx data) = Ok name"
  then have "check_user hmac up show_db (get_user_by_username ?db) (nx_server_challenge ctx) data
      = Ok name"
    by (auto simp: process_authenticate_def split: outcome.splits)
  then obtain v where v: "get_user_by_username ?db name = Ok (Some v)" "u_enabled v"
    unfolding check_user_Ok by blast
  have "lookup_user db name = Some u" using assms by (simp add: lookup_user_def)
  from users.disabled_stays [OF this] v show False by (auto simp: lookup_user_def)
qed

theorem disabled_user_refused_witness:
  "snd (process_authenticate (w_hmac_md5 example_world) (\<lambda>s. s) (\<lambda>e. [])
      (get_user_by_username (fst (set_user_enabled
        (fst (create_user database_empty [97] (replicate 16 0))) 1 False)))
      example_context example_type3) \<noteq> Ok [65]"
proof -
  have "get_user_by_username (fst (create_user database_empty [97] (replicate 16 0))) [65] = Ok (Some
      \<lparr>u_id = 1, u_username = [97], u_nt_hash = replicate 16 0, u_enabled = True,
       u_password_hash = None\<rparr>)"
    by (simp add: create_user_def insert_user_eq Let_def database_empty_def table_empty_def
        get_user_by_username_def eq_ignore_ascii_case_def to_ascii_lowercase_def ascii_lower_def)
  from disabled_user_refused [OF this] show ?thesis by simp
qed

text \<open>
  C6. An exchange ends in success only for a Type 3 token, after a Type 1
  token of the same exchange, and for a user the directory has enabled whose response proves
  knowledge of the hash for the challenge that was issued to that Type 1 token.
\<close>

theorem negotiate_needs_challenge:
  assumes "process_token w (run negotiate_step (negotiate_context_new srv) es) t = (s', Ok (Success name))"
  shows "\<exists>(w0, t0) \<in> set es. \<exists>type1 type3 a u.
    w_b64_decode w0 t0 = Some type1 \<and> is_type1 type1
    \<and> w_b64_decode w t = Some type3 \<and> is_type3 type3
    \<and> parse_authenticate type3 = Ok a \<and> name = na_username a
    \<and> w_get_user w name = Ok (Some u) \<and> u_enabled u
    \<and> validate_ntlmv2 (w_hmac_md5 w) (w_to_uppercase w) (u_nt_hash u) (w_challenge w0) a = Ok ()"
proof -
  let ?s = "run negotiate_step (negotiate_context_new srv) es"
  have "issued ?s ([] @ es)"
    by (rule issued_run) (simp add: issued_def negotiate_context_new_def)
  then have iss: "issued ?s es" by simp
  show ?thesis
    using assms
  proof (cases rule: process_token_cases [of w t ?s])
    case (Finish token ctx)
    then have "check_user (w_hmac_md5 w) (w_to_uppercase w) (w_show_db w) (w_get_user w)
        (nx_server_challenge ctx) token = Ok name"
      using assms by (auto simp: rbind_eq_Ok process_authenticate_def split: outcome.splits)
    then obtain a u where au: "parse_authenticate token = Ok a" "name = na_username a"
        "w_get_user w name = Ok (Some u)" "u_enabled u"
        "validate_ntlmv2 (w_hmac_md5 w) (w_to_uppercase w) (u_nt_hash u) (nx_server_challenge ctx) a = Ok ()"
      unfolding check_user_Ok by blast
    from iss Finish(3) obtain w0 t0 type1 where "(w0, t0) \<in> set es"
        "nx_server_challenge ctx = w_challenge w0" "w_b64_decode w0 t0 = Some type1" "is_type1 type1"
      unfolding issued_def by blast
    with au Finish(1,2) show ?thesis by auto
  qed auto
qed

theorem negotiate_needs_challenge_witness:
  "\<exists>name s'. process_token example_world (run negotiate_step (negotiate_context_new [])
      [(example_world, map unat example_type1)]) (map unat example_type3) = (s', Ok (Success name))
    \<and> w_get_user example_world name = Ok (Some example_user) \<and> is_type1 example_type1"
proof -
  let ?s = "run negotiate_step (negotiate_context_new []) [(example_world, map unat example_type1)]"
  have s: "?s = (negotiate_context_new [])\<lparr>ng_ntlm_ctx := Some example_context\<rparr>"
    by (simp add: example_start)
  have f: "process_token example_world ?s (map unat example_type3)
      = (?s\<lparr>ng_ntlm_ctx := Some (example_context\<lparr>nx_authenticated_user := Some [65]\<rparr>)\<rparr>, Ok (Success [65]))"
    unfolding s by (rule example_finish) simp
  from negotiate_needs_challenge [OF f] f show ?thesis
    using example_is_type1 by (auto simp: example_world_def)
qed

text \<open>
  The challenge is not used up: a token that has authenticated authenticates
  again on the same context, under any later clock and random number.
\<close>

theorem negotiate_replay:
  assumes "process_token w s t = (s', Ok (Success name))"
  shows "process_token (w\<lparr>w_challenge := c, w_unix_secs := n\<rparr>) s' t = (s', Ok (Success name))"
  using assms
proof (cases rule: process_token_cases [of w t s])
  case (Finish token ctx)
  let ?auth = "process_authenticate (w_hmac_md5 w) (w_to_uppercase w) (w_show_db w) (w_get_user w)"
  have "?auth ctx token = (fst (?auth ctx token), Ok name)"
    using assms Finish(4) by (cases "?auth ctx token") (auto simp: rbind_eq_Ok)
  then have c: "check_user (w_hmac_md5 w) (w_to_uppercase w) (w_show_db w) (w_get_user w)
      (nx_server_challenge ctx) token = Ok name"
    and ctx: "fst (?auth ctx token) = ctx\<lparr>nx_authenticated_user := Some name\<rparr>"
    unfolding process_authenticate_Ok by auto
  then have s': "s' = s\<lparr>ng_ntlm_ctx := Some (ctx\<lparr>nx_authenticated_user := Some name\<rparr>)\<rparr>"
    using assms Finish(4) by auto
  have "?auth (ctx\<lparr>nx_authenticated_user := Some name\<rparr>) token
      = (ctx\<lparr>nx_authenticated_user := Some name\<rparr>, Ok name)"
    using c by (simp add: process_authenticate_Ok)
  then show ?thesis
    using Finish(1,2) by (simp add: process_token_def process_ntlm_def is_type3_def s' Let_def)
qed auto

theorem negotiate_replay_witness:
  "\<exists>s'. process_token (example_world\<lparr>w_challenge := replicate 8 1, w_unix_secs := 99\<rparr>) s'
      (map unat example_type3) = (s', Ok (Success [65]))"
proof -
  let ?s = "(negotiate_context_new [])\<lparr>ng_ntlm_ctx := Some example_context\<rparr>"
  have "process_token example_world ?s (map unat example_type3)
      = (?s\<lparr>ng_ntlm_ctx := Some (example_context\<lparr>nx_authenticated_user := Some [65]\<rparr>)\<rparr>, Ok (Success [65]))"
    by (rule example_finish) simp
  from negotiate_replay [OF this] show ?thesis by blast
qed

end
