(* ===== verification/Relay.thy ===== *)
theory Relay
  imports Ws_Framing Machine
begin

text \<open>
  The relay phase of a WebSocket connection: \<open>handle_ws_session_tungstenite\<close> of
  \<open>handlers/websocket.rs\<close> from the first Data message on, and \<open>start_relay\<close> of \<open>relay.rs\<close>.

  Two tasks share a connection. One reads the client's frames and writes to the backend; the
  other reads the backend, and the queue of control replies the first one fills, and writes to
  the client. Each loop iteration is a function on the state of both; \<open>relay_reaches\<close> is any
  interleaving of the two. What the outside decides (the frame or chunk that arrives, whether a
  write succeeds) is part of the event.
\<close>

section \<open>Frames and reads\<close>

text \<open>\<open>OtherFrame\<close> is any frame the loops ignore: text, ping, pong.\<close>

datatype ws_frame = Binary bytes | CloseFrame | OtherFrame

text \<open>What \<open>ws_stream.next().await\<close> and \<open>tcp_read.read(&mut buf).await\<close> yield.\<close>

datatype ws_item = Frame ws_frame | StreamError | StreamEnd

datatype tcp_item = Read bytes | ReadError

section \<open>The relay of \<open>websocket.rs\<close>\<close>

record relay =
  rl_ws_open :: bool
  rl_tcp_open :: bool
  rl_skip_next_data :: bool
  rl_backend :: bytes
  rl_ctrl :: "bytes list"
  rl_client :: "bytes list"

text \<open>The data of a Data message without its two-byte count.\<close>

definition rdp_payload :: "bytes \<Rightarrow> bytes" where
  "rdp_payload data = (if 2 \<le> length data then drop 2 data else data)"

text \<open>The relay as it starts, with the first message's data already written.\<close>

definition relay_start :: "bytes \<Rightarrow> relay" where
  "relay_start data = \<lparr>rl_ws_open = True, rl_tcp_open = True, rl_skip_next_data = False,
     rl_backend = rdp_payload data, rl_ctrl = [], rl_client = []\<rparr>"

text \<open>Sending into the queue fails, and the failure is ignored, once its reader has ended.\<close>

definition ctrl_send :: "bytes \<Rightarrow> relay \<Rightarrow> relay" where
  "ctrl_send m s = (if rl_tcp_open s then s\<lparr>rl_ctrl := rl_ctrl s @ [m]\<rparr> else s)"

definition setup_ack :: "u16 \<Rightarrow> bytes \<Rightarrow> bytes" where
  "setup_ack msg_type payload =
     (let resp_len = 8 + (word_of_nat (length payload) :: u32)
      in put_u16_le msg_type @ put_u16_le 0 @ put_u32_le resp_len @ payload)"

definition relay_channel_response :: channel_response where
  "relay_channel_response = \<lparr>cr_error_code = 0,
     cr_fields_present = HTTP_CHANNEL_RESPONSE_FIELD_CHANNELID, cr_reserved = 0,
     cr_channel_id = Some 1, cr_udp_port = None, cr_auth_cookie = None\<rparr>"

text \<open>One message of the client, \<open>ok\<close> telling whether a write to the backend succeeds.\<close>

definition relay_message :: "bool \<Rightarrow> relay \<Rightarrow> tsg_message \<Rightarrow> relay" where
  "relay_message ok s msg =
     (case msg of
        Data d \<Rightarrow>
          if rl_skip_next_data s then s\<lparr>rl_skip_next_data := False\<rparr>
          else if ok then s\<lparr>rl_backend := rl_backend s @ rdp_payload (dm_data d)\<rparr>
          else s\<lparr>rl_ws_open := False\<rparr>
      | Keepalive \<Rightarrow> ctrl_send write_keepalive s
      | CloseChannel _ \<Rightarrow> (ctrl_send write_close_channel_response s)\<lparr>rl_ws_open := False\<rparr>
      | Unknown msg_type payload \<Rightarrow>
          if msg_type = 0x10 then ctrl_send (setup_ack msg_type payload) s else s
      | ChannelCreate _ \<Rightarrow>
          (ctrl_send (channel_response_write relay_channel_response) s)\<lparr>rl_skip_next_data := True\<rparr>
      | _ \<Rightarrow> s)"

text \<open>A message that does not parse is logged and passed over; a panic ends the task.\<close>

definition ws_to_tcp :: "bool \<Rightarrow> relay \<Rightarrow> ws_item \<Rightarrow> relay" where
  "ws_to_tcp ok s item =
     (case item of
        Frame (Binary data) \<Rightarrow>
          (case parse_message data of
             Ok msg \<Rightarrow> relay_message ok s msg
           | Err _ \<Rightarrow> s
           | Panic \<Rightarrow> s\<lparr>rl_ws_open := False\<rparr>)
      | Frame CloseFrame \<Rightarrow> s\<lparr>rl_ws_open := False\<rparr>
      | Frame OtherFrame \<Rightarrow> s
      | _ \<Rightarrow> s\<lparr>rl_ws_open := False\<rparr>)"

definition tcp_to_ws :: "bool \<Rightarrow> relay \<Rightarrow> tcp_item \<Rightarrow> relay" where
  "tcp_to_ws ok s item =
     (case item of
        Read (b # bs) \<Rightarrow>
          if ok then s\<lparr>rl_client := rl_client s @ [encode_data_message (b # bs)]\<rparr>
          else s\<lparr>rl_tcp_open := False\<rparr>
      | _ \<Rightarrow> s\<lparr>rl_tcp_open := False\<rparr>)"

definition forward_ctrl :: "bool \<Rightarrow> relay \<Rightarrow> relay" where
  "forward_ctrl ok s =
     (case rl_ctrl s of
        [] \<Rightarrow> s
      | m # ms \<Rightarrow>
          let s = s\<lparr>rl_ctrl := ms\<rparr>
          in if ok then s\<lparr>rl_client := rl_client s @ [m]\<rparr> else s\<lparr>rl_tcp_open := False\<rparr>)"

section \<open>Interleavings\<close>

datatype relay_event = FromClient ws_item bool | FromBackend tcp_item bool | SendCtrl bool

definition relay_apply :: "relay \<Rightarrow> relay_event \<Rightarrow> relay" where
  "relay_apply s e =
     (case e of
        FromClient item ok \<Rightarrow> ws_to_tcp ok s item
      | FromBackend item ok \<Rightarrow> tcp_to_ws ok s item
      | SendCtrl ok \<Rightarrow> forward_ctrl ok s)"

text \<open>
  When an event can happen. The queue is \<open>tokio\<close>'s bounded channel, of which the documented behaviour
  is taken over as it is: it holds eight replies, and a client message that needs one waits while
  the queue is full and its reader alive. A read fills at most the 16384 bytes of its buffer.
\<close>

definition queue_bound :: nat where
  "queue_bound = 8"

definition relay_enabled :: "relay \<Rightarrow> relay_event \<Rightarrow> bool" where
  "relay_enabled s e =
     (case e of
        FromClient _ _ \<Rightarrow> rl_ws_open s \<and> (rl_tcp_open s \<longrightarrow> length (rl_ctrl s) < queue_bound
           \<or> rl_ctrl (relay_apply s e) = rl_ctrl s)
      | FromBackend item _ \<Rightarrow> rl_tcp_open s \<and> (\<forall>bs. item = Read bs \<longrightarrow> length bs \<le> 16384)
      | SendCtrl _ \<Rightarrow> rl_tcp_open s \<and> rl_ctrl s \<noteq> [])"

abbreviation relay_reaches :: "relay \<Rightarrow> relay_event list \<Rightarrow> relay \<Rightarrow> bool" where
  "relay_reaches \<equiv> reaches relay_enabled relay_apply"

section \<open>Towards the backend\<close>

text \<open>What the client's task got and, for each item, whether a write would have succeeded.\<close>

fun client_items :: "relay_event list \<Rightarrow> (ws_item \<times> bool) list" where
  "client_items [] = []"
| "client_items (FromClient item ok # es) = (item, ok) # client_items es"
| "client_items (_ # es) = client_items es"

lemma client_items_append [simp]: "client_items (es @ fs) = client_items es @ client_items fs"
  by (induction es rule: client_items.induct) simp_all

definition skip_next :: "bool \<Rightarrow> relay_event \<Rightarrow> bool" where
  "skip_next skip e =
     (case e of
        FromClient (Frame (Binary data)) ok \<Rightarrow>
          (case parse_message data of
             Ok (Data _) \<Rightarrow> False
           | Ok (ChannelCreate _) \<Rightarrow> True
           | _ \<Rightarrow> skip)
      | _ \<Rightarrow> skip)"

definition upstream :: "bool \<Rightarrow> relay_event \<Rightarrow> bytes" where
  "upstream skip e =
     (case e of
        FromClient (Frame (Binary data)) ok \<Rightarrow>
          (case parse_message data of
             Ok (Data d) \<Rightarrow> if skip \<or> \<not> ok then [] else rdp_payload (dm_data d)
           | _ \<Rightarrow> [])
      | _ \<Rightarrow> [])"

lemma ctrl_send_simps [simp]:
  "rl_ws_open (ctrl_send m s) = rl_ws_open s" "rl_tcp_open (ctrl_send m s) = rl_tcp_open s"
  "rl_skip_next_data (ctrl_send m s) = rl_skip_next_data s"
  "rl_backend (ctrl_send m s) = rl_backend s" "rl_client (ctrl_send m s) = rl_client s"
  by (simp_all add: ctrl_send_def)

lemmas relay_defs = relay_apply_def ws_to_tcp_def relay_message_def tcp_to_ws_def forward_ctrl_def

interpretation up: pipe relay_apply rl_skip_next_data rl_backend skip_next upstream
proof unfold_locales
  fix s e
  show "rl_skip_next_data (relay_apply s e) = skip_next (rl_skip_next_data s) e"
    by (auto simp: relay_defs skip_next_def Let_def
        split: relay_event.splits ws_item.splits ws_frame.splits outcome.splits tsg_message.splits
          tcp_item.splits list.splits)
  show "rl_backend (relay_apply s e) = rl_backend s @ upstream (rl_skip_next_data s) e"
    by (auto simp: relay_defs upstream_def Let_def
        split: relay_event.splits ws_item.splits ws_frame.splits outcome.splits tsg_message.splits
          tcp_item.splits list.splits)
qed

text \<open>
  The specification, on the messages the client sent: every Data message is delivered, except the
  one that follows a channel creation (the client's second channel repeats its first message).
\<close>

fun delivered :: "bool \<Rightarrow> tsg_message list \<Rightarrow> bytes" where
  "delivered skip [] = []"
| "delivered skip (Data d # ms) = (if skip then [] else rdp_payload (dm_data d)) @ delivered False ms"
| "delivered skip (ChannelCreate _ # ms) = delivered True ms"
| "delivered skip (_ # ms) = delivered skip ms"

definition sends :: "tsg_message \<Rightarrow> ws_item \<times> bool" where
  "sends m = (Frame (Binary (tsg_write m)), True)"

lemma parse_written: "tsg_ok m \<Longrightarrow> parse_message (tsg_write m) = Ok m"
  using parse_tsg_write [of m "[]"] by simp

lemma emits_delivered:
  assumes "client_items es = map sends ms" and "list_all tsg_ok ms"
  shows "emits skip_next upstream skip es = delivered skip ms"
  using assms
proof (induction es arbitrary: ms skip rule: client_items.induct)
  case (2 item ok es)
  then obtain m ms' where ms: "ms = m # ms'" "tsg_ok m" "list_all tsg_ok ms'"
    "item = Frame (Binary (tsg_write m))" "ok" "client_items es = map sends ms'"
    by (cases ms) (auto simp: sends_def)
  have "skip_next skip (FromClient item ok)
      = (case m of Data _ \<Rightarrow> False | ChannelCreate _ \<Rightarrow> True | _ \<Rightarrow> skip)"
    by (simp add: ms(4) skip_next_def parse_written [OF ms(2)])
  moreover have "upstream skip (FromClient item ok)
      = (case m of Data d \<Rightarrow> if skip then [] else rdp_payload (dm_data d) | _ \<Rightarrow> [])"
    by (simp add: ms(4,5) upstream_def parse_written [OF ms(2)] split: tsg_message.split)
  ultimately show ?case
    using "2.IH" [OF ms(6,3)] unfolding ms(1) emits.simps by (cases m) simp_all
qed (auto simp: skip_next_def upstream_def)

text \<open>
  The messages the client's task handled, in order, each with whether a write would have
  succeeded: of every item it took, those that are binary frames and parse.
\<close>

fun handled :: "relay_event list \<Rightarrow> (tsg_message \<times> bool) list" where
  "handled [] = []"
| "handled (FromClient (Frame (Binary data)) ok # es) =
     (case parse_message data of Ok m \<Rightarrow> [(m, ok)] | _ \<Rightarrow> []) @ handled es"
| "handled (_ # es) = handled es"

lemma handled_append [simp]: "handled (es @ fs) = handled es @ handled fs"
  by (induction es rule: handled.induct) simp_all

text \<open>
  The specification for any client: the data of every message up to the first failed write or the
  first CloseChannel.
\<close>

fun received :: "bool \<Rightarrow> (tsg_message \<times> bool) list \<Rightarrow> bytes" where
  "received skip [] = []"
| "received skip ((Data d, ok) # ms) =
     (if skip then received False ms
      else if ok then rdp_payload (dm_data d) @ received False ms else [])"
| "received skip ((ChannelCreate _, _) # ms) = received True ms"
| "received skip ((CloseChannel _, _) # ms) = []"
| "received skip (_ # ms) = received skip ms"

lemma relay_received:
  assumes "relay_reaches (relay_start d) es s"
  shows "rl_backend s = rdp_payload d @ received False (handled es)
    \<and> (rl_ws_open s \<longrightarrow> (\<forall>ms. received False (handled es @ ms)
        = received False (handled es) @ received (rl_skip_next_data s) ms))"
  using assms
proof (induction rule: reaches.induct)
  case reaches_start
  then show ?case by (simp add: relay_start_def)
next
  case (reaches_step es s e)
  show ?case
  proof (cases e)
    case (FromClient item ok)
    then have opened: "rl_ws_open s"
      using reaches_step.hyps(2) by (simp add: relay_enabled_def)
    note IH = reaches_step.IH [THEN conjunct1] reaches_step.IH [THEN conjunct2, rule_format, OF opened]
    show ?thesis
    proof (cases "\<exists>data m. item = Frame (Binary data) \<and> parse_message data = Ok m")
      case True
      then obtain data m where m: "item = Frame (Binary data)" "parse_message data = Ok m" by blast
      have "relay_apply s e = relay_message ok s m"
        by (simp add: FromClient m relay_apply_def ws_to_tcp_def)
      then show ?thesis
        using IH by (cases m) (auto simp: FromClient m relay_message_def)
    next
      case False
      then have "rl_backend (relay_apply s e) = rl_backend s"
          and "rl_skip_next_data (relay_apply s e) = rl_skip_next_data s"
        by (auto simp: FromClient relay_apply_def ws_to_tcp_def
            split: ws_item.splits ws_frame.splits outcome.splits)
      moreover have "handled [FromClient item ok] = []"
        using False by (cases "[FromClient item ok]" rule: handled.cases) (auto split: outcome.split)
      ultimately have "handled [e] = []" and "rl_backend (relay_apply s e) = rl_backend s"
          and "rl_skip_next_data (relay_apply s e) = rl_skip_next_data s"
        by (simp_all add: FromClient)
      then show ?thesis using IH by simp
    qed
  next
    case (FromBackend item ok)
    then show ?thesis using reaches_step.IH
      by (auto simp: relay_apply_def tcp_to_ws_def split: tcp_item.splits list.splits)
  next
    case (SendCtrl ok)
    then show ?thesis using reaches_step.IH
      by (auto simp: relay_apply_def forward_ctrl_def Let_def split: list.splits)
  qed
qed

section \<open>Towards the client\<close>

text \<open>The chunks the backend sent.\<close>

fun chunks :: "relay_event list \<Rightarrow> bytes list" where
  "chunks [] = []"
| "chunks (FromBackend (Read (b # bs)) ok # es) = (b # bs) # chunks es"
| "chunks (_ # es) = chunks es"

lemma chunks_append [simp]: "chunks (es @ fs) = chunks es @ chunks fs"
  by (induction es rule: chunks.induct) simp_all

text \<open>What an item puts into the queue.\<close>

definition queues :: "ws_item \<Rightarrow> bytes list" where
  "queues item =
     (case item of
        Frame (Binary data) \<Rightarrow>
          (case parse_message data of
             Ok Keepalive \<Rightarrow> [write_keepalive]
           | Ok (CloseChannel _) \<Rightarrow> [write_close_channel_response]
           | Ok (Unknown msg_type payload) \<Rightarrow> if msg_type = 0x10 then [setup_ack msg_type payload] else []
           | Ok (ChannelCreate _) \<Rightarrow> [channel_response_write relay_channel_response]
           | _ \<Rightarrow> [])
      | _ \<Rightarrow> [])"

lemma ws_to_tcp_frame [simp]:
  "rl_tcp_open (ws_to_tcp ok s item) = rl_tcp_open s" "rl_client (ws_to_tcp ok s item) = rl_client s"
  by (auto simp: ws_to_tcp_def relay_message_def
      split: ws_item.splits ws_frame.splits outcome.splits tsg_message.splits)

lemma ws_to_tcp_ctrl:
  "rl_ctrl (ws_to_tcp ok s item) = rl_ctrl s @ (if rl_tcp_open s then queues item else [])"
  by (auto simp: ws_to_tcp_def relay_message_def queues_def ctrl_send_def
      split: ws_item.splits ws_frame.splits outcome.splits tsg_message.splits)

lemma shuffles_snoc1: "zs \<in> shuffles xs ys \<Longrightarrow> zs @ [x] \<in> shuffles (xs @ [x]) ys"
proof (induction zs arbitrary: xs ys)
  case Nil
  then show ?case by (simp add: Nil_in_shuffles)
next
  case (Cons z zs)
  from Cons.prems consider (left) "xs \<noteq> []" "hd xs = z" "zs \<in> shuffles (tl xs) ys"
    | (right) "ys \<noteq> []" "hd ys = z" "zs \<in> shuffles xs (tl ys)"
    by (auto simp: Cons_in_shuffles_iff)
  then show ?case
  proof cases
    case left
    show ?thesis using Cons.IH [OF left(3)] left by (simp add: Cons_in_shuffles_iff)
  next
    case right
    show ?thesis using Cons.IH [OF right(3)] right by (simp add: Cons_in_shuffles_iff)
  qed
qed

lemma shuffles_snoc2: "zs \<in> shuffles xs ys \<Longrightarrow> zs @ [y] \<in> shuffles xs (ys @ [y])"
  using shuffles_snoc1 [of zs ys xs y] by (simp add: shuffles_commutes)

lemma relay_client_shuffle:
  assumes "relay_reaches (relay_start d) es s" and "rl_tcp_open s"
  shows "\<exists>sent. rl_client s \<in> shuffles (map encode_data_message (chunks es)) sent
    \<and> sent @ rl_ctrl s = concat (map (\<lambda>(item, ok). queues item) (client_items es))"
  using assms
proof (induction rule: reaches.induct)
  case reaches_start
  then show ?case by (simp add: relay_start_def)
next
  case (reaches_step es s e)
  have opened: "rl_tcp_open s" using reaches_step.hyps(2) reaches_step.prems
    by (cases e) (auto simp: relay_enabled_def relay_apply_def)
  then obtain sent where sent: "rl_client s \<in> shuffles (map encode_data_message (chunks es)) sent"
      "sent @ rl_ctrl s = concat (map (\<lambda>(item, ok). queues item) (client_items es))"
    using reaches_step.IH by blast
  show ?case
  proof (cases e)
    case (FromClient item ok)
    have "sent @ rl_ctrl s @ queues item
        = concat (map (\<lambda>(item, ok). queues item) (client_items es)) @ queues item"
      using sent(2) by (simp flip: append_assoc)
    then show ?thesis
      using sent(1) opened FromClient
      by (intro exI [of _ sent]) (simp add: relay_apply_def ws_to_tcp_ctrl)
  next
    case (FromBackend item ok)
    then obtain b bs where item: "item = Read (b # bs)" "ok"
      using reaches_step.prems by (auto simp: relay_apply_def tcp_to_ws_def split: tcp_item.splits list.splits if_splits)
    then show ?thesis
      using sent FromBackend shuffles_snoc1 [OF sent(1)]
      by (intro exI [of _ sent]) (simp add: relay_apply_def tcp_to_ws_def)
  next
    case (SendCtrl ok)
    then obtain m ms where m: "rl_ctrl s = m # ms" "ok"
      using reaches_step.prems reaches_step.hyps(2)
      by (cases "rl_ctrl s") (auto simp: relay_apply_def relay_enabled_def forward_ctrl_def Let_def split: if_splits)
    then show ?thesis
      using sent(2) SendCtrl shuffles_snoc2 [OF sent(1), of m]
      by (intro exI [of _ "sent @ [m]"]) (simp add: relay_apply_def forward_ctrl_def)
  qed
qed

text \<open>What the client is to be told, on messages.\<close>

definition reply_to :: "tsg_message \<Rightarrow> tsg_message option" where
  "reply_to m =
     (case m of
        Keepalive \<Rightarrow> Some Keepalive
      | CloseChannel _ \<Rightarrow> Some (CloseChannelResponse [])
      | ChannelCreate _ \<Rightarrow> Some (ChannelResponse \<lparr>cr_error_code = 0, cr_fields_present = 1,
          cr_reserved = 0, cr_channel_id = Some 1, cr_udp_port = None, cr_auth_cookie = None\<rparr>)
      | Unknown t p \<Rightarrow> if t = 0x10 then Some (Unknown 0x10 p) else None
      | _ \<Rightarrow> None)"

lemma channel_response_parses:
  "parse_message (channel_response_write relay_channel_response) = Ok (ChannelResponse
     \<lparr>cr_error_code = 0, cr_fields_present = 1, cr_reserved = 0, cr_channel_id = Some 1,
      cr_udp_port = None, cr_auth_cookie = None\<rparr>)"
proof -
  have ok: "channel_response_ok relay_channel_response"
    by (simp add: channel_response_ok_def relay_channel_response_def
        HTTP_CHANNEL_RESPONSE_FIELD_CHANNELID_def HTTP_CHANNEL_RESPONSE_FIELD_UDPPORT_def
        HTTP_CHANNEL_RESPONSE_FIELD_AUTHNCOOKIE_def)
  show ?thesis
    using cr_codec.roundtrip_exact [OF ok]
    by (simp add: relay_channel_response_def HTTP_CHANNEL_RESPONSE_FIELD_CHANNELID_def)
qed

lemma setup_ack_echo: "setup_ack t p = write_echo_response t p"
  by (simp add: setup_ack_def write_echo_response_def message_header_write_def)

text \<open>A setup message that was parsed is short enough for its echo to parse.\<close>

lemma parsed_unknown:
  assumes "parse_message data = Ok (Unknown t p)"
  shows "parse_message (write_echo_response t p) = Ok (Unknown t p)"
proof -
  obtain h :: message_header and payload where h: "unat (mh_length h) = 8 + length payload"
      "parse_payload (mh_type h) payload = Ok (Unknown t p)"
    using assms by (rule parse_message_OkD) blast
  from h(2) have "mh_type h = t" "payload = p" "unknown_type t"
    by (auto simp: parse_payload_def unknown_type_def split: option.splits message_type.splits
        dest: message_type_from_u16_Some [THEN iffD1])
  moreover have "unat (mh_length h) < 2 ^ 32"
    using unsigned_less [of "mh_length h", where 'a = nat] by simp
  ultimately have "tsg_ok (Unknown t p)" using h(1) by (simp add: framable_def)
  then show ?thesis using parse_written [of "Unknown t p"] by simp
qed

lemma queues_parse:
  assumes "parse_message data = Ok m"
  shows "map parse_message (queues (Frame (Binary data)))
    = map Ok (case reply_to m of None \<Rightarrow> [] | Some r \<Rightarrow> [r])"
proof -
  have ka: "parse_message write_keepalive = Ok Keepalive"
    using parse_written [of Keepalive] by simp
  have cl: "parse_message write_close_channel_response = Ok (CloseChannelResponse [])"
    using parse_written [of "CloseChannelResponse []"]
    by (simp add: framable_def write_close_channel_response_def write_echo_response_def)
  show ?thesis
    using assms parsed_unknown [of data]
    by (cases m) (auto simp: queues_def reply_to_def ka cl channel_response_parses setup_ack_echo)
qed

lemma queues_replies:
  "map parse_message (concat (map (\<lambda>(item, ok). queues item) (client_items es)))
    = map Ok (List.map_filter reply_to (map fst (handled es)))"
proof (induction es rule: handled.induct)
  case (2 data ok es)
  show ?case
  proof (cases "parse_message data")
    case (Ok m)
    then show ?thesis
      using 2 queues_parse [OF Ok] by (simp add: map_filter_simps split: option.split)
  qed (use 2 in \<open>simp_all add: queues_def\<close>)
qed (simp_all add: queues_def map_filter_simps)

section \<open>The relay of \<open>relay.rs\<close>\<close>

text \<open>
  \<open>start_relay\<close> of \<open>relay.rs\<close>, on the fields it has of the same state: no control replies, no
  skipping, and a message that does not parse ends the task.
\<close>

definition relay_rs_start :: "bytes option \<Rightarrow> relay" where
  "relay_rs_start initial_data = \<lparr>rl_ws_open = True, rl_tcp_open = True, rl_skip_next_data = False,
     rl_backend = (case initial_data of None \<Rightarrow> [] | Some data \<Rightarrow> data), rl_ctrl = [], rl_client = []\<rparr>"

text \<open>
  \<open>start_relay\<close> up to its two tasks: \<open>None\<close> when the backend cannot be reached or the first data
  not be written.
\<close>

definition start_relay ::
  "(rstring \<Rightarrow> bool) \<Rightarrow> bool \<Rightarrow> rstring \<Rightarrow> u16 \<Rightarrow> bytes option \<Rightarrow> relay option" where
  "start_relay connects ok target_host target_port initial_data =
     (let target_addr = target_host @ lit '':'' @ dec_digits (unat target_port)
      in if \<not> connects target_addr then None
         else if initial_data \<noteq> None \<and> \<not> ok then None
         else Some (relay_rs_start initial_data))"

definition relay_rs_ws_to_tcp :: "bool \<Rightarrow> relay \<Rightarrow> ws_item \<Rightarrow> relay" where
  "relay_rs_ws_to_tcp ok s item =
     (case item of
        Frame (Binary data) \<Rightarrow>
          (case parse_message data of
             Ok (Data d) \<Rightarrow>
               if ok then s\<lparr>rl_backend := rl_backend s @ dm_data d\<rparr> else s\<lparr>rl_ws_open := False\<rparr>
           | Ok _ \<Rightarrow> s
           | _ \<Rightarrow> s\<lparr>rl_ws_open := False\<rparr>)
      | Frame OtherFrame \<Rightarrow> s
      | _ \<Rightarrow> s\<lparr>rl_ws_open := False\<rparr>)"

definition relay_rs_tcp_to_ws :: "bool \<Rightarrow> relay \<Rightarrow> tcp_item \<Rightarrow> relay" where
  "relay_rs_tcp_to_ws ok s item =
     (case item of
        Read (b # bs) \<Rightarrow>
          let ws_msg = encode_data_message (b # bs)
          in if ok then s\<lparr>rl_client := rl_client s @ [ws_msg]\<rparr> else s\<lparr>rl_tcp_open := False\<rparr>
      | _ \<Rightarrow> s\<lparr>rl_tcp_open := False\<rparr>)"

definition relay_rs_apply :: "relay \<Rightarrow> relay_event \<Rightarrow> relay" where
  "relay_rs_apply s e =
     (case e of
        FromClient item ok \<Rightarrow> relay_rs_ws_to_tcp ok s item
      | FromBackend item ok \<Rightarrow> relay_rs_tcp_to_ws ok s item
      | SendCtrl ok \<Rightarrow> s)"

definition relay_rs_enabled :: "relay \<Rightarrow> relay_event \<Rightarrow> bool" where
  "relay_rs_enabled s e =
     (case e of
        FromClient _ _ \<Rightarrow> rl_ws_open s
      | FromBackend item _ \<Rightarrow> rl_tcp_open s \<and> (\<forall>bs. item = Read bs \<longrightarrow> length bs \<le> 8192)
      | SendCtrl _ \<Rightarrow> False)"

definition rs_upstream :: "unit \<Rightarrow> relay_event \<Rightarrow> bytes" where
  "rs_upstream _ e =
     (case e of
        FromClient (Frame (Binary data)) True \<Rightarrow>
          (case parse_message data of Ok (Data d) \<Rightarrow> dm_data d | _ \<Rightarrow> [])
      | _ \<Rightarrow> [])"

interpretation rs_up: pipe relay_rs_apply "\<lambda>_. ()" rl_backend "\<lambda>_ _. ()" rs_upstream
  by unfold_locales
    (auto simp: relay_rs_apply_def relay_rs_ws_to_tcp_def relay_rs_tcp_to_ws_def rs_upstream_def Let_def
      split: relay_event.splits ws_item.splits ws_frame.splits outcome.splits tsg_message.splits
        tcp_item.splits list.splits bool.splits)

text \<open>A client that wraps its chunks as the gateway wraps the backend's.\<close>

definition wraps :: "bytes \<Rightarrow> ws_item \<times> bool" where
  "wraps c = (Frame (Binary (encode_data_message c)), True)"

lemma encode_data_is_data:
  assumes "length c + 10 < 2 ^ 32"
  shows "wraps c = sends (Data \<lparr>dm_data = put_u16_le (word_of_nat (length c)) @ c\<rparr>)"
    and "tsg_ok (Data \<lparr>dm_data = put_u16_le (word_of_nat (length c)) @ c\<rparr>)"
  using assms
  by (simp_all add: wraps_def sends_def encode_data_message_def data_ok_def framable_def)

lemma delivered_chunks:
  "delivered False (map (\<lambda>c. Data \<lparr>dm_data = put_u16_le (word_of_nat (length c)) @ c\<rparr>) cs) = concat cs"
  by (induction cs) (simp_all add: rdp_payload_def)

lemma emits_rs_chunks:
  assumes "client_items es = map wraps cs" and "\<forall>c \<in> set cs. length c + 10 < 2 ^ 32"
  shows "emits (\<lambda>_ _. ()) rs_upstream u es
    = concat (map (\<lambda>c. put_u16_le (word_of_nat (length c)) @ c) cs)"
  using assms
proof (induction es arbitrary: cs rule: client_items.induct)
  case (2 item ok es)
  then obtain c cs' where cs: "cs = c # cs'" "(item, ok) = wraps c" "client_items es = map wraps cs'"
    by (cases cs) auto
  have "parse_message (encode_data_message c) = Ok (Data \<lparr>dm_data = put_u16_le (word_of_nat (length c)) @ c\<rparr>)"
    using "2.prems"(2) parse_written [OF encode_data_is_data(2), of c] cs(1)
    by (simp add: encode_data_message_def)
  then show ?case
    using "2.IH" [OF cs(3)] "2.prems"(2) cs(1,2) by (simp add: wraps_def rs_upstream_def)
qed (auto simp: rs_upstream_def)

text \<open>A task that handles the client's messages one by one, its replies sent at once.\<close>

lemma relay_takes:
  assumes "relay_reaches (relay_start d) es s" and "rl_ws_open s" and "rl_tcp_open s" and "rl_ctrl s = []"
    and "tsg_ok m" and "\<And>c. m \<noteq> CloseChannel c"
  shows "\<exists>fs t. relay_reaches (relay_start d) (es @ fs) t \<and> client_items fs = [sends m]
    \<and> rl_ws_open t \<and> rl_tcp_open t \<and> rl_ctrl t = []"
proof -
  let ?e = "FromClient (Frame (Binary (tsg_write m))) True"
  let ?t = "relay_apply s ?e"
  have t: "?t = relay_message True s m"
    by (simp add: relay_apply_def ws_to_tcp_def parse_written [OF assms(5)])
  have "relay_enabled s ?e"
    using assms(2-4) by (simp add: relay_enabled_def queue_bound_def)
  then have r: "relay_reaches (relay_start d) (es @ [?e]) ?t"
    by (rule reaches_step [OF assms(1)])
  have open_t: "rl_ws_open ?t" "rl_tcp_open ?t" and ctrl: "rl_ctrl ?t = [] \<or> (\<exists>x. rl_ctrl ?t = [x])"
    using assms(2-4,6) unfolding t by (auto simp: relay_message_def ctrl_send_def split: tsg_message.split)
  show ?thesis
  proof (cases "rl_ctrl ?t = []")
    case True
    then show ?thesis using r open_t by (intro exI [of _ "[?e]"] exI [of _ ?t]) (simp add: sends_def)
  next
    case False
    then obtain x where x: "rl_ctrl ?t = [x]" using ctrl by blast
    let ?u = "relay_apply ?t (SendCtrl True)"
    have "relay_enabled ?t (SendCtrl True)" using open_t x by (simp add: relay_enabled_def)
    then have "relay_reaches (relay_start d) ((es @ [?e]) @ [SendCtrl True]) ?u"
      by (rule reaches_step [OF r])
    then show ?thesis
      using open_t x
      by (intro exI [of _ "[?e, SendCtrl True]"] exI [of _ ?u])
        (simp add: sends_def relay_apply_def forward_ctrl_def)
  qed
qed

lemma relay_takes_all:
  assumes "list_all (\<lambda>m. tsg_ok m \<and> (\<forall>c. m \<noteq> CloseChannel c)) ms"
  shows "\<exists>es s. relay_reaches (relay_start d) es s \<and> client_items es = map sends ms
    \<and> rl_ws_open s \<and> rl_tcp_open s \<and> rl_ctrl s = []"
  using assms
proof (induction ms rule: rev_induct)
  case Nil
  show ?case
    by (rule exI [of _ "[]"], rule exI [of _ "relay_start d"])
      (simp add: reaches_start, simp add: relay_start_def)
next
  case (snoc m ms)
  then obtain es s where "relay_reaches (relay_start d) es s" "client_items es = map sends ms"
      "rl_ws_open s" "rl_tcp_open s" "rl_ctrl s = []" by auto
  moreover from relay_takes [OF this(1,3-5), of m] snoc.prems obtain fs t where
      "relay_reaches (relay_start d) (es @ fs) t" "client_items fs = [sends m]"
      "rl_ws_open t" "rl_tcp_open t" "rl_ctrl t = []" by auto
  ultimately show ?case by (intro exI [of _ "es @ fs"] exI [of _ t]) simp
qed

section \<open>Properties\<close>

lemma relay_first_event: "relay_reaches (relay_start d) [FromClient item ok] (ws_to_tcp ok (relay_start d) item)"
  using reaches_step [OF reaches_start, of relay_enabled "relay_start d" "FromClient item ok" relay_apply]
  by (simp add: relay_enabled_def relay_start_def queue_bound_def relay_apply_def)

text \<open>
  C7. However the two tasks interleave and whatever the client sends, the backend has received the
  payload of the first message and then, in order and unchanged, the payload of every Data message
  the client's task has parsed, each without its two-byte count, except one after each channel
  creation, up to a CloseChannel or to the first write that failed, after which it gets nothing;
  frames that do not parse, pings, other messages, chunks of the backend and replies change
  nothing.
\<close>

theorem relay_upstream:
  assumes "relay_reaches (relay_start d) es s"
  shows "rl_backend s = rdp_payload d @ received False (handled es)"
  using relay_received [OF assms] by simp

theorem relay_upstream_witness:
  "rl_backend (ws_to_tcp True (relay_start [1, 0, 9]) (Frame (Binary (tsg_write (Data \<lparr>dm_data = [2, 0, 7, 8]\<rparr>)))))
    = [9, 7, 8]"
  using relay_upstream [OF relay_first_event [of "[1, 0, 9]" "fst (sends (Data \<lparr>dm_data = [2, 0, 7, 8]\<rparr>))" True]]
    parse_written [of "Data \<lparr>dm_data = [2, 0, 7, 8]\<rparr>"]
  by (simp add: sends_def data_ok_def framable_def rdp_payload_def)

text \<open>
  C18. Whatever the client sends, while the task towards it runs it has been sent the chunks of the
  backend, each as one Data message, in order, merged in some order with replies to its own
  messages; those replies, with the ones still queued, parse to exactly one reply, in order, to
  each parsed keepalive, CloseChannel, channel creation and setup message of type 0x10. Nothing
  else is answered; in particular no other unknown type is echoed, although the architecture
  document says that unknown types are.
\<close>

theorem relay_downstream:
  assumes "relay_reaches (relay_start d) es s" and "rl_tcp_open s"
  shows "\<exists>sent. rl_client s \<in> shuffles (map encode_data_message (chunks es)) sent
    \<and> map parse_message (sent @ rl_ctrl s) = map Ok (List.map_filter reply_to (map fst (handled es)))"
proof -
  obtain sent where sent: "rl_client s \<in> shuffles (map encode_data_message (chunks es)) sent"
      "sent @ rl_ctrl s = concat (map (\<lambda>(item, ok). queues item) (client_items es))"
    using relay_client_shuffle [OF assms] by blast
  then show ?thesis by (metis queues_replies)
qed

theorem relay_downstream_witness:
  "\<exists>reply. rl_ctrl (ws_to_tcp True (relay_start []) (Frame (Binary (tsg_write (Unknown 0x10 [5]))))) = [reply]
    \<and> parse_message reply = Ok (Unknown 0x10 [5])"
proof -
  let ?m = "Unknown 0x10 [5]" and ?s = "ws_to_tcp True (relay_start []) (Frame (Binary (tsg_write (Unknown 0x10 [5]))))"
  have ok: "tsg_ok ?m"
    by (simp add: unknown_type_def message_type_from_u16_def framable_def)
  have r: "relay_reaches (relay_start []) [FromClient (fst (sends ?m)) True] ?s"
    using relay_first_event [of "[]" "fst (sends ?m)" True] by (simp add: sends_def)
  obtain sent where sent: "rl_client ?s \<in> shuffles [] sent"
      "map parse_message (sent @ rl_ctrl ?s) = map Ok (List.map_filter reply_to [?m])"
    using relay_downstream [OF r] parse_written [OF ok] by (auto simp: relay_start_def sends_def)
  from sent(1) have "sent = []" by (simp add: relay_start_def)
  with sent(2) show ?thesis by (auto simp: map_filter_simps reply_to_def)
qed

text \<open>
  The two relays of the repository disagree: for a client that wraps its chunks
  as \<open>encode_data_message\<close> does, the relay of \<open>websocket.rs\<close> hands the backend the chunks, the one of
  \<open>relay.rs\<close> the chunks with their two-byte counts in between.
\<close>

theorem relay_variants:
  assumes "\<forall>c \<in> set cs. length c + 10 < 2 ^ 32"
    and "relay_reaches (relay_start []) es s" and "client_items es = map wraps cs"
    and "reaches relay_rs_enabled relay_rs_apply (relay_rs_start None) es' s'"
    and "client_items es' = map wraps cs"
  shows "rl_backend s = concat cs
    \<and> rl_backend s' = concat (map (\<lambda>c. put_u16_le (word_of_nat (length c)) @ c) cs)"
proof
  let ?ms = "map (\<lambda>c. Data \<lparr>dm_data = put_u16_le (word_of_nat (length c)) @ c\<rparr>) cs"
  have "client_items es = map sends ?ms" "list_all tsg_ok ?ms"
    using assms(1,3) encode_data_is_data by (auto simp: list_all_iff)
  then show "rl_backend s = concat cs"
    using reaches_run [OF assms(2)] up.run_out [of "relay_start []" es] emits_delivered [of es ?ms False]
    by (simp add: relay_start_def rdp_payload_def delivered_chunks)
  show "rl_backend s' = concat (map (\<lambda>c. put_u16_le (word_of_nat (length c)) @ c) cs)"
    using reaches_run [OF assms(4)] rs_up.run_out [of "relay_rs_start None" es']
      emits_rs_chunks [OF assms(5,1)]
    by (simp add: relay_rs_start_def)
qed

theorem relay_variants_witness:
  "rl_backend (ws_to_tcp True (relay_start []) (Frame (Binary (encode_data_message [7])))) = [7]
    \<and> rl_backend (relay_rs_ws_to_tcp True (relay_rs_start None) (Frame (Binary (encode_data_message [7]))))
      = [1, 0, 7]"
proof -
  have "reaches relay_rs_enabled relay_rs_apply (relay_rs_start None) [FromClient (fst (wraps [7])) True]
      (relay_rs_ws_to_tcp True (relay_rs_start None) (fst (wraps [7])))"
    using reaches_step [OF reaches_start, of relay_rs_enabled "relay_rs_start None"
        "FromClient (fst (wraps [7])) True" relay_rs_apply]
    by (simp add: relay_rs_enabled_def relay_rs_start_def relay_rs_apply_def)
  from relay_variants [OF _ relay_first_event _ this, of "[[7]]" "fst (wraps [7])" True]
  show ?thesis by (simp add: wraps_def put_u16_le_def le_bytes_def upt_rec)
qed

end
