(* ===== verification/Ws_Handler.thy ===== *)
theory Ws_Handler
  imports Relay Session Auth
begin

text \<open>
  \<open>crates/rdg-server/src/handlers/websocket.rs\<close> up to the relay: the HTTP handler with its store
  of challenges, the WebSocket upgrade and the loop that carries a session through the handshake.

  A request is its headers: \<open>hs n\<close> is the first value of the header \<open>n\<close> (in lower case) when it is
  visible ASCII, as \<open>headers.get(n).and_then(|v| v.to_str().ok())\<close> yields it. The world of \<open>Auth\<close>
  supplies base64, the random challenge and the clock; \<open>accept_key\<close> is the WebSocket library's
  \<open>derive_accept_key\<close>. The store is keyed by client address.
\<close>

section \<open>Tokens\<close>

type_synonym headers = "rstring \<Rightarrow> rstring option"

definition is_ntlm_type1 :: "(rstring \<Rightarrow> bytes option) \<Rightarrow> rstring \<Rightarrow> bool" where
  "is_ntlm_type1 b64 auth =
     (case Option.bind (strip_prefix (lit ''Negotiate '') auth) b64 of
        None \<Rightarrow> False
      | Some d \<Rightarrow> 12 \<le> length d \<and> take 8 d = NTLMSSP_SIGNATURE \<and> d ! 8 = 1)"

definition is_ntlm_type3 :: "(rstring \<Rightarrow> bytes option) \<Rightarrow> rstring \<Rightarrow> bool" where
  "is_ntlm_type3 b64 auth =
     (case Option.bind (strip_prefix (lit ''Negotiate '') auth) b64 of
        None \<Rightarrow> False
      | Some d \<Rightarrow> 12 \<le> length d \<and> take 8 d = NTLMSSP_SIGNATURE \<and> d ! 8 = 3)"

definition extract_ntlm_token :: "(rstring \<Rightarrow> bytes option) \<Rightarrow> rstring \<Rightarrow> bytes" where
  "extract_ntlm_token b64 auth =
     unwrap_or [] (Option.bind (strip_prefix (lit ''Negotiate '') auth) b64)"

definition extract_username_from_type3 :: "bytes \<Rightarrow> rstring option" where
  "extract_username_from_type3 data = map_option na_username (ok_opt (parse_authenticate data))"

section \<open>The upgrade\<close>

record http_response =
  rs_status :: nat
  rs_headers :: "(rstring \<times> rstring) list"
  rs_body :: rstring

definition bad_request :: "rstring \<Rightarrow> http_response" where
  "bad_request body = \<lparr>rs_status = 400, rs_headers = [], rs_body = body\<rparr>"

text \<open>
  The second result is the user name of the session task that is spawned, if one is. The value of
  \<open>Connection\<close> is ASCII, where \<open>to_lowercase\<close> is the ASCII one.
\<close>

definition do_websocket_upgrade ::
  "(rstring \<Rightarrow> rstring) \<Rightarrow> headers \<Rightarrow> rstring \<Rightarrow> http_response \<times> rstring option" where
  "do_websocket_upgrade accept_key hs username =
     (let has_upgrade = (case hs (lit ''upgrade'') of
            None \<Rightarrow> False | Some v \<Rightarrow> eq_ignore_ascii_case v (lit ''websocket''));
          has_connection = (case hs (lit ''connection'') of
            None \<Rightarrow> False | Some v \<Rightarrow> str_contains (lit ''upgrade'') (to_ascii_lowercase v));
          ws_key = hs (lit ''sec-websocket-key'');
          ws_protocol = hs (lit ''sec-websocket-protocol'')
      in if \<not> has_upgrade \<or> \<not> has_connection \<or> ws_key = None
         then (bad_request (lit ''Missing WebSocket headers''), None)
         else
           (\<lparr>rs_status = 101,
             rs_headers = [(lit ''upgrade'', lit ''websocket''), (lit ''connection'', lit ''Upgrade''),
                (lit ''sec-websocket-accept'', accept_key (the ws_key))]
                @ (case ws_protocol of None \<Rightarrow> [] | Some proto \<Rightarrow> [(lit ''sec-websocket-protocol'', proto)]),
             rs_body = []\<rparr>,
            Some username))"

definition unauthorized :: "rstring \<Rightarrow> http_response" where
  "unauthorized challenge =
     \<lparr>rs_status = 401, rs_headers = [(lit ''www-authenticate'', challenge),
        (lit ''server'', lit ''Microsoft-HTTPAPI/2.0'')], rs_body = []\<rparr>"

definition kdcproxy_handler :: http_response where
  "kdcproxy_handler = \<lparr>rs_status = 503, rs_headers = [], rs_body = []\<rparr>"

definition rdg_handler ::
  "'e world \<Rightarrow> (rstring \<Rightarrow> rstring) \<Rightarrow> rstring \<Rightarrow> ('addr \<Rightarrow> ntlm_auth_context option) \<Rightarrow> 'addr \<Rightarrow> headers
    \<Rightarrow> ('addr \<Rightarrow> ntlm_auth_context option) \<times> http_response \<times> rstring option" where
  "rdg_handler w accept_key server_name challenges addr hs =
     (let auth_header = unwrap_or [] (hs (lit ''authorization''))
      in if auth_header = [] then (challenges, unauthorized (lit ''Negotiate''), None)
         else if is_ntlm_type1 (w_b64_decode w) auth_header then
           let auth_ctx = ntlm_auth_context_new (w_unix_secs w) (w_challenge w) server_name;
               challenge_b64 = challenge_base64 (w_b64_encode w) auth_ctx
           in (challenges(addr := Some auth_ctx),
               unauthorized (lit ''Negotiate '' @ challenge_b64), None)
         else if is_ntlm_type3 (w_b64_decode w) auth_header then
           let type3_data = extract_ntlm_token (w_b64_decode w) auth_header;
               username = unwrap_or (lit ''unknown'') (extract_username_from_type3 type3_data)
           in (challenges(addr := None), do_websocket_upgrade accept_key hs username)
         else (challenges, bad_request (lit ''Invalid authorization''), None))"

section \<open>The session loop\<close>

text \<open>
  \<open>handle_ws_session_tungstenite\<close> up to the relay, on the items of the stream, each with whether
  the answer to it can be sent: the frames sent, how the loop ends, and the items left to read.
\<close>

datatype ws_end = Waiting gateway_session | Ended | StartRelay rstring bytes

definition relay_target :: "gateway_session \<Rightarrow> rstring" where
  "relay_target session =
     unwrap_or [] (gs_target_host session) @ lit '':''
       @ dec_digits (unat (unwrap_or 3389 (gs_target_port session)))"

definition data_of :: "tsg_message \<Rightarrow> data_message option" where
  "data_of tsg_msg = (case tsg_msg of Data data_msg \<Rightarrow> Some data_msg | _ \<Rightarrow> None)"

fun ws_session ::
  "gateway_session \<Rightarrow> (ws_item \<times> bool) list \<Rightarrow> bytes list \<times> ws_end \<times> (ws_item \<times> bool) list" where
  "ws_session session [] = ([], Waiting session, [])"
| "ws_session session ((item, ok) # rest) =
     (case item of
        Frame (Binary msg) \<Rightarrow>
          (case parse_message msg of
             Ok tsg_msg \<Rightarrow>
               (case (if is_data_transfer session then data_of tsg_msg else None) of
                  Some data_msg \<Rightarrow>
                    ([], StartRelay (relay_target session) (dm_data data_msg), rest)
                | None \<Rightarrow>
                  (case process_message session tsg_msg of
                     (session, Ok (Some response)) \<Rightarrow>
                       if ok then
                         let (sent, r) = ws_session session rest in (response # sent, r)
                       else ([], Ended, rest)
                   | (session, Ok None) \<Rightarrow> ws_session session rest
                   | _ \<Rightarrow> ([], Ended, rest)))
           | _ \<Rightarrow> ([], Ended, rest))
      | Frame OtherFrame \<Rightarrow> ws_session session rest
      | _ \<Rightarrow> ([], Ended, rest))"

text \<open>
  What follows \<open>StartRelay\<close>: the backend is connected to and the first data written, or the
  session ends.
\<close>

definition enter_relay :: "(rstring \<Rightarrow> bool) \<Rightarrow> bool \<Rightarrow> ws_end \<Rightarrow> (rstring \<times> relay) option" where
  "enter_relay connects ok r =
     (case r of
        StartRelay target_addr data \<Rightarrow>
          if connects target_addr \<and> ok then Some (target_addr, relay_start data) else None
      | _ \<Rightarrow> None)"

text \<open>\<open>handle_ws_session_axum\<close>, the variant without a relay.\<close>

fun ws_session_axum ::
  "gateway_session \<Rightarrow> (ws_item \<times> bool) list \<Rightarrow> bytes list \<times> ws_end \<times> (ws_item \<times> bool) list" where
  "ws_session_axum session [] = ([], Waiting session, [])"
| "ws_session_axum session ((item, ok) # rest) =
     (case item of
        Frame (Binary msg) \<Rightarrow>
          (case parse_message msg of
             Ok tsg_msg \<Rightarrow>
               (case process_message session tsg_msg of
                  (session, Ok (Some response)) \<Rightarrow>
                    if ok then
                      let (sent, r) = ws_session_axum session rest in (response # sent, r)
                    else ([], Ended, rest)
                | (session, Ok None) \<Rightarrow> ws_session_axum session rest
                | _ \<Rightarrow> ([], Ended, rest))
           | _ \<Rightarrow> ([], Ended, rest))
      | Frame OtherFrame \<Rightarrow> ws_session_axum session rest
      | _ \<Rightarrow> ([], Ended, rest))"

section \<open>The handshake, message by message\<close>

text \<open>The specification of the loop: a run of accepted messages with the replies to them.\<close>

fun exchange :: "gateway_session \<Rightarrow> tsg_message list \<Rightarrow> (bytes list \<times> gateway_session) option" where
  "exchange s [] = Some ([], s)"
| "exchange s (m # ms) =
     (case process_message s m of
        (s', Ok (Some r)) \<Rightarrow> map_option (\<lambda>(rs, s''). (r # rs, s'')) (exchange s' ms)
      | _ \<Rightarrow> None)"

fun binaries :: "(ws_item \<times> bool) list \<Rightarrow> bytes list" where
  "binaries [] = []"
| "binaries ((Frame (Binary data), _) # items) = data # binaries items"
| "binaries (_ # items) = binaries items"

lemma process_message_None: "process_message s m = (s', Ok None) \<Longrightarrow> is_data_transfer s \<and> (\<exists>d. m = Data d)"
  by (cases rule: process_cases [of s m]) (auto simp: is_data_transfer_def)

lemma exchange_cases:
  assumes "exchange s ms = Some (rs, s')" and "is_data_transfer s'"
  shows "\<not> is_data_transfer s \<longrightarrow> (\<exists>m ms' r rs' s1. ms = m # ms' \<and> rs = r # rs'
    \<and> process_message s m = (s1, Ok (Some r)) \<and> exchange s1 ms' = Some (rs', s'))"
  using assms by (cases ms) (auto split: prod.splits outcome.splits option.splits)

lemma exchange_after: "exchange s ms = Some (rs, s') \<Longrightarrow> is_data_transfer s \<Longrightarrow> ms = [] \<and> rs = [] \<and> s' = s"
proof (cases ms)
  case (Cons m ms')
  assume "exchange s ms = Some (rs, s')" "is_data_transfer s"
  then show ?thesis using Cons
    by (cases rule: process_cases [of s m]) (auto simp: is_data_transfer_def)
qed simp

lemma exchange_step:
  assumes "exchange s ms = Some (rs, s')" and "is_data_transfer s'" and "gs_state s = st"
    and "st \<noteq> DataTransfer"
  obtains m ms' r rs' s1 where "ms = m # ms'" and "rs = r # rs'" and "awaits st m"
    and "process_message s m = (s1, Ok (Some r))" and "exchange s1 ms' = Some (rs', s')"
proof -
  from assms exchange_cases [OF assms(1,2)] obtain m ms' r rs' s1 where *: "ms = m # ms'" "rs = r # rs'"
      "process_message s m = (s1, Ok (Some r))" "exchange s1 ms' = Some (rs', s')"
    by (auto simp: is_data_transfer_def)
  then have "awaits st m" using process_refuse [of s m] assms(3) by fastforce
  with * show thesis using that by blast
qed

lemma exchange_session_new:
  assumes "exchange session_new ms = Some (rs, s)" and "is_data_transfer s"
  shows "\<exists>hs tc ta cc. ms = [HandshakeRequest hs, TunnelCreate tc, TunnelAuth ta, ChannelCreate cc]
    \<and> rs = [handshake_response_write (handshake_reply hs), tunnel_response_write (tunnel_reply 1),
        tunnel_auth_response_write tunnel_auth_reply, channel_response_write (channel_reply 1)]
    \<and> gs_target_host s = Some (cc_server_name cc) \<and> gs_target_port s = Some (cc_port cc)"
proof -
  have st: "gs_state session_new = AwaitingHandshake" by (simp add: session_new_def)
  obtain m1 ms1 r1 rs1 s1 where 1: "ms = m1 # ms1" "rs = r1 # rs1" "awaits AwaitingHandshake m1"
      "process_message session_new m1 = (s1, Ok (Some r1))" "exchange s1 ms1 = Some (rs1, s)"
    by (rule exchange_step [OF assms st]) (simp, blast)
  then obtain hs where hs: "m1 = HandshakeRequest hs" by auto
  have s1: "s1 = session_new\<lparr>gs_state := AwaitingTunnelCreate\<rparr>"
    "r1 = handshake_response_write (handshake_reply hs)"
    using 1(4) by (auto simp: hs process_message_def session_new_def)
  have st1: "gs_state s1 = AwaitingTunnelCreate" by (simp add: s1)
  obtain m2 ms2 r2 rs2 s2 where 2: "ms1 = m2 # ms2" "rs1 = r2 # rs2" "awaits AwaitingTunnelCreate m2"
      "process_message s1 m2 = (s2, Ok (Some r2))" "exchange s2 ms2 = Some (rs2, s)"
    by (rule exchange_step [OF 1(5) assms(2) st1]) (simp, blast)
  then obtain tc where tc: "m2 = TunnelCreate tc" by auto
  have s2: "gs_state s2 = AwaitingTunnelAuth" "gs_next_channel_id s2 = 1"
    "r2 = tunnel_response_write (tunnel_reply 1)"
    using 2(4) by (auto simp: tc s1 process_message_def session_new_def Let_def)
  have st2: "gs_state s2 = AwaitingTunnelAuth" by (simp add: s2)
  obtain m3 ms3 r3 rs3 s3 where 3: "ms2 = m3 # ms3" "rs2 = r3 # rs3" "awaits AwaitingTunnelAuth m3"
      "process_message s2 m3 = (s3, Ok (Some r3))" "exchange s3 ms3 = Some (rs3, s)"
    by (rule exchange_step [OF 2(5) assms(2) st2]) (simp, blast)
  then obtain ta where ta: "m3 = TunnelAuth ta" by auto
  have s3: "gs_state s3 = AwaitingChannelCreate" "gs_next_channel_id s3 = 1"
    "r3 = tunnel_auth_response_write tunnel_auth_reply"
    using 3(4) s2 by (auto simp: ta process_message_def)
  have st3: "gs_state s3 = AwaitingChannelCreate" by (simp add: s3)
  obtain m4 ms4 r4 rs4 s4 where 4: "ms3 = m4 # ms4" "rs3 = r4 # rs4" "awaits AwaitingChannelCreate m4"
      "process_message s3 m4 = (s4, Ok (Some r4))" "exchange s4 ms4 = Some (rs4, s)"
    by (rule exchange_step [OF 3(5) assms(2) st3]) (simp, blast)
  then obtain cc where cc: "m4 = ChannelCreate cc" by auto
  have s4: "gs_state s4 = DataTransfer" "r4 = channel_response_write (channel_reply 1)"
    "gs_target_host s4 = Some (cc_server_name cc)" "gs_target_port s4 = Some (cc_port cc)"
    using 4(4) s3 by (auto simp: cc process_message_def Let_def)
  have "ms4 = [] \<and> rs4 = [] \<and> s = s4"
    using exchange_after [OF 4(5)] s4(1) by (simp add: is_data_transfer_def)
  then show ?thesis
    using 1 2 3 4 hs tc ta cc s1 s2 s3 s4 by simp
qed

lemma ws_session_relay:
  assumes "ws_session s items = (sent, StartRelay addr data, rest)"
  shows "\<exists>used ms d s'. items = used @ rest \<and> map parse_message (binaries used) = map Ok (ms @ [Data d])
    \<and> exchange s ms = Some (sent, s') \<and> is_data_transfer s' \<and> addr = relay_target s' \<and> data = dm_data d"
  using assms
proof (induction s items arbitrary: sent rule: ws_session.induct)
  case (2 session item ok rest')
  show ?case
  proof (cases item)
    case (Frame f)
    show ?thesis
    proof (cases f)
      case (Binary msg)
      with "2.prems" Frame obtain m where m: "parse_message msg = Ok m"
        by (cases "parse_message msg") auto
      show ?thesis
      proof (cases "if is_data_transfer session then data_of m else None")
        case (Some d)
        then have d: "is_data_transfer session" "m = Data d"
          by (auto simp: data_of_def split: if_splits tsg_message.splits)
        have "sent = []" "addr = relay_target session" "data = dm_data d" "rest' = rest"
          using "2.prems" Frame Binary m Some by simp_all
        then show ?thesis
          using d m Frame Binary
          by (intro exI [of _ "[(item, ok)]"] exI [of _ "[]"] exI [of _ d] exI [of _ session]) simp
      next
        case None
        obtain s1 r where p: "process_message session m = (s1, r)" by force
        have "r \<noteq> Ok None"
          using process_message_None [of session m s1] p None by (auto simp: data_of_def)
        with "2.prems" p m None Frame Binary obtain resp where r: "r = Ok (Some resp)" "ok"
          by (cases r) (auto split: option.splits if_splits)
        obtain sent' where sent': "sent = resp # sent'"
            "ws_session s1 rest' = (sent', StartRelay addr data, rest)"
          using "2.prems" p m None Frame Binary r by (auto simp: Let_def split: prod.splits)
        from "2.IH"(2) [OF Frame Binary m None p [symmetric] r(1) refl r(2) sent'(2)]
        obtain used ms d s' where *: "rest' = used @ rest"
            "map parse_message (binaries used) = map Ok (ms @ [Data d])"
            "exchange s1 ms = Some (sent', s')" "is_data_transfer s'" "addr = relay_target s'"
            "data = dm_data d" by auto
        then show ?thesis
          using m Frame Binary p r sent'(1)
          by (intro exI [of _ "(item, ok) # used"] exI [of _ "m # ms"] exI [of _ d] exI [of _ s']) simp
      qed
    next
      case CloseFrame
      then show ?thesis using "2.prems" Frame by simp
    next
      case OtherFrame
      then have "ws_session session rest' = (sent, StartRelay addr data, rest)"
        using "2.prems" Frame by simp
      from "2.IH"(3) [OF Frame OtherFrame this] obtain used ms d s' where "rest' = used @ rest"
          "map parse_message (binaries used) = map Ok (ms @ [Data d])"
          "exchange session ms = Some (sent, s')" "is_data_transfer s'" "addr = relay_target s'"
          "data = dm_data d" by auto
      then show ?thesis
        using Frame OtherFrame
        by (intro exI [of _ "(item, ok) # used"] exI [of _ ms] exI [of _ d] exI [of _ s']) simp
    qed
  qed (use "2.prems" in simp_all)
qed simp

definition upgrade_asked :: "headers \<Rightarrow> bool" where
  "upgrade_asked hs \<longleftrightarrow>
     (\<exists>v. hs (lit ''upgrade'') = Some v \<and> eq_ignore_ascii_case v (lit ''websocket''))
     \<and> (\<exists>v. hs (lit ''connection'') = Some v
          \<and> str_contains (lit ''upgrade'') (to_ascii_lowercase v))
     \<and> hs (lit ''sec-websocket-key'') \<noteq> None"

lemma do_websocket_upgrade_simps:
  "snd (do_websocket_upgrade key hs username) = (if upgrade_asked hs then Some username else None)"
  "rs_status (fst (do_websocket_upgrade key hs username)) = (if upgrade_asked hs then 101 else 400)"
  by (auto simp: do_websocket_upgrade_def upgrade_asked_def bad_request_def Let_def split: option.splits)

lemma token_not_empty: "\<not> is_ntlm_type1 b64 []" "\<not> is_ntlm_type3 b64 []"
  by (simp_all add: is_ntlm_type1_def is_ntlm_type3_def strip_prefix_def lit_def)

lemma token_exclusive: "is_ntlm_type1 b64 auth \<Longrightarrow> \<not> is_ntlm_type3 b64 auth"
  by (auto simp: is_ntlm_type1_def is_ntlm_type3_def split: option.splits)

lemma type1_answer:
  assumes "hs (lit ''authorization'') = Some auth" and "is_ntlm_type1 (w_b64_decode w) auth"
  shows "rdg_handler w key server_name challenges addr hs
    = (challenges(addr := Some (ntlm_auth_context_new (w_unix_secs w) (w_challenge w) server_name)),
       unauthorized (lit ''Negotiate '' @ w_b64_encode w (serialize_challenge
         (generate_challenge (w_unix_secs w) server_name (w_challenge w)))), None)"
  using assms token_not_empty
  by (auto simp: rdg_handler_def Let_def unwrap_or_def challenge_base64_def ntlm_auth_context_new_def)

section \<open>Properties\<close>

text \<open>
  C3. A WebSocket connection reaches a backend only after the whole
  handshake: the client's frames up to that point parse to a handshake request, a tunnel creation,
  a tunnel authorisation, a channel creation and the first Data message, in this order and with
  nothing in between; the backend address is the one the channel creation named, the data handed
  over is that message's, and the client has been sent exactly the four replies.
\<close>

theorem ws_relay_after_handshake:
  assumes "ws_session session_new items = (sent, StartRelay addr data, rest)"
  shows "\<exists>used hs tc ta cc. items = used @ rest
    \<and> map parse_message (binaries used) = map Ok [HandshakeRequest hs, TunnelCreate tc,
        TunnelAuth ta, ChannelCreate cc, Data \<lparr>dm_data = data\<rparr>]
    \<and> addr = cc_server_name cc @ lit '':'' @ dec_digits (unat (cc_port cc))
    \<and> map parse_message sent = map Ok [HandshakeResponse (handshake_reply hs),
        TunnelResponse (tunnel_reply 1), TunnelAuthResponse tunnel_auth_reply,
        ChannelResponse (channel_reply 1)]"
proof -
  obtain used ms d s' where u: "items = used @ rest"
      "map parse_message (binaries used) = map Ok (ms @ [Data d])"
      "exchange session_new ms = Some (sent, s')" "is_data_transfer s'" "addr = relay_target s'"
      "data = dm_data d"
    using ws_session_relay [OF assms] by blast
  obtain hs tc ta cc where m: "ms = [HandshakeRequest hs, TunnelCreate tc, TunnelAuth ta, ChannelCreate cc]"
      "sent = [handshake_response_write (handshake_reply hs), tunnel_response_write (tunnel_reply 1),
        tunnel_auth_response_write tunnel_auth_reply, channel_response_write (channel_reply 1)]"
      "gs_target_host s' = Some (cc_server_name cc)" "gs_target_port s' = Some (cc_port cc)"
    using exchange_session_new [OF u(3,4)] by blast
  have "addr = cc_server_name cc @ lit '':'' @ dec_digits (unat (cc_port cc))"
    by (simp add: u(5) relay_target_def m(3,4) unwrap_or_def)
  moreover have "map parse_message sent = map Ok [HandshakeResponse (handshake_reply hs),
      TunnelResponse (tunnel_reply 1), TunnelAuthResponse tunnel_auth_reply, ChannelResponse (channel_reply 1)]"
    using hr_codec.roundtrip_exact [of "handshake_reply hs"] tr_codec.roundtrip_exact [OF replies_ok(1)]
      tar_codec.roundtrip_exact [OF replies_ok(2)] cr_codec.roundtrip_exact [OF replies_ok(3)]
    by (simp add: m(2))
  moreover have "Data \<lparr>dm_data = data\<rparr> = Data d" using u(6) by simp
  ultimately show ?thesis using u(1,2) m(1) by (intro exI [of _ used]) auto
qed

lemma ws_session_example:
  "\<exists>sent. ws_session session_new (map sends
     [HandshakeRequest \<lparr>hs_major_version = 1, hs_minor_version = 0, hs_client_version = 0, hs_ext_auth = 0\<rparr>,
      TunnelCreate \<lparr>tc_caps_flags = 1, tc_fields_present = 0, tc_reserved = 0, tc_paa_cookie = None\<rparr>,
      TunnelAuth \<lparr>ta_fields_present = 0, ta_client_name = lit ''PC''\<rparr>,
      ChannelCreate \<lparr>cc_num_resources = 1, cc_num_alt_resources = 0, cc_port = 3389,
        cc_protocol = 3, cc_server_name = lit ''host''\<rparr>,
      Data \<lparr>dm_data = [1, 0, 9]\<rparr>]) = (sent, StartRelay (relay_target (session_new
        \<lparr>gs_target_host := Some (lit ''host''), gs_target_port := Some 3389\<rparr>)) [1, 0, 9], [])"
  (is "\<exists>sent. ws_session _ (map sends [?a, ?b, ?c, ?d, ?e]) = _")
proof -
  have ok: "tsg_ok ?a" "tsg_ok ?b" "tsg_ok ?c" "tsg_ok ?d" "tsg_ok ?e"
    by (simp_all add: tunnel_create_ok_def tunnel_auth_ok_def channel_create_ok_def name_ok_def
        lit_def is_scalar_def encode_utf16_def utf16_char_def data_ok_def framable_def
        HTTP_TUNNEL_PACKET_FIELD_PAA_COOKIE_def)
  note p = ok [THEN parse_written]
  show ?thesis
    by (simp add: sends_def p [simplified] process_message_def session_new_def is_data_transfer_def
        data_of_def Let_def relay_target_def)
qed

theorem ws_relay_after_handshake_witness:
  "\<exists>items sent addr. \<exists>cc :: channel_create. ws_session session_new items = (sent, StartRelay addr [1, 0, 9], [])
    \<and> addr = cc_server_name cc @ lit '':'' @ dec_digits (unat (cc_port cc)) \<and> length sent = 4"
proof -
  obtain items sent addr where w: "ws_session session_new items = (sent, StartRelay addr [1, 0, 9], [])"
    using ws_session_example by blast
  from ws_relay_after_handshake [OF w] obtain hs and cc :: channel_create where
    "addr = cc_server_name cc @ lit '':'' @ dec_digits (unat (cc_port cc))"
    and replies: "map parse_message sent = map Ok [HandshakeResponse (handshake_reply hs),
        TunnelResponse (tunnel_reply 1), TunnelAuthResponse tunnel_auth_reply,
        ChannelResponse (channel_reply 1)]" by blast
  moreover have "length sent = 4" using arg_cong [OF replies, of length] by simp
  ultimately show ?thesis using w by blast
qed

text \<open>
  C38. Any frame of the client that does not parse, or that parses to a message
  the session does not await, ends the connection without an answer and without a backend; this
  includes a keepalive that arrives after the channel was created but before the first Data
  message.
\<close>

theorem ws_unexpected_ends:
  assumes "case parse_message data of Ok m \<Rightarrow> \<not> awaits (gs_state s) m | _ \<Rightarrow> True"
  shows "ws_session s ((Frame (Binary data), ok) # rest) = ([], Ended, rest)"
proof (cases "parse_message data")
  case (Ok m)
  then have refused: "\<not> awaits (gs_state s) m" using assms by simp
  then have "(if is_data_transfer s then data_of m else None) = None"
    by (auto simp: is_data_transfer_def data_of_def split: tsg_message.splits)
  then show ?thesis using Ok process_refuse [OF refused] by simp
qed simp_all

theorem ws_unexpected_ends_witness:
  "ws_session (session_new\<lparr>gs_state := DataTransfer\<rparr>) [(Frame (Binary write_keepalive), True), (Frame OtherFrame, True)]
    = ([], Ended, [(Frame OtherFrame, True)])"
  by (rule ws_unexpected_ends) (use parse_written [of Keepalive] in simp)

text \<open>
  C28. The HTTP handler spawns a session exactly for a Type 3 token with the
  WebSocket headers, answers 101 then and otherwise asks for credentials or refuses; it stores
  a fresh challenge for the client of a Type 1 token, forgets it at a Type 3 token, and never
  touches the challenge of another client.
\<close>

theorem rdg_handler_decides:
  fixes hs w key server_name challenges addr
  defines "auth \<equiv> unwrap_or [] (hs (lit ''authorization''))"
    and "result \<equiv> rdg_handler w key server_name challenges addr hs"
  shows "(snd (snd result) \<noteq> None \<longleftrightarrow> is_ntlm_type3 (w_b64_decode w) auth \<and> upgrade_asked hs)
    \<and> rs_status (fst (snd result)) =
        (if snd (snd result) \<noteq> None then 101
         else if auth = [] \<or> is_ntlm_type1 (w_b64_decode w) auth then 401 else 400)
    \<and> fst result = challenges(addr :=
        (if is_ntlm_type1 (w_b64_decode w) auth
         then Some (ntlm_auth_context_new (w_unix_secs w) (w_challenge w) server_name)
         else if is_ntlm_type3 (w_b64_decode w) auth then None else challenges addr))"
proof -
  consider (none) "auth = []" | (type1) "auth \<noteq> []" "is_ntlm_type1 (w_b64_decode w) auth"
    | (type3) "auth \<noteq> []" "\<not> is_ntlm_type1 (w_b64_decode w) auth" "is_ntlm_type3 (w_b64_decode w) auth"
    | (other) "auth \<noteq> []" "\<not> is_ntlm_type1 (w_b64_decode w) auth" "\<not> is_ntlm_type3 (w_b64_decode w) auth"
    by blast
  then show ?thesis
  proof cases
    case none
    then show ?thesis
      by (simp add: result_def rdg_handler_def auth_def unauthorized_def token_not_empty)
  next
    case type1
    then show ?thesis
      using token_exclusive [of "w_b64_decode w" auth]
      by (simp add: result_def rdg_handler_def Let_def unauthorized_def flip: auth_def)
  next
    case type3
    then show ?thesis
      by (simp add: result_def rdg_handler_def Let_def do_websocket_upgrade_simps flip: auth_def)
  next
    case other
    then show ?thesis
      by (simp add: result_def rdg_handler_def Let_def bad_request_def flip: auth_def)
  qed
qed

text \<open>
  C29. The comment "validate and upgrade" is not what happens: whoever sends a
  token that looks like a Type 3 message gets a session, whatever challenge was or was not issued,
  whatever the directory says of the user, and whatever the response in the token is.
\<close>

theorem ws_type3_unchecked:
  assumes "hs (lit ''authorization'') = Some auth" and "is_ntlm_type3 (w_b64_decode w) auth"
    and "upgrade_asked hs"
  shows "\<exists>user. \<forall>challenges hmac get_user. \<exists>store response. rs_status response = 101
    \<and> rdg_handler (w\<lparr>w_hmac_md5 := hmac, w_get_user := get_user\<rparr>) key server_name challenges addr hs
      = (store, response, Some user)"
proof -
  let ?up = "do_websocket_upgrade key hs (unwrap_or (lit ''unknown'')
    (extract_username_from_type3 (extract_ntlm_token (w_b64_decode w) auth)))"
  have "auth \<noteq> []" "\<not> is_ntlm_type1 (w_b64_decode w) auth"
    using assms(2) token_not_empty token_exclusive by auto
  then have "rdg_handler (w\<lparr>w_hmac_md5 := hmac, w_get_user := get_user\<rparr>) key server_name challenges addr hs
      = (challenges(addr := None), ?up)" for challenges hmac get_user
    using assms by (simp add: rdg_handler_def unwrap_or_def)
  moreover have "?up = (fst ?up, Some (unwrap_or (lit ''unknown'')
    (extract_username_from_type3 (extract_ntlm_token (w_b64_decode w) auth))))"
    "rs_status (fst ?up) = 101"
    using assms(3) do_websocket_upgrade_simps [of key hs] by (simp_all add: prod_eq_iff)
  ultimately show ?thesis by metis
qed

text \<open>
  The instance: the directory knows nobody, so that the same token fails the check of
  \<open>Auth\<close>, and still gets its session.
\<close>

theorem ws_type3_unchecked_witness:
  "\<exists>user store response.
     rdg_handler (example_world\<lparr>w_hmac_md5 := \<lambda>k d. None, w_get_user := \<lambda>n. Ok None\<rparr>) (\<lambda>k. k) []
       (\<lambda>a :: nat. None) 0
       [lit ''authorization'' \<mapsto> lit ''Negotiate '' @ map unat example_type3,
        lit ''upgrade'' \<mapsto> lit ''websocket'', lit ''connection'' \<mapsto> lit ''Upgrade'',
        lit ''sec-websocket-key'' \<mapsto> []] = (store, response, Some user)
     \<and> rs_status response = 101
     \<and> check_user (\<lambda>k d. None) (\<lambda>s. s) (\<lambda>e :: unit. []) (\<lambda>n. Ok None) [] example_type3
         = Err (UserNotFound [65])"
proof -
  let ?hs = "[lit ''authorization'' \<mapsto> lit ''Negotiate '' @ map unat example_type3,
        lit ''upgrade'' \<mapsto> lit ''websocket'', lit ''connection'' \<mapsto> lit ''Upgrade'',
        lit ''sec-websocket-key'' \<mapsto> []]"
  have "is_ntlm_type3 (w_b64_decode example_world) (lit ''Negotiate '' @ map unat example_type3)"
    by (simp add: is_ntlm_type3_def strip_prefix_def example_b64)
      (simp add: example_type3_def NTLMSSP_SIGNATURE_def)
  moreover have "upgrade_asked ?hs"
    by (simp add: upgrade_asked_def lit_def eq_ignore_ascii_case_def to_ascii_lowercase_def ascii_lower_def)
  moreover have "?hs (lit ''authorization'') = Some (lit ''Negotiate '' @ map unat example_type3)"
    by (simp add: lit_def)
  moreover have "check_user (\<lambda>k d. None) (\<lambda>s. s) (\<lambda>e :: unit. []) (\<lambda>n. Ok None) [] example_type3
         = Err (UserNotFound [65])"
    by (simp add: check_user_def example_type3_parses example_authenticate_def)
  ultimately show ?thesis
    using ws_type3_unchecked [of ?hs _ example_world "\<lambda>k. k" "[]" 0] by blast
qed

end
