(* ===== verification/Rpch_Handler.thy ===== *)
theory Rpch_Handler
  imports Rpc Rpch Session "HOL-Library.Sublist"
begin

text \<open>
  \<open>crates/rdg-server/src/handlers/rpch.rs\<close>: the RPC-over-HTTP transport. An OUT request leaves a
  pending connection under its cookie, an IN request picks it up and carries DCE/RPC PDUs, whose
  answers go out on the OUT channel.

  A request body is the list of what \<open>body.frame()\<close> yields until it yields \<open>None\<close>. An OUT channel
  is the identifier of the queue behind its response body; \<open>accepts\<close> is the number of further
  frames a queue takes before its reader is gone. Error strings, which are only logged, are
  constructors.
\<close>

section \<open>Bodies\<close>

datatype body_item = Chunk bytes | Trailers | BodyError

type_synonym body = "body_item list"

text \<open>
  \<open>while buf.len() < n { match body.frame().await ... }\<close>: the filled buffer and the rest of the
  body, or the buffer at the point where the body ended or failed.
\<close>

datatype read = Full bytes body | BodyEnded bytes

fun read_until :: "nat \<Rightarrow> bytes \<Rightarrow> body \<Rightarrow> read" where
  "read_until n buf [] = (if length buf < n then BodyEnded buf else Full buf [])"
| "read_until n buf (item # body) =
     (if length buf < n then
        (case item of
           Chunk data \<Rightarrow> read_until n (buf @ data) body
         | Trailers \<Rightarrow> read_until n buf body
         | BodyError \<Rightarrow> BodyEnded buf)
      else Full buf (item # body))"

text \<open>\<open>axum::body::to_bytes(body, limit)\<close>.\<close>

fun body_content :: "body \<Rightarrow> bytes option" where
  "body_content [] = Some []"
| "body_content (Chunk data # body) = map_option (\<lambda>r. data @ r) (body_content body)"
| "body_content (Trailers # body) = body_content body"
| "body_content (BodyError # body) = None"

definition to_bytes :: "body \<Rightarrow> nat \<Rightarrow> bytes option" where
  "to_bytes body limit =
     (case body_content body of
        None \<Rightarrow> None
      | Some bs \<Rightarrow> if length bs \<le> limit then Some bs else None)"

section \<open>TSG operations\<close>

datatype rpc_failure =
    SessionFailed session_error
  | HeaderFailed rpc_error
  | EndedMidHeader
  | EndedMidPdu
  | BindFailed rpc_error
  | NotTsgBind
  | TransitionFailed rpch_error
  | RequestFailed rpc_error
  | OutClosed

definition opnum_handshake :: tsg_message where
  "opnum_handshake = HandshakeRequest
     \<lparr>hs_major_version = 1, hs_minor_version = 0, hs_client_version = 0, hs_ext_auth = 0\<rparr>"

definition opnum_tunnel_create :: tsg_message where
  "opnum_tunnel_create = TunnelCreate
     \<lparr>tc_caps_flags = 0, tc_fields_present = 0, tc_reserved = 0, tc_paa_cookie = None\<rparr>"

definition opnum_tunnel_auth :: tsg_message where
  "opnum_tunnel_auth = TunnelAuth
     \<lparr>ta_fields_present = 0, ta_client_name = lit ''MSTSC-CLIENT''\<rparr>"

definition opnum_channel_create :: tsg_message where
  "opnum_channel_create = ChannelCreate
     \<lparr>cc_num_resources = 1, cc_num_alt_resources = 0, cc_port = 3389, cc_protocol = 0,
      cc_server_name = lit ''localhost''\<rparr>"

text \<open>A call of \<open>process_message\<close> whose reply is dropped, with the rest of the operation after it.\<close>

definition session_call ::
  "gateway_session \<Rightarrow> tsg_message \<Rightarrow> (gateway_session \<Rightarrow> gateway_session \<times> (rpc_failure, bytes) outcome)
    \<Rightarrow> gateway_session \<times> (rpc_failure, bytes) outcome" where
  "session_call session msg k =
     (case process_message session msg of
        (session, Ok _) \<Rightarrow> k session
      | (session, Err e) \<Rightarrow> (session, Err (SessionFailed e))
      | (session, Panic) \<Rightarrow> (session, Panic))"

definition process_tsg_opnum ::
  "u16 \<Rightarrow> bytes \<Rightarrow> gateway_session \<Rightarrow> gateway_session \<times> (rpc_failure, bytes) outcome" where
  "process_tsg_opnum opnum stub_data session =
     (if opnum = 1 then
        session_call session opnum_handshake (\<lambda>session.
        session_call session opnum_tunnel_create (\<lambda>session.
        (session, Ok (put_u32_le (gs_tunnel_id session) @ put_u32_le 0))))
      else if opnum = 2 then
        session_call session opnum_tunnel_auth (\<lambda>session.
        (session, Ok (put_u32_le 0 @ put_u32_le 0x0003 @ put_u32_le 0)))
      else if opnum = 4 then
        session_call session opnum_channel_create (\<lambda>session.
        (session, Ok (put_u32_le (gs_channel_id session) @ put_u32_le 0)))
      else if opnum = 9 then (session, Ok (put_u32_le 0))
      else (session, Ok (put_u32_le 0)))"

section \<open>The PDU loop\<close>

record rpc_conn =
  co_vconn :: virtual_connection
  co_session :: gateway_session
  co_bound :: bool

text \<open>
  One PDU: the connection it leaves and the frame to send, if one is due. \<open>bound\<close> is set only once
  the acknowledgement is sent, which is the loop's business.
\<close>

definition handle_pdu ::
  "rpc_conn \<Rightarrow> rpc_header \<Rightarrow> bytes \<Rightarrow> rpc_conn \<times> (rpc_failure, bytes option) outcome" where
  "handle_pdu c header pdu_data =
     (if rh_ptype header = Bind then
        (case bind_pdu_parse pdu_data of
           Ok bind \<Rightarrow>
             if \<not> is_tsg_bind bind then (c, Err NotTsgBind)
             else
               (case enter_data_transfer (co_vconn c) of
                  (vconn, Ok _) \<Rightarrow>
                    (c\<lparr>co_vconn := vconn\<rparr>, Ok (Some (bind_ack_encode
                       (bind_ack_accepted (rh_call_id (bp_header bind)) (bp_assoc_group_id bind) [0]))))
                | (vconn, Err e) \<Rightarrow> (c\<lparr>co_vconn := vconn\<rparr>, Err (TransitionFailed e))
                | (vconn, Panic) \<Rightarrow> (c\<lparr>co_vconn := vconn\<rparr>, Panic))
         | Err e \<Rightarrow> (c, Err (BindFailed e))
         | Panic \<Rightarrow> (c, Panic))
      else if rh_ptype header = Request \<and> co_bound c then
        (case request_pdu_parse pdu_data of
           Ok request \<Rightarrow>
             (case process_tsg_opnum (rq_opnum request) (rq_stub_data request) (co_session c) of
                (session, Ok stub) \<Rightarrow>
                  (c\<lparr>co_session := session\<rparr>, Ok (Some (response_pdu_encode
                     (response_pdu_new (rh_call_id (rq_header request)) (rq_context_id request) stub))))
              | (session, Err e) \<Rightarrow> (c\<lparr>co_session := session\<rparr>, Err e)
              | (session, Panic) \<Rightarrow> (c\<lparr>co_session := session\<rparr>, Panic))
         | Err e \<Rightarrow> (c, Err (RequestFailed e))
         | Panic \<Rightarrow> (c, Panic))
      else (c, Ok None))"

fun body_size :: "body \<Rightarrow> nat" where
  "body_size [] = 0"
| "body_size (Chunk data # body) = length data + body_size body"
| "body_size (_ # body) = body_size body"

lemma read_until_Full:
  "read_until n buf body = Full buf' body' \<Longrightarrow>
    n \<le> length buf' \<and> length buf' + body_size body' = length buf + body_size body"
  by (induction n buf body rule: read_until.induct) (auto split: if_splits body_item.splits)

function process_rpc_pdus ::
  "nat \<Rightarrow> rpc_conn \<Rightarrow> bytes \<Rightarrow> body \<Rightarrow> bytes list \<times> rpc_conn \<times> (rpc_failure, unit) outcome" where
  "process_rpc_pdus accepts c buf body =
     (case read_until RPC_HEADER_SIZE buf body of
        BodyEnded buf \<Rightarrow> if buf = [] then ([], c, Ok ()) else ([], c, Err EndedMidHeader)
      | Full buf body \<Rightarrow>
          (case rpc_header_parse buf of
             Ok header \<Rightarrow>
               (case read_until (unat (rh_frag_length header)) buf body of
                  BodyEnded _ \<Rightarrow> ([], c, Err EndedMidPdu)
                | Full buf body \<Rightarrow>
                    let frag_len = unat (rh_frag_length header);
                        pdu_data = take frag_len buf;
                        buf = drop frag_len buf
                    in (case handle_pdu c header pdu_data of
                          (c, Ok None) \<Rightarrow> process_rpc_pdus accepts c buf body
                        | (c, Ok (Some reply)) \<Rightarrow>
                            if accepts = 0 then ([], c, Err OutClosed)
                            else
                              let c = (if rh_ptype header = Bind then c\<lparr>co_bound := True\<rparr> else c);
                                  (sent, r) = process_rpc_pdus (accepts - 1) c buf body
                              in (reply # sent, r)
                        | (c, Err e) \<Rightarrow> ([], c, Err e)
                        | (c, Panic) \<Rightarrow> ([], c, Panic)))
           | Err e \<Rightarrow> ([], c, Err (HeaderFailed e))
           | Panic \<Rightarrow> ([], c, Panic)))"
  by pat_completeness auto

text \<open>Every round takes at least a header's sixteen bytes from what is left to read.\<close>

termination process_rpc_pdus
proof (relation "measure (\<lambda>(_, _, buf, body). length buf + body_size body)")
  show "wf (measure (\<lambda>(_ :: nat, _ :: rpc_conn, buf :: bytes, body). length buf + body_size body))"
    by simp
qed (auto dest!: read_until_Full elim!: rpc_header_parse_Ok simp: rpc_header_ok_def)

declare process_rpc_pdus.simps [simp del]

section \<open>The two channels\<close>

record 'c pending_connection =
  pd_vconn :: virtual_connection
  pd_out_sender :: 'c

text \<open>The shared map \<open>pending\<close>, keyed by virtual connection cookie.\<close>

type_synonym 'c rpch_state = "u128 \<Rightarrow> 'c pending_connection option"

text \<open>\<open>tx\<close> is the queue created for this request; the status 200 carries its other end.\<close>

definition handle_out_channel :: "'c \<Rightarrow> 'c rpch_state \<Rightarrow> body \<Rightarrow> 'c rpch_state \<times> nat" where
  "handle_out_channel tx pending body =
     (case to_bytes body 65536 of
        None \<Rightarrow> (pending, 400)
      | Some body_bytes \<Rightarrow>
          if length body_bytes < 20 then (pending, 400)
          else
            (case rts_pdu_parse body_bytes of
               Ok pdu \<Rightarrow>
                 (case conn_a1_from_pdu pdu of
                    Ok conn_a1 \<Rightarrow>
                      (case accept_out_channel virtual_connection_new conn_a1 of
                         (vconn, Ok _) \<Rightarrow>
                           (pending(a1_virtual_connection_cookie conn_a1 :=
                              Some \<lparr>pd_vconn = vconn, pd_out_sender = tx\<rparr>), 200)
                       | _ \<Rightarrow> (pending, 500))
                  | _ \<Rightarrow> (pending, 400))
             | _ \<Rightarrow> (pending, 400)))"

text \<open>
  The third result is the OUT queue the request found with the frames sent into it. The two reads
  before the first PDU index \<open>buf[8]\<close>, \<open>buf[9]\<close> and \<open>buf[2]\<close>, which the first read has filled.
\<close>

definition in_channel_established ::
  "('c \<Rightarrow> nat) \<Rightarrow> virtual_connection \<Rightarrow> 'c \<Rightarrow> rts_pdu \<Rightarrow> bytes \<Rightarrow> body \<Rightarrow> nat \<times> bytes list" where
  "in_channel_established accepts vconn out_tx conn_c2 buf body =
     (if accepts out_tx = 0 then (500, [])
      else
        let (sent, c, result) = process_rpc_pdus (accepts out_tx - 1)
              \<lparr>co_vconn = vconn, co_session = session_new, co_bound = False\<rparr> buf body
        in (case result of Ok _ \<Rightarrow> 200 | _ \<Rightarrow> 500, rts_pdu_to_bytes conn_c2 # sent))"

definition in_channel_join ::
  "'c rpch_state \<Rightarrow> ('c \<Rightarrow> nat) \<Rightarrow> conn_b1 \<Rightarrow> bytes \<Rightarrow> body
    \<Rightarrow> 'c rpch_state \<times> nat \<times> ('c \<times> bytes list) option" where
  "in_channel_join pending accepts conn_b1 buf body =
     (case pending (b1_virtual_connection_cookie conn_b1) of
        None \<Rightarrow> (pending, 400, None)
      | Some p \<Rightarrow>
          let pending = pending(b1_virtual_connection_cookie conn_b1 := None)
          in (case accept_in_channel (pd_vconn p) conn_b1 of
                (vconn, Ok conn_c2) \<Rightarrow>
                  let (status, sent) = in_channel_established accepts vconn (pd_out_sender p) conn_c2 buf body
                  in (pending, status, Some (pd_out_sender p, sent))
              | _ \<Rightarrow> (pending, 500, Some (pd_out_sender p, []))))"

definition handle_in_channel ::
  "'c rpch_state \<Rightarrow> ('c \<Rightarrow> nat) \<Rightarrow> body \<Rightarrow> 'c rpch_state \<times> nat \<times> ('c \<times> bytes list) option" where
  "handle_in_channel pending accepts body =
     (case read_until 20 [] body of
        BodyEnded _ \<Rightarrow> (pending, 400, None)
      | Full buf body \<Rightarrow>
          let frag_length = unat (of_le [buf ! 8, buf ! 9] :: u16)
          in (case read_until frag_length buf body of
                BodyEnded _ \<Rightarrow> (pending, 400, None)
              | Full buf body \<Rightarrow>
                  if buf ! 2 \<noteq> PTYPE_RTS then (pending, 400, None)
                  else
                    (case rts_pdu_parse (take frag_length buf) of
                       Ok rts_pdu \<Rightarrow>
                         (case conn_b1_from_pdu rts_pdu of
                            Ok conn_b1 \<Rightarrow>
                              in_channel_join pending accepts conn_b1 (drop frag_length buf) body
                          | _ \<Rightarrow> (pending, 400, None))
                     | _ \<Rightarrow> (pending, 400, None))))"

text \<open>The method is upper-cased before it is compared; a method is ASCII.\<close>

definition handle_rpch ::
  "rstring \<Rightarrow> 'c \<Rightarrow> 'c rpch_state \<Rightarrow> ('c \<Rightarrow> nat) \<Rightarrow> body
    \<Rightarrow> 'c rpch_state \<times> nat \<times> ('c \<times> bytes list) option" where
  "handle_rpch req_method tx pending accepts body =
     (if eq_ignore_ascii_case req_method (lit ''RPC_OUT_DATA'') then
        let (pending, status) = handle_out_channel tx pending body in (pending, status, None)
      else if eq_ignore_ascii_case req_method (lit ''RPC_IN_DATA'') then
        handle_in_channel pending accepts body
      else (pending, 405, None))"

section \<open>The pending connections as a machine\<close>

text \<open>A request as it reaches the handler, with what the queues still take at that moment.\<close>

record 'c rpch_request =
  rr_method :: rstring
  rr_tx :: 'c
  rr_accepts :: "'c \<Rightarrow> nat"
  rr_body :: body

abbreviation rpch_serve :: "'c rpch_state \<Rightarrow> 'c rpch_request
    \<Rightarrow> 'c rpch_state \<times> nat \<times> ('c \<times> bytes list) option" where
  "rpch_serve s r \<equiv> handle_rpch (rr_method r) (rr_tx r) s (rr_accepts r) (rr_body r)"

abbreviation rpch_step :: "'c rpch_state \<Rightarrow> 'c rpch_request \<Rightarrow> 'c rpch_state" where
  "rpch_step s r \<equiv> fst (rpch_serve s r)"

text \<open>The connection an OUT request opens, and the one an IN request joins with the bytes after it.\<close>

definition opens :: "'c rpch_request \<Rightarrow> conn_a1 \<Rightarrow> bool" where
  "opens r a \<longleftrightarrow> eq_ignore_ascii_case (rr_method r) (lit ''RPC_OUT_DATA'')
     \<and> (\<exists>bs. to_bytes (rr_body r) 65536 = Some bs \<and> conn_a1_parse bs = Ok a)"

definition joins :: "'c rpch_request \<Rightarrow> conn_b1 \<Rightarrow> bytes \<Rightarrow> body \<Rightarrow> bool" where
  "joins r b buf body \<longleftrightarrow> eq_ignore_ascii_case (rr_method r) (lit ''RPC_IN_DATA'')
     \<and> (\<exists>buf0 body0 buf1. read_until 20 [] (rr_body r) = Full buf0 body0
          \<and> read_until (unat (of_le [buf0 ! 8, buf0 ! 9] :: u16)) buf0 body0 = Full buf1 body
          \<and> buf = drop (unat (of_le [buf0 ! 8, buf0 ! 9] :: u16)) buf1
          \<and> conn_b1_parse (take (unat (of_le [buf0 ! 8, buf0 ! 9] :: u16)) buf1) = Ok b)"

text \<open>
  What a pending entry promises: it was left by an OUT request for that very cookie, waits for
  its IN channel and answers into that request's queue.
\<close>

definition pending_ok :: "'c rpch_request list \<Rightarrow> 'c rpch_state \<Rightarrow> bool" where
  "pending_ok rs s \<longleftrightarrow> (\<forall>cookie p. s cookie = Some p \<longrightarrow>
     (\<exists>r \<in> set rs. \<exists>a. opens r a \<and> a1_virtual_connection_cookie a = cookie
        \<and> pd_out_sender p = rr_tx r
        \<and> pd_vconn p = fst (accept_out_channel virtual_connection_new a)))"

lemma out_channel_eq:
  "handle_out_channel tx s body =
     (case to_bytes body 65536 of
        None \<Rightarrow> (s, 400)
      | Some bs \<Rightarrow>
          (case conn_a1_parse bs of
             Ok a \<Rightarrow> (s(a1_virtual_connection_cookie a := Some
                \<lparr>pd_vconn = fst (accept_out_channel virtual_connection_new a), pd_out_sender = tx\<rparr>), 200)
           | _ \<Rightarrow> (s, 400)))"
proof (cases "to_bytes body 65536")
  case (Some bs)
  show ?thesis
  proof (cases "length bs < 20")
    case True
    then have "\<exists>e. rts_pdu_parse bs = Err e"
      by (simp add: rts_pdu_parse_def ensure_remaining_def)
    then show ?thesis using Some True by (auto simp: handle_out_channel_def conn_a1_parse_def)
  next
    case False
    then show ?thesis
      using Some conn_from_pdu_no_panic(1)
      by (auto simp: handle_out_channel_def conn_a1_parse_def accept_out_channel_def
          virtual_connection_new_def split: outcome.splits)
  qed
qed (simp add: handle_out_channel_def)

lemma rts_pdu_ptype:
  assumes "rts_pdu_parse (take n data) = Ok p"
  shows "data ! 2 = PTYPE_RTS"
proof -
  have c: "rts_ok p" "take n data = rts_pdu_to_bytes p"
    using assms rts_pdu_parse_canonical [of "take n data" p] by auto
  have "rts_pdu_to_bytes p = rp_rpc_version p # rp_rpc_version_minor p # PTYPE_RTS # drop 3 (rts_pdu_to_bytes p)"
    using c(1) by (simp add: rts_pdu_to_bytes_def rts_ok_def put_u8_def le_bytes_def Let_def)
  then have t: "take n data = rp_rpc_version p # rp_rpc_version_minor p # PTYPE_RTS # drop 3 (rts_pdu_to_bytes p)"
    using c(2) by simp
  then have "2 < length (take n data)" by simp
  then have "take n data ! 2 = data ! 2" by simp
  then show ?thesis by (simp add: t)
qed

text \<open>Every request opens a connection, joins one, or leaves the map as it was.\<close>

lemma rpch_serve_cases:
  obtains (Open) a where "opens r a"
      and "rpch_serve s r = (s(a1_virtual_connection_cookie a := Some
        \<lparr>pd_vconn = fst (accept_out_channel virtual_connection_new a), pd_out_sender = rr_tx r\<rparr>), 200, None)"
  | (Join) b buf body where "joins r b buf body"
      and "rpch_serve s r = in_channel_join s (rr_accepts r) b buf body"
  | (Refuse) status where "rpch_serve s r = (s, status, None)" and "status \<in> {400, 405}"
proof (cases "eq_ignore_ascii_case (rr_method r) (lit ''RPC_OUT_DATA'')")
  case True
  then show thesis
    using Open Refuse
    by (cases "to_bytes (rr_body r) 65536"; cases "conn_a1_parse (the (to_bytes (rr_body r) 65536))")
      (auto simp: handle_rpch_def out_channel_eq opens_def)
next
  case out: False
  show thesis
  proof (cases "eq_ignore_ascii_case (rr_method r) (lit ''RPC_IN_DATA'')")
    case True
    show thesis
    proof (cases "\<exists>b buf body. joins r b buf body")
      case joined: True
      then obtain b buf body where j: "joins r b buf body" by blast
      then have "rpch_serve s r = in_channel_join s (rr_accepts r) b buf body"
        using True out rts_pdu_ptype
        by (auto simp: handle_rpch_def joins_def handle_in_channel_def conn_b1_parse_def rbind_eq_Ok Let_def)
      with j show thesis by (rule Join)
      next
      case False
      then have "rpch_serve s r = (s, 400, None)"
        using True out
        by (auto simp: handle_rpch_def joins_def handle_in_channel_def conn_b1_parse_def Let_def
            rbind_eq_Ok split: read.split outcome.split)
      then show thesis using Refuse by blast
    qed
  qed (use Refuse out in \<open>simp add: handle_rpch_def\<close>)
qed

lemma accept_joined:
  assumes "b1_virtual_connection_cookie b = a1_virtual_connection_cookie a"
  obtains vc where "accept_in_channel (fst (accept_out_channel virtual_connection_new a)) b
      = (vc, Ok (conn_c2_to_pdu conn_c2_default (a1_call_id a)))"
    and "vc_state vc = ConnectionEstablished"
  using assms
  by (auto simp: accept_in_channel_def accept_out_channel_def virtual_connection_new_def Let_def)

text \<open>So that joining never fails with 500 for a refused PDU, only for a lost OUT channel.\<close>

lemma in_channel_join_ok:
  assumes "pending_ok rs s"
  shows "(s (b1_virtual_connection_cookie b) = None \<and> in_channel_join s accepts b buf body = (s, 400, None))
    \<or> (\<exists>r \<in> set rs. \<exists>a vc. opens r a
        \<and> a1_virtual_connection_cookie a = b1_virtual_connection_cookie b
        \<and> vc_state vc = ConnectionEstablished
        \<and> in_channel_join s accepts b buf body =
            (let (status, sent) = in_channel_established accepts vc (rr_tx r)
                   (conn_c2_to_pdu conn_c2_default (a1_call_id a)) buf body
             in (s(b1_virtual_connection_cookie b := None), status, Some (rr_tx r, sent))))"
proof (cases "s (b1_virtual_connection_cookie b)")
  case None
  then show ?thesis by (simp add: in_channel_join_def)
next
  case (Some p)
  then obtain r a where ra: "r \<in> set rs" "opens r a"
      "a1_virtual_connection_cookie a = b1_virtual_connection_cookie b" "pd_out_sender p = rr_tx r"
      "pd_vconn p = fst (accept_out_channel virtual_connection_new a)"
    using assms unfolding pending_ok_def by blast
  obtain vc where "accept_in_channel (pd_vconn p) b = (vc, Ok (conn_c2_to_pdu conn_c2_default (a1_call_id a)))"
      "vc_state vc = ConnectionEstablished"
    using accept_joined [OF ra(3) [symmetric]] ra(5) by metis
  then show ?thesis
    using ra Some by (auto simp: in_channel_join_def Let_def)
qed

lemma in_channel_join_fst:
  "fst (in_channel_join s accepts b buf body) \<in> {s, s(b1_virtual_connection_cookie b := None)}"
  by (auto simp: in_channel_join_def Let_def split: option.split prod.split outcome.split)

lemma pending_ok_mono: "pending_ok rs s \<Longrightarrow> pending_ok (rs @ [r]) s"
  unfolding pending_ok_def by fastforce

lemma pending_ok_remove: "pending_ok rs s \<Longrightarrow> pending_ok rs (s(k := None))"
  unfolding pending_ok_def by simp

lemma pending_ok_step: "pending_ok rs s \<Longrightarrow> pending_ok (rs @ [r]) (rpch_step s r)"
proof (cases rule: rpch_serve_cases [of r s])
  case (Open a)
  assume "pending_ok rs s"
  then have "pending_ok (rs @ [r]) s" by (rule pending_ok_mono)
  then show ?thesis using Open by (auto simp: pending_ok_def)
next
  case (Join b buf body)
  assume p: "pending_ok rs s"
  have "rpch_step s r \<in> {s, s(b1_virtual_connection_cookie b := None)}"
    using in_channel_join_fst [of s "rr_accepts r" b buf body] Join(2) by simp
  then show ?thesis
    using pending_ok_mono [OF p] pending_ok_mono [OF pending_ok_remove [OF p]] by auto
next
  case (Refuse status)
  assume "pending_ok rs s"
  then show ?thesis using Refuse pending_ok_mono by simp
qed

interpretation pend: machine "with_history rpch_step" "\<lambda>(s, rs). pending_ok rs s"
  by unfold_locales (auto simp: with_history_def intro: pending_ok_step)

lemma pending_ok_run: "pending_ok rs (run rpch_step (\<lambda>_. None) rs)"
proof -
  have "pending_ok [] (\<lambda>_. None)" by (simp add: pending_ok_def)
  then show ?thesis
    using pend.run_inv [of "(\<lambda>_. None, [])" rs] by (simp add: run_with_history)
qed

section \<open>TSG operations in sequence\<close>

abbreviation opnum_step :: "gateway_session \<Rightarrow> u16 \<times> bytes \<Rightarrow> gateway_session" where
  "opnum_step s call \<equiv> fst (process_tsg_opnum (fst call) (snd call) s)"

text \<open>Where the session stands tells which operations were called, in which order.\<close>

definition opnum_inv :: "gateway_session \<Rightarrow> (u16 \<times> bytes) list \<Rightarrow> bool" where
  "opnum_inv s calls \<longleftrightarrow>
     (case gs_state s of
        AwaitingHandshake \<Rightarrow> gs_target_host s = None \<and> gs_target_port s = None
      | AwaitingTunnelAuth \<Rightarrow> subseq [1] (map fst calls) \<and> gs_target_host s = None \<and> gs_target_port s = None
      | AwaitingChannelCreate \<Rightarrow>
          subseq [1, 2] (map fst calls) \<and> gs_target_host s = None \<and> gs_target_port s = None
      | session_state.DataTransfer \<Rightarrow> subseq [1, 2, 4] (map fst calls)
          \<and> gs_target_host s = Some (lit ''localhost'') \<and> gs_target_port s = Some 3389
      | _ \<Rightarrow> False)"

lemma opnum_inv_keep: "opnum_inv s calls \<Longrightarrow> opnum_inv s (calls @ [call])"
  by (auto simp: opnum_inv_def split: session_state.splits)

lemma opnum_inv_step: "opnum_inv s calls \<Longrightarrow> opnum_inv (opnum_step s call) (calls @ [call])"
proof -
  assume i: "opnum_inv s calls"
  note defs = process_tsg_opnum_def session_call_def process_message_def opnum_handshake_def
    opnum_tunnel_create_def opnum_tunnel_auth_def opnum_channel_create_def
  have snoc: "subseq (xs @ [fst call]) (map fst (calls @ [call]))" if "subseq xs (map fst calls)" for xs
    using that by simp
  show ?thesis
    using i snoc [of "[]"] snoc [of "[1]"] snoc [of "[1, 2]"] opnum_inv_keep [OF i, of call]
    by (cases "gs_state s"; cases "fst call = 1"; cases "fst call = 2"; cases "fst call = 4")
      (auto simp: opnum_inv_def defs Let_def)
qed

interpretation opnums: machine "with_history opnum_step" "\<lambda>(s, calls). opnum_inv s calls"
  by unfold_locales (auto simp: with_history_def intro: opnum_inv_step)

section \<open>PDUs in sequence\<close>

text \<open>The specification of the loop: one PDU after the other, with no buffer and no body.\<close>

fun serve_pdus ::
  "nat \<Rightarrow> rpc_conn \<Rightarrow> (rpc_header \<times> bytes) list \<Rightarrow> bytes list \<times> rpc_conn \<times> (rpc_failure, unit) outcome" where
  "serve_pdus accepts c [] = ([], c, Ok ())"
| "serve_pdus accepts c ((h, pdu) # ps) =
     (case handle_pdu c h pdu of
        (c, Ok None) \<Rightarrow> serve_pdus accepts c ps
      | (c, Ok (Some reply)) \<Rightarrow>
          if accepts = 0 then ([], c, Err OutClosed)
          else
            let c = (if rh_ptype h = Bind then c\<lparr>co_bound := True\<rparr> else c);
                (sent, r) = serve_pdus (accepts - 1) c ps
            in (reply # sent, r)
      | (c, Err e) \<Rightarrow> ([], c, Err e)
      | (c, Panic) \<Rightarrow> ([], c, Panic))"

text \<open>A whole PDU: its header, and as many bytes as the header announces.\<close>

definition pdu_ok :: "rpc_header \<times> bytes \<Rightarrow> bool" where
  "pdu_ok p \<longleftrightarrow> rpc_header_ok (fst p) \<and> length (snd p) = unat (rh_frag_length (fst p))
     \<and> (\<exists>rest. snd p = rpc_header_write (fst p) @ rest)"

lemma read_until_enough: "n \<le> length buf \<Longrightarrow> read_until n buf body = Full buf body"
  by (cases body) simp_all

lemma pdu_parses: "pdu_ok (h, pdu) \<Longrightarrow> rpc_header_parse (pdu @ rest) = Ok h"
proof -
  assume ok: "pdu_ok (h, pdu)"
  then obtain r where "pdu = rpc_header_write h @ r" by (auto simp: pdu_ok_def)
  then show ?thesis
    using ok rpc_header_parse_write [of h "r @ rest"] by (auto simp: pdu_ok_def)
qed

lemma process_one:
  assumes ok: "pdu_ok (h, pdu)"
    and tail: "\<And>accepts c. process_rpc_pdus accepts c rest body = serve_pdus accepts c ps"
  shows "process_rpc_pdus accepts c (pdu @ rest) body = serve_pdus accepts c ((h, pdu) # ps)"
proof -
  have len: "16 \<le> length pdu" "length pdu = unat (rh_frag_length h)"
    using ok by (auto simp: pdu_ok_def rpc_header_ok_def)
  then have "read_until RPC_HEADER_SIZE (pdu @ rest) body = Full (pdu @ rest) body"
    "read_until (unat (rh_frag_length h)) (pdu @ rest) body = Full (pdu @ rest) body"
    by (simp_all add: read_until_enough)
  then show ?thesis
    using len tail
    by (simp add: process_rpc_pdus.simps [of accepts c "pdu @ rest"] pdu_parses [OF ok] Let_def
        split: prod.split outcome.split option.split)
qed

lemma process_prefix:
  assumes "\<forall>p \<in> set ps. pdu_ok p"
    and "\<And>accepts c. process_rpc_pdus accepts c [] body = serve_pdus accepts c qs"
  shows "process_rpc_pdus accepts c (concat (map snd ps)) body = serve_pdus accepts c (ps @ qs)"
  using assms
proof (induction ps arbitrary: accepts c)
  case (Cons p ps)
  obtain h pdu where p: "p = (h, pdu)" by force
  show ?case
    unfolding p list.map concat.simps snd_conv append_Cons
    by (rule process_one) (use Cons p in auto)
qed simp

lemma process_chunk: "process_rpc_pdus accepts c [] (Chunk data # body) = process_rpc_pdus accepts c data body"
  by (simp add: process_rpc_pdus.simps [of accepts c "[]"] process_rpc_pdus.simps [of accepts c data])

lemma process_chunks:
  "\<forall>g \<in> set gs. \<forall>p \<in> set g. pdu_ok p \<Longrightarrow>
    process_rpc_pdus accepts c [] (map (\<lambda>g. Chunk (concat (map snd g))) gs) = serve_pdus accepts c (concat gs)"
proof (induction gs arbitrary: accepts c)
  case Nil
  then show ?case by (simp add: process_rpc_pdus.simps)
next
  case (Cons g gs)
  then show ?case
    using process_prefix [of g "map (\<lambda>g. Chunk (concat (map snd g))) gs" "concat gs"]
    by (simp add: process_chunk)
qed

section \<open>Answers\<close>

text \<open>The PDUs that get an answer, and what the answer to one is.\<close>

fun answerable :: "bool \<Rightarrow> rpc_header list \<Rightarrow> rpc_header list" where
  "answerable bound [] = []"
| "answerable bound (h # hs) =
     (if rh_ptype h = Bind then h # answerable True hs
      else if rh_ptype h = Request \<and> bound then h # answerable bound hs
      else answerable bound hs)"

definition answers :: "rpc_header \<Rightarrow> bytes \<Rightarrow> bool" where
  "answers h reply \<longleftrightarrow> (\<exists>h'. rpc_header_parse reply = Ok h' \<and> rh_call_id h' = rh_call_id h
     \<and> rh_ptype h' = (if rh_ptype h = Bind then BindAck else Response)
     \<and> unat (rh_frag_length h') = length reply)"

lemma opnum_stub_length: "process_tsg_opnum opnum stub s = (s', Ok reply) \<Longrightarrow> length reply \<le> 12"
  by (auto simp: process_tsg_opnum_def session_call_def split: if_splits prod.splits outcome.splits)

lemma bind_header: "bind_pdu_parse buf = Ok b \<Longrightarrow> rpc_header_parse buf = Ok (bp_header b)"
  by (auto simp: bind_pdu_parse_def rbind_eq_Ok Let_def split: if_splits prod.splits)

lemma request_header: "request_pdu_parse buf = Ok q \<Longrightarrow> rpc_header_parse buf = Ok (rq_header q)"
  by (auto simp: request_pdu_parse_def rbind_eq_Ok Let_def split: if_splits prod.splits)

lemma handle_pdu_reply:
  assumes "pdu_ok (h, pdu)" and "handle_pdu c h pdu = (c', Ok r)"
  shows "co_bound c' = co_bound c
    \<and> (case r of
         None \<Rightarrow> rh_ptype h \<noteq> Bind \<and> \<not> (rh_ptype h = Request \<and> co_bound c)
       | Some reply \<Rightarrow> (rh_ptype h = Bind \<or> rh_ptype h = Request \<and> co_bound c) \<and> answers h reply)"
proof -
  have header: "rpc_header_parse pdu = Ok h" using pdu_parses [OF assms(1), of "[]"] by simp
  consider (bind) "rh_ptype h = Bind" | (request) "rh_ptype h = Request" "co_bound c"
    | (other) "rh_ptype h \<noteq> Bind" "\<not> (rh_ptype h = Request \<and> co_bound c)" by blast
  then show ?thesis
  proof cases
    case bind
    with assms(2) obtain b where b: "bind_pdu_parse pdu = Ok b" "co_bound c' = co_bound c"
        "r = Some (bind_ack_encode (bind_ack_accepted (rh_call_id (bp_header b)) (bp_assoc_group_id b) [0]))"
      by (auto simp: handle_pdu_def split: outcome.splits prod.splits if_splits)
    have "bp_header b = h" using bind_header [OF b(1)] header by simp
    then show ?thesis
      using b(2,3) bind bind_ack_reads [of "[0]" "rh_call_id h" "bp_assoc_group_id b" "[]"]
      by (auto simp: answers_def)
  next
    case request
    with assms(2) obtain q s stub where q: "request_pdu_parse pdu = Ok q" "co_bound c' = co_bound c"
        "process_tsg_opnum (rq_opnum q) (rq_stub_data q) (co_session c) = (s, Ok stub)"
        "r = Some (response_pdu_encode (response_pdu_new (rh_call_id (rq_header q)) (rq_context_id q) stub))"
      by (auto simp: handle_pdu_def split: outcome.splits prod.splits if_splits)
    have "rq_header q = h" using request_header [OF q(1)] header by simp
    then show ?thesis
      using q(2,4) request opnum_stub_length [OF q(3)]
        response_reads [of stub "rh_call_id h" "rq_context_id q" "[]"]
      by (auto simp: answers_def)
  next
    case other
    then show ?thesis using assms(2) by (auto simp: handle_pdu_def)
  qed
qed

text \<open>However the loop ends, it has answered the first of these PDUs; all of them when it ends well.\<close>

lemma serve_answers:
  assumes "serve_pdus accepts c ps = (sent, c', result)" and "\<forall>p \<in> set ps. pdu_ok p"
  shows "list_all2 answers (take (length sent) (answerable (co_bound c) (map fst ps))) sent
    \<and> (result = Ok () \<longrightarrow> length sent = length (answerable (co_bound c) (map fst ps)))"
  using assms
proof (induction accepts c ps arbitrary: sent rule: serve_pdus.induct)
  case (2 accepts c h pdu ps)
  obtain c1 r where hp: "handle_pdu c h pdu = (c1, r)" by force
  show ?case
  proof (cases r)
    case (Ok o')
    from handle_pdu_reply [of h pdu c c1 o'] "2.prems"(2) hp Ok
    have hr: "co_bound c1 = co_bound c" "case o' of
        None \<Rightarrow> rh_ptype h \<noteq> Bind \<and> \<not> (rh_ptype h = Request \<and> co_bound c)
      | Some reply \<Rightarrow> (rh_ptype h = Bind \<or> rh_ptype h = Request \<and> co_bound c) \<and> answers h reply" by auto
    show ?thesis
    proof (cases o')
      case None
      then have "serve_pdus accepts c1 ps = (sent, c', result)" "\<forall>p \<in> set ps. pdu_ok p"
        using "2.prems" hp Ok by simp_all
      from "2.IH"(1) [OF hp [symmetric] Ok None this] show ?thesis using hr None by auto
    next
      case (Some reply)
      let ?c = "if rh_ptype h = Bind then c1\<lparr>co_bound := True\<rparr> else c1"
      show ?thesis
      proof (cases "accepts = 0")
        case True
        then show ?thesis using "2.prems"(1) hp Ok Some by auto
      next
        case a: False
        obtain sent' where s: "sent = reply # sent'" "serve_pdus (accepts - 1) ?c ps = (sent', c', result)"
          using "2.prems"(1) hp Ok Some a by (auto simp: Let_def split: prod.splits)
        have "\<forall>p \<in> set ps. pdu_ok p" using "2.prems"(2) by simp
        from "2.IH"(2) [OF hp [symmetric] Ok Some a refl s(2) this] show ?thesis
          using hr Some s(1) by (auto split: if_splits)
      qed
    qed
  qed (use "2.prems"(1) hp in auto)
qed simp

section \<open>Properties\<close>

text \<open>
  C14. After any sequence of requests, an IN request reaches an OUT channel only by the
  cookie of its CONN/B1, and that channel belongs to an earlier OUT request whose CONN/A1 carried
  the same cookie; the connection is used up by it, and the first frame the OUT channel gets, if
  it still takes one, is CONN/C2 under that CONN/A1's call id.
\<close>

theorem rpch_pairs:
  assumes "rpch_serve (run rpch_step (\<lambda>_. None) rs) r = (s', status, Some (tx, frames))"
  shows "\<exists>b buf body a. \<exists>q \<in> set rs. joins r b buf body \<and> opens q a \<and> rr_tx q = tx
    \<and> a1_virtual_connection_cookie a = b1_virtual_connection_cookie b
    \<and> s' (b1_virtual_connection_cookie b) = None
    \<and> frames = (if rr_accepts r tx = 0 then []
        else rts_pdu_to_bytes (conn_c2_to_pdu conn_c2_default (a1_call_id a)) # tl frames)"
proof (cases rule: rpch_serve_cases [of r "run rpch_step (\<lambda>_. None) rs"])
  case (Join b buf body)
  let ?s = "run rpch_step (\<lambda>_. None) rs"
  obtain q a vc where qa: "q \<in> set rs" "opens q a"
      "a1_virtual_connection_cookie a = b1_virtual_connection_cookie b"
      "in_channel_join ?s (rr_accepts r) b buf body =
        (let (status, sent) = in_channel_established (rr_accepts r) vc (rr_tx q)
               (conn_c2_to_pdu conn_c2_default (a1_call_id a)) buf body
         in (?s(b1_virtual_connection_cookie b := None), status, Some (rr_tx q, sent)))"
    using in_channel_join_ok [OF pending_ok_run, of rs b "rr_accepts r" buf body] Join(2) assms by auto
  then have "tx = rr_tx q" "s' (b1_virtual_connection_cookie b) = None"
    "frames = (if rr_accepts r tx = 0 then []
        else rts_pdu_to_bytes (conn_c2_to_pdu conn_c2_default (a1_call_id a)) # tl frames)"
    using assms Join(2) by (auto simp: in_channel_established_def Let_def split: prod.splits if_splits)
  with qa(1-3) Join(1) show ?thesis by blast
qed (use assms in auto)

theorem rpch_pairs_witness:
  "\<exists>frames. snd (rpch_serve (run rpch_step (\<lambda>_. None)
      [\<lparr>rr_method = lit ''RPC_OUT_DATA'', rr_tx = 3 :: nat, rr_accepts = (\<lambda>_. 9),
        rr_body = [Chunk (rts_pdu_to_bytes (rts_conn_a1 1 5 6))]\<rparr>])
      \<lparr>rr_method = lit ''rpc_in_data'', rr_tx = 4, rr_accepts = (\<lambda>_. 9),
        rr_body = [Chunk (rts_pdu_to_bytes (rts_conn_b1 2 5 7 8))]\<rparr>) = (200, Some (3, frames))
    \<and> frames = [rts_pdu_to_bytes (conn_c2_to_pdu conn_c2_default 1)]"
proof -
  let ?o = "\<lparr>rr_method = lit ''RPC_OUT_DATA'', rr_tx = 3 :: nat, rr_accepts = (\<lambda>_. 9),
      rr_body = [Chunk (rts_pdu_to_bytes (rts_conn_a1 1 5 6))]\<rparr>"
    and ?i = "\<lparr>rr_method = lit ''rpc_in_data'', rr_tx = 4 :: nat, rr_accepts = (\<lambda>_. 9),
      rr_body = [Chunk (rts_pdu_to_bytes (rts_conn_b1 2 5 7 8))]\<rparr>"
    and ?a = "rts_pdu_to_bytes (rts_conn_a1 1 5 6)" and ?b = "rts_pdu_to_bytes (rts_conn_b1 2 5 7 8)"
  let ?s = "run rpch_step (\<lambda>_. None) [?o]"
  have lens: "length ?a \<le> 65536" "length ?b = 92"
    by (simp_all add: length_rts_pdu_to_bytes rts_conn_a1_def rts_conn_b1_def rts_pdu_new_def)
  have bytes: "?b = [5, 0, 20, 0, 16, 0, 0, 0, 92, 0] @ drop 10 ?b"
    by (simp add: rts_pdu_to_bytes_def rts_conn_b1_def rts_pdu_new_def Let_def le_bytes_def upt_rec
        PTYPE_RTS_def PACKED_DREP_LITTLE_ENDIAN_def put_u8_def put_u16_le_def RPC_VERSION_def
        RPC_VERSION_MINOR_def)
  have nths: "?b ! 8 = 92" "?b ! 9 = 0" by (subst bytes; simp)+
  note method_eq = eq_ignore_ascii_case_def to_ascii_lowercase_def ascii_lower_def lit_def
  have s: "?s 5 = Some \<lparr>pd_vconn = fst (accept_out_channel virtual_connection_new \<lparr>a1_call_id = 1,
      a1_version = 1, a1_virtual_connection_cookie = 5, a1_out_channel_cookie = 6,
      a1_receive_window_size = 262144\<rparr>), pd_out_sender = 3\<rparr>"
    using lens(1) by (simp add: handle_rpch_def method_eq out_channel_eq to_bytes_def conn_a1_ok)
  obtain b1 where b1: "conn_b1_parse ?b = Ok b1" "b1_virtual_connection_cookie b1 = 5"
    by (simp add: conn_b1_ok)
  then obtain p where p: "rts_pdu_parse ?b = Ok p" "conn_b1_from_pdu p = Ok b1"
    by (auto simp: conn_b1_parse_def rbind_eq_Ok)
  have "rpch_serve ?s ?i = in_channel_join ?s (\<lambda>_. 9) b1 [] []"
    using lens(2) nths p rts_pdu_ptype [of 92 ?b] by (simp add: handle_rpch_def method_eq handle_in_channel_def)
  moreover obtain s' where "in_channel_join ?s (\<lambda>_. 9) b1 [] [] = (s', 200, Some (3,
      [rts_pdu_to_bytes (conn_c2_to_pdu conn_c2_default 1)]))"
    using s b1(2)
    by (simp add: in_channel_join_def accept_out_channel_def accept_in_channel_def
        virtual_connection_new_def in_channel_established_def process_rpc_pdus.simps Let_def)
  ultimately have r: "rpch_serve ?s ?i = (s', 200, Some (3,
      [rts_pdu_to_bytes (conn_c2_to_pdu conn_c2_default 1)]))" by simp
  from rpch_pairs [OF r] r show ?thesis by auto
qed

text \<open>
  C20. Whenever the IN body delivers whole PDUs, however many per frame, the loop does
  what handling them one by one does, errors included. However it ends, it has given the first
  ones of the binds and of the requests after a bind, in order, exactly one answer each, of the
  right type, under its own call id and with its own length in its header, and nothing else has
  got one; when it ends well, all of them.
\<close>

theorem rpc_answers:
  assumes "\<forall>g \<in> set gs. \<forall>p \<in> set g. pdu_ok p"
  shows "process_rpc_pdus accepts c [] (map (\<lambda>g. Chunk (concat (map snd g))) gs)
      = serve_pdus accepts c (concat gs)
    \<and> (\<forall>sent c' result.
        process_rpc_pdus accepts c [] (map (\<lambda>g. Chunk (concat (map snd g))) gs) = (sent, c', result) \<longrightarrow>
        list_all2 answers (take (length sent) (answerable (co_bound c) (map fst (concat gs)))) sent
        \<and> (result = Ok () \<longrightarrow> length sent = length (answerable (co_bound c) (map fst (concat gs)))))"
proof -
  have "\<forall>p \<in> set (concat gs). pdu_ok p" using assms by auto
  then show ?thesis
    using process_chunks [OF assms, of accepts c] serve_answers [of accepts c "concat gs"] by simp
qed

theorem rpc_answers_witness:
  "\<exists>reply c'. process_rpc_pdus 1 \<lparr>co_vconn = virtual_connection_new, co_session = session_new, co_bound = True\<rparr>
      [] [Chunk (rpc_header_write (rpc_header_new Request 3 24 0 7) @ put_u32_le 0 @ put_u16_le 0 @ put_u16_le 9)]
      = ([reply], c', Ok ())
    \<and> answers (rpc_header_new Request 3 24 0 7) reply"
proof -
  let ?h = "rpc_header_new Request 3 24 0 7" and ?body = "put_u32_le 0 @ put_u16_le 0 @ put_u16_le 9"
  let ?c = "\<lparr>co_vconn = virtual_connection_new, co_session = session_new, co_bound = True\<rparr>"
  have h: "rpc_header_ok ?h" "unat (rh_frag_length ?h) = 24" "rh_ptype ?h = Request" "rh_auth_length ?h = 0"
    by (simp_all add: rpc_header_ok_def rpc_header_new_def RPC_COMMON_DATA_REPRESENTATION_def)
  then have ok: "pdu_ok (?h, rpc_header_write ?h @ ?body)" by (simp add: pdu_ok_def)
  have "rpc_header_parse (rpc_header_write ?h @ ?body) = Ok ?h"
    using pdu_parses [OF ok, of "[]"] by simp
  then obtain q where q: "request_pdu_parse (rpc_header_write ?h @ ?body) = Ok q" "rq_opnum q = 9"
    using h by (simp add: request_pdu_parse_def slice_def rpc_sizes)
  obtain reply c' where p: "process_rpc_pdus 1 ?c [] (map (\<lambda>g. Chunk (concat (map snd g)))
      [[(?h, rpc_header_write ?h @ ?body)]]) = ([reply], c', Ok ())"
    using process_chunks [of "[[(?h, rpc_header_write ?h @ ?body)]]" 1 ?c] ok q h
    by (auto simp: handle_pdu_def process_tsg_opnum_def)
  have "answers ?h reply"
    using rpc_answers [of "[[(?h, rpc_header_write ?h @ ?body)]]" 1 ?c, THEN conjunct2, rule_format, OF _ p]
      ok h by simp
  then show ?thesis using p by (intro exI [of _ reply] exI [of _ c']) simp
qed



text \<open>
  C36. Over any calls in any order and with any stub data, a session of this
  transport reaches data transfer only after TsgCreateTunnel, TsgAuthorizeTunnel and
  TsgCreateChannel in this order; and its target is never the one the client asked for: it is
  \<open>localhost:3389\<close> whatever the stub data says.
\<close>

theorem tsg_opnum_order:
  assumes "is_data_transfer (run opnum_step session_new calls)"
  shows "subseq [1, 2, 4] (map fst calls)
    \<and> gs_target_host (run opnum_step session_new calls) = Some (lit ''localhost'')
    \<and> gs_target_port (run opnum_step session_new calls) = Some 3389"
proof -
  have "opnum_inv session_new []" by (simp add: opnum_inv_def session_new_def)
  then have "opnum_inv (run opnum_step session_new calls) calls"
    using opnums.run_inv [of "(session_new, [])" calls] by (simp add: run_with_history)
  then show ?thesis
    using assms by (simp add: opnum_inv_def is_data_transfer_def)
qed

theorem tsg_opnum_order_witness:
  "gs_target_host (run opnum_step session_new [(1, []), (9, []), (2, []), (4, [1, 2, 3])])
    = Some (lit ''localhost'')"
proof -
  have "is_data_transfer (run opnum_step session_new [(1, []), (9, []), (2, []), (4, [1, 2, 3])])"
    by (simp add: process_tsg_opnum_def session_call_def process_message_def opnum_handshake_def
        opnum_tunnel_create_def opnum_tunnel_auth_def opnum_channel_create_def session_new_def
        is_data_transfer_def Let_def)
  from tsg_opnum_order [OF this] show ?thesis by blast
qed

end
