(* ===== verification/Rpch_Serve.thy ===== *)
theory Rpch_Serve
  imports Rpch_Handler
begin

text \<open>
  A whole conversation over the RPC-over-HTTP transport of \<open>Rpch_Handler\<close>: both channels, the bind,
  and the operations of a client that opens a tunnel and a channel, with every answer it gets.
\<close>

section \<open>The two requests\<close>

definition out_request :: "'c \<Rightarrow> ('c \<Rightarrow> nat) \<Rightarrow> u32 \<Rightarrow> u128 \<Rightarrow> u128 \<Rightarrow> 'c rpch_request" where
  "out_request tx accepts call vc out =
     \<lparr>rr_method = lit ''RPC_OUT_DATA'', rr_tx = tx, rr_accepts = accepts,
      rr_body = [Chunk (rts_pdu_to_bytes (rts_conn_a1 call vc out))]\<rparr>"

definition in_request ::
  "'c \<Rightarrow> ('c \<Rightarrow> nat) \<Rightarrow> u32 \<Rightarrow> u128 \<Rightarrow> u128 \<Rightarrow> u128 \<Rightarrow> body \<Rightarrow> 'c rpch_request" where
  "in_request tx accepts call vc inn assoc body =
     \<lparr>rr_method = lit ''RPC_IN_DATA'', rr_tx = tx, rr_accepts = accepts,
      rr_body = Chunk (rts_pdu_to_bytes (rts_conn_b1 call vc inn assoc)) # body\<rparr>"

definition waiting :: "u32 \<Rightarrow> u128 \<Rightarrow> u128 \<Rightarrow> virtual_connection" where
  "waiting call vc out = fst (accept_out_channel virtual_connection_new
     \<lparr>a1_call_id = call, a1_version = 1, a1_virtual_connection_cookie = vc,
      a1_out_channel_cookie = out, a1_receive_window_size = 262144\<rparr>)"

lemmas method_defs = eq_ignore_ascii_case_def to_ascii_lowercase_def ascii_lower_def lit_def

lemma out_request_served:
  "rpch_serve s (out_request tx accepts call vc out)
    = (s(vc := Some \<lparr>pd_vconn = waiting call vc out, pd_out_sender = tx\<rparr>), 200, None)"
proof -
  have "length (rts_pdu_to_bytes (rts_conn_a1 call vc out)) \<le> 65536"
    by (simp add: length_rts_pdu_to_bytes rts_conn_a1_def rts_pdu_new_def)
  then show ?thesis
    by (simp add: out_request_def handle_rpch_def method_defs out_channel_eq to_bytes_def conn_a1_ok
        waiting_def)
qed

lemma conn_b1_bytes:
  fixes call :: u32 and vc inn assoc :: u128
  defines "b \<equiv> rts_pdu_to_bytes (rts_conn_b1 call vc inn assoc)"
  shows "length b = 92" and "b ! 8 = 92" and "b ! 9 = 0" and "b ! 2 = PTYPE_RTS"
proof -
  show "length b = 92"
    by (simp add: b_def length_rts_pdu_to_bytes rts_conn_b1_def rts_pdu_new_def)
  have "b = [5, 0, 20, 0, 16, 0, 0, 0, 92, 0] @ drop 10 b"
    by (simp add: b_def rts_pdu_to_bytes_def rts_conn_b1_def rts_pdu_new_def Let_def le_bytes_def upt_rec
        PTYPE_RTS_def PACKED_DREP_LITTLE_ENDIAN_def put_u8_def put_u16_le_def RPC_VERSION_def
        RPC_VERSION_MINOR_def)
  then obtain r where "b = [5, 0, 20, 0, 16, 0, 0, 0, 92, 0] @ r" by blast
  then show "b ! 8 = 92" "b ! 9 = 0" "b ! 2 = PTYPE_RTS" by (simp_all add: PTYPE_RTS_def)
qed

lemma in_request_joins:
  "\<exists>b. rpch_serve s (in_request tx accepts call vc inn assoc body) = in_channel_join s accepts b [] body
    \<and> b1_virtual_connection_cookie b = vc"
proof -
  let ?b = "rts_pdu_to_bytes (rts_conn_b1 call vc inn assoc)"
  obtain b where b: "conn_b1_parse ?b = Ok b" "b1_virtual_connection_cookie b = vc"
    by (simp add: conn_b1_ok)
  then obtain p where p: "rts_pdu_parse ?b = Ok p" "conn_b1_from_pdu p = Ok b"
    by (auto simp: conn_b1_parse_def rbind_eq_Ok)
  note bytes = conn_b1_bytes [of call vc inn assoc]
  have "read_until 20 [] (Chunk ?b # body) = Full ?b body"
    using bytes(1) by (simp add: read_until_enough)
  moreover have "read_until 92 ?b body = Full ?b body" using bytes(1) by (simp add: read_until_enough)
  ultimately have "handle_in_channel s accepts (Chunk ?b # body) = in_channel_join s accepts b [] body"
    using p bytes by (simp add: handle_in_channel_def Let_def)
  then show ?thesis
    using b(2) by (intro exI [of _ b]) (simp add: in_request_def handle_rpch_def method_defs)
qed

lemma waiting_accepts:
  "b1_virtual_connection_cookie b = vc \<Longrightarrow>
    \<exists>v. accept_in_channel (waiting call vc out) b = (v, Ok (conn_c2_to_pdu conn_c2_default call))
      \<and> vc_state v = ConnectionEstablished"
  by (simp add: accept_in_channel_def waiting_def accept_out_channel_def virtual_connection_new_def
      Let_def)

section \<open>The operations\<close>

text \<open>The operations of a list of requests, as long as none fails.\<close>

fun opnum_run :: "gateway_session \<Rightarrow> request_pdu list \<Rightarrow> (bytes list \<times> gateway_session) option" where
  "opnum_run s [] = Some ([], s)"
| "opnum_run s (q # qs) =
     (case process_tsg_opnum (rq_opnum q) (rq_stub_data q) s of
        (s', Ok stub) \<Rightarrow> map_option (\<lambda>(stubs, t). (stub # stubs, t)) (opnum_run s' qs)
      | _ \<Rightarrow> None)"

definition response_to :: "request_pdu \<Rightarrow> bytes \<Rightarrow> bytes" where
  "response_to q stub =
     response_pdu_encode (response_pdu_new (rh_call_id (rq_header q)) (rq_context_id q) stub)"

text \<open>A whole request PDU with what it parses to.\<close>

definition request_ok :: "(rpc_header \<times> bytes) \<times> request_pdu \<Rightarrow> bool" where
  "request_ok r \<longleftrightarrow> pdu_ok (fst r) \<and> rh_ptype (fst (fst r)) = Request
     \<and> request_pdu_parse (snd (fst r)) = Ok (snd r)"

lemma requests_served:
  assumes "list_all request_ok rs" and "co_bound c"
    and "opnum_run (co_session c) (map snd rs) = Some (stubs, s)"
  shows "serve_pdus (length rs + n) c (map fst rs)
    = (map2 response_to (map snd rs) stubs, c\<lparr>co_session := s\<rparr>, Ok ())"
  using assms
proof (induction rs arbitrary: c stubs)
  case (Cons r rs)
  obtain h pdu q where r: "r = ((h, pdu), q)" by (metis surj_pair)
  obtain s1 stub stubs' where s1: "process_tsg_opnum (rq_opnum q) (rq_stub_data q) (co_session c) = (s1, Ok stub)"
    "opnum_run s1 (map snd rs) = Some (stubs', s)" "stubs = stub # stubs'"
    using Cons.prems(3) by (auto simp: r split: prod.splits outcome.splits)
  have "serve_pdus (length rs + n) (c\<lparr>co_session := s1\<rparr>) (map fst rs)
      = (map2 response_to (map snd rs) stubs', c\<lparr>co_session := s\<rparr>, Ok ())"
    using Cons.IH [of "c\<lparr>co_session := s1\<rparr>" stubs'] Cons.prems(1,2) s1(2) by simp
  then show ?case
    using Cons.prems(1,2) s1 by (simp add: r request_ok_def handle_pdu_def response_to_def Let_def)
qed simp

lemma frames_ok:
  assumes "pdu_ok (h, pdu)" and "list_all request_ok rs"
    and "concat frames = (h, pdu) # map fst rs"
  shows "\<forall>g \<in> set frames. \<forall>p \<in> set g. pdu_ok p"
proof -
  have "\<forall>r \<in> set rs. pdu_ok (fst r)"
    using assms(2) unfolding request_ok_def list_all_iff by blast
  then have "\<forall>p \<in> set (concat frames). pdu_ok p"
    using assms(1) unfolding assms(3) set_map list.set by blast
  then show ?thesis by auto
qed

lemma bind_pdu_header:
  "pdu_ok (h, pdu) \<Longrightarrow> bind_pdu_parse pdu = Ok b \<Longrightarrow> bp_header b = h"
  using pdu_parses [of h pdu "[]"] bind_header [of pdu b] by simp

lemmas opnum_defs = process_tsg_opnum_def session_call_def process_message_def opnum_handshake_def
  opnum_tunnel_create_def opnum_tunnel_auth_def opnum_channel_create_def

lemma other_operations:
  "list_all (\<lambda>q. rq_opnum q \<notin> {1, 2, 4}) qs \<Longrightarrow>
    opnum_run s qs = Some (replicate (length qs) (put_u32_le 0), s)"
  by (induction qs) (auto simp: process_tsg_opnum_def)

text \<open>The stubs of TsgCreateTunnel, TsgAuthorizeTunnel and TsgCreateChannel.\<close>

definition opening_stubs :: "bytes list" where
  "opening_stubs = [put_u32_le 1 @ put_u32_le 0, put_u32_le 0 @ put_u32_le 3 @ put_u32_le 0,
     put_u32_le 1 @ put_u32_le 0]"

lemma opening_operations:
  assumes "map rq_opnum qs = [1, 2, 4]"
  shows "\<exists>s. opnum_run session_new (qs @ others) = map_option (\<lambda>r. (opening_stubs @ fst r, snd r))
      (opnum_run s others) \<and> is_data_transfer s"
proof -
  obtain q1 q2 q4 where qs: "qs = [q1, q2, q4]" "rq_opnum q1 = 1" "rq_opnum q2 = 2" "rq_opnum q4 = 4"
    using assms by (auto simp: map_eq_Cons_conv)
  show ?thesis
    by (simp add: qs opnum_defs session_new_def opening_stubs_def is_data_transfer_def Let_def
        option.map_comp comp_def split_beta)
      (rule exI, rule conjI, rule refl, simp)
qed

section \<open>A client's PDUs\<close>

definition client_bind :: "u32 \<Rightarrow> rpc_header \<times> bytes" where
  "client_bind call =
     (let h = rpc_header_new Bind 3 72 0 call
      in (h, rpc_header_write h
        @ bind_body 5840 5840 0 [0, 0, 0] [(0, 0, syntax_id_tsg, [syntax_id_ndr])]))"

definition client_request :: "u32 \<Rightarrow> u16 \<Rightarrow> bytes \<Rightarrow> (rpc_header \<times> bytes) \<times> request_pdu" where
  "client_request call opnum stub =
     (let h = rpc_header_new Request 3 (word_of_nat (24 + length stub)) 0 call
      in ((h, rpc_header_write h @ put_u32_le 0 @ put_u16_le 0 @ put_u16_le opnum @ stub),
          \<lparr>rq_header = h, rq_alloc_hint = 0, rq_context_id = 0, rq_opnum = opnum,
           rq_stub_data = stub\<rparr>))"

lemma client_bind_ok:
  "pdu_ok (client_bind call)" "rh_ptype (fst (client_bind call)) = Bind"
  "\<exists>b. bind_pdu_parse (snd (client_bind call)) = Ok b \<and> is_tsg_bind b"
proof -
  have h: "rpc_header_ok (rpc_header_new Bind 3 72 0 call)"
    by (simp add: rpc_header_ok_def rpc_header_new_def RPC_COMMON_DATA_REPRESENTATION_def)
  then show "pdu_ok (client_bind call)" "rh_ptype (fst (client_bind call)) = Bind"
    by (simp_all add: client_bind_def pdu_ok_def Let_def bind_body_def ctx_bytes_def)
      (simp_all add: rpc_header_new_def)
  show "\<exists>b. bind_pdu_parse (snd (client_bind call)) = Ok b \<and> is_tsg_bind b"
    using bind_first_context [OF h, of "[0, 0, 0]" "[(0, 0, syntax_id_tsg, [syntax_id_ndr])]"
      0 0 syntax_id_tsg syntax_id_ndr "[]" "[]" 5840 5840 0 "[]" "[]"]
    by (auto simp: client_bind_def Let_def rpc_header_new_def ctx_ok_def bind_body_def ctx_bytes_def)
qed

lemma client_request_ok:
  assumes "length stub < 65000"
  shows "request_ok (client_request call opnum stub)" "rq_opnum (snd (client_request call opnum stub)) = opnum"
proof -
  let ?h = "rpc_header_new Request 3 (word_of_nat (24 + length stub)) 0 call"
  have n: "unat (word_of_nat (24 + length stub) :: u16) = 24 + length stub"
    using assms by (intro unat_of_nat16) simp
  have h: "rpc_header_ok ?h" "rh_ptype ?h = Request" "unat (rh_frag_length ?h) = 24 + length stub"
    "unat (rh_auth_length ?h) = 0"
    using n by (simp_all add: rpc_header_ok_def rpc_header_new_def RPC_COMMON_DATA_REPRESENTATION_def
        del: of_nat_add)
  show "request_ok (client_request call opnum stub)"
    using h rpc_request_stub [OF h(1,2), of stub "[]" 0 0 opnum "[]"]
    by (simp add: request_ok_def client_request_def pdu_ok_def Let_def)
qed (simp add: client_request_def Let_def)

section \<open>Properties\<close>

text \<open>
  C5. A client of the RPC-over-HTTP transport is served: its OUT request is accepted; an IN request
  that finds the connection still waiting, and whose body delivers the bind and then the requests as
  whole PDUs, however many per frame, ends well; and into the OUT queue of the first request go
  CONN/C2, the acknowledgement of the bind, and one response to each request under its own call id:
  the tunnel 1, the authorisation and the channel 1 for the three operations that open a channel,
  and success for every later one.
\<close>

theorem rpch_serves:
  assumes "rpch_serve s (out_request tx accepts call vc out) = (s1, r1)"
    and "s2 vc = s1 vc"
    and "pdu_ok (h, pdu)" and "rh_ptype h = Bind" and "bind_pdu_parse pdu = Ok b" and "is_tsg_bind b"
    and "list_all request_ok (begun @ others)"
    and "map (\<lambda>r. rq_opnum (snd r)) begun = [1, 2, 4]"
    and "list_all (\<lambda>r. rq_opnum (snd r) \<notin> {1, 2, 4}) others"
    and "concat frames = (h, pdu) # map fst (begun @ others)"
    and "5 + length others \<le> accepts2 tx"
  shows "r1 = (200, None)
    \<and> rpch_serve s2 (in_request tx2 accepts2 call2 vc inn assoc (map (\<lambda>g. Chunk (concat (map snd g))) frames))
      = (s2(vc := None), 200, Some (tx,
          rts_pdu_to_bytes (conn_c2_to_pdu conn_c2_default call)
          # bind_ack_encode (bind_ack_accepted (rh_call_id h) (bp_assoc_group_id b) [0])
          # map2 response_to (map snd (begun @ others))
              (opening_stubs @ replicate (length others) (put_u32_le 0))))"
proof -
  let ?rs = "begun @ others" and ?body = "map (\<lambda>g. Chunk (concat (map snd g))) frames"
  have r1: "r1 = (200, None)" and s2: "s2 vc = Some \<lparr>pd_vconn = waiting call vc out, pd_out_sender = tx\<rparr>"
    using assms(1,2) by (auto simp: out_request_served)
  obtain b1 where b1: "rpch_serve s2 (in_request tx2 accepts2 call2 vc inn assoc ?body)
      = in_channel_join s2 accepts2 b1 [] ?body" "b1_virtual_connection_cookie b1 = vc"
    using in_request_joins [of tx2 accepts2 call2 vc inn assoc ?body s2] by blast
  obtain v where v: "accept_in_channel (waiting call vc out) b1
      = (v, Ok (conn_c2_to_pdu conn_c2_default call))" "vc_state v = ConnectionEstablished"
    using waiting_accepts [OF b1(2)] by blast
  obtain t where t: "opnum_run session_new (map snd ?rs)
      = Some (opening_stubs @ replicate (length others) (put_u32_le 0), t)"
    using opening_operations [of "map snd begun" "map snd others"] assms(8)
      other_operations [of "map snd others"] assms(9)
    by (auto simp: comp_def list_all_iff)
  have len: "length ?rs = 3 + length others" using arg_cong [OF assms(8), of length] by simp
  obtain n where n: "accepts2 tx = Suc (Suc (length ?rs + n))"
    using assms(11) len by (auto dest!: le_Suc_ex)
  let ?c = "\<lparr>co_vconn = v, co_session = session_new, co_bound = False\<rparr>"
    and ?d = "\<lparr>co_vconn = v\<lparr>vc_state := vc_state.DataTransfer\<rparr>, co_session = session_new, co_bound = True\<rparr>"
  have bind: "handle_pdu ?c h pdu = (?c\<lparr>co_vconn := v\<lparr>vc_state := vc_state.DataTransfer\<rparr>\<rparr>,
      Ok (Some (bind_ack_encode (bind_ack_accepted (rh_call_id h) (bp_assoc_group_id b) [0]))))"
    using assms(4,6) v(2) bind_pdu_header [OF assms(3,5)] by (simp add: handle_pdu_def assms(5) enter_data_transfer_def)
  have "\<forall>g \<in> set frames. \<forall>p \<in> set g. pdu_ok p"
    using assms(3,7,10) by (rule frames_ok)
  then have "process_rpc_pdus (Suc (length ?rs + n)) ?c [] ?body
      = serve_pdus (Suc (length ?rs + n)) ?c ((h, pdu) # map fst ?rs)"
    using process_chunks assms(10) by metis
  also have "\<dots> = (bind_ack_encode (bind_ack_accepted (rh_call_id h) (bp_assoc_group_id b) [0])
      # map2 response_to (map snd ?rs) (opening_stubs @ replicate (length others) (put_u32_le 0)),
      ?d\<lparr>co_session := t\<rparr>, Ok ())"
    using bind assms(4) requests_served [of ?rs ?d _ t n, OF assms(7) _ _] t
    by (simp add: Let_def)
  finally show ?thesis
    using r1 b1 s2 v(1) n by (simp add: in_channel_join_def in_channel_established_def Let_def)
qed

theorem rpch_serves_witness:
  "\<exists>s frames. rpch_serve (fst (rpch_serve (\<lambda>_. None) (out_request (3 :: nat) (\<lambda>_. 9) 1 5 6)))
      (in_request 4 (\<lambda>_. 9) 2 5 7 8 (map (\<lambda>g. Chunk (concat (map snd g)))
        [[client_bind 10, fst (client_request 11 1 [])],
         [fst (client_request 12 2 []), fst (client_request 13 4 [1, 2]), fst (client_request 14 9 [])]]))
    = (s, 200, Some (3, frames)) \<and> length frames = 6"
proof -
  let ?out = "out_request (3 :: nat) (\<lambda>_. 9) 1 5 6"
  obtain s1 r1 where out: "rpch_serve (\<lambda>_. None) ?out = (s1, r1)" by (metis surj_pair)
  obtain h pdu where bind: "client_bind 10 = (h, pdu)" by fastforce
  obtain b where b: "bind_pdu_parse pdu = Ok b" "is_tsg_bind b" "pdu_ok (h, pdu)" "rh_ptype h = Bind"
    using client_bind_ok [of 10] bind by auto
  let ?begun = "[client_request 11 1 [], client_request 12 2 [], client_request 13 4 [1, 2]]"
    and ?others = "[client_request 14 9 []]"
    and ?frames = "[[client_bind 10, fst (client_request 11 1 [])],
      [fst (client_request 12 2 []), fst (client_request 13 4 [1, 2]), fst (client_request 14 9 [])]]"
  from rpch_serves [OF out _ b(3,4,1,2), where ?s2.0 = s1 and begun = ?begun and others = ?others
      and frames = ?frames and ?accepts2.0 = "\<lambda>_. 9" and ?tx2.0 = 4 and ?call2.0 = 2 and inn = 7 and assoc = 8]
  show ?thesis
    by (auto simp: client_request_ok bind out opening_stubs_def)
qed

end
