(* ===== verification/Web_Auth.thy ===== *)
theory Web_Auth
  imports Db Config Ntlm
begin

text \<open>
  \<open>crates/rdg-server/src/handlers/auth.rs\<close>: sign-up, sign-in and the session cookie of the web
  portal. A handler takes the state of the application (configuration and database) and the
  request, already parsed by the framework, and yields the response and the database it leaves.
  \<open>web_world\<close> holds what the external crates and the operating system supply: HMAC-SHA-256 (key
  first), unpadded URL-safe base64, Argon2 with the salt drawn for the call, MD4 and the clock.
\<close>

record web_world =
  wb_hmac_sha256 :: "bytes \<Rightarrow> bytes \<Rightarrow> bytes"
  wb_b64_encode :: "bytes \<Rightarrow> rstring"
  wb_b64_decode :: "rstring \<Rightarrow> bytes option"
  wb_hash_password :: "bytes \<Rightarrow> rstring option"
  wb_parse_hash :: "rstring \<Rightarrow> bool"
  wb_verify_password :: "bytes \<Rightarrow> rstring \<Rightarrow> bool"
  wb_md4 :: "bytes \<Rightarrow> bytes"
  wb_unix_secs :: u64

section \<open>Session tokens\<close>

definition SESSION_COOKIE_NAME :: rstring where
  "SESSION_COOKIE_NAME = lit ''rdg_session''"

definition SESSION_TTL_SECS :: nat where
  "SESSION_TTL_SECS = 86400"

definition session_secret :: "server_config \<Rightarrow> bytes" where
  "session_secret cfg = str_bytes (lit ''rdg-auth-session:'' @ sc_server_name cfg)"

definition session_payload :: "int \<Rightarrow> u64 \<Rightarrow> rstring" where
  "session_payload user_id issued_at = int_to_dec user_id @ lit '':'' @ dec_digits (unat issued_at)"

definition sign_session :: "web_world \<Rightarrow> int \<Rightarrow> u64 \<Rightarrow> bytes \<Rightarrow> rstring" where
  "sign_session w user_id issued_at secret =
     (let payload = session_payload user_id issued_at;
          sig = wb_hmac_sha256 w secret (str_bytes payload)
      in payload @ lit ''.'' @ wb_b64_encode w sig)"

definition parse_i64 :: "rstring \<Rightarrow> int option" where
  "parse_i64 s = parse_signed (- (2 ^ 63)) (2 ^ 63 - 1) s"

definition parse_u64 :: "rstring \<Rightarrow> nat option" where
  "parse_u64 s = parse_unsigned (2 ^ 64 - 1) s"

definition validate_session_token :: "web_world \<Rightarrow> rstring \<Rightarrow> bytes \<Rightarrow> int option" where
  "validate_session_token w token secret =
     (case rsplit_once (of_char CHR ''.'') token of
        None \<Rightarrow> None
      | Some (payload, sig_b64) \<Rightarrow>
          Option.bind (wb_b64_decode w sig_b64) (\<lambda>sig.
          if sig \<noteq> wb_hmac_sha256 w secret (str_bytes payload) then None
          else
            (case split_char (of_char CHR '':'') payload of
               [f0, f1] \<Rightarrow>
                 Option.bind (parse_i64 f0) (\<lambda>user_id.
                 Option.bind (parse_u64 f1) (\<lambda>issued_at.
                 if SESSION_TTL_SECS < unat (wb_unix_secs w) - issued_at then None
                 else Some user_id))
             | _ \<Rightarrow> None)))"

definition starts_with :: "rstring \<Rightarrow> rstring \<Rightarrow> bool" where
  "starts_with p s \<longleftrightarrow> take (length p) s = p"

definition validate_session_cookie ::
  "web_world \<Rightarrow> server_config \<Rightarrow> rstring option \<Rightarrow> int option" where
  "validate_session_cookie w cfg cookie_header =
     Option.bind cookie_header (\<lambda>cookies.
     Option.bind (find (starts_with (SESSION_COOKIE_NAME @ lit ''=''))
         (map trim (split_char (of_char CHR '';'') cookies))) (\<lambda>c.
     Option.bind (strip_prefix (SESSION_COOKIE_NAME @ lit ''='') c) (\<lambda>token.
     validate_session_token w token (session_secret cfg))))"

definition set_session_cookie :: "web_world \<Rightarrow> server_config \<Rightarrow> int \<Rightarrow> rstring" where
  "set_session_cookie w cfg user_id =
     SESSION_COOKIE_NAME @ lit ''=''
       @ sign_session w user_id (wb_unix_secs w) (session_secret cfg)
       @ lit ''; HttpOnly; Secure; SameSite=Strict; Path=/; Max-Age='' @ dec_digits SESSION_TTL_SECS"

definition clear_session_cookie :: rstring where
  "clear_session_cookie =
     SESSION_COOKIE_NAME @ lit ''=; HttpOnly; Secure; SameSite=Strict; Path=/; Max-Age=0''"

section \<open>Handlers\<close>

datatype json = JString rstring | JNumber int | JBool bool | JObject "(rstring \<times> json) list"

record auth_request =
  aq_username :: rstring
  aq_password :: rstring

text \<open>Status, value of \<open>Set-Cookie\<close>, body.\<close>

type_synonym auth_reply = "nat \<times> rstring \<times> json"

definition error_reply :: "nat \<Rightarrow> string \<Rightarrow> auth_reply" where
  "error_reply status msg = (status, [], JObject [(lit ''error'', JString (lit msg))])"

definition user_json :: "user \<Rightarrow> json" where
  "user_json u = JObject [(lit ''id'', JNumber (u_id u)), (lit ''username'', JString (u_username u))]"

definition signup ::
  "web_world \<Rightarrow> server_config \<Rightarrow> database \<Rightarrow> auth_request \<Rightarrow> database \<times> auth_reply" where
  "signup w cfg db req =
     (let username = trim (aq_username req); password = aq_password req
      in if username = [] \<or> str_len password < 4
         then (db, error_reply 400 ''Username required, password must be at least 4 characters'')
         else if (case get_user_by_username db username of Ok (Some _) \<Rightarrow> True | _ \<Rightarrow> False)
         then (db, error_reply 409 ''Username already taken'')
         else
           (case wb_hash_password w (str_bytes password) of
              None \<Rightarrow> (db, error_reply 500 ''Internal error'')
            | Some password_hash \<Rightarrow>
                let nt_hash = compute_nt_hash (wb_md4 w) password
                in (case create_user_with_password db username nt_hash password_hash of
                      (db', Ok user) \<Rightarrow>
                        (db', 201, set_session_cookie w cfg (u_id user), user_json user)
                    | (db', _) \<Rightarrow> (db', error_reply 500 ''Failed to create user''))))"

definition signin ::
  "web_world \<Rightarrow> server_config \<Rightarrow> database \<Rightarrow> auth_request \<Rightarrow> auth_reply" where
  "signin w cfg db req =
     (let username = trim (aq_username req); password = aq_password req
      in (case get_user_by_username db username of
            Ok (Some user) \<Rightarrow>
              if \<not> u_enabled user then error_reply 403 ''Account disabled''
              else
                (case u_password_hash user of
                   None \<Rightarrow> error_reply 401 ''Invalid credentials''
                 | Some password_hash \<Rightarrow>
                     if \<not> wb_parse_hash w password_hash then error_reply 500 ''Internal error''
                     else if \<not> wb_verify_password w (str_bytes password) password_hash
                       then error_reply 401 ''Invalid credentials''
                     else (200, set_session_cookie w cfg (u_id user), user_json user))
          | _ \<Rightarrow> error_reply 401 ''Invalid credentials''))"

definition signout :: auth_reply where
  "signout = (200, clear_session_cookie, JObject [(lit ''ok'', JBool True)])"

text \<open>\<open>cookie_header\<close> is the \<open>Cookie\<close> header when it is visible ASCII.\<close>

definition me :: "web_world \<Rightarrow> server_config \<Rightarrow> database \<Rightarrow> rstring option \<Rightarrow> nat \<times> json" where
  "me w cfg db cookie_header =
     (case validate_session_cookie w cfg cookie_header of
        None \<Rightarrow> (401, JObject [(lit ''error'', JString (lit ''Not authenticated''))])
      | Some user_id \<Rightarrow>
          (let users = (case list_users db of Ok us \<Rightarrow> us | _ \<Rightarrow> [])
           in (case find (\<lambda>u. u_id u = user_id) users of
                 Some user \<Rightarrow> (200, user_json user)
               | None \<Rightarrow> (401, JObject [(lit ''error'', JString (lit ''User not found''))]))))"

section \<open>Documented laws of the crates\<close>

text \<open>RFC 4648, section 5: decoding undoes encoding, and the alphabet of URL-safe base64.\<close>

definition is_url_char :: "nat \<Rightarrow> bool" where
  "is_url_char c \<longleftrightarrow> is_digit c \<or> 65 \<le> c \<and> c \<le> 90 \<or> 97 \<le> c \<and> c \<le> 122 \<or> c = 45 \<or> c = 95"

definition base64_law :: "web_world \<Rightarrow> bool" where
  "base64_law w \<longleftrightarrow> (\<forall>bs. wb_b64_decode w (wb_b64_encode w bs) = Some bs
     \<and> list_all is_url_char (wb_b64_encode w bs))"

text \<open>A hash Argon2 made is a well-formed hash and verifies the password it was made from.\<close>

definition argon2_law :: "web_world \<Rightarrow> bool" where
  "argon2_law w \<longleftrightarrow> (\<forall>pw h. wb_hash_password w pw = Some h \<longrightarrow>
     wb_parse_hash w h \<and> wb_verify_password w pw h)"

section \<open>Facts about tokens and cookies\<close>

lemma starts_with_strip: "starts_with p s \<longleftrightarrow> (\<exists>r. strip_prefix p s = Some r)"
  by (simp add: starts_with_def strip_prefix_def)

text \<open>The characters of a token: none of them ends a cookie or is trimmed away.\<close>

definition is_token_char :: "nat \<Rightarrow> bool" where
  "is_token_char c \<longleftrightarrow> is_url_char c \<or> c = 46 \<or> c = 58"

lemma url_char_dot: "list_all is_url_char s \<Longrightarrow> 46 \<notin> set s"
  by (auto simp: list_all_iff is_url_char_def is_digit_def)

lemma url_token_chars: "list_all is_url_char s \<Longrightarrow> list_all is_token_char s"
  by (auto simp: list_all_iff is_token_char_def)

lemma dec_token_chars [simp]: "list_all is_token_char (dec_digits n)" "list_all is_token_char (int_to_dec i)"
  using dec_digits_digits [of n] dec_digits_digits [of "nat i"] dec_digits_digits [of "nat (- i)"]
  by (auto simp: list_all_iff is_token_char_def is_url_char_def int_to_dec_def lit_def)

lemma sign_session_chars:
  assumes "base64_law w"
  shows "list_all is_token_char (sign_session w user_id issued_at secret)"
proof -
  have "list_all is_token_char (wb_b64_encode w bs)" for bs
    using assms by (intro url_token_chars) (simp add: base64_law_def)
  then show ?thesis
    by (simp add: sign_session_def session_payload_def Let_def lit_def)
      (simp add: is_token_char_def)
qed

lemma token_char_plain: "is_token_char c \<Longrightarrow> \<not> is_whitespace c \<and> c \<noteq> 59"
  by (auto simp: is_token_char_def is_url_char_def is_digit_def is_whitespace_def)

lemma payload_fields:
  "split_char 58 (session_payload user_id issued_at)
    = [int_to_dec user_id, dec_digits (unat issued_at)]"
proof -
  have "(58 :: nat) \<notin> set (int_to_dec user_id)" "(58 :: nat) \<notin> set (dec_digits (unat issued_at))"
    by (rule int_to_dec_not dec_digits_not; simp add: is_digit_def)+
  then show ?thesis by (simp add: session_payload_def lit_def)
qed

lemma parse_payload_fields:
  "- (2 ^ 63) \<le> user_id \<Longrightarrow> user_id < 2 ^ 63 \<Longrightarrow> parse_i64 (int_to_dec user_id) = Some user_id"
  "parse_u64 (dec_digits (unat (issued_at :: u64))) = Some (unat issued_at)"
proof -
  show "- (2 ^ 63) \<le> user_id \<Longrightarrow> user_id < 2 ^ 63 \<Longrightarrow> parse_i64 (int_to_dec user_id) = Some user_id"
    by (simp add: parse_i64_def)
  have "unat issued_at < 2 ^ LENGTH(64)" by (rule unsigned_less)
  then show "parse_u64 (dec_digits (unat issued_at)) = Some (unat issued_at)"
    unfolding parse_u64_def by (intro parse_unsigned_dec) simp
qed

lemma validate_signed:
  assumes "base64_law w" and "- (2 ^ 63) \<le> user_id" and "user_id < 2 ^ 63"
  shows "validate_session_token (w\<lparr>wb_unix_secs := now\<rparr>) (sign_session w user_id issued_at secret) secret
    = (if unat now - unat issued_at \<le> SESSION_TTL_SECS then Some user_id else None)"
proof -
  let ?mac = "wb_hmac_sha256 w secret (str_bytes (session_payload user_id issued_at))"
  have "rsplit_once (of_char CHR ''.'') (sign_session w user_id issued_at secret)
      = Some (session_payload user_id issued_at, wb_b64_encode w ?mac)"
    using url_char_dot [of "wb_b64_encode w ?mac"] assms(1)
    by (simp add: sign_session_def Let_def base64_law_def lit_def rsplit_once_Some)
  moreover have "wb_b64_decode w (wb_b64_encode w ?mac) = Some ?mac"
    using assms(1) by (simp add: base64_law_def)
  ultimately show ?thesis
    using assms(2,3)
    by (auto simp: validate_session_token_def payload_fields parse_payload_fields)
qed

lemma split_char_prefix:
  "c \<notin> set d \<Longrightarrow> split_char c (d @ t) = (d @ hd (split_char c t)) # tl (split_char c t)"
  by (induction d) auto

lemma split_join_with:
  assumes "xs \<noteq> []" and "list_all (\<lambda>x. c \<notin> set x) xs" and "c \<notin> set d"
  shows "split_char c (join_with (c # d) xs) = hd xs # map ((@) d) (tl xs)"
  using assms(1,2)
proof (induction xs)
  case (Cons x xs)
  then show ?case
    using split_char_prefix [OF assms(3), of "join_with (c # d) xs"] by (cases xs) auto
qed simp

lemma trim_space: "trim (lit '' '' @ s) = trim s"
  by (simp add: trim_def trim_start_def lit_def is_whitespace_def)

text \<open>A browser's \<open>Cookie\<close> header carries its cookies separated by \<open>; \<close>.\<close>

definition cookie_header :: "rstring list \<Rightarrow> rstring" where
  "cookie_header cookies = join_with (lit ''; '') cookies"

lemma cookie_header_split:
  assumes "list_all (\<lambda>x. of_char CHR '';'' \<notin> set x) cookies" and "cookies \<noteq> []"
  shows "map trim (split_char (of_char CHR '';'') (cookie_header cookies)) = map trim cookies"
proof -
  have "split_char (of_char CHR '';'') (cookie_header cookies)
      = hd cookies # map ((@) (lit '' '')) (tl cookies)"
    unfolding cookie_header_def
    using split_join_with [of cookies "of_char CHR '';''" "lit '' ''"] assms by (simp add: lit_def)
  then show ?thesis using assms(2) by (cases cookies) (simp_all add: trim_space)
qed

text \<open>What a browser keeps of \<open>Set-Cookie\<close>: the name and the value, up to the first \<open>;\<close>.\<close>

definition cookie_pair :: "rstring \<Rightarrow> rstring" where
  "cookie_pair set_cookie = hd (split_char (of_char CHR '';'') set_cookie)"

lemma session_cookie_pair:
  assumes "base64_law w"
  shows "cookie_pair (set_session_cookie w cfg user_id)
    = SESSION_COOKIE_NAME @ lit ''='' @ sign_session w user_id (wb_unix_secs w) (session_secret cfg)"
proof -
  have split: "59 \<notin> set t \<Longrightarrow> hd (split_char 59 (SESSION_COOKIE_NAME @ lit ''='' @ t @ 59 # r))
      = SESSION_COOKIE_NAME @ lit ''='' @ t" for t r
    using split_char_append [of 59 "SESSION_COOKIE_NAME @ lit ''='' @ t" r]
    by (simp add: SESSION_COOKIE_NAME_def lit_def)
  have "(59 :: nat) \<notin> set (sign_session w user_id (wb_unix_secs w) (session_secret cfg))"
    using sign_session_chars [OF assms, of user_id "wb_unix_secs w" "session_secret cfg"]
    by (auto simp: list_all_iff dest: token_char_plain)
  from split [OF this] show ?thesis
    by (simp add: cookie_pair_def set_session_cookie_def lit_def)
qed

lemma session_cookie_plain:
  assumes "base64_law w"
  shows "trim (cookie_pair (set_session_cookie w cfg user_id)) = cookie_pair (set_session_cookie w cfg user_id)"
    and "of_char CHR '';'' \<notin> set (cookie_pair (set_session_cookie w cfg user_id))"
proof -
  let ?t = "sign_session w user_id (wb_unix_secs w) (session_secret cfg)"
  have chars: "list_all is_token_char ?t" by (rule sign_session_chars [OF assms])
  have "\<not> is_whitespace (last ?t)" if "?t \<noteq> []"
    using chars that token_char_plain [of "last ?t"] by (simp add: list_all_iff)
  then have "\<not> is_whitespace (last (SESSION_COOKIE_NAME @ lit ''='' @ ?t))"
    by (simp add: lit_def) (simp add: is_whitespace_def)
  then show "trim (cookie_pair (set_session_cookie w cfg user_id)) = cookie_pair (set_session_cookie w cfg user_id)"
    unfolding session_cookie_pair [OF assms]
    by (intro trim_id) (simp add: SESSION_COOKIE_NAME_def lit_def is_whitespace_def)
  show "of_char CHR '';'' \<notin> set (cookie_pair (set_session_cookie w cfg user_id))"
    unfolding session_cookie_pair [OF assms] using chars
    by (auto simp: list_all_iff SESSION_COOKIE_NAME_def lit_def dest: token_char_plain)
qed

text \<open>Which tokens are accepted.\<close>

lemma validate_session_token_SomeE:
  assumes "validate_session_token w token secret = Some user_id"
  obtains payload sig f0 f1 issued_at where "token = payload @ lit ''.'' @ sig"
    and "wb_b64_decode w sig = Some (wb_hmac_sha256 w secret (str_bytes payload))"
    and "split_char 58 payload = [f0, f1]" and "parse_i64 f0 = Some user_id"
    and "parse_u64 f1 = Some issued_at" and "unat (wb_unix_secs w) - issued_at \<le> SESSION_TTL_SECS"
proof -
  obtain payload sig where split: "rsplit_once 46 token = Some (payload, sig)"
    using assms by (auto simp: validate_session_token_def split: option.splits)
  then have "token = payload @ lit ''.'' @ sig" by (simp add: rsplit_once_Some lit_def)
  moreover obtain f0 f1 where "split_char 58 payload = [f0, f1]"
    using assms split
    by (auto simp: validate_session_token_def bind_eq_Some_conv split: list.splits if_splits)
  ultimately show ?thesis
    using assms split
    by (auto simp: validate_session_token_def bind_eq_Some_conv split: if_splits intro: that)
qed

lemma validate_session_cookie_Some:
  assumes "validate_session_cookie w cfg (Some cookies) = Some user_id"
  obtains token where "SESSION_COOKIE_NAME @ lit ''='' @ token
        \<in> set (map trim (split_char (of_char CHR '';'') cookies))"
    and "validate_session_token w token (session_secret cfg) = Some user_id"
proof -
  obtain c token where "find (starts_with (SESSION_COOKIE_NAME @ lit ''=''))
      (map trim (split_char (of_char CHR '';'') cookies)) = Some c"
    and c: "c = (SESSION_COOKIE_NAME @ lit ''='') @ token"
    and "validate_session_token w token (session_secret cfg) = Some user_id"
    using assms by (auto simp: validate_session_cookie_def bind_eq_Some_conv strip_prefix_Some)
  moreover from this(1) have "c \<in> set (map trim (split_char (of_char CHR '';'') cookies))"
    by (auto simp only: find_Some_iff in_set_conv_nth)
  ultimately show ?thesis using that by simp
qed

section \<open>Facts about the accounts\<close>

lemma create_user_with_password_Ok:
  "create_user_with_password db n nt h = (db', Ok u) \<longleftrightarrow>
    n \<notin> set (map u_username (tb_rows (db_users db)))
    \<and> u = \<lparr>u_id = tb_seq (db_users db) + 1, u_username = n, u_nt_hash = nt, u_enabled = True,
          u_password_hash = Some h\<rparr>
    \<and> db' = db\<lparr>db_users := fst (table_insert (\<lambda>i. u\<lparr>u_id := i\<rparr>) (db_users db))\<rparr>"
  by (auto simp: create_user_with_password_def insert_user_eq Let_def)

lemma create_user_with_password_Err:
  "create_user_with_password db n nt h = (db', Err e) \<Longrightarrow> db' = db"
  "create_user_with_password db n nt h \<noteq> (db', Panic)"
  by (auto simp: create_user_with_password_def insert_user_eq Let_def split: if_splits)

lemma lookup_user_Ok: "get_user_by_username db n = Ok (lookup_user db n)"
  by (simp add: get_user_by_username_def lookup_user_eq)

lemma signup_cases:
  obtains (refused) status msg where "signup w cfg db req = (db, error_reply status msg)"
      "status \<noteq> 201"
  | (created) h u db' where "lookup_user db (trim (aq_username req)) = None"
      "4 \<le> str_len (aq_password req)" "wb_hash_password w (str_bytes (aq_password req)) = Some h"
      "create_user_with_password db (trim (aq_username req))
         (compute_nt_hash (wb_md4 w) (aq_password req)) h = (db', Ok u)"
      "signup w cfg db req = (db', 201, set_session_cookie w cfg (u_id u), user_json u)"
proof -
  let ?n = "trim (aq_username req)" and ?nt = "compute_nt_hash (wb_md4 w) (aq_password req)"
  have refuse: thesis
    if "\<exists>status msg. signup w cfg db req = (db, error_reply status msg) \<and> status \<noteq> 201"
    using that refused by blast
  show thesis
  proof (cases "?n = [] \<or> str_len (aq_password req) < 4 \<or> lookup_user db ?n \<noteq> None
      \<or> wb_hash_password w (str_bytes (aq_password req)) = None")
    case True
    then show thesis
      by (intro refuse) (auto simp: signup_def lookup_user_Ok Let_def split: option.splits)
  next
    case False
    then obtain h where h: "wb_hash_password w (str_bytes (aq_password req)) = Some h" by blast
    obtain db' r where c: "create_user_with_password db ?n ?nt h = (db', r)" by fastforce
    show thesis
    proof (cases r)
      case (Ok u)
      then show thesis
        using False h c by (intro created) (simp_all add: signup_def lookup_user_Ok Let_def)
    next
      case (Err e)
      then have "db' = db" using c create_user_with_password_Err by blast
      then show thesis
        using False h c Err by (intro refuse) (auto simp: signup_def lookup_user_Ok Let_def)
    qed (use c create_user_with_password_Err in blast)
  qed
qed

lemma created_user:
  assumes "lookup_user db n = None" and "create_user_with_password db n nt h = (db', Ok u)"
    and "eq_ignore_ascii_case m n"
  shows "lookup_user db' m = Some u \<and> u_enabled u \<and> u_nt_hash u = nt \<and> u_username u = n
    \<and> u_password_hash u = Some h"
proof -
  have "eq_ignore_ascii_case k m \<longleftrightarrow> eq_ignore_ascii_case k n" for k
    using assms(3) by (auto simp: eq_ignore_ascii_case_def)
  then show ?thesis using assms(1,2)
    by (auto simp: lookup_user_eq create_user_with_password_Ok find_append eq_ignore_ascii_case_def)
qed

lemma me_eq: "me w cfg db hdr =
    (case Option.bind (validate_session_cookie w cfg hdr)
        (\<lambda>i. find (\<lambda>u. u_id u = i) (tb_rows (db_users db))) of
       Some u \<Rightarrow> (200, user_json u)
     | None \<Rightarrow> (401, snd (me w cfg db hdr)))"
  by (auto simp: me_def list_users_def split: option.splits)

lemma web_cookie_accepted:
  assumes "base64_law w" and "- (2 ^ 63) \<le> user_id" and "user_id < 2 ^ 63"
  shows "validate_session_cookie w cfg (Some (cookie_pair (set_session_cookie w cfg user_id)))
    = Some user_id"
proof -
  let ?p = "SESSION_COOKIE_NAME @ lit ''=''" and ?c = "cookie_pair (set_session_cookie w cfg user_id)"
    and ?t = "sign_session w user_id (wb_unix_secs w) (session_secret cfg)"
  have "split_char 59 ?c = [?c]" "trim ?c = ?c"
    using session_cookie_plain [OF assms(1), of cfg user_id] by simp_all
  moreover have "starts_with ?p ?c" "strip_prefix ?p ?c = Some ?t"
    unfolding session_cookie_pair [OF assms(1)] starts_with_strip append_assoc [symmetric]
    by (simp_all only: strip_prefix_append) blast
  ultimately show ?thesis
    using validate_signed [OF assms, of "wb_unix_secs w" "wb_unix_secs w" "session_secret cfg"]
    by (simp add: validate_session_cookie_def)
qed

section \<open>An example world\<close>

text \<open>
  Concrete stand-ins for the crates, on which the hypotheses of the properties hold: base64 as
  two letters for a byte, the message after the key as its authentication code, and the bytes of
  a password as its hash.
\<close>

definition nibbles :: "bytes \<Rightarrow> rstring" where
  "nibbles bs = concat (map (\<lambda>b. [65 + unat b div 16, 65 + unat b mod 16]) bs)"

fun read_nibbles :: "rstring \<Rightarrow> bytes option" where
  "read_nibbles [] = Some []"
| "read_nibbles [x] = None"
| "read_nibbles (x # y # s) =
     map_option ((#) (word_of_nat (16 * (x - 65) + (y - 65)))) (read_nibbles s)"

definition example_web :: web_world where
  "example_web =
     \<lparr>wb_hmac_sha256 = (\<lambda>key msg. key @ msg), wb_b64_encode = nibbles, wb_b64_decode = read_nibbles,
      wb_hash_password = (\<lambda>pw. Some (nibbles pw)), wb_parse_hash = (\<lambda>h. read_nibbles h \<noteq> None),
      wb_verify_password = (\<lambda>pw h. read_nibbles h = Some pw), wb_md4 = take 16,
      wb_unix_secs = 1000\<rparr>"

definition example_config :: server_config where
  "example_config = server_config_default (\<lambda>_. None)"

lemma read_nibbles_nibbles [simp]: "read_nibbles (nibbles bs) = Some bs"
proof (induction bs)
  case (Cons b bs)
  have "16 * (unat b div 16) + unat b mod 16 = unat b" by simp
  then show ?case using Cons by (simp add: nibbles_def)
qed (simp add: nibbles_def)

lemma example_web_laws: "base64_law example_web" "argon2_law example_web"
proof -
  have letter: "n < 16 \<Longrightarrow> is_url_char (65 + n)" for n
    by (simp add: is_url_char_def is_digit_def)
  have "list_all is_url_char (nibbles bs)" for bs
  proof (induction bs)
    case (Cons b bs)
    have "unat b < 2 ^ LENGTH(8)" by (rule unsigned_less)
    then have "is_url_char (65 + unat b div 16)" "is_url_char (65 + unat b mod 16)"
      by (intro letter; simp)+
    then show ?case using Cons by (simp add: nibbles_def)
  qed (simp add: nibbles_def)
  then show "base64_law example_web" by (simp add: base64_law_def example_web_def)
  show "argon2_law example_web" by (simp add: argon2_law_def example_web_def)
qed

section \<open>Properties\<close>

text \<open>
  C22. The cookie a sign-in sets is accepted for the user it was made for, for
  24 hours and no longer, on any server with the same name, whatever other cookies the browser
  sends along, unless an earlier one of them has the same name.
\<close>

theorem web_cookie_roundtrip:
  assumes "base64_law w" and "- (2 ^ 63) \<le> user_id" and "user_id < 2 ^ 63"
    and "list_all (\<lambda>c. of_char CHR '';'' \<notin> set c) (before @ after)"
    and "list_all (\<lambda>c. \<not> starts_with (SESSION_COOKIE_NAME @ lit ''='') (trim c)) before"
    and "sc_server_name cfg' = sc_server_name cfg"
  shows "validate_session_cookie (w\<lparr>wb_unix_secs := now\<rparr>) cfg'
      (Some (cookie_header (before @ [cookie_pair (set_session_cookie w cfg user_id)] @ after)))
    = (if unat now - unat (wb_unix_secs w) \<le> SESSION_TTL_SECS then Some user_id else None)"
proof -
  let ?p = "SESSION_COOKIE_NAME @ lit ''=''" and ?c = "cookie_pair (set_session_cookie w cfg user_id)"
    and ?t = "sign_session w user_id (wb_unix_secs w) (session_secret cfg)"
  have pair: "?c = ?p @ ?t" by (simp add: session_cookie_pair assms(1))
  have "map trim (split_char (of_char CHR '';'') (cookie_header (before @ [?c] @ after)))
      = map trim before @ ?c # map trim after"
    using session_cookie_plain [OF assms(1), of cfg user_id] assms(4)
    by (subst cookie_header_split) auto
  moreover have "find (starts_with ?p) (map trim before) = None"
    using assms(5) by (auto simp: find_None_iff list_all_iff)
  moreover have "starts_with ?p ?c" "strip_prefix ?p ?c = Some ?t"
    unfolding pair starts_with_strip by (simp_all only: strip_prefix_append) blast
  ultimately show ?thesis
    using validate_signed [OF assms(1-3), of now "wb_unix_secs w" "session_secret cfg"] assms(6)
    by (simp add: validate_session_cookie_def find_append session_secret_def del: of_char_of)
qed

theorem web_cookie_roundtrip_witness:
  "validate_session_cookie (example_web\<lparr>wb_unix_secs := 5000\<rparr>) example_config
      (Some (cookie_header ([lit ''theme=dark'']
        @ [cookie_pair (set_session_cookie example_web example_config 7)] @ [lit ''lang=en'']))) = Some 7"
proof -
  have "validate_session_cookie (example_web\<lparr>wb_unix_secs := 5000\<rparr>) example_config
      (Some (cookie_header ([lit ''theme=dark'']
        @ [cookie_pair (set_session_cookie example_web example_config 7)] @ [lit ''lang=en''])))
    = (if unat (5000 :: u64) - unat (wb_unix_secs example_web) \<le> SESSION_TTL_SECS
       then Some 7 else None)"
    by (rule web_cookie_roundtrip [OF example_web_laws(1)])
      (simp_all add: lit_def starts_with_def SESSION_COOKIE_NAME_def trim_id is_whitespace_def)
  then show ?thesis by (simp add: example_web_def SESSION_TTL_SECS_def)
qed

text \<open>
  C11. As long as nobody without the secret can make the authentication code
  of a payload, a cookie that is accepted names a user for whom the server itself issued a token
  within the last 24 hours.
\<close>

theorem web_cookie_unforgeable:
  assumes "validate_session_cookie w cfg (Some cookies) = Some user_id"
    and unforged: "\<And>payload sig. SESSION_COOKIE_NAME @ lit ''='' @ payload @ lit ''.'' @ sig
        \<in> set (map trim (split_char (of_char CHR '';'') cookies)) \<Longrightarrow>
      wb_b64_decode w sig = Some (wb_hmac_sha256 w (session_secret cfg) (str_bytes payload)) \<Longrightarrow>
      \<exists>i t. (i, t) \<in> issued \<and> payload = session_payload i t"
    and "\<And>i t. (i, t) \<in> issued \<Longrightarrow> - (2 ^ 63) \<le> i \<and> i < 2 ^ 63"
  shows "\<exists>t. (user_id, t) \<in> issued \<and> unat (wb_unix_secs w) - unat t \<le> SESSION_TTL_SECS"
proof -
  obtain token where here: "SESSION_COOKIE_NAME @ lit ''='' @ token
        \<in> set (map trim (split_char (of_char CHR '';'') cookies))"
    and ok: "validate_session_token w token (session_secret cfg) = Some user_id"
    using assms(1) by (rule validate_session_cookie_Some)
  from ok obtain payload sig f0 f1 issued_at where token: "token = payload @ lit ''.'' @ sig"
    and mac: "wb_b64_decode w sig = Some (wb_hmac_sha256 w (session_secret cfg) (str_bytes payload))"
    and fields: "split_char 58 payload = [f0, f1]" and uid: "parse_i64 f0 = Some user_id"
    and at: "parse_u64 f1 = Some issued_at" "unat (wb_unix_secs w) - issued_at \<le> SESSION_TTL_SECS"
    by (rule validate_session_token_SomeE)
  obtain i t where it: "(i, t) \<in> issued" "payload = session_payload i t"
    using unforged [OF _ mac] here token by blast
  have "f0 = int_to_dec i" "f1 = dec_digits (unat t)"
    using fields it(2) by (simp_all add: payload_fields)
  then have "i = user_id" "unat t = issued_at"
    using uid at(1) assms(3) [OF it(1)] by (simp_all add: parse_payload_fields)
  then show ?thesis using it(1) at(2) by blast
qed

theorem web_cookie_unforgeable_witness:
  "\<exists>t. (1, t) \<in> {(1 :: int, 1000 :: u64)}
    \<and> validate_session_cookie (example_web) example_config
        (Some (cookie_pair (set_session_cookie example_web example_config 1))) = Some 1
    \<and> unat (wb_unix_secs example_web) - unat t \<le> SESSION_TTL_SECS"
proof -
  let ?c = "cookie_pair (set_session_cookie example_web example_config 1)"
    and ?p = "session_payload 1 1000" and ?s = "session_secret example_config"
  let ?sig = "nibbles (wb_hmac_sha256 example_web ?s (str_bytes ?p))"
  have pair: "?c = SESSION_COOKIE_NAME @ lit ''='' @ ?p @ lit ''.'' @ ?sig"
    unfolding session_cookie_pair [OF example_web_laws(1)]
    by (simp add: sign_session_def example_web_def Let_def)
  have one: "map trim (split_char (of_char CHR '';'') ?c) = [?c]"
    using session_cookie_plain [OF example_web_laws(1), of example_config 1] by simp
  have plain: "46 \<notin> set ?p" "46 \<notin> set ?sig"
  proof -
    have "(46 :: nat) \<notin> set (int_to_dec 1)" "(46 :: nat) \<notin> set (dec_digits (unat (1000 :: u64)))"
      by (rule int_to_dec_not dec_digits_not; simp add: is_digit_def)+
    then show "46 \<notin> set ?p" by (simp add: session_payload_def lit_def)
    have "list_all is_url_char (wb_b64_encode example_web bs)" for bs
      using example_web_laws(1) by (simp add: base64_law_def)
    then show "46 \<notin> set ?sig"
      using url_char_dot [of ?sig] by (simp add: example_web_def)
  qed
  have ok: "validate_session_cookie example_web example_config (Some ?c) = Some 1"
    using web_cookie_accepted [OF example_web_laws(1), of 1 example_config] by simp
  have unforged: "\<exists>i t. (i, t) \<in> {(1 :: int, 1000 :: u64)} \<and> payload = session_payload i t"
    if member: "SESSION_COOKIE_NAME @ lit ''='' @ payload @ lit ''.'' @ sig
        \<in> set (map trim (split_char (of_char CHR '';'') ?c))" for payload sig
  proof -
    have "payload @ 46 # sig = ?p @ 46 # ?sig"
      using member unfolding one unfolding pair by (simp add: lit_def)
    then have "payload = ?p"
      using append_Cons_eq_iff [OF plain, of payload sig] by metis
    then show ?thesis by simp
  qed
  have "\<exists>t. (1, t) \<in> {(1 :: int, 1000 :: u64)} \<and> unat (wb_unix_secs example_web) - unat t \<le> SESSION_TTL_SECS"
    by (rule web_cookie_unforgeable [OF ok]) (use unforged in auto)
  with ok show ?thesis by simp
qed
text \<open>
  C25. A sign-up that succeeds takes a name that no account answered to, in any
  case, stores the NT hash with which the account signs in to the gateway too, and from then on
  the same password signs in under that name in any case and with any surrounding blanks; a
  sign-up that does not succeed leaves the database alone and sets no cookie.
\<close>

theorem signup_then_signin:
  assumes "argon2_law w" and "signup w cfg db req = (db', status, cookie, body)"
    and "eq_ignore_ascii_case (trim name) (trim (aq_username req))"
  shows "if status = 201
    then \<exists>u. lookup_user db (trim (aq_username req)) = None
      \<and> lookup_user db' (trim name) = Some u \<and> u_enabled u
      \<and> u_nt_hash u = compute_nt_hash (wb_md4 w) (aq_password req)
      \<and> cookie = set_session_cookie w cfg (u_id u)
      \<and> signin (w\<lparr>wb_unix_secs := now\<rparr>) cfg db' \<lparr>aq_username = name, aq_password = aq_password req\<rparr>
        = (200, set_session_cookie (w\<lparr>wb_unix_secs := now\<rparr>) cfg (u_id u), user_json u)
    else db' = db \<and> cookie = []"
proof (cases rule: signup_cases [of w cfg db req])
  case (refused s m)
  then show ?thesis using assms(2) by (auto simp: error_reply_def)
next
  case (created h u d)
  have u: "lookup_user db' (trim name) = Some u \<and> u_enabled u
      \<and> u_nt_hash u = compute_nt_hash (wb_md4 w) (aq_password req)
      \<and> u_username u = trim (aq_username req) \<and> u_password_hash u = Some h"
    using created_user [OF created(1,4) assms(3)] created(5) assms(2) by simp
  moreover have "wb_parse_hash w h" "wb_verify_password w (str_bytes (aq_password req)) h"
    using assms(1) created(3) by (auto simp: argon2_law_def)
  ultimately have "signin (w\<lparr>wb_unix_secs := now\<rparr>) cfg db'
      \<lparr>aq_username = name, aq_password = aq_password req\<rparr>
    = (200, set_session_cookie (w\<lparr>wb_unix_secs := now\<rparr>) cfg (u_id u), user_json u)"
    by (simp add: signin_def lookup_user_Ok Let_def)
  then show ?thesis using u created assms(2) by auto
qed

definition example_request :: auth_request where
  "example_request = \<lparr>aq_username = lit ''Ann'', aq_password = lit ''secret''\<rparr>"

definition example_db :: database where
  "example_db = fst (signup example_web example_config database_empty example_request)"

lemma example_trims: "trim (lit '' ANN '') = lit ''ANN''" "trim (lit ''Ann'') = lit ''Ann''"
  by (simp_all add: trim_def trim_start_def trim_end_def lit_def is_whitespace_def)

lemma example_created:
  "create_user_with_password database_empty (lit ''Ann'') nt h
    = (database_empty\<lparr>db_users := \<lparr>tb_rows = [\<lparr>u_id = 1, u_username = lit ''Ann'', u_nt_hash = nt,
          u_enabled = True, u_password_hash = Some h\<rparr>], tb_seq = 1\<rparr>\<rparr>,
       Ok \<lparr>u_id = 1, u_username = lit ''Ann'', u_nt_hash = nt, u_enabled = True,
          u_password_hash = Some h\<rparr>)"
  by (simp add: create_user_with_password_def insert_user_eq Let_def database_empty_def
      table_empty_def) (simp add: table_insert_def Let_def)

lemma example_signup: "signup example_web example_config database_empty example_request
    = (example_db, 201, set_session_cookie example_web example_config 1,
       JObject [(lit ''id'', JNumber 1), (lit ''username'', JString (lit ''Ann''))])"
proof -
  have "\<not> str_len (lit ''secret'') < 4" "lit ''Ann'' \<noteq> []"
    by (simp_all add: str_len_def str_bytes_def utf8_char_def lit_def)
  moreover have "lookup_user database_empty (lit ''Ann'') = None"
    by (simp add: lookup_user_eq database_empty_def table_empty_def)
  ultimately show ?thesis
    by (simp add: example_db_def signup_def example_request_def example_trims lookup_user_Ok
        example_web_def example_created user_json_def Let_def)
qed

lemma example_user_found: "\<exists>u. tb_rows (db_users example_db) = [u] \<and> u_id u = 1
    \<and> u_username u = lit ''Ann'' \<and> u_enabled u"
proof (cases rule: signup_cases [of example_web example_config database_empty example_request])
  case (refused status msg)
  then show ?thesis using example_signup by (simp add: error_reply_def)
next
  case (created h u db')
  then have e: "example_db = db'" using example_signup by simp
  have "db' = database_empty\<lparr>db_users := \<lparr>tb_rows = [u], tb_seq = 1\<rparr>\<rparr>"
    and u: "u_id u = 1 \<and> u_username u = lit ''Ann'' \<and> u_enabled u"
    using created(4) by (auto simp: example_request_def example_trims example_created)
  then have "tb_rows (db_users example_db) = [u]" unfolding e by simp
  with u show ?thesis by blast
qed

theorem signup_then_signin_witness:
  "\<exists>u. lookup_user example_db (lit ''ANN'') = Some u
    \<and> signin (example_web\<lparr>wb_unix_secs := 9\<rparr>) example_config example_db
        \<lparr>aq_username = lit '' ANN '', aq_password = lit ''secret''\<rparr>
      = (200, set_session_cookie (example_web\<lparr>wb_unix_secs := 9\<rparr>) example_config (u_id u), user_json u)"
proof -
  have "eq_ignore_ascii_case (trim (lit '' ANN '')) (trim (aq_username example_request))"
    unfolding example_request_def auth_request.simps example_trims
    by (simp add: eq_ignore_ascii_case_def to_ascii_lowercase_def ascii_lower_def lit_def)
  from signup_then_signin [OF example_web_laws(2) example_signup this, of 9] show ?thesis
    by (auto simp: example_trims example_request_def)
qed

text \<open>
  Switching an account off stops its sign-in, but the cookie it already
  has goes on working: the portal answers it as before until the token expires.
\<close>

theorem disabled_keeps_session:
  assumes "lookup_user db (trim (aq_username req)) = Some u" and "me w cfg db cookies = (200, body)"
  shows "signin w cfg (fst (set_user_enabled db (u_id u) False)) req = error_reply 403 ''Account disabled''
    \<and> me w cfg (fst (set_user_enabled db (u_id u) False)) cookies = (200, body)"
proof -
  let ?db = "fst (set_user_enabled db (u_id u) False)"
  have "lookup_user ?db (trim (aq_username req)) = Some (u\<lparr>u_enabled := False\<rparr>)"
    using users.lookup_enable [of db "u_id u" False "trim (aq_username req)"] assms(1) by simp
  then have "signin w cfg ?db req = error_reply 403 ''Account disabled''"
    by (simp add: signin_def lookup_user_Ok Let_def)
  moreover have "find (\<lambda>x. u_id x = i) (tb_rows (db_users ?db)) = map_option
      (\<lambda>x. if u_id x = u_id u then x\<lparr>u_enabled := False\<rparr> else x)
      (find (\<lambda>x. u_id x = i) (tb_rows (db_users db)))" for i
    by (simp add: set_user_enabled_def table_update_def find_map_update)
  then have "me w cfg ?db cookies = (200, body)"
    using assms(2)
    by (auto simp: me_def list_users_def user_json_def split: option.splits)
  ultimately show ?thesis by blast
qed

theorem disabled_keeps_session_witness:
  "me example_web example_config (fst (set_user_enabled example_db 1 False))
      (Some (cookie_pair (set_session_cookie example_web example_config 1)))
    = (200, JObject [(lit ''id'', JNumber 1), (lit ''username'', JString (lit ''Ann''))])"
proof -
  obtain u where u: "tb_rows (db_users example_db) = [u]" "u_id u = 1" "u_username u = lit ''Ann''"
    using example_user_found by blast
  let ?cookies = "Some (cookie_pair (set_session_cookie example_web example_config 1))"
  have "validate_session_cookie (example_web\<lparr>wb_unix_secs := wb_unix_secs example_web\<rparr>)
      example_config ?cookies = Some 1"
    using web_cookie_accepted [of example_web 1 example_config] example_web_laws(1) by simp
  then have "me example_web example_config example_db ?cookies
      = (200, JObject [(lit ''id'', JNumber 1), (lit ''username'', JString (lit ''Ann''))])"
    using u by (simp add: me_def list_users_def user_json_def)
  moreover have "lookup_user example_db (trim (aq_username example_request)) = Some u"
    using u by (simp add: lookup_user_eq example_request_def example_trims eq_ignore_ascii_case_def)
  ultimately show ?thesis using disabled_keeps_session u(2) by metis
qed

end
