(* ===== verification/Web_Ui.thy ===== *)
theory Web_Ui
  imports Web_Auth
begin

text \<open>
  \<open>crates/rdg-server/src/handlers/webui.rs\<close> and \<open>health.rs\<close>: the portal's operations on stored
  connections, the \<open>.rdp\<close> file of a connection and the embedded files. A request carries the
  \<open>Cookie\<close> header; the framework has parsed path and body. \<open>header_ok\<close> is what the HTTP library
  accepts as the bytes of a header value, \<open>assets\<close> the files embedded at build time and
  \<open>mime_of\<close> the MIME guess.
\<close>

section \<open>Requests and replies\<close>

record connection_input =
  ni_name :: rstring
  ni_host :: rstring
  ni_port :: "int option"
  ni_description :: "rstring option"
  ni_icon :: "rstring option"

datatype request =
    ListConnections | CreateConn connection_input | GetConn int
  | UpdateConn int connection_input | DeleteConn int | DownloadRdp int

datatype reply =
    Status nat
  | Connections "connection list"
  | ConnectionBody nat connection
  | RdpFile rstring rstring

text \<open>\<open>Err s\<close> is the bare status \<open>s\<close>; \<open>Panic\<close> a panic of the handler.\<close>

type_synonym web_result = "(nat, reply) outcome"

section \<open>Handlers\<close>

definition check_session ::
  "web_world \<Rightarrow> server_config \<Rightarrow> rstring option \<Rightarrow> (nat, int) outcome" where
  "check_session w cfg cookies = ok_or 401 (validate_session_cookie w cfg cookies)"

definition db_status :: "(db_error, 'a) outcome \<Rightarrow> (nat, 'a) outcome" where
  "db_status r = map_err (\<lambda>_. 500) r"

definition webui_list ::
  "web_world \<Rightarrow> server_config \<Rightarrow> database \<Rightarrow> rstring option \<Rightarrow> web_result" where
  "webui_list w cfg db cookies =
     rbind (check_session w cfg cookies) (\<lambda>_.
     map_ok Connections (db_status (list_connections db)))"

definition webui_create ::
  "rstring \<Rightarrow> web_world \<Rightarrow> server_config \<Rightarrow> database \<Rightarrow> rstring option \<Rightarrow> connection_input
    \<Rightarrow> database \<times> web_result" where
  "webui_create now w cfg db cookies inp =
     (case check_session w cfg cookies of
        Ok _ \<Rightarrow>
          let (db', r) = create_connection now db (ni_name inp) (ni_host inp)
                (unwrap_or 3389 (ni_port inp)) (ni_description inp)
                (unwrap_or (lit ''Desktop'') (ni_icon inp))
          in (db', map_ok (ConnectionBody 201) (db_status r))
      | Err s \<Rightarrow> (db, Err s)
      | Panic \<Rightarrow> (db, Panic))"

definition webui_get ::
  "web_world \<Rightarrow> server_config \<Rightarrow> database \<Rightarrow> rstring option \<Rightarrow> int \<Rightarrow> web_result" where
  "webui_get w cfg db cookies i =
     rbind (check_session w cfg cookies) (\<lambda>_.
     rbind (db_status (get_connection db i)) (\<lambda>found.
     map_ok (ConnectionBody 200) (ok_or 404 found)))"

definition webui_update ::
  "rstring \<Rightarrow> web_world \<Rightarrow> server_config \<Rightarrow> database \<Rightarrow> rstring option \<Rightarrow> int \<Rightarrow> connection_input
    \<Rightarrow> database \<times> web_result" where
  "webui_update now w cfg db cookies i inp =
     (case check_session w cfg cookies of
        Ok _ \<Rightarrow>
          let (db', r) = update_connection now db i (ni_name inp) (ni_host inp)
                (unwrap_or 3389 (ni_port inp)) (ni_description inp)
                (unwrap_or (lit ''Desktop'') (ni_icon inp))
          in (db', map_ok (\<lambda>_. Status 204) (db_status r))
      | Err s \<Rightarrow> (db, Err s)
      | Panic \<Rightarrow> (db, Panic))"

definition webui_delete ::
  "web_world \<Rightarrow> server_config \<Rightarrow> database \<Rightarrow> rstring option \<Rightarrow> int \<Rightarrow> database \<times> web_result" where
  "webui_delete w cfg db cookies i =
     (case check_session w cfg cookies of
        Ok _ \<Rightarrow>
          let (db', r) = delete_connection db i
          in (db', map_ok (\<lambda>_. Status 204) (db_status r))
      | Err s \<Rightarrow> (db, Err s)
      | Panic \<Rightarrow> (db, Panic))"

definition crlf :: rstring where
  "crlf = [13, 10]"

definition gateway_host :: "server_config \<Rightarrow> rstring" where
  "gateway_host cfg =
     (case wc_gateway_url (sc_webui cfg) of
        Some url \<Rightarrow> url
      | None \<Rightarrow> sc_server_name cfg @ lit '':'' @ dec_digits (unat (sc_listen_port cfg)))"

definition rdp_content :: "rstring \<Rightarrow> connection \<Rightarrow> rstring" where
  "rdp_content gateway conn =
     lit ''full address:s:'' @ cn_host conn @ lit '':'' @ int_to_dec (cn_port conn) @ crlf
     @ lit ''server port:i:'' @ int_to_dec (cn_port conn) @ crlf
     @ lit ''use redirection server name:i:1'' @ crlf
     @ lit ''alternate full address:s:'' @ cn_host conn @ crlf
     @ lit ''gatewayhostname:s:'' @ gateway @ crlf
     @ lit ''gatewayusagemethod:i:1'' @ crlf
     @ lit ''gatewayprofileusagemethod:i:1'' @ crlf
     @ lit ''gatewayaccesstoken:s:'' @ crlf
     @ lit ''gatewaybrokeringtype:i:0'' @ crlf
     @ lit ''prompt for credentials:i:1'' @ crlf
     @ lit ''authentication level:i:2'' @ crlf"

definition content_disposition :: "connection \<Rightarrow> rstring" where
  "content_disposition conn =
     lit ''attachment; filename='' @ [34] @ replace_char 32 95 (cn_name conn) @ lit ''.rdp'' @ [34]"

definition download_rdp ::
  "(bytes \<Rightarrow> bool) \<Rightarrow> web_world \<Rightarrow> server_config \<Rightarrow> database \<Rightarrow> rstring option \<Rightarrow> int
    \<Rightarrow> web_result" where
  "download_rdp header_ok w cfg db cookies i =
     rbind (check_session w cfg cookies) (\<lambda>_.
     rbind (db_status (get_connection db i)) (\<lambda>found.
     rbind (ok_or 404 found) (\<lambda>conn.
     if header_ok (str_bytes (content_disposition conn))
     then Ok (RdpFile (content_disposition conn) (rdp_content (gateway_host cfg) conn))
     else Panic)))"

definition webui_request ::
  "rstring \<Rightarrow> (bytes \<Rightarrow> bool) \<Rightarrow> web_world \<Rightarrow> server_config \<Rightarrow> database \<Rightarrow> rstring option \<Rightarrow> request
    \<Rightarrow> database \<times> web_result" where
  "webui_request now header_ok w cfg db cookies req =
     (case req of
        ListConnections \<Rightarrow> (db, webui_list w cfg db cookies)
      | CreateConn inp \<Rightarrow> webui_create now w cfg db cookies inp
      | GetConn i \<Rightarrow> (db, webui_get w cfg db cookies i)
      | UpdateConn i inp \<Rightarrow> webui_update now w cfg db cookies i inp
      | DeleteConn i \<Rightarrow> webui_delete w cfg db cookies i
      | DownloadRdp i \<Rightarrow> (db, download_rdp header_ok w cfg db cookies i))"

section \<open>Embedded files and the health check\<close>

record file_reply =
  fr_status :: nat
  fr_content_type :: "rstring option"
  fr_cache_control :: "rstring option"
  fr_body :: bytes

definition serve_embedded_file ::
  "(rstring \<Rightarrow> bytes option) \<Rightarrow> (rstring \<Rightarrow> rstring) \<Rightarrow> rstring \<Rightarrow> file_reply" where
  "serve_embedded_file assets mime_of path =
     (case assets path of
        Some data \<Rightarrow>
          \<lparr>fr_status = 200, fr_content_type = Some (mime_of path),
           fr_cache_control = Some (lit ''public, max-age=3600''), fr_body = data\<rparr>
      | None \<Rightarrow>
          \<lparr>fr_status = 404, fr_content_type = None, fr_cache_control = None,
           fr_body = str_bytes (lit ''Not found'')\<rparr>)"

definition serve_portal_index ::
  "(rstring \<Rightarrow> bytes option) \<Rightarrow> (rstring \<Rightarrow> rstring) \<Rightarrow> file_reply" where
  "serve_portal_index assets mime_of = serve_embedded_file assets mime_of (lit ''index.html'')"

definition serve_portal ::
  "(rstring \<Rightarrow> bytes option) \<Rightarrow> (rstring \<Rightarrow> rstring) \<Rightarrow> rstring \<Rightarrow> file_reply" where
  "serve_portal assets mime_of path =
     (let file_path = dropWhile (\<lambda>c. c = 47) path
      in if assets file_path \<noteq> None then serve_embedded_file assets mime_of file_path
         else serve_embedded_file assets mime_of (lit ''index.html''))"

definition health_check :: json where
  "health_check = JObject [(lit ''status'', JString (lit ''ok'')),
     (lit ''service'', JString (lit ''rdg-gateway''))]"

section \<open>The guard\<close>

text \<open>
  \<open>guarded\<close> is the contract of the session check: a handler that refuses a request without
  touching the state. What a sequence of requests does is then as if the refused ones had not
  been made.
\<close>

fun serve_all :: "('s \<Rightarrow> 'h \<Rightarrow> 'q \<Rightarrow> 's \<times> 'r) \<Rightarrow> 's \<Rightarrow> ('h \<times> 'q) list \<Rightarrow> 's \<times> ('h \<times> 'r) list" where
  "serve_all handle s [] = (s, [])"
| "serve_all handle s ((h, q) # rs) =
     (let (s', r) = handle s h q; (s'', out) = serve_all handle s' rs in (s'', (h, r) # out))"

locale guarded =
  fixes authorised :: "'h \<Rightarrow> bool"
    and handle :: "'s \<Rightarrow> 'h \<Rightarrow> 'q \<Rightarrow> 's \<times> 'r"
    and refusal :: 'r
  assumes refuse: "\<not> authorised h \<Longrightarrow> handle s h q = (s, refusal)"
begin

lemma refused_invisible:
  "serve_all handle s (filter (\<lambda>p. authorised (fst p)) reqs)
    = (fst (serve_all handle s reqs), filter (\<lambda>p. authorised (fst p)) (snd (serve_all handle s reqs)))"
  by (induction reqs arbitrary: s) (auto simp: Let_def split_beta refuse)

lemma refused_answers:
  "list_all (\<lambda>p. authorised (fst p) \<or> snd p = refusal) (snd (serve_all handle s reqs))"
  by (induction reqs arbitrary: s) (auto simp: Let_def split_beta, metis refuse snd_conv)

lemma all_refused: "list_all (\<lambda>p. \<not> authorised (fst p)) reqs \<Longrightarrow> fst (serve_all handle s reqs) = s"
  by (induction reqs arbitrary: s) (auto simp: Let_def split_beta refuse)

end

text \<open>A request as it comes in: the database's and the system's clock, and the cookies sent.\<close>

record visit =
  vi_timestamp :: rstring
  vi_unix_secs :: u64
  vi_cookies :: "rstring option"

definition signed_in :: "web_world \<Rightarrow> server_config \<Rightarrow> visit \<Rightarrow> bool" where
  "signed_in w cfg v \<longleftrightarrow>
     validate_session_cookie (w\<lparr>wb_unix_secs := vi_unix_secs v\<rparr>) cfg (vi_cookies v) \<noteq> None"

definition webui_handle ::
  "(bytes \<Rightarrow> bool) \<Rightarrow> web_world \<Rightarrow> server_config \<Rightarrow> database \<Rightarrow> visit \<Rightarrow> request
    \<Rightarrow> database \<times> web_result" where
  "webui_handle header_ok w cfg db v req =
     webui_request (vi_timestamp v) header_ok (w\<lparr>wb_unix_secs := vi_unix_secs v\<rparr>) cfg db
       (vi_cookies v) req"

lemma check_session_cases:
  "check_session w cfg cookies
    = (case validate_session_cookie w cfg cookies of None \<Rightarrow> Err 401 | Some i \<Rightarrow> Ok i)"
  by (simp add: check_session_def split: option.split)

lemmas webui_defs = webui_list_def webui_create_def webui_get_def webui_update_def
  webui_delete_def download_rdp_def

interpretation portal: guarded "signed_in w cfg" "webui_handle header_ok w cfg" "Err 401"
  for w cfg header_ok
  by unfold_locales
    (auto simp: signed_in_def webui_handle_def webui_request_def webui_defs check_session_cases
      split: request.splits)

section \<open>Facts about the handlers\<close>

lemma webui_get_eq:
  "check_session w cfg cookies = Ok u \<Longrightarrow> webui_get w cfg db cookies i =
    (case find_connection db i of None \<Rightarrow> Err 404 | Some c \<Rightarrow> Ok (ConnectionBody 200 c))"
  by (simp add: webui_get_def db_status_def get_connection_def find_connection_def split: option.split)

lemma webui_create_eq:
  "check_session w cfg cookies = Ok u \<Longrightarrow> webui_create now w cfg db cookies inp =
    (let c = \<lparr>cn_id = tb_seq (db_connections db) + 1, cn_name = ni_name inp, cn_host = ni_host inp,
          cn_port = unwrap_or 3389 (ni_port inp), cn_description = ni_description inp,
          cn_icon = unwrap_or (lit ''Desktop'') (ni_icon inp), cn_created_at = [], cn_updated_at = []\<rparr>
     in (fst (the (add_connection now db c)), Ok (ConnectionBody 201 c)))"
  by (simp add: webui_create_def create_connection_def db_status_def Let_def split_beta
      add_connection_eq)

text \<open>The row a connection input is stored as.\<close>

definition stored_connection :: "rstring \<Rightarrow> connection_input \<Rightarrow> int \<Rightarrow> connection" where
  "stored_connection now inp i =
     \<lparr>cn_id = i, cn_name = ni_name inp, cn_host = ni_host inp,
      cn_port = unwrap_or 3389 (ni_port inp), cn_description = ni_description inp,
      cn_icon = unwrap_or (lit ''Desktop'') (ni_icon inp), cn_created_at = now, cn_updated_at = now\<rparr>"

lemma webui_create_stores:
  assumes "check_session w cfg cookies = Ok u"
    and "webui_create now w cfg db cookies inp = (db', Ok (ConnectionBody 201 c))"
  obtains r where "add_connection now db r = Some (db', cn_id c)"
    and "(\<lambda>i. r\<lparr>cn_id := i, cn_created_at := now, cn_updated_at := now\<rparr>) = stored_connection now inp"
proof
  show "add_connection now db c = Some (db', cn_id c)"
    and "(\<lambda>i. c\<lparr>cn_id := i, cn_created_at := now, cn_updated_at := now\<rparr>) = stored_connection now inp"
    using assms(2)
    by (auto simp: webui_create_eq [OF assms(1)] Let_def add_connection_eq stored_connection_def fun_eq_iff)
qed

lemma webui_delete_eq:
  "check_session w cfg cookies = Ok u \<Longrightarrow>
    webui_delete w cfg db cookies i = (fst (delete_connection db i), Ok (Status 204))"
  by (simp add: webui_delete_def delete_connection_def db_status_def)

lemma str_bytes_ascii: "c \<in> set s \<Longrightarrow> c < 0x80 \<Longrightarrow> word_of_nat c \<in> set (str_bytes s)"
  by (force simp: str_bytes_def utf8_char_def)

section \<open>Properties\<close>

text \<open>
  C12. No operation of the portal reads or changes a connection for a request
  without a valid session cookie: over any sequence of requests such a request is answered 401,
  and the database and every other answer are what they would be without it.
\<close>

theorem webui_noninterference:
  "let handle = webui_handle header_ok w cfg; out = serve_all handle db reqs
   in serve_all handle db (filter (\<lambda>p. signed_in w cfg (fst p)) reqs)
        = (fst out, filter (\<lambda>p. signed_in w cfg (fst p)) (snd out))
      \<and> list_all (\<lambda>p. signed_in w cfg (fst p) \<or> snd p = Err 401) (snd out)"
  by (simp add: portal.refused_invisible portal.refused_answers)

text \<open>
  A connection that is created under the answer 201 gets an id that was not in use
  and is what a request for that id finds, with the port 3389 and the icon \<open>Desktop\<close> where the
  input names none; every other connection stays as it was, and deleting it again gives back the
  connections there were before.
\<close>

theorem webui_crud:
  assumes "db_inv db" and "check_session w cfg cookies = Ok u"
    and "webui_create now w cfg db cookies inp = (db', Ok (ConnectionBody 201 c))"
  shows "webui_get w cfg db cookies (cn_id c) = Err 404
    \<and> webui_get w cfg db' cookies j =
      (if j = cn_id c then Ok (ConnectionBody 200 (stored_connection now inp j))
       else webui_get w cfg db cookies j)
    \<and> webui_get w cfg (fst (webui_delete w cfg db' cookies (cn_id c))) cookies j
      = webui_get w cfg db cookies j"
proof -
  have ok: "table_ok cn_id (db_connections db)" using assms(1) by (simp add: db_inv_def)
  obtain r where add: "add_connection now db r = Some (db', cn_id c)"
    and r: "(\<lambda>i. r\<lparr>cn_id := i, cn_created_at := now, cn_updated_at := now\<rparr>) = stored_connection now inp"
    using assms(2,3) by (rule webui_create_stores)
  show ?thesis
    using conns.fresh [OF ok add] conns.get_add [OF ok add, of j] conns.add_then_del [OF ok add, of j]
    by (simp add: webui_get_eq [OF assms(2)] webui_delete_eq [OF assms(2)] r [THEN fun_cong])
qed

theorem webui_crud_witness:
  "webui_get example_web example_config database_empty
      (Some (cookie_pair (set_session_cookie example_web example_config 1))) 1 = Err 404"
proof -
  let ?k = "Some (cookie_pair (set_session_cookie example_web example_config 1))"
    and ?inp = "\<lparr>ni_name = lit ''pc'', ni_host = lit ''10.0.0.5'', ni_port = None,
      ni_description = None, ni_icon = None\<rparr>"
  have s: "check_session example_web example_config ?k = Ok 1"
    using web_cookie_accepted [of example_web 1 example_config] example_web_laws(1)
    by (simp add: check_session_cases)
  obtain db' and c :: connection where c: "webui_create (lit ''now'') example_web example_config database_empty ?k ?inp
      = (db', Ok (ConnectionBody 201 c))" and "cn_id c = 1"
    by (simp add: webui_create_eq [OF s] Let_def database_empty_def table_empty_def)
  then show ?thesis using webui_crud [OF db_inv_empty s c, of 1] by simp
qed

text \<open>
  The name of a connection is not checked when it is stored, and the
  download of its \<open>.rdp\<close> file puts it into a header: after a signed-in user has stored a name with
  a line feed, every download of that connection panics instead of being answered.
\<close>

theorem rdp_download_panics:
  assumes "db_inv db" and "check_session w cfg cookies = Ok u"
    and "webui_create now w cfg db cookies inp = (db', Ok (ConnectionBody 201 c))"
    and "10 \<in> set (ni_name inp)" and "\<And>bs. 10 \<in> set bs \<Longrightarrow> \<not> header_ok bs"
  shows "download_rdp header_ok w cfg db' cookies (cn_id c) = Panic"
proof -
  have "table_ok cn_id (db_connections db)" using assms(1) by (simp add: db_inv_def)
  moreover obtain r where "add_connection now db r = Some (db', cn_id c)"
    and r: "(\<lambda>i. r\<lparr>cn_id := i, cn_created_at := now, cn_updated_at := now\<rparr>) = stored_connection now inp"
    using assms(2,3) by (rule webui_create_stores)
  ultimately have "find_connection db' (cn_id c) = Some (stored_connection now inp (cn_id c))"
    by (simp add: conns.get_add r [THEN fun_cong])
  then obtain conn where "get_connection db' (cn_id c) = Ok (Some conn)" "cn_name conn = ni_name inp"
    by (auto simp: find_connection_def get_connection_def stored_connection_def)
  moreover from this(2) have "10 \<in> set (str_bytes (content_disposition conn))"
    using assms(4) str_bytes_ascii [of 10 "content_disposition conn"]
    by (force simp: content_disposition_def replace_char_def)
  ultimately show ?thesis
    using assms(2,5) by (simp add: download_rdp_def db_status_def)
qed

theorem rdp_download_panics_witness:
  "\<exists>db (c :: connection). download_rdp (\<lambda>bs. 10 \<notin> set bs) example_web example_config db
      (Some (cookie_pair (set_session_cookie example_web example_config 1))) (cn_id c) = Panic
    \<and> find_connection db (cn_id c) \<noteq> None"
proof -
  let ?k = "Some (cookie_pair (set_session_cookie example_web example_config 1))"
    and ?inp = "\<lparr>ni_name = [65, 10, 66], ni_host = lit ''10.0.0.5'', ni_port = None,
      ni_description = None, ni_icon = None\<rparr>"
  have s: "check_session example_web example_config ?k = Ok 1"
    using web_cookie_accepted [of example_web 1 example_config] example_web_laws(1)
    by (simp add: check_session_cases)
  obtain db' and c :: connection where c: "webui_create (lit ''now'') example_web example_config database_empty ?k ?inp
      = (db', Ok (ConnectionBody 201 c))"
    by (simp add: webui_create_eq [OF s] Let_def)
  have "table_ok cn_id (db_connections database_empty)" using db_inv_empty by (simp add: db_inv_def)
  moreover obtain r where "add_connection (lit ''now'') database_empty r = Some (db', cn_id c)"
    using s c by (rule webui_create_stores)
  ultimately have "find_connection db' (cn_id c) \<noteq> None" by (simp add: conns.get_add)
  moreover have "download_rdp (\<lambda>bs. 10 \<notin> set bs) example_web example_config db' ?k (cn_id c) = Panic"
    by (rule rdp_download_panics [OF db_inv_empty s c]) simp_all
  ultimately show ?thesis by blast
qed

end
