(* ===== verification/Guacamole.thy ===== *)
theory Guacamole
  imports Web_Auth "HOL-Library.Sublist"
begin

text \<open>
  \<open>crates/rdg-server/src/handlers/guacamole.rs\<close>: the WebSocket endpoint of the browser client,
  the instructions sent to \<open>guacd\<close> and the two tasks that carry lines and messages between them.
  The network is a parameter: what \<open>guacd\<close> answers, and whether each write succeeds.
\<close>

section \<open>Instructions\<close>

record guac_connect_params =
  gq_host :: rstring
  gq_port :: "u16 option"
  gq_username :: "rstring option"
  gq_password :: "rstring option"
  gq_domain :: "rstring option"
  gq_width :: "u32 option"
  gq_height :: "u32 option"
  gq_dpi :: "u32 option"
  gq_security :: rstring
  gq_ignore_cert :: bool

definition default_security :: rstring where
  "default_security = lit ''any''"

text \<open>\<open>value.len()\<close> counts the bytes of the UTF-8 text.\<close>

definition encode_guac_arg :: "rstring \<Rightarrow> rstring" where
  "encode_guac_arg value = dec_digits (str_len value) @ lit ''.'' @ value"

definition build_connect_instruction ::
  "guac_connect_params \<Rightarrow> u16 \<Rightarrow> u32 \<Rightarrow> u32 \<Rightarrow> u32 \<Rightarrow> rstring" where
  "build_connect_instruction params port width height dpi =
     lit ''7.connect,'' @ encode_guac_arg (gq_host params) @ lit '',''
     @ encode_guac_arg (dec_digits (unat port)) @ lit '',''
     @ encode_guac_arg (unwrap_or [] (gq_domain params)) @ lit '',''
     @ encode_guac_arg (unwrap_or [] (gq_username params)) @ lit '',''
     @ encode_guac_arg (unwrap_or [] (gq_password params)) @ lit '',''
     @ encode_guac_arg (dec_digits (unat width)) @ lit '',''
     @ encode_guac_arg (dec_digits (unat height)) @ lit '',''
     @ encode_guac_arg (dec_digits (unat dpi)) @ lit '',''
     @ encode_guac_arg (gq_security params) @ lit '',''
     @ encode_guac_arg (if gq_ignore_cert params then lit ''true'' else []) @ lit '';'' @ [10]"

definition cannot_connect :: "rstring \<Rightarrow> rstring" where
  "cannot_connect addr = lit ''Cannot connect to guacd at '' @ addr @ lit '' - is it running?''"

definition connect_error :: "rstring \<Rightarrow> rstring" where
  "connect_error addr =
     lit ''5.error,'' @ dec_digits (str_len (cannot_connect addr)) @ lit ''.''
     @ cannot_connect addr @ lit '',3.519;''"

section \<open>The endpoint\<close>

datatype guac_reply = GuacStatus nat | GuacUpgrade rstring guac_connect_params

definition guac_ws_handler ::
  "web_world \<Rightarrow> server_config \<Rightarrow> rstring option \<Rightarrow> guac_connect_params \<Rightarrow> guac_reply" where
  "guac_ws_handler w cfg cookies params =
     (if validate_session_cookie w cfg cookies = None then GuacStatus 401
      else if \<not> gc_enabled (sc_guacamole cfg) then GuacStatus 503
      else GuacUpgrade (gc_guacd_host (sc_guacamole cfg) @ lit '':''
             @ dec_digits (unat (gc_guacd_port (sc_guacamole cfg)))) params)"

text \<open>
  What \<open>guacd\<close> does during the handshake: whether the connection is accepted, whether the two
  writes succeed, the lines read (\<open>None\<close> for an error, the empty line at the end of the stream),
  and whether the browser takes the \<open>ready\<close> message.
\<close>

record guacd_peer =
  gp_connects :: bool
  gp_select_ok :: bool
  gp_args :: "rstring option"
  gp_connect_ok :: bool
  gp_ready :: "rstring option"
  gp_browser_ok :: bool

datatype browser_message = TextMsg rstring | CloseMsg

record guac_opening =
  go_guacd :: "rstring list"
  go_browser :: "browser_message list"
  go_relay :: bool

definition guac_open ::
  "rstring \<Rightarrow> guac_connect_params \<Rightarrow> guacd_peer \<Rightarrow> guac_opening" where
  "guac_open addr params peer =
     (if \<not> gp_connects peer
      then \<lparr>go_guacd = [], go_browser = [TextMsg (connect_error addr), CloseMsg], go_relay = False\<rparr>
      else
        let rdp_port = unwrap_or 3389 (gq_port params);
            width = unwrap_or 1024 (gq_width params);
            height = unwrap_or 768 (gq_height params);
            dpi = unwrap_or 96 (gq_dpi params);
            select_instruction = lit ''6.select,3.rdp;''
        in if \<not> gp_select_ok peer
           then \<lparr>go_guacd = [], go_browser = [], go_relay = False\<rparr>
           else if gp_args peer = None
           then \<lparr>go_guacd = [select_instruction], go_browser = [], go_relay = False\<rparr>
           else
             let connect_args = build_connect_instruction params rdp_port width height dpi
             in if \<not> gp_connect_ok peer
                then \<lparr>go_guacd = [select_instruction], go_browser = [], go_relay = False\<rparr>
                else (case gp_ready peer of
                    None \<Rightarrow>
                      \<lparr>go_guacd = [select_instruction, connect_args], go_browser = [], go_relay = False\<rparr>
                  | Some ready_line \<Rightarrow>
                      if \<not> str_contains (lit ''ready'') ready_line
                      then \<lparr>go_guacd = [select_instruction, connect_args], go_browser = [],
                            go_relay = False\<rparr>
                      else if \<not> gp_browser_ok peer
                      then \<lparr>go_guacd = [select_instruction, connect_args], go_browser = [],
                            go_relay = False\<rparr>
                      else \<lparr>go_guacd = [select_instruction, connect_args],
                            go_browser = [TextMsg (trim ready_line)], go_relay = True\<rparr>))"

section \<open>The two tasks\<close>

text \<open>
  \<open>guacd_line\<close> is the result of \<open>read_line\<close>: the line with its line feed, the empty line at the end
  of the stream, \<open>None\<close> for an error. \<open>browser_item\<close> is what the WebSocket stream yields. Dropping
  the handle of a spawned task does not stop it, so each task runs until its own loop breaks.
\<close>

datatype browser_item = BrowserText rstring | BrowserClose | BrowserOther | BrowserEnd

record guac_relay =
  gr_down_open :: bool
  gr_up_open :: bool
  gr_to_browser :: "rstring list"
  gr_to_guacd :: bytes

definition guac_relay_start :: guac_relay where
  "guac_relay_start =
     \<lparr>gr_down_open = True, gr_up_open = True, gr_to_browser = [], gr_to_guacd = []\<rparr>"

definition trim_newlines :: "rstring \<Rightarrow> rstring" where
  "trim_newlines s = rev (dropWhile (\<lambda>c. c = 10) (rev s))"

definition guacd_to_browser :: "bool \<Rightarrow> rstring option \<Rightarrow> guac_relay \<Rightarrow> guac_relay" where
  "guacd_to_browser ok line s =
     (if \<not> gr_down_open s then s
      else case line of
        None \<Rightarrow> s\<lparr>gr_down_open := False\<rparr>
      | Some buf \<Rightarrow>
          if buf = [] then s\<lparr>gr_down_open := False\<rparr>
          else if \<not> ok then s\<lparr>gr_down_open := False\<rparr>
          else s\<lparr>gr_to_browser := gr_to_browser s @ [trim_newlines buf]\<rparr>)"

definition browser_to_guacd :: "bool \<Rightarrow> browser_item \<Rightarrow> guac_relay \<Rightarrow> guac_relay" where
  "browser_to_guacd ok item s =
     (if \<not> gr_up_open s then s
      else case item of
        BrowserText text \<Rightarrow>
          if ok then s\<lparr>gr_to_guacd := gr_to_guacd s @ str_bytes text @ [10]\<rparr>
          else s\<lparr>gr_up_open := False\<rparr>
      | BrowserOther \<Rightarrow> s
      | _ \<Rightarrow> s\<lparr>gr_up_open := False\<rparr>)"

datatype guac_event = FromGuacd "rstring option" bool | FromBrowser browser_item bool

definition guac_step :: "guac_relay \<Rightarrow> guac_event \<Rightarrow> guac_relay" where
  "guac_step s e =
     (case e of
        FromGuacd line ok \<Rightarrow> guacd_to_browser ok line s
      | FromBrowser item ok \<Rightarrow> browser_to_guacd ok item s)"

section \<open>A reader of instructions\<close>

text \<open>
  The form the Guacamole protocol documents for an instruction: elements separated by commas and
  ended by a semicolon, each a decimal length, a dot and as many characters. The reader yields the
  elements and what follows the instruction; \<open>fuel\<close> bounds the number of elements.
\<close>

fun take_length :: "nat \<Rightarrow> rstring \<Rightarrow> (nat \<times> rstring) option" where
  "take_length n [] = None"
| "take_length n (c # s) =
     (if c = 46 then Some (n, s)
      else if is_digit c then take_length (10 * n + (c - 48)) s else None)"

fun read_elements :: "nat \<Rightarrow> rstring \<Rightarrow> (rstring list \<times> rstring) option" where
  "read_elements 0 s = None"
| "read_elements (Suc fuel) s =
     (case take_length 0 s of
        None \<Rightarrow> None
      | Some (n, r) \<Rightarrow>
          (case drop n r of
             [] \<Rightarrow> None
           | c # r' \<Rightarrow>
               if c = 59 then Some ([take n r], r')
               else if c = 44 then map_option (\<lambda>(vs, q). (take n r # vs, q)) (read_elements fuel r')
               else None))"

declare str_bytes_simps [simp]

lemma take_length_digits:
  "list_all is_digit s \<Longrightarrow>
    take_length n (s @ 46 # r) = Some (foldl (\<lambda>v c. 10 * v + (c - 48)) n s, r)"
  by (induction s arbitrary: n) (auto simp: is_digit_def)

lemma take_length_dec: "take_length 0 (dec_digits n @ 46 # r) = Some (n, r)"
  using take_length_digits [of "dec_digits n" 0 r] dec_digits_digits by (simp add: dec_digits_value)

abbreviation ascii :: "rstring \<Rightarrow> bool" where
  "ascii \<equiv> list_all (\<lambda>c. c < 0x80)"

lemma str_len_bounds: "length v \<le> str_len v" "str_len v = length v \<longleftrightarrow> ascii v"
proof -
  have "length v \<le> str_len v \<and> (str_len v = length v \<longleftrightarrow> ascii v)"
    unfolding str_len_def by (induction v) (auto simp: utf8_char_def)
  then show "length v \<le> str_len v" "str_len v = length v \<longleftrightarrow> ascii v" by simp_all
qed

lemma dec_digits_ascii [simp]: "ascii (dec_digits n)"
  using dec_digits_digits [of n] by (auto simp: list_all_iff is_digit_def)

text \<open>
  An encoded value reads back exactly when it is ASCII: otherwise its length in bytes reaches into
  what follows it.
\<close>

lemma read_encoded:
  "read_elements (Suc fuel) (encode_guac_arg v @ 44 # r) = Some (v # vs, q)
    \<longleftrightarrow> ascii v \<and> read_elements fuel r = Some (vs, q)"
  "read_elements (Suc fuel) (encode_guac_arg v @ 59 # r) = Some ([v], q) \<longleftrightarrow> ascii v \<and> q = r"
proof -
  have len: "take_length 0 (encode_guac_arg v @ x # r) = Some (str_len v, v @ x # r)" for x
    using take_length_dec [of "str_len v" "v @ x # r"] by (simp add: encode_guac_arg_def lit_def)
  have "take (str_len v) (v @ x # r) \<noteq> v" if "\<not> ascii v" for x
  proof
    assume "take (str_len v) (v @ x # r) = v"
    then have "length (take (str_len v) (v @ x # r)) = length v" by simp
    then show False using that str_len_bounds [of v] by (simp split: if_splits)
  qed
  then show "read_elements (Suc fuel) (encode_guac_arg v @ 44 # r) = Some (v # vs, q)
      \<longleftrightarrow> ascii v \<and> read_elements fuel r = Some (vs, q)"
    and "read_elements (Suc fuel) (encode_guac_arg v @ 59 # r) = Some ([v], q) \<longleftrightarrow> ascii v \<and> q = r"
    using str_len_bounds(2) [of v] by (auto simp: len split: list.splits if_splits)
qed

section \<open>The relay as two pipes\<close>

definition up_open :: "bool \<Rightarrow> guac_event \<Rightarrow> bool" where
  "up_open opened e =
     (case e of
        FromBrowser (BrowserText _) ok \<Rightarrow> opened \<and> ok
      | FromBrowser BrowserOther _ \<Rightarrow> opened
      | FromBrowser _ _ \<Rightarrow> False
      | _ \<Rightarrow> opened)"

definition up_emit :: "bool \<Rightarrow> guac_event \<Rightarrow> bytes" where
  "up_emit opened e =
     (case e of
        FromBrowser (BrowserText text) ok \<Rightarrow> if opened \<and> ok then str_bytes text @ [10] else []
      | _ \<Rightarrow> [])"

definition down_open :: "bool \<Rightarrow> guac_event \<Rightarrow> bool" where
  "down_open opened e =
     (case e of
        FromGuacd line ok \<Rightarrow> opened \<and> ok \<and> line \<noteq> None \<and> line \<noteq> Some []
      | _ \<Rightarrow> opened)"

definition down_emit :: "bool \<Rightarrow> guac_event \<Rightarrow> rstring list" where
  "down_emit opened e =
     (case e of
        FromGuacd (Some buf) ok \<Rightarrow> if opened \<and> ok \<and> buf \<noteq> [] then [trim_newlines buf] else []
      | _ \<Rightarrow> [])"

lemmas guac_step_defs = guac_step_def guacd_to_browser_def browser_to_guacd_def

interpretation guac_up: pipe guac_step gr_up_open gr_to_guacd up_open up_emit
  by unfold_locales
    (auto simp: guac_step_defs up_open_def up_emit_def
      split: guac_event.split browser_item.split option.split)

interpretation guac_down: pipe guac_step gr_down_open gr_to_browser down_open down_emit
  by unfold_locales
    (auto simp: guac_step_defs down_open_def down_emit_def
      split: guac_event.split browser_item.split option.split)

text \<open>
  The specification of each direction alone, on the items it got, each with whether it could be
  passed on: texts until the browser closes or an error, lines until the stream ends or an error.
\<close>

fun browser_items :: "guac_event list \<Rightarrow> (browser_item \<times> bool) list" where
  "browser_items [] = []"
| "browser_items (FromBrowser item ok # es) = (item, ok) # browser_items es"
| "browser_items (_ # es) = browser_items es"

fun guacd_lines :: "guac_event list \<Rightarrow> (rstring option \<times> bool) list" where
  "guacd_lines [] = []"
| "guacd_lines (FromGuacd line ok # es) = (line, ok) # guacd_lines es"
| "guacd_lines (_ # es) = guacd_lines es"

fun texts_until_close :: "(browser_item \<times> bool) list \<Rightarrow> rstring list" where
  "texts_until_close ((BrowserText t, True) # is) = t # texts_until_close is"
| "texts_until_close ((BrowserOther, _) # is) = texts_until_close is"
| "texts_until_close _ = []"

fun lines_until_end :: "(rstring option \<times> bool) list \<Rightarrow> rstring list" where
  "lines_until_end ((Some (c # l), True) # ls) = (c # l) # lines_until_end ls"
| "lines_until_end _ = []"

lemma emits_up:
  "emits up_open up_emit opened es =
    (if opened then concat (map (\<lambda>t. str_bytes t @ [10]) (texts_until_close (browser_items es))) else [])"
proof (induction es arbitrary: opened)
  case (Cons e es)
  show ?case
  proof (cases e)
    case (FromBrowser item ok)
    then show ?thesis using Cons by (cases item; cases ok) (simp_all add: up_open_def up_emit_def)
  qed (use Cons in \<open>simp add: up_open_def up_emit_def\<close>)
qed simp

lemma emits_down:
  "emits down_open down_emit opened es =
    (if opened then map trim_newlines (lines_until_end (guacd_lines es)) else [])"
proof (induction es arbitrary: opened)
  case (Cons e es)
  show ?case
  proof (cases e)
    case (FromGuacd line ok)
    then consider "line = None" | "line = Some []" | c l where "line = Some (c # l)"
      by (cases line) (auto intro: list.exhaust)
    then show ?thesis
      using Cons FromGuacd by cases (cases ok; simp add: down_open_def down_emit_def)+
  qed (use Cons in \<open>simp add: down_open_def down_emit_def\<close>)
qed simp

definition example_params :: guac_connect_params where
  "example_params =
     \<lparr>gq_host = lit ''10.0.0.5'', gq_port = None, gq_username = None, gq_password = None,
      gq_domain = None, gq_width = None, gq_height = None, gq_dpi = None,
      gq_security = default_security, gq_ignore_cert = False\<rparr>"

section \<open>Properties\<close>

text \<open>
  C34. A reader of the Guacamole protocol, which counts characters, gets back exactly the name of
  the connect instruction and its ten arguments, whatever commas, dots and semicolons are in the
  texts, if and only if host, domain, user name, password and security are all ASCII: the lengths
  the code writes count bytes, so that any other letter makes \<open>guacd\<close> misread the instruction.
\<close>

theorem guac_connect_decodes:
  "read_elements 11 (build_connect_instruction params port width height dpi)
    = Some ([lit ''connect'', gq_host params, dec_digits (unat port),
        unwrap_or [] (gq_domain params), unwrap_or [] (gq_username params),
        unwrap_or [] (gq_password params), dec_digits (unat width), dec_digits (unat height),
        dec_digits (unat dpi), gq_security params,
        (if gq_ignore_cert params then lit ''true'' else [])], [10])
    \<longleftrightarrow> list_all (\<lambda>c. c < 0x80) (gq_host params @ unwrap_or [] (gq_domain params)
        @ unwrap_or [] (gq_username params) @ unwrap_or [] (gq_password params) @ gq_security params)"
proof -
  have name: "lit ''7.connect,'' = encode_guac_arg (lit ''connect'') @ [44]"
    by (simp add: encode_guac_arg_def str_len_def lit_def utf8_char_def dec_digits.simps)
  have marks: "lit '','' = [44]" "lit '';'' = [59]" "ascii (lit ''connect'')" "ascii (lit ''true'')"
    by (simp_all add: lit_def)
  have eleven: "(11 :: nat) = Suc (Suc (Suc (Suc (Suc (Suc (Suc (Suc (Suc (Suc (Suc 0))))))))))"
    by simp
  show ?thesis
    unfolding eleven build_connect_instruction_def name
    by (simp add: marks read_encoded del: read_elements.simps)
qed

text \<open>
  The length the code writes counts bytes while the protocol counts characters: the two agree
  exactly for ASCII values, so a password with other letters misleads \<open>guacd\<close>.
\<close>

theorem guac_length_in_bytes:
  "encode_guac_arg v = dec_digits (length v) @ lit ''.'' @ v \<longleftrightarrow> list_all (\<lambda>c. c < 0x80) v"
proof -
  have "dec_digits m = dec_digits n \<longleftrightarrow> m = n" for m n
    by (metis digits_value_dec option.inject)
  then show ?thesis by (simp add: encode_guac_arg_def str_len_bounds(2))
qed

text \<open>
  C33. However the two tasks interleave, \<open>guacd\<close> gets every text message the
  browser sent before it closed or a write failed, each as one line and in order, and the browser
  every line of \<open>guacd\<close> until its stream ended or a write failed, without its line feed; neither
  direction loses anything when the other ends.
\<close>

theorem guac_relay_delivers:
  "gr_to_guacd (run guac_step guac_relay_start es)
      = concat (map (\<lambda>t. str_bytes t @ [10]) (texts_until_close (browser_items es)))
    \<and> gr_to_browser (run guac_step guac_relay_start es)
      = map trim_newlines (lines_until_end (guacd_lines es))"
  using guac_up.run_out [of guac_relay_start es] guac_down.run_out [of guac_relay_start es]
  by (simp add: guac_relay_start_def emits_up emits_down)

text \<open>
  \<open>guacd\<close> is contacted only for a signed-in user while the integration is enabled;
  it is sent nothing but the beginning of the two instructions of the handshake, the messages are
  relayed exactly when it answered both with a line, the second one \<open>ready\<close>, and when it cannot be
  reached the browser gets an \<open>error\<close> instruction, well-formed if the address is ASCII, and a close.
\<close>

theorem guac_opening:
  assumes "guac_ws_handler w cfg cookies params = GuacUpgrade addr params'"
  shows "validate_session_cookie w cfg cookies \<noteq> None \<and> gc_enabled (sc_guacamole cfg)
    \<and> params' = params
    \<and> prefix (go_guacd (guac_open addr params peer)) [lit ''6.select,3.rdp;'',
        build_connect_instruction params (unwrap_or 3389 (gq_port params))
          (unwrap_or 1024 (gq_width params)) (unwrap_or 768 (gq_height params))
          (unwrap_or 96 (gq_dpi params))]
    \<and> (go_relay (guac_open addr params peer) \<longleftrightarrow>
        gp_connects peer \<and> gp_select_ok peer \<and> gp_args peer \<noteq> None \<and> gp_connect_ok peer
        \<and> (case gp_ready peer of Some line \<Rightarrow> str_contains (lit ''ready'') line | None \<Rightarrow> False)
        \<and> gp_browser_ok peer)
    \<and> (if gp_connects peer then CloseMsg \<notin> set (go_browser (guac_open addr params peer))
       else go_browser (guac_open addr params peer) = [TextMsg (connect_error addr), CloseMsg])
    \<and> (read_elements 3 (connect_error addr)
        = Some ([lit ''error'', cannot_connect addr, lit ''519''], [])
      \<longleftrightarrow> list_all (\<lambda>c. c < 0x80) addr)"
proof -
  have e: "connect_error addr = encode_guac_arg (lit ''error'') @ 44
      # encode_guac_arg (cannot_connect addr) @ 44 # encode_guac_arg (lit ''519'') @ 59 # []"
    by (simp add: connect_error_def encode_guac_arg_def str_len_def lit_def utf8_char_def
        dec_digits.simps)
  have marks: "ascii (lit ''error'')" "ascii (lit ''519'')" "ascii (cannot_connect addr) \<longleftrightarrow> ascii addr"
    by (simp_all add: lit_def cannot_connect_def)
  have three: "(3 :: nat) = Suc (Suc (Suc 0))" by simp
  have "read_elements 3 (connect_error addr) = Some ([lit ''error'', cannot_connect addr, lit ''519''], [])
      \<longleftrightarrow> ascii addr"
    unfolding three e by (simp add: marks read_encoded del: read_elements.simps)
  then show ?thesis
    using assms
    by (auto simp: guac_ws_handler_def guac_open_def Let_def split: if_splits option.splits)
qed

theorem guac_opening_witness:
  "\<exists>addr. guac_ws_handler example_web
      (example_config\<lparr>sc_guacamole := guacamole_default\<lparr>gc_enabled := True\<rparr>\<rparr>)
      (Some (cookie_pair (set_session_cookie example_web example_config 1))) example_params
        = GuacUpgrade addr example_params
    \<and> go_relay (guac_open addr example_params \<lparr>gp_connects = True, gp_select_ok = True,
        gp_args = Some (lit ''4.args;''), gp_connect_ok = True, gp_ready = Some (lit ''5.ready,2.$1;''),
        gp_browser_ok = True\<rparr>)"
proof -
  let ?cfg = "example_config\<lparr>sc_guacamole := guacamole_default\<lparr>gc_enabled := True\<rparr>\<rparr>"
    and ?k = "Some (cookie_pair (set_session_cookie example_web example_config 1))"
  have "set_session_cookie example_web ?cfg 1 = set_session_cookie example_web example_config 1"
    by (simp add: set_session_cookie_def session_secret_def)
  then have "validate_session_cookie example_web ?cfg ?k = Some 1"
    using web_cookie_accepted [of example_web 1 ?cfg] example_web_laws(1) by simp
  then obtain addr where u: "guac_ws_handler example_web ?cfg ?k example_params
      = GuacUpgrade addr example_params"
    by (simp add: guac_ws_handler_def)
  have "str_contains (lit ''ready'') (lit ''5.ready,2.$1;'')"
    by (simp add: lit_def)
  then show ?thesis using guac_opening [OF u] u by auto
qed

end
