(* ===== verification/Startup.thy ===== *)
theory Startup
  imports Db Config Ntlm "HOL-Library.List_Lexorder" "HOL-Library.Multiset"
begin

text \<open>
  \<open>crates/rdg-server/src/main.rs\<close>: the command line, what it overrides in the configuration, the
  routes each mode serves, and the choice of the TLS certificate. Files are a map from paths to
  contents. \<open>start_world\<close> is the machine and the external crates: environment variables, the
  address of the default route, the addresses of the interfaces, the certificate generator with
  its random choices (certificate and key as PEM, certificate as DER), SHA-256, the JSON form of a
  list of names, the texts of the clock, the paths that can be written, and whether the log filter
  lets INFO lines through.
\<close>

section \<open>Command line\<close>

datatype command =
    Serve rstring "rstring list" "rstring option" "rstring option" bool
  | WebUi rstring u16
  | Manage rstring

definition default_command :: "(rstring \<Rightarrow> rstring option) \<Rightarrow> command" where
  "default_command env =
     Serve (unwrap_or (lit ''rdg-gateway.toml'') (env (lit ''RDG_CONFIG''))) [] None None False"

text \<open>\<open>if !v.contains(&x) { v.push(x) }\<close>.\<close>

definition push_new :: "rstring list \<Rightarrow> rstring \<Rightarrow> rstring list" where
  "push_new names n = (if n \<in> set names then names else names @ [n])"

definition apply_overrides ::
  "rstring list \<Rightarrow> rstring option \<Rightarrow> rstring option \<Rightarrow> server_config \<Rightarrow> server_config" where
  "apply_overrides cli_sans tls_cert tls_key cfg =
     (let tls = sc_tls cfg;
          tls = (case tls_cert of Some c \<Rightarrow> tls\<lparr>tc_cert_path := Some c\<rparr> | None \<Rightarrow> tls);
          tls = (case tls_key of Some k \<Rightarrow> tls\<lparr>tc_key_path := Some k\<rparr> | None \<Rightarrow> tls);
          tls = (if cli_sans = [] then tls
                 else tls\<lparr>tc_san_names :=
                   Some (foldl push_new (unwrap_or [] (tc_san_names tls)) cli_sans)\<rparr>)
      in cfg\<lparr>sc_tls := tls\<rparr>)"

section \<open>Routes\<close>

text \<open>
  A route is a method and a path; the method of \<open>any\<close> is \<open>*\<close>. Merging two routers panics when a
  path gets the same method twice.
\<close>

type_synonym route = "string \<times> string"

definition gateway_routes :: "route list" where
  "gateway_routes =
     [(''GET'', ''/health''),
      (''*'', ''/remoteDesktopGateway/''), (''*'', ''/KdcProxy''), (''*'', ''/remoteDesktopGateway''),
      (''*'', ''/rpc/rpcproxy.dll'')]"

definition auth_routes :: "route list" where
  "auth_routes =
     [(''POST'', ''/api/auth/signup''), (''POST'', ''/api/auth/signin''),
      (''POST'', ''/api/auth/signout''), (''GET'', ''/api/auth/me'')]"

definition webui_routes :: "route list" where
  "webui_routes =
     [(''GET'', ''/api/connections''), (''POST'', ''/api/connections''),
      (''GET'', ''/api/connections/{id}''), (''PUT'', ''/api/connections/{id}''),
      (''DELETE'', ''/api/connections/{id}''), (''GET'', ''/api/connections/{id}/rdp''),
      (''GET'', ''/portal/{*path}''), (''GET'', ''/portal''), (''GET'', ''/portal/'')]"

definition guacamole_routes :: "route list" where
  "guacamole_routes = [(''GET'', ''/api/guacamole/connect'')]"

definition serve_routes :: "bool \<Rightarrow> server_config \<Rightarrow> route list" where
  "serve_routes with_webui cfg =
     gateway_routes
     @ (if with_webui \<or> wc_enabled (sc_webui cfg)
        then auth_routes @ webui_routes
             @ (if gc_enabled (sc_guacamole cfg) then guacamole_routes else [])
        else [])"

definition portal_routes :: "server_config \<Rightarrow> route list" where
  "portal_routes cfg =
     auth_routes @ webui_routes @ (if gc_enabled (sc_guacamole cfg) then guacamole_routes else [])"

section \<open>The certificate\<close>

record start_world =
  sw_env :: "rstring \<Rightarrow> rstring option"
  sw_udp_addr :: "rstring option"
  sw_interfaces :: "rstring list"
  sw_generate :: "rstring list \<Rightarrow> (bytes \<times> bytes \<times> bytes) option"
  sw_sha256 :: "bytes \<Rightarrow> bytes"
  sw_to_json :: "rstring list \<Rightarrow> rstring option"
  sw_from_json :: "rstring \<Rightarrow> rstring list option"
  sw_now :: rstring
  sw_not_after :: rstring
  sw_timestamp :: rstring
  sw_writable :: "rstring \<Rightarrow> bool"
  sw_log_info :: bool

type_synonym files = "rstring \<Rightarrow> bytes option"

datatype startup_error = ReadFailed | GenerateFailed | WriteFailed | JsonFailed | TlsNotConfigured

definition desired_sans :: "start_world \<Rightarrow> server_config \<Rightarrow> rstring list" where
  "desired_sans w cfg =
     (let names = [sc_server_name cfg];
          names = (case sw_env w (lit ''COMPUTERNAME'') of
              Some computer \<Rightarrow>
                if computer \<noteq> sc_server_name cfg \<and> computer \<notin> set names then names @ [computer]
                else names
            | None \<Rightarrow> names);
          names = (case sw_udp_addr w of Some ip \<Rightarrow> names @ [ip] | None \<Rightarrow> names);
          names = foldl (\<lambda>names ip. if take 4 ip \<noteq> lit ''127.'' \<and> ip \<notin> set names
              then names @ [ip] else names) names (sw_interfaces w);
          names = names @ [lit ''localhost'']
      in (case tc_san_names (sc_tls cfg) of
            Some custom_sans \<Rightarrow> foldl push_new names custom_sans
          | None \<Rightarrow> names))"

definition cert_file :: rstring where
  "cert_file = lit ''certs/gateway.crt''"

definition key_file :: rstring where
  "key_file = lit ''certs/gateway.key''"

text \<open>\<open>format!("{:02X}", b)\<close> for each byte, joined by colons.\<close>

definition hex_digit_upper :: "nat \<Rightarrow> nat" where
  "hex_digit_upper n = (if n < 10 then 48 + n else 55 + n)"

definition hex_byte :: "u8 \<Rightarrow> rstring" where
  "hex_byte b = [hex_digit_upper (unat b div 16), hex_digit_upper (unat b mod 16)]"

definition thumbprint :: "bytes \<Rightarrow> rstring" where
  "thumbprint hash = join_with (lit '':'') (map hex_byte hash)"

definition cert_info :: "start_world \<Rightarrow> server_config \<Rightarrow> bytes \<Rightarrow> rstring \<Rightarrow> certificate_info" where
  "cert_info w cfg der names_json =
     \<lparr>ci_id = 0, ci_thumbprint = thumbprint (sw_sha256 w der),
      ci_subject = lit ''CN='' @ sc_server_name cfg, ci_san_names = names_json,
      ci_not_before = sw_now w, ci_not_after = sw_not_after w, ci_cert_path = cert_file,
      ci_key_path = key_file, ci_auto_generated = True, ci_created_at = []\<rparr>"

definition read_pair ::
  "files \<Rightarrow> rstring \<Rightarrow> rstring \<Rightarrow> (startup_error, bytes \<times> bytes) outcome" where
  "read_pair fs cert_path key_path =
     rbind (ok_or ReadFailed (fs cert_path)) (\<lambda>cert_pem.
     rbind (ok_or ReadFailed (fs key_path)) (\<lambda>key_pem. Ok (cert_pem, key_pem)))"

type_synonym cert_result = "files \<times> database \<times> (startup_error, bytes \<times> bytes) outcome"

definition generate_cert ::
  "start_world \<Rightarrow> server_config \<Rightarrow> rstring list \<Rightarrow> files \<Rightarrow> database \<Rightarrow> cert_result" where
  "generate_cert w cfg san_names fs db =
     (case sw_generate w san_names of
        None \<Rightarrow> (fs, db, Err GenerateFailed)
      | Some (cert_pem, key_pem, cert_der) \<Rightarrow>
          if \<not> sw_writable w cert_file then (fs, db, Err WriteFailed)
          else
            let fs = fs(cert_file \<mapsto> cert_pem)
            in if \<not> sw_writable w key_file then (fs, db, Err WriteFailed)
               else
                 let fs = fs(key_file \<mapsto> key_pem)
                 in (case sw_to_json w san_names of
                       None \<Rightarrow> (fs, db, Err JsonFailed)
                     | Some names_json \<Rightarrow>
                         (fs, fst (save_certificate (sw_timestamp w) db (cert_info w cfg cert_der names_json)),
                          Ok (cert_pem, key_pem))))"

text \<open>
  The log line before a certificate is reused slices the stored thumbprint at byte 16, which
  panics when the text is shorter or the byte is not the first of a character. A log line's
  arguments are evaluated only when the filter lets its level through.
\<close>

definition slices_at_16 :: "rstring \<Rightarrow> bool" where
  "slices_at_16 s \<longleftrightarrow> list_ex (\<lambda>n. str_len (take n s) = 16) [0..<Suc (length s)]"

definition reusable :: "start_world \<Rightarrow> rstring list \<Rightarrow> files \<Rightarrow> certificate_info \<Rightarrow> bool" where
  "reusable w san_names fs existing \<longleftrightarrow>
     sort (unwrap_or [] (sw_from_json w (ci_san_names existing))) = sort san_names
     \<and> fs cert_file \<noteq> None \<and> fs key_file \<noteq> None"

definition load_or_generate_cert ::
  "start_world \<Rightarrow> server_config \<Rightarrow> files \<Rightarrow> database \<Rightarrow> cert_result" where
  "load_or_generate_cert w cfg fs db =
     (case (tc_cert_path (sc_tls cfg), tc_key_path (sc_tls cfg)) of
        (Some cert_path, Some key_path) \<Rightarrow> (fs, db, read_pair fs cert_path key_path)
      | _ \<Rightarrow>
          if \<not> tc_auto_generate (sc_tls cfg) then (fs, db, Err TlsNotConfigured)
          else
            let san_names = desired_sans w cfg
            in (case get_certificate db of
                  Ok (Some existing) \<Rightarrow>
                    if reusable w san_names fs existing then
                      if sw_log_info w \<and> \<not> slices_at_16 (ci_thumbprint existing) then (fs, db, Panic)
                      else (fs, db, read_pair fs cert_file key_file)
                    else generate_cert w cfg san_names fs db
                | _ \<Rightarrow> generate_cert w cfg san_names fs db))"

section \<open>Facts\<close>

lemma push_new_set: "set (foldl push_new names ns) = set names \<union> set ns"
  by (induction ns arbitrary: names) (auto simp: push_new_def)

lemma push_new_distinct: "distinct names \<Longrightarrow> distinct (foldl push_new names ns)"
  by (induction ns arbitrary: names) (auto simp: push_new_def)

lemma push_new_old: "set ns \<subseteq> set names \<Longrightarrow> foldl push_new names ns = names"
  by (induction ns arbitrary: names) (auto simp: push_new_def)

text \<open>The certificate that was saved last is the one the next start finds.\<close>

lemma sort_key_snoc_least:
  "(\<And>y. y \<in> set xs \<Longrightarrow> f x < f y) \<Longrightarrow> sort_key f (xs @ [x]) = x # sort_key f xs"
proof -
  assume "\<And>y. y \<in> set xs \<Longrightarrow> f x < f y"
  then have "\<forall>y \<in> set xs. f x < f y" by blast
  then have "foldr (insort_key f) xs [x] = x # foldr (insort_key f) xs []"
    by (induction xs) (auto dest: leD)
  then show ?thesis by (simp add: sort_key_def)
qed

lemma saved_certificate:
  assumes "table_ok ci_id (db_certificates db)"
  shows "get_certificate (fst (save_certificate now db c))
    = Ok (Some (c\<lparr>ci_id := tb_seq (db_certificates db) + 1, ci_created_at := now\<rparr>))"
proof -
  have "\<And>y. y \<in> set (tb_rows (db_certificates db)) \<Longrightarrow> - (tb_seq (db_certificates db) + 1) < - ci_id y"
    using assms by (force simp: table_ok_def)
  then show ?thesis
    by (simp add: get_certificate_def save_certificate_def sort_key_snoc_least)
qed

lemma thumbprint_sliced:
  assumes "length hash = 32"
  shows "slices_at_16 (thumbprint hash)"
proof -
  have digit: "n < 16 \<Longrightarrow> hex_digit_upper n < 0x80" for n by (simp add: hex_digit_upper_def)
  have ascii: "list_all (\<lambda>c. c < 0x80) (thumbprint hs)" and len: "hs \<noteq> [] \<Longrightarrow> 3 * length hs \<le> length (thumbprint hs) + 1"
    for hs
  proof -
    have byte: "list_all (\<lambda>c. c < 0x80) (hex_byte b) \<and> length (hex_byte b) = 2" for b :: u8
    proof -
      have "unat b < 2 ^ LENGTH(8)" by (rule unsigned_less)
      then have "unat b div 16 < 16" by simp
      then show ?thesis using digit [of "unat b div 16"] digit [of "unat b mod 16"]
        by (simp add: hex_byte_def)
    qed
    show "list_all (\<lambda>c. c < 0x80) (thumbprint hs)"
      unfolding thumbprint_def
      by (induction hs rule: induct_list012) (use byte in \<open>auto simp: lit_def\<close>)
    show "hs \<noteq> [] \<Longrightarrow> 3 * length hs \<le> length (thumbprint hs) + 1"
      unfolding thumbprint_def
      by (induction hs rule: induct_list012) (use byte in \<open>auto simp: lit_def\<close>)
  qed
  have "hash \<noteq> []" using assms by auto
  then have "16 < length (thumbprint hash)" using len [of hash] assms by simp
  moreover have "str_len (take 16 (thumbprint hash)) = length (take 16 (thumbprint hash))"
    using ascii [of hash] by (intro str_len_ascii) (auto simp: list_all_iff dest: in_set_takeD)
  ultimately show ?thesis
    by (auto simp: slices_at_16_def list_ex_iff intro!: bexI [of _ 16])
qed

lemma read_pair_Ok: "read_pair fs p q = Ok (c, k) \<longleftrightarrow> fs p = Some c \<and> fs q = Some k"
  by (auto simp: read_pair_def rbind_eq_Ok)

lemma generate_cert_Ok:
  assumes "generate_cert w cfg names fs db = (fs', db', Ok (c, k))"
  obtains der json where "sw_to_json w names = Some json"
    and "fs' = fs(cert_file \<mapsto> c, key_file \<mapsto> k)"
    and "db' = fst (save_certificate (sw_timestamp w) db (cert_info w cfg der json))"
  using assms by (auto simp: generate_cert_def Let_def split: option.splits if_splits prod.splits)

definition self_signed :: "server_config \<Rightarrow> bool" where
  "self_signed cfg \<longleftrightarrow> tc_auto_generate (sc_tls cfg)
     \<and> (tc_cert_path (sc_tls cfg) = None \<or> tc_key_path (sc_tls cfg) = None)"

lemma load_self_signed:
  "self_signed cfg \<Longrightarrow> load_or_generate_cert w cfg fs db =
    (case get_certificate db of
       Ok (Some existing) \<Rightarrow>
         if reusable w (desired_sans w cfg) fs existing then
           if sw_log_info w \<and> \<not> slices_at_16 (ci_thumbprint existing) then (fs, db, Panic)
           else (fs, db, read_pair fs cert_file key_file)
         else generate_cert w cfg (desired_sans w cfg) fs db
     | _ \<Rightarrow> generate_cert w cfg (desired_sans w cfg) fs db)"
  by (auto simp: self_signed_def load_or_generate_cert_def Let_def split: option.split)

section \<open>An example machine\<close>

text \<open>A reversible text of a list of names stands in for JSON.\<close>

definition join_names :: "rstring list \<Rightarrow> rstring" where
  "join_names names = concat (map (\<lambda>n. map Suc n @ [0]) names)"

fun read_names :: "rstring \<Rightarrow> rstring \<Rightarrow> rstring list" where
  "read_names acc [] = []"
| "read_names acc (0 # s) = rev acc # read_names [] s"
| "read_names acc (Suc c # s) = read_names (c # acc) s"

lemma read_join_names: "read_names [] (join_names names) = names"
proof -
  have "read_names acc (map Suc n @ 0 # s) = (rev acc @ n) # read_names [] s" for acc n s
    by (induction n arbitrary: acc) auto
  then show ?thesis by (induction names) (simp_all add: join_names_def)
qed

definition example_start :: start_world where
  "example_start =
     \<lparr>sw_env = (\<lambda>_. None), sw_udp_addr = Some (lit ''10.0.0.7''),
      sw_interfaces = [lit ''127.0.0.1'', lit ''10.0.0.7''],
      sw_generate = (\<lambda>names. Some ([1], [2], [3])), sw_sha256 = (\<lambda>_. replicate 32 0),
      sw_to_json = (\<lambda>names. Some (join_names names)), sw_from_json = (\<lambda>s. Some (read_names [] s)),
      sw_now = [], sw_not_after = [], sw_timestamp = [], sw_writable = (\<lambda>_. True),
      sw_log_info = True\<rparr>"

section \<open>Properties\<close>

text \<open>
  In every configuration the routers merge without a conflict, and the portal's
  routes are served by the gateway only when the web UI is asked for, those of Guacamole only when
  it is enabled too.
\<close>

definition route_conflict :: "route \<Rightarrow> route \<Rightarrow> bool" where
  "route_conflict r s \<longleftrightarrow> snd r = snd s \<and> (fst r = fst s \<or> fst r = ''*'' \<or> fst s = ''*'')"

theorem routes_disjoint:
  "sorted_wrt (\<lambda>r s. \<not> route_conflict r s) (serve_routes with_webui cfg)
    \<and> sorted_wrt (\<lambda>r s. \<not> route_conflict r s) (portal_routes cfg)
    \<and> (serve_routes with_webui cfg = gateway_routes \<longleftrightarrow> \<not> with_webui \<and> \<not> wc_enabled (sc_webui cfg))
    \<and> (set guacamole_routes \<subseteq> set (serve_routes with_webui cfg) \<longleftrightarrow>
        (with_webui \<or> wc_enabled (sc_webui cfg)) \<and> gc_enabled (sc_guacamole cfg))"
  by (simp add: serve_routes_def portal_routes_def gateway_routes_def auth_routes_def
      webui_routes_def guacamole_routes_def route_conflict_def)

text \<open>
  The names of the command line join those of the configuration once each and in
  order, whatever was repeated; giving them again changes nothing, and a path given on the command
  line replaces the configured one.
\<close>

theorem cli_overrides:
  "let cfg' = apply_overrides sans cert key cfg; names = unwrap_or [] (tc_san_names (sc_tls cfg));
       names' = unwrap_or [] (tc_san_names (sc_tls cfg'))
   in set names' = set names \<union> set sans \<and> take (length names) names' = names
    \<and> (distinct names \<longrightarrow> distinct names')
    \<and> apply_overrides sans cert key cfg' = cfg'
    \<and> tc_cert_path (sc_tls cfg') = (if cert = None then tc_cert_path (sc_tls cfg) else cert)
    \<and> tc_key_path (sc_tls cfg') = (if key = None then tc_key_path (sc_tls cfg) else key)"
proof -
  have "take (length names) (foldl push_new names ns) = names" for names ns
  proof -
    have "\<exists>more. foldl push_new names ns = names @ more"
    proof (induction ns rule: rev_induct)
      case (snoc n ns)
      then show ?case by (auto simp: push_new_def)
    qed simp
    then show ?thesis by auto
  qed
  then show ?thesis
    by (auto simp: apply_overrides_def Let_def push_new_set push_new_distinct push_new_old
        unwrap_or_def split: option.splits)
qed

text \<open>
  A start that got its self-signed certificate leaves files and a database from
  which every later start gets the very same certificate and key, without making a new one, as
  long as the names the certificate must have are the same up to their order and the log level is
  the same.
\<close>

theorem cert_restart:
  assumes "self_signed cfg" and "table_ok ci_id (db_certificates db)"
    and "load_or_generate_cert w cfg fs db = (fs', db', Ok (c, k))"
    and "\<And>names json. sw_to_json w names = Some json \<Longrightarrow> sw_from_json w json = Some names"
    and "\<And>der. length (sw_sha256 w der) = 32"
    and "self_signed cfg'" and "sw_from_json w' = sw_from_json w" and "sw_log_info w' = sw_log_info w"
    and "mset (desired_sans w' cfg') = mset (desired_sans w cfg)"
  shows "load_or_generate_cert w' cfg' fs' db' = (fs', db', Ok (c, k))"
proof -
  let ?names = "desired_sans w cfg"
  have names: "sort (desired_sans w' cfg') = sort ?names"
    using assms(9) by (metis mset_sort properties_for_sort sorted_sort)
  obtain existing where e: "get_certificate db' = Ok (Some existing)"
    "reusable w ?names fs' existing" "\<not> (sw_log_info w \<and> \<not> slices_at_16 (ci_thumbprint existing))"
    "fs' cert_file = Some c" "fs' key_file = Some k"
  proof -
    note certificate = that
    have made: thesis if gen: "generate_cert w cfg ?names fs db = (fs', db', Ok (c, k))"
    proof -
      obtain der json where j: "sw_to_json w ?names = Some json"
        and f: "fs' = fs(cert_file \<mapsto> c, key_file \<mapsto> k)"
        and d: "db' = fst (save_certificate (sw_timestamp w) db (cert_info w cfg der json))"
        using gen by (rule generate_cert_Ok)
      show thesis
        by (rule certificate [of "(cert_info w cfg der json)\<lparr>ci_id := tb_seq (db_certificates db) + 1,
            ci_created_at := sw_timestamp w\<rparr>"])
          (simp_all add: d saved_certificate [OF assms(2)] f reusable_def assms(4) [OF j] cert_info_def
            thumbprint_sliced assms(5) unwrap_or_def cert_file_def key_file_def lit_def)
    qed
    show thesis
    proof (cases "get_certificate db")
      case (Ok found)
      show thesis
      proof (cases "\<exists>x. found = Some x \<and> reusable w ?names fs x")
        case True
        then obtain x where "found = Some x" "reusable w ?names fs x" by blast
        then show thesis
          using assms(3) Ok certificate [of x]
          by (auto simp: load_self_signed [OF assms(1)] read_pair_Ok split: if_splits)
      next
        case False
        then show thesis
          using assms(3) Ok made
          by (auto simp: load_self_signed [OF assms(1)] split: option.splits)
      qed
    qed (simp_all add: get_certificate_def)
  qed
  have "reusable w' (desired_sans w' cfg') fs' existing"
    using e(2) names assms(7) by (simp add: reusable_def)
  then show ?thesis
    using e assms(8) by (auto simp: load_self_signed [OF assms(6)] read_pair_def)
qed

theorem cert_restart_witness:
  "\<exists>fs db c k. load_or_generate_cert example_start (server_config_default (\<lambda>_. None)) (\<lambda>_. None)
      database_empty = (fs, db, Ok (c, k))
    \<and> load_or_generate_cert example_start (server_config_default (\<lambda>_. None)) fs db = (fs, db, Ok (c, k))"
proof -
  let ?cfg = "server_config_default (\<lambda>_. None)"
  have self: "self_signed ?cfg" by (simp add: self_signed_def server_config_default_def)
  have "get_certificate database_empty = Ok None"
    by (simp add: get_certificate_def database_empty_def table_empty_def)
  then obtain fs db where first:
    "load_or_generate_cert example_start ?cfg (\<lambda>_. None) database_empty = (fs, db, Ok ([1], [2]))"
    by (simp add: load_self_signed [OF self] generate_cert_def example_start_def Let_def)
  have "load_or_generate_cert example_start ?cfg fs db = (fs, db, Ok ([1], [2]))"
  proof (rule cert_restart [OF self _ first])
    show "table_ok ci_id (db_certificates database_empty)"
      by (simp add: database_empty_def)
    show "sw_from_json example_start json = Some names"
      if "sw_to_json example_start names = Some json" for names json
      using that by (auto simp: example_start_def read_join_names)
    show "length (sw_sha256 example_start der) = 32" for der
      by (simp add: example_start_def)
  qed (rule self refl)+
  then show ?thesis using first by blast
qed

end
