(* ===== verification/Tui_App.thy ===== *)
theory Tui_App
  imports Db Config Ntlm
begin

text \<open>
  \<open>crates/rdg-server/src/tui/app.rs\<close>: the state of the administration screens and what each key
  does to it, to the database, to the configuration and to the configuration file. Drawing
  reads the state only and is in \<open>Tui_Draw\<close>. The database is used by nobody else meanwhile. \<open>tui_world\<close>
  holds MD4, the TOML printer and the paths that can be written; \<open>ap_disk\<close> is what has been
  written to files.
\<close>

section \<open>State\<close>

datatype active_tab = Users | Groups | AclRules | Sessions | Tls

definition tab_next :: "active_tab \<Rightarrow> active_tab" where
  "tab_next t = (case t of Users \<Rightarrow> Groups | Groups \<Rightarrow> AclRules | AclRules \<Rightarrow> Sessions
     | Sessions \<Rightarrow> Tls | Tls \<Rightarrow> Users)"

definition tab_prev :: "active_tab \<Rightarrow> active_tab" where
  "tab_prev t = (case t of Users \<Rightarrow> Tls | Groups \<Rightarrow> Users | AclRules \<Rightarrow> Groups
     | Sessions \<Rightarrow> AclRules | Tls \<Rightarrow> Sessions)"

datatype input_mode =
  Normal | AddUser | AddGroup | AddAclRule | AssignGroup | AddSan | SetCertPath | SetKeyPath

record dialog_field =
  df_label :: rstring
  df_value :: rstring
  df_masked :: bool
  df_options :: "rstring list"
  df_selected_option :: nat

record dialog_state =
  ds_fields :: "dialog_field list"
  ds_active_field :: nat

definition field_text :: "rstring \<Rightarrow> dialog_field" where
  "field_text label =
     \<lparr>df_label = label, df_value = [], df_masked = False, df_options = [], df_selected_option = 0\<rparr>"

definition field_password :: "rstring \<Rightarrow> dialog_field" where
  "field_password label =
     \<lparr>df_label = label, df_value = [], df_masked = True, df_options = [], df_selected_option = 0\<rparr>"

definition field_select :: "rstring \<Rightarrow> rstring list \<Rightarrow> dialog_field" where
  "field_select label options =
     \<lparr>df_label = label, df_value = (case options of [] \<Rightarrow> [] | v # _ \<Rightarrow> v), df_masked = False,
      df_options = options, df_selected_option = 0\<rparr>"

definition dialog_new :: "dialog_field list \<Rightarrow> dialog_state" where
  "dialog_new fs = \<lparr>ds_fields = fs, ds_active_field = 0\<rparr>"

text \<open>The remainder by zero and an index out of range panic.\<close>

definition next_field :: "dialog_state \<Rightarrow> ('e, dialog_state) outcome" where
  "next_field d =
     (if ds_fields d = [] then Panic
      else Ok (d\<lparr>ds_active_field := (ds_active_field d + 1) mod length (ds_fields d)\<rparr>))"

definition on_active_field ::
  "(dialog_field \<Rightarrow> ('e, dialog_field) outcome) \<Rightarrow> dialog_state \<Rightarrow> ('e, dialog_state) outcome" where
  "on_active_field f d =
     (if ds_active_field d < length (ds_fields d)
      then map_ok (\<lambda>x. d\<lparr>ds_fields := (ds_fields d)[ds_active_field d := x]\<rparr>)
             (f (ds_fields d ! ds_active_field d))
      else Panic)"

record app =
  ap_db :: database
  ap_config :: server_config
  ap_config_path :: rstring
  ap_active_tab :: active_tab
  ap_input_mode :: input_mode
  ap_dialog :: "dialog_state option"
  ap_status_message :: "rstring option"
  ap_should_quit :: bool
  ap_users :: "user list"
  ap_groups :: "user_group list"
  ap_acl_rules :: "acl_rule list"
  ap_sessions :: "session_row list"
  ap_user_index :: nat
  ap_group_index :: nat
  ap_acl_index :: nat
  ap_session_index :: nat
  ap_tls_san_index :: nat
  ap_cert_info :: "certificate_info option"
  ap_user_groups :: "int \<Rightarrow> user_group list option"
  ap_disk :: "rstring \<Rightarrow> rstring option"

record tui_world =
  tw_md4 :: "bytes \<Rightarrow> bytes"
  tw_toml :: "server_config \<Rightarrow> rstring option"
  tw_writable :: "rstring \<Rightarrow> bool"

datatype tui_error = TuiDatabase db_error | TuiSerialize | TuiIo

type_synonym tui_result = "app \<times> (tui_error, unit) outcome"

definition app_new :: "database \<Rightarrow> server_config \<Rightarrow> rstring \<Rightarrow> app" where
  "app_new db config config_path =
     \<lparr>ap_db = db, ap_config = config, ap_config_path = config_path, ap_active_tab = Users,
      ap_input_mode = Normal, ap_dialog = None, ap_status_message = None, ap_should_quit = False,
      ap_users = [], ap_groups = [], ap_acl_rules = [], ap_sessions = [], ap_user_index = 0,
      ap_group_index = 0, ap_acl_index = 0, ap_session_index = 0, ap_tls_san_index = 0,
      ap_cert_info = None, ap_user_groups = (\<lambda>_. None), ap_disk = (\<lambda>_. None)\<rparr>"

fun load_user_groups ::
  "database \<Rightarrow> user list \<Rightarrow> (int \<Rightarrow> user_group list option)
    \<Rightarrow> (db_error, int \<Rightarrow> user_group list option) outcome" where
  "load_user_groups db [] m = Ok m"
| "load_user_groups db (u # us) m =
     rbind (get_user_groups db (u_id u)) (\<lambda>groups. load_user_groups db us (m(u_id u \<mapsto> groups)))"

definition load_all :: "app \<Rightarrow> (tui_error, app) outcome" where
  "load_all self = map_err TuiDatabase
     (rbind (list_users (ap_db self)) (\<lambda>users.
      rbind (list_groups (ap_db self)) (\<lambda>groups.
      rbind (get_acl_rules (ap_db self)) (\<lambda>acl_rules.
      rbind (get_active_sessions (ap_db self)) (\<lambda>sessions.
      let cert_info = unwrap_or None (ok_opt (get_certificate (ap_db self)))
      in rbind (load_user_groups (ap_db self) users (\<lambda>_. None)) (\<lambda>user_groups.
      Ok (self\<lparr>ap_users := users, ap_groups := groups, ap_acl_rules := acl_rules,
        ap_sessions := sessions, ap_cert_info := cert_info, ap_user_groups := user_groups\<rparr>)))))))"

section \<open>Keys in the normal mode\<close>

datatype key =
  Char nat | Esc | Tab | BackTab | Up | Down | Left | Right | Enter | Backspace | OtherKey

text \<open>\<open>self.status_message = Some(..)\<close>, and opening a dialog.\<close>

definition say :: "rstring \<Rightarrow> app \<Rightarrow> app" where
  "say msg self = self\<lparr>ap_status_message := Some msg\<rparr>"

definition open_dialog :: "input_mode \<Rightarrow> dialog_field list \<Rightarrow> app \<Rightarrow> app" where
  "open_dialog mode fs self =
     self\<lparr>ap_input_mode := mode, ap_dialog := Some (dialog_new fs)\<rparr>"

definition sans :: "app \<Rightarrow> rstring list" where
  "sans self = unwrap_or [] (tc_san_names (sc_tls (ap_config self)))"

definition set_tls :: "(tls_config \<Rightarrow> tls_config) \<Rightarrow> app \<Rightarrow> app" where
  "set_tls f self =
     self\<lparr>ap_config := (ap_config self)\<lparr>sc_tls := f (sc_tls (ap_config self))\<rparr>\<rparr>"

text \<open>The new index; \<open>delta\<close> is 1 or -1. Lengths are far below \<open>2 ^ 31\<close>.\<close>

definition moved :: "int \<Rightarrow> nat \<Rightarrow> nat \<Rightarrow> nat" where
  "moved delta len index =
     (if len = 0 then index
      else let new = int index + delta
           in if new < 0 then len - 1 else if int len \<le> new then 0 else nat new)"

definition move_selection :: "int \<Rightarrow> app \<Rightarrow> app" where
  "move_selection delta self =
     (case ap_active_tab self of
        Users \<Rightarrow> self\<lparr>ap_user_index := moved delta (length (ap_users self)) (ap_user_index self)\<rparr>
      | Groups \<Rightarrow> self\<lparr>ap_group_index := moved delta (length (ap_groups self)) (ap_group_index self)\<rparr>
      | AclRules \<Rightarrow> self\<lparr>ap_acl_index := moved delta (length (ap_acl_rules self)) (ap_acl_index self)\<rparr>
      | Sessions \<Rightarrow>
          self\<lparr>ap_session_index := moved delta (length (ap_sessions self)) (ap_session_index self)\<rparr>
      | Tls \<Rightarrow> self\<lparr>ap_tls_san_index := moved delta (length (sans self)) (ap_tls_san_index self)\<rparr>)"

definition start_add_dialog :: "app \<Rightarrow> app" where
  "start_add_dialog self =
     (case ap_active_tab self of
        Users \<Rightarrow> open_dialog AddUser
          [field_text (lit ''Username''), field_password (lit ''Password'')] self
      | Groups \<Rightarrow> open_dialog AddGroup [field_text (lit ''Group Name'')] self
      | AclRules \<Rightarrow> open_dialog AddAclRule
          [field_text (lit ''Priority (0-100)''), field_text (lit ''Target Host (or * for any)''),
           field_text (lit ''Target Port (or * for any)''),
           field_select (lit ''Action'') [lit ''allow'', lit ''deny'']] self
      | Sessions \<Rightarrow> self
      | Tls \<Rightarrow> open_dialog AddSan [field_text (lit ''SAN Name (DNS or IP)'')] self)"

definition start_assign_group_dialog :: "app \<Rightarrow> app" where
  "start_assign_group_dialog self =
     (if ap_users self = [] \<or> ap_groups self = []
      then say (lit ''No users or groups available'') self
      else open_dialog AssignGroup [field_select (lit ''Group'') (map g_name (ap_groups self))] self)"

text \<open>\<open>sans.remove(i)\<close>, and the index after a row of \<open>len\<close> is gone.\<close>

definition remove_at :: "nat \<Rightarrow> 'a list \<Rightarrow> 'a list" where
  "remove_at i xs = take i xs @ drop (Suc i) xs"

definition after_removal :: "nat \<Rightarrow> nat \<Rightarrow> nat" where
  "after_removal len index = (if 0 < index \<and> len \<le> index then len - 1 else index)"

definition handle_delete_action :: "app \<Rightarrow> tui_result" where
  "handle_delete_action self =
     (case ap_active_tab self of
        Users \<Rightarrow>
          if ap_user_index self < length (ap_users self) then
            let user = ap_users self ! ap_user_index self;
                new_enabled = (\<not> u_enabled user);
                (db', r) = set_user_enabled (ap_db self) (u_id user) new_enabled;
                self = self\<lparr>ap_db := db'\<rparr>
            in (case map_err TuiDatabase (rbind r (\<lambda>_. list_users db')) of
                  Ok users \<Rightarrow> (say (lit ''User '' @ u_username user @ lit '' ''
                      @ (if new_enabled then lit ''enabled'' else lit ''disabled''))
                    (self\<lparr>ap_users := users\<rparr>), Ok ())
                | Err e \<Rightarrow> (self, Err e) | Panic \<Rightarrow> (self, Panic))
          else (self, Ok ())
      | AclRules \<Rightarrow>
          if ap_acl_index self < length (ap_acl_rules self) then
            let (db', r) = delete_acl_rule (ap_db self) (ar_id (ap_acl_rules self ! ap_acl_index self));
                self = self\<lparr>ap_db := db'\<rparr>
            in (case map_err TuiDatabase (rbind r (\<lambda>_. get_acl_rules db')) of
                  Ok rules \<Rightarrow> (say (lit ''ACL rule deleted'') (self\<lparr>ap_acl_rules := rules,
                      ap_acl_index := after_removal (length rules) (ap_acl_index self)\<rparr>), Ok ())
                | Err e \<Rightarrow> (self, Err e) | Panic \<Rightarrow> (self, Panic))
          else (self, Ok ())
      | Tls \<Rightarrow>
          (case tc_san_names (sc_tls (ap_config self)) of
             None \<Rightarrow> (self, Ok ())
           | Some names \<Rightarrow>
               if ap_tls_san_index self < length names then
                 let rest = remove_at (ap_tls_san_index self) names
                 in (say (lit ''Removed SAN '' @ [39] @ names ! ap_tls_san_index self @ [39])
                      ((set_tls (\<lambda>t. t\<lparr>tc_san_names := Some rest\<rparr>) self)
                        \<lparr>ap_tls_san_index := after_removal (length rest) (ap_tls_san_index self)\<rparr>),
                     Ok ())
               else (self, Ok ()))
      | _ \<Rightarrow> (self, Ok ()))"

definition save_config :: "tui_world \<Rightarrow> app \<Rightarrow> tui_result" where
  "save_config w self =
     (case tw_toml w (ap_config self) of
        None \<Rightarrow> (self, Err TuiSerialize)
      | Some content \<Rightarrow>
          if tw_writable w (ap_config_path self)
          then (say (lit ''Config saved to '' @ ap_config_path self)
                 (self\<lparr>ap_disk := (ap_disk self)(ap_config_path self \<mapsto> content)\<rparr>), Ok ())
          else (self, Err TuiIo))"

definition edit_path :: "input_mode \<Rightarrow> rstring \<Rightarrow> rstring option \<Rightarrow> app \<Rightarrow> app" where
  "edit_path mode label current self =
     open_dialog mode [(field_text label)\<lparr>df_value := unwrap_or [] current\<rparr>] self"

definition handle_normal_key :: "tui_world \<Rightarrow> key \<Rightarrow> app \<Rightarrow> tui_result" where
  "handle_normal_key w k self =
     (if k = Char 113 \<or> k = Esc then (self\<lparr>ap_should_quit := True\<rparr>, Ok ())
      else if k = Tab then (self\<lparr>ap_active_tab := tab_next (ap_active_tab self)\<rparr>, Ok ())
      else if k = BackTab then (self\<lparr>ap_active_tab := tab_prev (ap_active_tab self)\<rparr>, Ok ())
      else if k = Up then (move_selection (- 1) self, Ok ())
      else if k = Down \<or> k = Char 106 then (move_selection 1 self, Ok ())
      else if k = Char 97 then (start_add_dialog self, Ok ())
      else if k = Char 100 then handle_delete_action self
      else if k = Char 103 then
        (if ap_active_tab self = Users then start_assign_group_dialog self else self, Ok ())
      else if k = Char 114 then
        (if ap_active_tab self = Sessions then
           (case map_err TuiDatabase (get_active_sessions (ap_db self)) of
              Ok ss \<Rightarrow> (say (lit ''Sessions refreshed'') (self\<lparr>ap_sessions := ss\<rparr>), Ok ())
            | Err e \<Rightarrow> (self, Err e) | Panic \<Rightarrow> (self, Panic))
         else (self, Ok ()))
      else if k = Char 101 then
        (if ap_active_tab self = Tls
         then edit_path SetCertPath (lit ''Certificate PEM path'')
                (tc_cert_path (sc_tls (ap_config self))) self
         else self, Ok ())
      else if k = Char 107 \<and> ap_active_tab self = Tls then
        (edit_path SetKeyPath (lit ''Private Key PEM path'')
           (tc_key_path (sc_tls (ap_config self))) self, Ok ())
      else if k = Char 115 then
        (if ap_active_tab self = Tls then save_config w self else (self, Ok ()))
      else (self, Ok ()))"

section \<open>Keys in a dialog\<close>

text \<open>What a key does to the active field; \<open>options[i]\<close> panics out of range.\<close>

definition select_option :: "nat \<Rightarrow> dialog_field \<Rightarrow> ('e, dialog_field) outcome" where
  "select_option i f =
     (if i < length (df_options f)
      then Ok (f\<lparr>df_selected_option := i, df_value := df_options f ! i\<rparr>) else Panic)"

definition field_left :: "dialog_field \<Rightarrow> ('e, dialog_field) outcome" where
  "field_left f =
     (if df_options f \<noteq> [] \<and> 0 < df_selected_option f then select_option (df_selected_option f - 1) f
      else Ok f)"

definition field_right :: "dialog_field \<Rightarrow> ('e, dialog_field) outcome" where
  "field_right f =
     (if df_options f \<noteq> [] \<and> df_selected_option f + 1 < length (df_options f)
      then select_option (df_selected_option f + 1) f else Ok f)"

definition field_backspace :: "dialog_field \<Rightarrow> ('e, dialog_field) outcome" where
  "field_backspace f = Ok (if df_options f = [] then f\<lparr>df_value := butlast (df_value f)\<rparr> else f)"

definition field_char :: "nat \<Rightarrow> dialog_field \<Rightarrow> ('e, dialog_field) outcome" where
  "field_char c f = Ok (if df_options f = [] then f\<lparr>df_value := df_value f @ [c]\<rparr> else f)"

definition on_dialog ::
  "(dialog_state \<Rightarrow> (tui_error, dialog_state) outcome) \<Rightarrow> app \<Rightarrow> tui_result" where
  "on_dialog f self =
     (case ap_dialog self of
        None \<Rightarrow> (self, Ok ())
      | Some d \<Rightarrow>
          (case f d of
             Ok d' \<Rightarrow> (self\<lparr>ap_dialog := Some d'\<rparr>, Ok ())
           | Err e \<Rightarrow> (self, Err e) | Panic \<Rightarrow> (self, Panic)))"

text \<open>
  The branches of \<open>submit_dialog\<close>. \<open>Ok True\<close> goes on to close the dialog, \<open>Ok False\<close> returns before.
\<close>

type_synonym submit_result = "app \<times> (tui_error, bool) outcome"

definition quoted :: "rstring \<Rightarrow> rstring" where
  "quoted s = [39] @ s @ [39]"

definition submit_add_user :: "tui_world \<Rightarrow> rstring \<Rightarrow> rstring \<Rightarrow> app \<Rightarrow> submit_result" where
  "submit_add_user w username password self =
     (if username = [] \<or> password = []
      then (say (lit ''Username and password required'') self, Ok False)
      else
        let (db', r) = create_user (ap_db self) username (compute_nt_hash (tw_md4 w) password);
            self = self\<lparr>ap_db := db'\<rparr>
        in (case map_err TuiDatabase (rbind r (\<lambda>_. list_users db')) of
              Ok users \<Rightarrow> (say (lit ''User '' @ quoted username @ lit '' created'')
                (self\<lparr>ap_users := users\<rparr>), Ok True)
            | Err e \<Rightarrow> (self, Err e) | Panic \<Rightarrow> (self, Panic)))"

definition submit_add_group :: "rstring \<Rightarrow> app \<Rightarrow> submit_result" where
  "submit_add_group nm self =
     (if nm = [] then (say (lit ''Group name required'') self, Ok False)
      else
        let (db', r) = create_group (ap_db self) nm;
            self = self\<lparr>ap_db := db'\<rparr>
        in (case map_err TuiDatabase (rbind r (\<lambda>_. list_groups db')) of
              Ok groups \<Rightarrow> (say (lit ''Group '' @ quoted nm @ lit '' created'')
                (self\<lparr>ap_groups := groups\<rparr>), Ok True)
            | Err e \<Rightarrow> (self, Err e) | Panic \<Rightarrow> (self, Panic)))"

definition parse_i32 :: "rstring \<Rightarrow> int option" where
  "parse_i32 s = parse_signed (- (2 ^ 31)) (2 ^ 31 - 1) s"

definition entered_rule :: "rstring \<Rightarrow> rstring \<Rightarrow> rstring \<Rightarrow> rstring \<Rightarrow> acl_rule" where
  "entered_rule priority host port_str action =
     \<lparr>ar_id = 0, ar_priority = unwrap_or 0 (parse_i32 priority), ar_user_id = None,
      ar_group_id = None,
      ar_target_host = (if host = lit ''*'' \<or> host = [] then None else Some host),
      ar_target_port = (if port_str = lit ''*'' \<or> port_str = [] then None else parse_i32 port_str),
      ar_action = action\<rparr>"

definition submit_add_acl_rule ::
  "rstring \<Rightarrow> rstring \<Rightarrow> rstring \<Rightarrow> rstring \<Rightarrow> app \<Rightarrow> submit_result" where
  "submit_add_acl_rule priority host port_str action self =
     (let (db', r) = create_acl_rule (ap_db self) (entered_rule priority host port_str action);
          self = self\<lparr>ap_db := db'\<rparr>
      in (case map_err TuiDatabase (rbind r (\<lambda>_. get_acl_rules db')) of
            Ok rules \<Rightarrow> (say (lit ''ACL rule created'') (self\<lparr>ap_acl_rules := rules\<rparr>), Ok True)
          | Err e \<Rightarrow> (self, Err e) | Panic \<Rightarrow> (self, Panic)))"

definition submit_assign_group :: "rstring \<Rightarrow> app \<Rightarrow> submit_result" where
  "submit_assign_group group_name self =
     (if ap_user_index self < length (ap_users self) then
        let user = ap_users self ! ap_user_index self
        in (case find (\<lambda>g. g_name g = group_name) (ap_groups self) of
              None \<Rightarrow> (self, Ok True)
            | Some grp \<Rightarrow>
                let (db', r) = add_user_to_group (ap_db self) (u_id user) (g_id grp);
                    self = self\<lparr>ap_db := db'\<rparr>
                in (case map_err TuiDatabase (rbind r (\<lambda>_. get_user_groups db' (u_id user))) of
                      Ok groups \<Rightarrow> (say (lit ''User '' @ quoted (u_username user)
                          @ lit '' added to group '' @ quoted group_name)
                        (self\<lparr>ap_user_groups := (ap_user_groups self)(u_id user \<mapsto> groups)\<rparr>),
                         Ok True)
                    | Err e \<Rightarrow> (self, Err e) | Panic \<Rightarrow> (self, Panic)))
      else (self, Ok True))"

definition submit_add_san :: "rstring \<Rightarrow> app \<Rightarrow> submit_result" where
  "submit_add_san san self =
     (if san = [] then (say (lit ''SAN name required'') self, Ok False)
      else
        let names = sans self;
            self = set_tls (\<lambda>t. t\<lparr>tc_san_names := Some names\<rparr>) self
        in if san \<in> set names
           then (say (lit ''SAN '' @ quoted san @ lit '' already exists'') self, Ok True)
           else (say (lit ''Added SAN '' @ quoted san)
                  (set_tls (\<lambda>t. t\<lparr>tc_san_names := Some (names @ [san])\<rparr>) self), Ok True))"

definition submit_cert_path :: "rstring \<Rightarrow> app \<Rightarrow> submit_result" where
  "submit_cert_path path self =
     (if path = []
      then (say (lit ''Certificate path cleared'') (set_tls (\<lambda>t. t\<lparr>tc_cert_path := None\<rparr>) self), Ok True)
      else (say (lit ''Certificate path updated'')
             (set_tls (\<lambda>t. t\<lparr>tc_cert_path := Some path\<rparr>) self), Ok True))"

definition submit_key_path :: "rstring \<Rightarrow> app \<Rightarrow> submit_result" where
  "submit_key_path path self =
     (if path = []
      then (say (lit ''Key path cleared'') (set_tls (\<lambda>t. t\<lparr>tc_key_path := None\<rparr>) self), Ok True)
      else (say (lit ''Key path updated'')
             (set_tls (\<lambda>t. t\<lparr>tc_key_path := Some path\<rparr>) self), Ok True))"

text \<open>\<open>field_value(i)\<close> for each field a branch reads; an index out of range panics.\<close>

definition with_values ::
  "dialog_state \<Rightarrow> nat \<Rightarrow> app \<Rightarrow> (rstring list \<Rightarrow> submit_result) \<Rightarrow> submit_result" where
  "with_values d n self f =
     (if n \<le> length (ds_fields d) then f (map df_value (take n (ds_fields d))) else (self, Panic))"

definition submit_branch :: "tui_world \<Rightarrow> dialog_state \<Rightarrow> app \<Rightarrow> submit_result" where
  "submit_branch w d self =
     (case ap_input_mode self of
        AddUser \<Rightarrow> with_values d 2 self (\<lambda>v. submit_add_user w (v ! 0) (v ! 1) self)
      | AddGroup \<Rightarrow> with_values d 1 self (\<lambda>v. submit_add_group (v ! 0) self)
      | AddAclRule \<Rightarrow>
          with_values d 4 self (\<lambda>v. submit_add_acl_rule (v ! 0) (v ! 1) (v ! 2) (v ! 3) self)
      | AssignGroup \<Rightarrow>
          if ap_user_index self < length (ap_users self)
          then with_values d 1 self (\<lambda>v. submit_assign_group (v ! 0) self) else (self, Ok True)
      | Normal \<Rightarrow> (self, Ok True)
      | AddSan \<Rightarrow> with_values d 1 self (\<lambda>v. submit_add_san (v ! 0) self)
      | SetCertPath \<Rightarrow> with_values d 1 self (\<lambda>v. submit_cert_path (v ! 0) self)
      | SetKeyPath \<Rightarrow> with_values d 1 self (\<lambda>v. submit_key_path (v ! 0) self))"

definition submit_dialog :: "tui_world \<Rightarrow> app \<Rightarrow> tui_result" where
  "submit_dialog w self =
     (case ap_dialog self of
        None \<Rightarrow> (self, Ok ())
      | Some d \<Rightarrow>
          (case submit_branch w d self of
             (self, Ok True) \<Rightarrow> (self\<lparr>ap_input_mode := Normal, ap_dialog := None\<rparr>, Ok ())
           | (self, Ok False) \<Rightarrow> (self, Ok ())
           | (self, Err e) \<Rightarrow> (self, Err e)
           | (self, Panic) \<Rightarrow> (self, Panic)))"

definition handle_dialog_key :: "tui_world \<Rightarrow> key \<Rightarrow> app \<Rightarrow> tui_result" where
  "handle_dialog_key w k self =
     (case k of
        Esc \<Rightarrow> (self\<lparr>ap_input_mode := Normal, ap_dialog := None, ap_status_message := None\<rparr>, Ok ())
      | Tab \<Rightarrow> on_dialog next_field self
      | Enter \<Rightarrow> submit_dialog w self
      | Left \<Rightarrow> on_dialog (on_active_field field_left) self
      | Right \<Rightarrow> on_dialog (on_active_field field_right) self
      | Backspace \<Rightarrow> on_dialog (on_active_field field_backspace) self
      | Char c \<Rightarrow> on_dialog (on_active_field (field_char c)) self
      | _ \<Rightarrow> (self, Ok ()))"

definition handle_key :: "tui_world \<Rightarrow> key \<Rightarrow> app \<Rightarrow> tui_result" where
  "handle_key w k self =
     (case ap_input_mode self of
        Normal \<Rightarrow> handle_normal_key w k self
      | _ \<Rightarrow> handle_dialog_key w k self)"

section \<open>The event loop\<close>

text \<open>
  A turn of the loop: no key within the poll time, the release of a key, or a key pressed, with
  Control or without. \<open>Polling\<close> says that the loop waits for more.
\<close>

datatype tui_event = NoKey | Released | Pressed bool key

datatype loop_end = Polling | Quit | Failed tui_error | Panicked

definition loop_turn :: "tui_world \<Rightarrow> app \<Rightarrow> tui_event \<Rightarrow> app \<times> loop_end" where
  "loop_turn w self e =
     (case e of
        Released \<Rightarrow> (self, Polling)
      | NoKey \<Rightarrow> (self, if ap_should_quit self then Quit else Polling)
      | Pressed ctrl k \<Rightarrow>
          if ctrl \<and> k = Char 99 then (self\<lparr>ap_should_quit := True\<rparr>, Quit)
          else (case handle_key w k self of
                  (self, Ok _) \<Rightarrow> (self, if ap_should_quit self then Quit else Polling)
                | (self, Err e) \<Rightarrow> (self, Failed e)
                | (self, Panic) \<Rightarrow> (self, Panicked)))"

fun event_loop :: "tui_world \<Rightarrow> app \<Rightarrow> tui_event list \<Rightarrow> app \<times> loop_end" where
  "event_loop w self [] = (self, Polling)"
| "event_loop w self (e # es) =
     (case loop_turn w self e of
        (self, Polling) \<Rightarrow> event_loop w self es
      | r \<Rightarrow> r)"

definition run_manage ::
  "tui_world \<Rightarrow> database \<Rightarrow> server_config \<Rightarrow> rstring \<Rightarrow> tui_event list \<Rightarrow> app \<times> loop_end" where
  "run_manage w db config config_path es =
     (let self = app_new db config config_path
      in (case load_all self of
            Ok self \<Rightarrow> event_loop w self es
          | Err e \<Rightarrow> (self, Failed e)
          | Panic \<Rightarrow> (self, Panicked)))"

end
