(* ===== verification/Tui_Invariant.thy ===== *)
theory Tui_Invariant
  imports Tui_App
begin

text \<open>
  What holds of every session of the administration program of \<open>Tui_App\<close>: the invariant that keeps
  dialogs, selections and lists in step with the database, the absence of panics, how the program
  ends, and what a typed dialog leaves behind.
\<close>

section \<open>The invariant\<close>

definition field_ok :: "dialog_field \<Rightarrow> bool" where
  "field_ok f \<longleftrightarrow> df_options f = [] \<or>
     df_selected_option f < length (df_options f) \<and> df_value f = df_options f ! df_selected_option f"

definition mode_fields :: "input_mode \<Rightarrow> nat" where
  "mode_fields mode = (case mode of Normal \<Rightarrow> 0 | AddUser \<Rightarrow> 2 | AddAclRule \<Rightarrow> 4 | _ \<Rightarrow> 1)"

text \<open>A dialog is open exactly outside the normal mode, and has the fields its mode reads.\<close>

definition dialog_ok :: "app \<Rightarrow> bool" where
  "dialog_ok a \<longleftrightarrow>
     (case ap_dialog a of
        None \<Rightarrow> ap_input_mode a = Normal
      | Some d \<Rightarrow> ap_input_mode a \<noteq> Normal
          \<and> length (ds_fields d) = mode_fields (ap_input_mode a)
          \<and> ds_active_field d < length (ds_fields d)
          \<and> list_all field_ok (ds_fields d)
          \<and> (ap_input_mode a = AddAclRule \<longrightarrow>
               df_options (ds_fields d ! 3) = [lit ''allow'', lit ''deny'']))"

text \<open>The lists on the screen are those of the database.\<close>

definition view_current :: "app \<Rightarrow> bool" where
  "view_current a \<longleftrightarrow>
     list_users (ap_db a) = Ok (ap_users a) \<and> list_groups (ap_db a) = Ok (ap_groups a)
     \<and> get_acl_rules (ap_db a) = Ok (ap_acl_rules a)
     \<and> get_active_sessions (ap_db a) = Ok (ap_sessions a)
     \<and> (\<forall>u gs. ap_user_groups a u = Some gs \<longrightarrow> get_user_groups (ap_db a) u = Ok gs)"

definition in_range :: "nat \<Rightarrow> nat \<Rightarrow> bool" where
  "in_range i n \<longleftrightarrow> i = 0 \<or> i < n"

definition indices_ok :: "app \<Rightarrow> bool" where
  "indices_ok a \<longleftrightarrow>
     in_range (ap_user_index a) (length (ap_users a))
     \<and> in_range (ap_group_index a) (length (ap_groups a))
     \<and> in_range (ap_acl_index a) (length (ap_acl_rules a))
     \<and> in_range (ap_session_index a) (length (ap_sessions a))
     \<and> in_range (ap_tls_san_index a) (length (sans a))"

definition core_inv :: "app \<Rightarrow> bool" where
  "core_inv a \<longleftrightarrow> db_inv (ap_db a) \<and> view_current a \<and> indices_ok a"

definition app_inv :: "app \<Rightarrow> bool" where
  "app_inv a \<longleftrightarrow> core_inv a \<and> dialog_ok a"

lemmas core_defs = core_inv_def view_current_def indices_ok_def sans_def

lemma in_range_simps [simp]:
  "in_range 0 n" "in_range i n \<Longrightarrow> in_range i (Suc n)"
  "in_range (after_removal n i) n" "in_range i n \<Longrightarrow> in_range (moved delta n i) n"
  by (auto simp: in_range_def after_removal_def moved_def Let_def)

lemma say_simps [simp]:
  "ap_db (say m a) = ap_db a" "ap_config (say m a) = ap_config a" "ap_disk (say m a) = ap_disk a"
  "ap_dialog (say m a) = ap_dialog a" "ap_input_mode (say m a) = ap_input_mode a"
  "ap_should_quit (say m a) = ap_should_quit a" "core_inv (say m a) = core_inv a"
  "dialog_ok (say m a) = dialog_ok a"
  by (auto simp: say_def dialog_ok_def core_defs
      split: option.split)

lemma open_dialog_simps [simp]:
  "ap_db (open_dialog m fs a) = ap_db a" "ap_config (open_dialog m fs a) = ap_config a"
  "ap_disk (open_dialog m fs a) = ap_disk a" "ap_should_quit (open_dialog m fs a) = ap_should_quit a"
  "core_inv (open_dialog m fs a) = core_inv a"
  by (simp_all add: open_dialog_def core_defs)

lemma core_inv_move: "core_inv a \<Longrightarrow> core_inv (move_selection delta a)"
  by (auto simp: move_selection_def core_defs
      split: active_tab.split)

lemma dialog_ok_open:
  "m \<noteq> Normal \<Longrightarrow> length fs = mode_fields m \<Longrightarrow> fs \<noteq> [] \<Longrightarrow> list_all field_ok fs \<Longrightarrow>
    (m = AddAclRule \<Longrightarrow> df_options (fs ! 3) = [lit ''allow'', lit ''deny'']) \<Longrightarrow>
    dialog_ok (open_dialog m fs a)"
  by (simp add: dialog_ok_def open_dialog_def dialog_new_def length_greater_0_conv [symmetric]
      del: length_greater_0_conv)

lemma field_ok_new [simp]:
  "field_ok (field_text l)" "field_ok (field_password l)" "field_ok ((field_text l)\<lparr>df_value := v\<rparr>)"
  "os \<noteq> [] \<Longrightarrow> field_ok (field_select l os)"
  by (auto simp: field_ok_def field_text_def field_password_def field_select_def split: list.split)

lemma select_options [simp]: "df_options (field_select l os) = os"
  by (simp add: field_select_def)

lemma app_inv_start:
  "app_inv a \<Longrightarrow> app_inv (start_add_dialog a)"
  "app_inv a \<Longrightarrow> app_inv (start_assign_group_dialog a)"
  "app_inv a \<Longrightarrow> m \<in> {SetCertPath, SetKeyPath} \<Longrightarrow> app_inv (edit_path m l c a)"
  by (auto simp: start_add_dialog_def start_assign_group_dialog_def edit_path_def app_inv_def
      mode_fields_def
      intro!: dialog_ok_open split: active_tab.split)

section \<open>The database behind the view\<close>

lemma groups_of_eq: "get_user_groups db u = Ok (filter (\<lambda>g. \<exists>ug \<in> set (db_user_groups db).
    ug_group_id ug = g_id g \<and> ug_user_id ug = u) (tb_rows (db_groups db)))"
  by (simp add: get_user_groups_def)

lemma list_eqs:
  "list_users db = Ok us \<longleftrightarrow> us = tb_rows (db_users db)"
  "list_groups db = Ok gs \<longleftrightarrow> gs = tb_rows (db_groups db)"
  "get_acl_rules db = Ok rs \<longleftrightarrow> rs = sort_key (\<lambda>r. - ar_priority r) (tb_rows (db_acl_rules db))"
  "get_active_sessions db = Ok ss \<longleftrightarrow> ss = filter (\<lambda>s. se_disconnected_at s = None) (db_sessions db)"
  by (auto simp: list_users_def list_groups_def get_acl_rules_def get_active_sessions_def)

lemma fresh_group:
  "db_inv db \<Longrightarrow> ug \<in> set (db_user_groups db) \<Longrightarrow> ug_group_id ug \<noteq> tb_seq (db_groups db) + 1"
  by (force simp: db_inv_def has_group_def table_ok_def)

lemma core_inv_set_tls:
  "core_inv a \<Longrightarrow> in_range (ap_tls_san_index a) (length (unwrap_or [] (tc_san_names (f (sc_tls (ap_config a))))))
    \<Longrightarrow> core_inv (set_tls f a)"
  by (simp add: set_tls_def core_defs)

lemma core_enable:
  assumes "core_inv a"
  shows "core_inv (a\<lparr>ap_db := fst (set_user_enabled (ap_db a) i b),
    ap_users := tb_rows (db_users (fst (set_user_enabled (ap_db a) i b)))\<rparr>)"
  using assms db_inv_set_enabled [of "ap_db a" i b]
  by (auto simp: core_defs list_eqs groups_of_eq
      set_user_enabled_def table_update_def)

lemma core_delete_rule:
  assumes "core_inv a"
  shows "core_inv (a\<lparr>ap_db := fst (delete_acl_rule (ap_db a) i),
    ap_acl_rules := sort_key (\<lambda>r. - ar_priority r) (tb_rows (db_acl_rules (fst (delete_acl_rule (ap_db a) i)))),
    ap_acl_index := after_removal (length (tb_rows (db_acl_rules (fst (delete_acl_rule (ap_db a) i))))) j\<rparr>)"
  using assms db_inv_acl(2) [of "ap_db a" i]
  by (auto simp: core_defs list_eqs groups_of_eq
      delete_acl_rule_def)

lemma core_insert_user:
  assumes "core_inv a" and "insert_user (ap_db a) n h p = (db', Ok u)"
  shows "core_inv (a\<lparr>ap_db := db', ap_users := tb_rows (db_users db')\<rparr>)"
  using assms db_inv_insert_user [of "ap_db a" n h p]
  by (auto simp: core_defs list_eqs groups_of_eq
      insert_user_eq Let_def split: if_splits)

lemma core_create_group:
  assumes "core_inv a" and "create_group (ap_db a) n = (db', Ok g)"
  shows "core_inv (a\<lparr>ap_db := db', ap_groups := tb_rows (db_groups db')\<rparr>)"
  using assms db_inv_groups(1) [of "ap_db a" n] fresh_group [of "ap_db a"]
  by (auto simp: core_defs list_eqs groups_of_eq
      create_group_def Let_def split_beta split: if_splits)

lemma core_create_rule:
  assumes "core_inv a" and "create_acl_rule (ap_db a) r = (db', Ok r')"
  shows "core_inv (a\<lparr>ap_db := db',
    ap_acl_rules := sort_key (\<lambda>r. - ar_priority r) (tb_rows (db_acl_rules db'))\<rparr>)"
  using assms db_inv_acl(1) [of "ap_db a" r]
  by (auto simp: core_defs list_eqs groups_of_eq
      create_acl_rule_def Let_def split_beta simp del: sort_key_simps split: if_splits)

lemma core_assign:
  assumes "core_inv a" and "add_user_to_group (ap_db a) u g = (db', Ok ())"
    and "get_user_groups db' u = Ok gs"
  shows "core_inv (a\<lparr>ap_db := db', ap_user_groups := (ap_user_groups a)(u \<mapsto> gs)\<rparr>)"
  using assms db_inv_groups(2) [of "ap_db a" u g]
  by (auto simp: core_defs list_eqs groups_of_eq
      add_user_to_group_def Let_def split: if_splits)

text \<open>\<open>kept a a'\<close>: the mode, the dialog and the wish to quit are as before.\<close>

definition kept :: "app \<Rightarrow> app \<Rightarrow> bool" where
  "kept a a' \<longleftrightarrow> ap_dialog a' = ap_dialog a \<and> ap_input_mode a' = ap_input_mode a
     \<and> ap_should_quit a' = ap_should_quit a"

definition duplicate :: tui_error where
  "duplicate = TuiDatabase (Database UniqueViolation)"

lemma kept_simps [simp]: "kept a a" "kept a (say m b) = kept a b" "kept a (set_tls f b) = kept a b"
  by (simp_all add: kept_def say_def set_tls_def)

lemma create_results:
  "create_user db n h = (db', r) \<Longrightarrow> (\<exists>u. r = Ok u) \<or> r = Err (Database UniqueViolation) \<and> db' = db"
  "create_group db n = (db', r') \<Longrightarrow> (\<exists>g. r' = Ok g) \<or> r' = Err (Database UniqueViolation) \<and> db' = db"
  by (auto simp: create_user_def insert_user_eq create_group_def Let_def split_beta split: if_splits)

lemma submit_add_user_core:
  assumes "core_inv a" and "submit_add_user w n p a = (a', r)"
  shows "core_inv a' \<and> r \<in> {Ok True, Ok False, Err duplicate} \<and> kept a a'"
proof (cases "n = [] \<or> p = []")
  case True
  then show ?thesis using assms by (auto simp: submit_add_user_def)
next
  case False
  obtain db' u where c: "create_user (ap_db a) n (compute_nt_hash (tw_md4 w) p) = (db', u)"
    by fastforce
  from create_results(1) [OF c] show ?thesis
  proof
    assume "\<exists>v. u = Ok v"
    then obtain v where "u = Ok v" ..
    then show ?thesis
      using assms False c core_insert_user [OF assms(1), of n _ None db' v]
      by (auto simp: submit_add_user_def create_user_def list_users_def kept_def)
  qed (use assms False c in \<open>auto simp: submit_add_user_def duplicate_def\<close>)
qed

lemma submit_add_group_core:
  assumes "core_inv a" and "submit_add_group n a = (a', r)"
  shows "core_inv a' \<and> r \<in> {Ok True, Ok False, Err duplicate} \<and> kept a a'"
proof (cases "n = []")
  case True
  then show ?thesis using assms by (auto simp: submit_add_group_def)
next
  case False
  obtain db' g where c: "create_group (ap_db a) n = (db', g)" by fastforce
  from create_results(2) [OF c] show ?thesis
  proof
    assume "\<exists>v. g = Ok v"
    then obtain v where "g = Ok v" ..
    then show ?thesis
      using assms False c core_create_group [OF assms(1), of n db' v]
      by (auto simp: submit_add_group_def list_groups_def kept_def)
  qed (use assms False c in \<open>auto simp: submit_add_group_def duplicate_def\<close>)
qed

lemma entered_rule_stored:
  assumes "action = lit ''allow'' \<or> action = lit ''deny''"
  obtains db' r where "create_acl_rule db (entered_rule priority host port action) = (db', Ok r)"
    and "r = (entered_rule priority host port action)\<lparr>ar_id := tb_seq (db_acl_rules db) + 1\<rparr>"
    and "db' = db\<lparr>db_acl_rules := fst (table_insert
      (\<lambda>i. (entered_rule priority host port action)\<lparr>ar_id := i\<rparr>) (db_acl_rules db))\<rparr>"
  using assms that by (auto simp: create_acl_rule_def entered_rule_def Let_def split_beta)

lemma submit_add_acl_rule_core:
  assumes "core_inv a" and "action = lit ''allow'' \<or> action = lit ''deny''"
    and "submit_add_acl_rule priority host port action a = (a', r)"
  shows "core_inv a' \<and> r = Ok True \<and> kept a a'"
proof -
  obtain db' r' where c: "create_acl_rule (ap_db a) (entered_rule priority host port action) = (db', Ok r')"
    using assms(2) by (rule entered_rule_stored)
  show ?thesis
    using assms(3) c core_create_rule [OF assms(1) c]
    by (auto simp: submit_add_acl_rule_def get_acl_rules_def kept_def)
qed

lemma submit_assign_group_core:
  assumes "core_inv a" and "submit_assign_group n a = (a', r)"
  shows "core_inv a' \<and> r = Ok True \<and> kept a a'"
proof (cases "ap_user_index a < length (ap_users a) \<and> find (\<lambda>g. g_name g = n) (ap_groups a) \<noteq> None")
  case False
  then show ?thesis using assms by (auto simp: submit_assign_group_def split: if_splits option.splits)
next
  case True
  then obtain g where g: "find (\<lambda>g. g_name g = n) (ap_groups a) = Some g" by auto
  let ?u = "u_id (ap_users a ! ap_user_index a)"
  have "g \<in> set (ap_groups a)" using g by (auto simp: find_Some_iff)
  moreover have "ap_users a ! ap_user_index a \<in> set (ap_users a)" using True by simp
  ultimately have "has_user (ap_db a) ?u" "has_group (ap_db a) (g_id g)"
    using assms(1) by (auto simp: core_inv_def view_current_def list_eqs has_user_def has_group_def)
  then have "snd (add_user_to_group (ap_db a) ?u (g_id g)) = Ok ()"
    by (simp add: add_user_to_group_def Let_def)
  then obtain db' where c: "add_user_to_group (ap_db a) ?u (g_id g) = (db', Ok ())"
    by (metis prod.collapse)
  then show ?thesis
    using assms True g core_assign [OF assms(1) c groups_of_eq]
    by (auto simp: submit_assign_group_def groups_of_eq kept_def Let_def)
qed

lemma submit_config_core:
  assumes "core_inv a"
  shows "submit_add_san s a = (a', r) \<Longrightarrow> core_inv a' \<and> r \<in> {Ok True, Ok False} \<and> kept a a'"
    and "core_inv (fst (submit_cert_path s a)) \<and> snd (submit_cert_path s a) = Ok True
      \<and> kept a (fst (submit_cert_path s a))"
    and "core_inv (fst (submit_key_path s a)) \<and> snd (submit_key_path s a) = Ok True
      \<and> kept a (fst (submit_key_path s a))"
proof -
  have r: "in_range (ap_tls_san_index a) (length (unwrap_or [] (tc_san_names (sc_tls (ap_config a)))))"
    using assms by (simp add: core_inv_def indices_ok_def sans_def)
  have step: "core_inv (set_tls (\<lambda>t. t\<lparr>tc_san_names := Some (sans a)\<rparr>) a)"
    using r by (intro core_inv_set_tls [OF assms]) (simp add: sans_def unwrap_or_def)
  have "core_inv (set_tls (\<lambda>t. t\<lparr>tc_san_names := Some (sans a @ [s])\<rparr>)
      (set_tls (\<lambda>t. t\<lparr>tc_san_names := Some (sans a)\<rparr>) a))"
    using r by (intro core_inv_set_tls [OF step]) (simp add: sans_def unwrap_or_def set_tls_def)
  then show "submit_add_san s a = (a', r) \<Longrightarrow> core_inv a' \<and> r \<in> {Ok True, Ok False} \<and> kept a a'"
    using assms step by (auto simp: submit_add_san_def Let_def split: if_splits)
  have "core_inv (set_tls (\<lambda>t. t\<lparr>tc_cert_path := x\<rparr>) a)"
    "core_inv (set_tls (\<lambda>t. t\<lparr>tc_key_path := x\<rparr>) a)" for x
    using r by (intro core_inv_set_tls [OF assms]; simp)+
  then show "core_inv (fst (submit_cert_path s a)) \<and> snd (submit_cert_path s a) = Ok True
      \<and> kept a (fst (submit_cert_path s a))"
    and "core_inv (fst (submit_key_path s a)) \<and> snd (submit_key_path s a) = Ok True
      \<and> kept a (fst (submit_key_path s a))"
    by (simp_all add: submit_cert_path_def submit_key_path_def)
qed

lemma dialog_values:
  assumes "dialog_ok a" and "ap_dialog a = Some d"
  shows "length (ds_fields d) = mode_fields (ap_input_mode a)"
    and "ap_input_mode a = AddAclRule \<Longrightarrow>
      df_value (ds_fields d ! 3) = lit ''allow'' \<or> df_value (ds_fields d ! 3) = lit ''deny''"
proof -
  show len: "length (ds_fields d) = mode_fields (ap_input_mode a)"
    using assms by (simp add: dialog_ok_def)
  assume m: "ap_input_mode a = AddAclRule"
  then have "field_ok (ds_fields d ! 3)" "df_options (ds_fields d ! 3) = [lit ''allow'', lit ''deny'']"
    using assms len by (auto simp: dialog_ok_def list_all_length mode_fields_def)
  then show "df_value (ds_fields d ! 3) = lit ''allow'' \<or> df_value (ds_fields d ! 3) = lit ''deny''"
    by (auto simp: field_ok_def less_Suc_eq)
qed

lemma submit_branch_core:
  assumes "core_inv a" and "dialog_ok a" and "ap_dialog a = Some d"
    and "submit_branch w d a = (a', r)"
  shows "core_inv a' \<and> r \<in> {Ok True, Ok False, Err duplicate} \<and> kept a a'"
proof -
  note v = dialog_values [OF assms(2,3)]
    and branch = submit_branch_def with_values_def mode_fields_def
  let ?v = "\<lambda>i. df_value (ds_fields d ! i)"
  show ?thesis
  proof (cases "ap_input_mode a")
    case AddUser
    then have "submit_add_user w (?v 0) (?v 1) a = (a', r)"
      using assms(4) v(1) by (simp add: branch)
    then show ?thesis by (rule submit_add_user_core [OF assms(1)])
  next
    case AddGroup
    then have "submit_add_group (?v 0) a = (a', r)"
      using assms(4) v(1) by (simp add: branch)
    then show ?thesis by (rule submit_add_group_core [OF assms(1)])
  next
    case AddAclRule
    then have "submit_add_acl_rule (?v 0) (?v 1) (?v 2) (?v 3) a = (a', r)"
      using assms(4) v(1) by (simp add: branch)
    then show ?thesis
      using submit_add_acl_rule_core [OF assms(1) v(2) [OF AddAclRule]] by auto
  next
    case AssignGroup
    then have "submit_assign_group (?v 0) a = (a', r) \<or> a' = a \<and> r = Ok True"
      using assms(4) v(1) by (simp add: branch split: if_splits)
    then show ?thesis using submit_assign_group_core [OF assms(1)] assms(1) by auto
  next
    case AddSan
    then have "submit_add_san (?v 0) a = (a', r)"
      using assms(4) v(1) by (simp add: branch)
    from submit_config_core(1) [OF assms(1) this] show ?thesis by auto
  next
    case SetCertPath
    then have "submit_cert_path (?v 0) a = (a', r)"
      using assms(4) v(1) by (simp add: branch)
    then show ?thesis using submit_config_core(2) [OF assms(1), of "?v 0"] by auto
  next
    case SetKeyPath
    then have "submit_key_path (?v 0) a = (a', r)"
      using assms(4) v(1) by (simp add: branch)
    then show ?thesis using submit_config_core(3) [OF assms(1), of "?v 0"] by auto
  qed (use assms in \<open>auto simp: dialog_ok_def\<close>)
qed

lemma submit_dialog_inv:
  assumes "app_inv a" and "submit_dialog w a = (a', r)"
  shows "app_inv a' \<and> r \<in> {Ok (), Err duplicate} \<and> ap_should_quit a' = ap_should_quit a"
proof (cases "ap_dialog a")
  case None
  then show ?thesis using assms by (auto simp: submit_dialog_def)
next
  case (Some d)
  obtain b s where b: "submit_branch w d a = (b, s)" by fastforce
  then have k: "core_inv b" "s \<in> {Ok True, Ok False, Err duplicate}" "kept a b"
    using submit_branch_core [OF _ _ Some b] assms(1) by (auto simp: app_inv_def)
  have "dialog_ok b" using assms(1) k(3)
    by (auto simp: app_inv_def kept_def dialog_ok_def split: option.split)
  moreover have "core_inv (b\<lparr>ap_input_mode := Normal, ap_dialog := None\<rparr>)"
    using k(1) by (simp add: core_defs)
  ultimately show ?thesis
    using k b Some assms(2)
    by (auto simp: submit_dialog_def app_inv_def dialog_ok_def kept_def)
qed

lemma core_inv_dialog [simp]: "core_inv (a\<lparr>ap_dialog := x\<rparr>) = core_inv a"
  by (simp add: core_defs)

lemma on_active_inv:
  assumes "app_inv a" and "on_dialog (on_active_field f) a = (a', r)"
    and f: "\<And>x. field_ok x \<Longrightarrow> \<exists>y. f x = Ok y \<and> field_ok y \<and> df_options y = df_options x"
  shows "app_inv a' \<and> r = Ok () \<and> ap_should_quit a' = ap_should_quit a"
proof (cases "ap_dialog a")
  case None
  then show ?thesis using assms(1,2) by (auto simp: on_dialog_def)
next
  case (Some d)
  let ?i = "ds_active_field d"
  have i: "?i < length (ds_fields d)" and ok: "list_all field_ok (ds_fields d)"
    using assms(1) Some by (auto simp: app_inv_def dialog_ok_def)
  then obtain y where y: "f (ds_fields d ! ?i) = Ok y" "field_ok y"
      "df_options y = df_options (ds_fields d ! ?i)"
    using f by (metis list_all_length)
  have "list_all field_ok ((ds_fields d)[?i := y])"
    using ok y(2) by (auto simp: list_all_iff dest!: subsetD [OF set_update_subset_insert])
  moreover have "df_options ((ds_fields d)[?i := y] ! j) = df_options (ds_fields d ! j)" for j
    using y(3) i by (cases "j = ?i") simp_all
  ultimately show ?thesis
    using assms(1,2) Some i y(1) by (auto simp: on_dialog_def on_active_field_def app_inv_def dialog_ok_def)
qed

lemma field_edits:
  "field_ok x \<Longrightarrow> \<exists>y. field_left x = Ok y \<and> field_ok y \<and> df_options y = df_options x"
  "field_ok x \<Longrightarrow> \<exists>y. field_right x = Ok y \<and> field_ok y \<and> df_options y = df_options x"
  "field_ok x \<Longrightarrow> \<exists>y. field_backspace x = Ok y \<and> field_ok y \<and> df_options y = df_options x"
  "field_ok x \<Longrightarrow> \<exists>y. field_char c x = Ok y \<and> field_ok y \<and> df_options y = df_options x"
  by (auto simp: field_left_def field_right_def field_backspace_def field_char_def select_option_def
      field_ok_def)

lemma handle_dialog_key_inv:
  assumes "app_inv a" and "handle_dialog_key w k a = (a', r)"
  shows "app_inv a' \<and> r \<in> {Ok (), Err duplicate} \<and> ap_should_quit a' = ap_should_quit a"
  using assms(2)
proof (cases k)
  case (Char c)
  then show ?thesis
    using assms on_active_inv [OF assms(1) _ field_edits(4)]
    by (simp add: handle_dialog_key_def)
next
  case Tab
  show ?thesis
  proof (cases "ap_dialog a")
    case None
    then show ?thesis using assms Tab by (simp add: handle_dialog_key_def on_dialog_def)
  next
    case (Some d)
    then have "ds_fields d \<noteq> []" "0 < length (ds_fields d)"
      using assms(1) by (auto simp: app_inv_def dialog_ok_def)
    then show ?thesis
      using assms Tab Some
      by (auto simp: handle_dialog_key_def on_dialog_def next_field_def app_inv_def dialog_ok_def)
  qed
next
  case Left
  then show ?thesis
    using assms on_active_inv [OF assms(1) _ field_edits(1)]
    by (simp add: handle_dialog_key_def)
next
  case Right
  then show ?thesis
    using assms on_active_inv [OF assms(1) _ field_edits(2)]
    by (simp add: handle_dialog_key_def)
next
  case Backspace
  then show ?thesis
    using assms on_active_inv [OF assms(1) _ field_edits(3)]
    by (simp add: handle_dialog_key_def)
next
  case Enter
  then show ?thesis using assms submit_dialog_inv by (simp add: handle_dialog_key_def)
next
  case Esc
  then show ?thesis
    using assms by (auto simp: handle_dialog_key_def app_inv_def dialog_ok_def core_defs
     )
qed (use assms in \<open>auto simp: handle_dialog_key_def\<close>)

lemma handle_delete_action_inv:
  assumes "app_inv a" and "handle_delete_action a = (a', r)"
  shows "app_inv a' \<and> r = Ok () \<and> ap_should_quit a' = ap_should_quit a"
proof -
  have core: "core_inv a" using assms(1) by (simp add: app_inv_def)
  have "core_inv a' \<and> r = Ok () \<and> kept a a'"
  proof (cases "ap_active_tab a")
    case Users
    then show ?thesis
      using assms(2) core core_enable [OF core]
      by (auto simp: handle_delete_action_def list_users_def kept_def set_user_enabled_def Let_def
          split: if_splits)
  next
    case AclRules
    then show ?thesis
      using assms(2) core core_delete_rule [OF core]
      by (auto simp: handle_delete_action_def get_acl_rules_def kept_def delete_acl_rule_def Let_def
          split: if_splits)
  next
    case Tls
    have "core_inv ((set_tls (\<lambda>t. t\<lparr>tc_san_names := Some ns\<rparr>) a)
        \<lparr>ap_tls_san_index := after_removal (length ns) i\<rparr>)" for ns i
      using core
      by (simp add: core_defs set_tls_def unwrap_or_def)
    then show ?thesis
      using assms(2) core Tls
      by (auto simp: handle_delete_action_def Let_def kept_def set_tls_def split: if_splits option.splits)
  qed (use assms(2) core in \<open>auto simp: handle_delete_action_def\<close>)
  then show ?thesis using assms(1) by (auto simp: app_inv_def dialog_ok_def kept_def split: option.split)
qed

definition file_error :: "tui_error \<Rightarrow> bool" where
  "file_error e \<longleftrightarrow> e = TuiSerialize \<or> e = TuiIo"

lemma handle_normal_key_inv:
  assumes "app_inv a" and "ap_input_mode a = Normal" and "handle_normal_key w k a = (a', r)"
  shows "app_inv a' \<and> (r = Ok () \<or> (\<exists>e. r = Err e \<and> file_error e))"
proof -
  have base: "core_inv a" "dialog_ok a" "ap_dialog a = None"
    using assms(1,2) by (auto simp: app_inv_def dialog_ok_def split: option.splits)
  have upd: "app_inv (a\<lparr>ap_should_quit := True\<rparr>)" "app_inv (a\<lparr>ap_active_tab := t\<rparr>)"
    "app_inv (a\<lparr>ap_disk := dk\<rparr>)" for t dk
    using base assms(2)
    by (auto simp: app_inv_def core_defs dialog_ok_def)
  have move: "app_inv (move_selection delta a)" for delta
    using core_inv_move [OF base(1)] base(3) assms(2)
    by (simp add: app_inv_def dialog_ok_def move_selection_def split: active_tab.split)
  have sessions: "app_inv (a\<lparr>ap_sessions := ss\<rparr>)" if "get_active_sessions (ap_db a) = Ok ss" for ss
  proof -
    have "ap_sessions a = ss" using base(1) that by (simp add: core_inv_def view_current_def)
    then show ?thesis using assms(1) by auto
  qed
  have say: "app_inv (say m b) = app_inv b" for m b by (simp add: app_inv_def)
  obtain ss where ss: "get_active_sessions (ap_db a) = Ok ss"
    by (simp add: get_active_sessions_def)
  show ?thesis
    using assms(3) handle_delete_action_inv [OF assms(1)] assms(1) upd move sessions [OF ss]
      app_inv_start [OF assms(1)] ss
    unfolding handle_normal_key_def save_config_def file_error_def
    by (auto simp: say split: if_splits option.splits)
qed

lemma handle_key_inv:
  assumes "app_inv a" and "handle_key w k a = (a', r)"
  shows "app_inv a' \<and> (r = Ok () \<or> (\<exists>e. r = Err e \<and> (e = duplicate \<or> file_error e)))"
proof (cases "ap_input_mode a = Normal")
  case True
  then show ?thesis using assms handle_normal_key_inv by (fastforce simp: handle_key_def)
next
  case False
  then have "handle_dialog_key w k a = (a', r)"
    using assms(2) by (simp add: handle_key_def split: input_mode.splits)
  from handle_dialog_key_inv [OF assms(1) this] show ?thesis by auto
qed

lemma loop_turn_inv:
  assumes "app_inv a" and "loop_turn w a e = (a', r)"
  shows "app_inv a' \<and> r \<noteq> Panicked \<and> (\<forall>e. r = Failed e \<longrightarrow> e = duplicate \<or> file_error e)"
proof (cases e)
  case (Pressed ctrl k)
  show ?thesis
  proof (cases "ctrl \<and> k = Char 99")
    case True
    then show ?thesis
      using assms Pressed
      by (auto simp: loop_turn_def app_inv_def core_defs
          dialog_ok_def split: option.splits)
  next
    case False
    obtain b s where b: "handle_key w k a = (b, s)" by fastforce
    then show ?thesis
      using handle_key_inv [OF assms(1) b] False assms(2) Pressed
      by (auto simp: loop_turn_def split: if_splits)
  qed
qed (use assms in \<open>auto simp: loop_turn_def split: if_splits\<close>)

lemma event_loop_inv:
  "app_inv a \<Longrightarrow> event_loop w a es = (a', r) \<Longrightarrow>
    app_inv a' \<and> r \<noteq> Panicked \<and> (\<forall>e. r = Failed e \<longrightarrow> e = duplicate \<or> file_error e)"
proof (induction es arbitrary: a)
  case (Cons e es)
  obtain b s where b: "loop_turn w a e = (b, s)" by fastforce
  with loop_turn_inv [OF Cons.prems(1) b] Cons show ?case
    by (cases s) auto
qed auto

lemma event_loop_append:
  "event_loop w a (es @ fs)
    = (case event_loop w a es of (b, Polling) \<Rightarrow> event_loop w b fs | r \<Rightarrow> r)"
  by (induction es arbitrary: a) (auto split: prod.split loop_end.split)

lemma load_user_groups_eq:
  "load_user_groups db us m = Ok (\<lambda>i. if i \<in> u_id ` set us then ok_opt (get_user_groups db i) else m i)"
  by (induction us arbitrary: m) (auto simp: groups_of_eq fun_eq_iff)

lemma load_all_ok:
  assumes "db_inv db"
  obtains a where "load_all (app_new db config path) = Ok a" and "app_inv a"
    and "ap_db a = db" and "ap_active_tab a = Users" and "ap_input_mode a = Normal"
    and "\<not> ap_should_quit a" and "ap_config a = config"
proof -
  obtain m where m: "load_user_groups db (tb_rows (db_users db)) (\<lambda>_. None) = Ok m"
    "\<forall>u gs. m u = Some gs \<longrightarrow> get_user_groups db u = Ok gs"
    by (auto simp: load_user_groups_eq split: if_splits)
  show thesis
    by (rule that [of "(app_new db config path)\<lparr>ap_users := tb_rows (db_users db),
        ap_groups := tb_rows (db_groups db),
        ap_acl_rules := sort_key (\<lambda>r. - ar_priority r) (tb_rows (db_acl_rules db)),
        ap_sessions := filter (\<lambda>s. se_disconnected_at s = None) (db_sessions db),
        ap_cert_info := unwrap_or None (ok_opt (get_certificate db)), ap_user_groups := m\<rparr>"])
      (use assms m in \<open>auto simp: load_all_def app_new_def list_users_def list_groups_def
        get_acl_rules_def get_active_sessions_def Let_def app_inv_def core_inv_def view_current_def
        indices_ok_def dialog_ok_def\<close>)
qed

lemma run_manage_inv:
  assumes "db_inv db" and "run_manage w db config path es = (a, result)"
  shows "app_inv a \<and> result \<noteq> Panicked \<and> (\<forall>e. result = Failed e \<longrightarrow> e = duplicate \<or> file_error e)"
proof -
  obtain b where b: "load_all (app_new db config path) = Ok b" "app_inv b"
    using load_all_ok [OF assms(1)] by blast
  then have "event_loop w b es = (a, result)" using assms(2) by (simp add: run_manage_def)
  from event_loop_inv [OF b(2) this] show ?thesis .
qed

section \<open>Typing\<close>

definition press :: "key list \<Rightarrow> tui_event list" where
  "press ks = map (Pressed False) ks"

lemma press_simps [simp]:
  "press [] = []" "press (k # ks) = Pressed False k # press ks" "press (ks @ ls) = press ks @ press ls"
  by (simp_all add: press_def)

definition typed :: "rstring \<Rightarrow> dialog_state \<Rightarrow> dialog_state" where
  "typed s d = d\<lparr>ds_fields := (ds_fields d)[ds_active_field d :=
     (ds_fields d ! ds_active_field d)\<lparr>df_value := df_value (ds_fields d ! ds_active_field d) @ s\<rparr>]\<rparr>"

lemma type_text:
  assumes "ap_input_mode a \<noteq> Normal" and "\<not> ap_should_quit a" and "ap_dialog a = Some d"
    and "ds_active_field d < length (ds_fields d)"
    and "df_options (ds_fields d ! ds_active_field d) = []"
  shows "event_loop w a (press (map Char s) @ es) = event_loop w (a\<lparr>ap_dialog := Some (typed s d)\<rparr>) es"
  using assms
proof (induction s arbitrary: a d)
  case Nil
  have "a\<lparr>ap_dialog := Some d\<rparr> = a" using Nil(3) by (cases a) simp
  then show ?case by (simp add: typed_def)
next
  case (Cons c s)
  let ?a = "a\<lparr>ap_dialog := Some (typed [c] d)\<rparr>"
  have "loop_turn w a (Pressed False (Char c)) = (?a, Polling)"
    using Cons.prems
    by (simp add: loop_turn_def handle_key_def handle_dialog_key_def on_dialog_def
        on_active_field_def field_char_def typed_def split: input_mode.split)
  moreover have "event_loop w ?a (press (map Char s) @ es)
      = event_loop w (?a\<lparr>ap_dialog := Some (typed s (typed [c] d))\<rparr>) es"
    using Cons.prems by (intro Cons.IH) (simp_all add: typed_def)
  moreover have "typed s (typed [c] d) = typed (c # s) d"
    using Cons.prems by (simp add: typed_def)
  ultimately show ?case by simp
qed

text \<open>The keys that add a user on the first tab, and what they leave.\<close>

definition add_user_keys :: "rstring \<Rightarrow> rstring \<Rightarrow> key list" where
  "add_user_keys n p = Char 97 # map Char n @ [Tab] @ map Char p @ [Enter]"

lemma add_user_typed:
  assumes "ap_input_mode a = Normal" and "ap_active_tab a = Users" and "\<not> ap_should_quit a"
  shows "\<exists>b. event_loop w a (press (add_user_keys n p)) = event_loop w b (press [Enter])
    \<and> ap_input_mode b = AddUser \<and> ap_db b = ap_db a \<and> \<not> ap_should_quit b
    \<and> (\<exists>d. ap_dialog b = Some d \<and> map df_value (ds_fields d) = [n, p])"
proof -
  let ?fs = "[field_text (lit ''Username''), field_password (lit ''Password'')]"
  let ?a1 = "open_dialog AddUser ?fs a"
  let ?d2 = "typed n (dialog_new ?fs)"
  let ?a2 = "?a1\<lparr>ap_dialog := Some ?d2\<rparr>"
  let ?d3 = "?d2\<lparr>ds_active_field := 1\<rparr>"
  let ?a3 = "?a1\<lparr>ap_dialog := Some ?d3\<rparr>"
  let ?a4 = "?a1\<lparr>ap_dialog := Some (typed p ?d3)\<rparr>"
  have m: "ap_input_mode ?a1 = AddUser" by (simp add: open_dialog_def)
  have "loop_turn w a (Pressed False (Char 97)) = (?a1, Polling)"
    using assms by (simp add: loop_turn_def handle_key_def handle_normal_key_def start_add_dialog_def)
  then have "event_loop w a (press (add_user_keys n p))
      = event_loop w ?a1 (press (map Char n) @ press ([Tab] @ map Char p @ [Enter]))"
    by (simp add: add_user_keys_def)
  also have "\<dots> = event_loop w ?a2 (press ([Tab] @ map Char p @ [Enter]))"
    using assms by (intro type_text) (simp_all add: open_dialog_def dialog_new_def field_text_def)
  also have "\<dots> = event_loop w ?a3 (press (map Char p) @ press [Enter])"
  proof -
    have "loop_turn w ?a2 (Pressed False Tab) = (?a3, Polling)"
      using assms m
      by (simp add: loop_turn_def handle_key_def handle_dialog_key_def on_dialog_def next_field_def
          typed_def dialog_new_def)
    then show ?thesis by simp
  qed
  also have "\<dots> = event_loop w ?a4 (press [Enter])"
  proof -
    have "event_loop w ?a3 (press (map Char p) @ press [Enter])
        = event_loop w (?a3\<lparr>ap_dialog := Some (typed p ?d3)\<rparr>) (press [Enter])"
      using assms m
      by (intro type_text) (simp_all add: dialog_new_def field_text_def field_password_def typed_def)
    then show ?thesis by simp
  qed
  finally show ?thesis
    using assms m
    by (intro exI [of _ ?a4])
      (simp add: typed_def dialog_new_def field_text_def field_password_def)
qed

section \<open>An example\<close>

definition example_tui :: tui_world where
  "example_tui = \<lparr>tw_md4 = take 16, tw_toml = (\<lambda>_. Some []), tw_writable = (\<lambda>_. True)\<rparr>"

definition example_app :: app where
  "example_app = app_new database_empty (server_config_default (\<lambda>_. None)) (lit ''rdg-gateway.toml'')"

lemma example_app_inv: "app_inv example_app"
  by (simp add: example_app_def app_new_def app_inv_def core_inv_def view_current_def indices_ok_def
      dialog_ok_def db_inv_empty)
    (simp add: list_eqs database_empty_def table_empty_def)

section \<open>Properties\<close>

text \<open>
  C10. Whatever keys are pressed, the administration program never panics: a dialog
  is open exactly outside the normal mode and has the fields its mode reads, the selected field
  and the selected options exist, every selected row exists or the list is empty, and the lists
  on the screen are those of the database, which keeps its integrity. The program ends with an
  error only for a name that is taken or a configuration that cannot be turned into text or
  written to its file.
\<close>

theorem tui_invariant:
  assumes "db_inv db" and "run_manage w db config path es = (a, result)"
  shows "result \<noteq> Panicked \<and> app_inv a
    \<and> (\<forall>e. result = Failed e \<longrightarrow> e = TuiDatabase (Database UniqueViolation) \<or> file_error e)"
  using run_manage_inv [OF assms] by (simp add: duplicate_def)

theorem tui_invariant_witness:
  "snd (run_manage example_tui database_empty (server_config_default (\<lambda>_. None)) (lit ''rdg-gateway.toml'')
    (press [Tab, Char 97, Left, Tab, Enter, Esc, Up, Char 113])) \<noteq> Panicked"
  using tui_invariant [OF db_inv_empty prod.collapse [symmetric]] by blast

text \<open>
  The program can always be left: from every state Escape twice, or Control and c
  once, ends the loop regularly, whatever dialog is open.
\<close>

theorem tui_quits:
  assumes "event_loop w a es = (b, Polling)"
  shows "snd (event_loop w a (es @ press [Esc, Esc])) = Quit
    \<and> snd (event_loop w a (es @ [Pressed True (Char 99)])) = Quit"
proof -
  have "snd (event_loop w b (press [Esc, Esc])) = Quit"
    by (cases "ap_input_mode b")
      (auto simp: loop_turn_def handle_key_def handle_normal_key_def handle_dialog_key_def)
  moreover have "snd (event_loop w b [Pressed True (Char 99)]) = Quit"
    by (simp add: loop_turn_def)
  ultimately show ?thesis using assms by (simp add: event_loop_append)
qed

theorem tui_quits_witness:
  "snd (event_loop example_tui example_app (press [Char 97] @ press [Esc, Esc])) = Quit"
proof -
  have "event_loop example_tui example_app (press [Char 97]) = (start_add_dialog example_app, Polling)"
    by (simp add: loop_turn_def handle_key_def handle_normal_key_def example_app_def app_new_def
        start_add_dialog_def open_dialog_def)
  from tui_quits [OF this] show ?thesis by blast
qed

text \<open>
  On the list of users, \<open>a\<close>, a name, Tab, a password and Enter create an enabled
  account whose NT hash is that of the password, when no account answers to the name; when the
  very name is taken, the same keys end the program with the error of the database.
\<close>

theorem tui_add_user:
  assumes "ap_input_mode a = Normal" and "ap_active_tab a = Users" and "\<not> ap_should_quit a"
    and "n \<noteq> []" and "p \<noteq> []"
  shows "if n \<in> set (map u_username (tb_rows (db_users (ap_db a))))
    then \<exists>b. event_loop w a (press (add_user_keys n p)) = (b, Failed duplicate) \<and> ap_db b = ap_db a
    else \<exists>b u. event_loop w a (press (add_user_keys n p)) = (b, Polling)
      \<and> ap_input_mode b = Normal \<and> u_nt_hash u = compute_nt_hash (tw_md4 w) p \<and> u_enabled u
      \<and> tb_rows (db_users (ap_db b)) = tb_rows (db_users (ap_db a)) @ [u]
      \<and> ap_users b = tb_rows (db_users (ap_db b)) \<and> u_username u = n
      \<and> (lookup_user (ap_db a) n = None \<longrightarrow> lookup_user (ap_db b) n = Some u)"
proof -
  obtain b and d :: dialog_state where b: "event_loop w a (press (add_user_keys n p)) = event_loop w b (press [Enter])"
    "ap_input_mode b = AddUser" "ap_db b = ap_db a" "\<not> ap_should_quit b" "ap_dialog b = Some d"
    "map df_value (ds_fields d) = [n, p]"
    using add_user_typed [OF assms(1-3), of w n p] by (elim exE conjE) (rule that)
  then obtain x y where xy: "ds_fields d = [x, y]" "df_value x = n" "df_value y = p"
    by (auto simp: map_eq_Cons_conv)
  then have enter: "loop_turn w b (Pressed False Enter)
    = (case submit_add_user w n p b of
         (c, Ok True) \<Rightarrow> (c\<lparr>ap_input_mode := Normal, ap_dialog := None\<rparr>, if ap_should_quit c then Quit else Polling)
       | (c, Ok False) \<Rightarrow> (c, if ap_should_quit c then Quit else Polling)
       | (c, Err e) \<Rightarrow> (c, Failed e) | (c, Panic) \<Rightarrow> (c, Panicked))"
    using b(2,5) by (simp add: loop_turn_def handle_key_def handle_dialog_key_def submit_dialog_def
        submit_branch_def with_values_def split: prod.split outcome.split bool.split)
  show ?thesis
    using assms(4,5) b(1,3,4) enter
    by (auto simp: submit_add_user_def create_user_def insert_user_eq Let_def list_users_def
        duplicate_def say_def lookup_user_eq find_append eq_ignore_ascii_case_def)
qed

theorem tui_add_user_witness:
  "\<exists>b u. event_loop example_tui example_app (press (add_user_keys (lit ''ann'') (lit ''pw''))) = (b, Polling)
    \<and> u_nt_hash u = compute_nt_hash (take 16) (lit ''pw'') \<and> lookup_user (ap_db b) (lit ''ann'') = Some u"
proof -
  have start: "ap_input_mode example_app = Normal" "ap_active_tab example_app = Users"
    "\<not> ap_should_quit example_app" "tb_rows (db_users (ap_db example_app)) = []"
    by (simp_all add: example_app_def app_new_def database_empty_def table_empty_def)
  have "lookup_user (ap_db example_app) (lit ''ann'') = None"
    using start(4) by (simp add: lookup_user_eq)
  then show ?thesis
    using tui_add_user [OF start(1-3), of "lit ''ann''" "lit ''pw''" example_tui] start(4)
    by (auto simp: lit_def example_tui_def)
qed

text \<open>
  A port that is not a number is not refused: the rule is stored without a port,
  so that an \<open>allow\<close> rule meant for one port admits every port of the host.
\<close>

theorem tui_bad_port:
  assumes "app_inv a" and "ap_input_mode a = AddAclRule" and "ap_dialog a = Some d"
    and "parse_i32 (df_value (ds_fields d ! 2)) = None"
  shows "\<exists>b rule. handle_key w Enter a = (b, Ok ())
    \<and> tb_rows (db_acl_rules (ap_db b)) = tb_rows (db_acl_rules (ap_db a)) @ [rule]
    \<and> ar_target_port rule = None
    \<and> rule_matches rule user_id user_groups host port = rule_matches rule user_id user_groups host port'"
proof -
  let ?v = "\<lambda>i. df_value (ds_fields d ! i)"
  have core: "core_inv a" "dialog_ok a" using assms(1) by (simp_all add: app_inv_def)
  have act: "?v 3 = lit ''allow'' \<or> ?v 3 = lit ''deny''" and len: "length (ds_fields d) = 4"
    using dialog_values [OF core(2) assms(3)] assms(2) by (simp_all add: mode_fields_def)
  obtain db' rule where c: "create_acl_rule (ap_db a) (entered_rule (?v 0) (?v 1) (?v 2) (?v 3)) = (db', Ok rule)"
    and rule: "rule = (entered_rule (?v 0) (?v 1) (?v 2) (?v 3))\<lparr>ar_id := tb_seq (db_acl_rules (ap_db a)) + 1\<rparr>"
    and db': "db' = (ap_db a)\<lparr>db_acl_rules := fst (table_insert
      (\<lambda>i. (entered_rule (?v 0) (?v 1) (?v 2) (?v 3))\<lparr>ar_id := i\<rparr>) (db_acl_rules (ap_db a)))\<rparr>"
    using act by (rule entered_rule_stored)
  have port: "ar_target_port rule = None"
    using assms(4) rule by (simp add: entered_rule_def)
  obtain b where "handle_key w Enter a = (b, Ok ())" "ap_db b = db'"
    using assms(2,3) len c
    by (auto simp: handle_key_def handle_dialog_key_def submit_dialog_def submit_branch_def
        with_values_def submit_add_acl_rule_def get_acl_rules_def say_def)
  moreover have "tb_rows (db_acl_rules db') = tb_rows (db_acl_rules (ap_db a)) @ [rule]"
    using db' rule by simp
  moreover have "rule_matches rule user_id user_groups host port
      = rule_matches rule user_id user_groups host port'"
    using port by (simp add: rule_matches_def)
  ultimately show ?thesis using port by blast
qed

theorem tui_bad_port_witness:
  "\<exists>(b :: app) (rule :: acl_rule). tb_rows (db_acl_rules (ap_db b)) = [rule]
    \<and> rule_matches rule 1 [] (lit ''h'') 3389 = rule_matches rule 1 [] (lit ''h'') 22
    \<and> ar_target_port rule = None"
proof -
  let ?fs = "[field_text (lit ''Priority (0-100)''), field_text (lit ''Target Host (or * for any)''),
    (field_text (lit ''Target Port (or * for any)''))\<lparr>df_value := lit ''33B9''\<rparr>,
    field_select (lit ''Action'') [lit ''allow'', lit ''deny'']]"
  let ?a = "open_dialog AddAclRule ?fs example_app"
  have "app_inv ?a"
    using example_app_inv by (auto simp: app_inv_def mode_fields_def intro: dialog_ok_open)
  moreover have "ap_input_mode ?a = AddAclRule" "ap_dialog ?a = Some (dialog_new ?fs)"
    by (simp_all add: open_dialog_def)
  moreover have "parse_i32 (df_value (ds_fields (dialog_new ?fs) ! 2)) = None"
    by (simp add: dialog_new_def parse_i32_def parse_signed_def digits_value_def is_digit_def lit_def)
  ultimately have "\<exists>b rule. handle_key example_tui Enter ?a = (b, Ok ())
      \<and> tb_rows (db_acl_rules (ap_db b)) = tb_rows (db_acl_rules (ap_db ?a)) @ [rule]
      \<and> ar_target_port rule = None
      \<and> rule_matches rule 1 [] (lit ''h'') 3389 = rule_matches rule 1 [] (lit ''h'') 22"
    by (rule tui_bad_port)
  moreover have "tb_rows (db_acl_rules (ap_db ?a)) = []"
    by (simp add: example_app_def app_new_def database_empty_def table_empty_def)
  ultimately show ?thesis by (elim exE conjE) (simp only: append_Nil, blast)
qed

end
