(* ===== verification/Tui_View.thy ===== *)
theory Tui_View
  imports Tui_Invariant Startup
begin

text \<open>
  \<open>crates/rdg-server/src/tui/ui/\<close>: the texts the administration screens show. Each table row is the
  list of its cells; layout and colours are in \<open>Tui_Draw\<close>. Non-ASCII signs are
  given by their code points.
\<close>

section \<open>Tables\<close>

text \<open>The dash, the check mark, the cross and the bullet.\<close>

definition em_dash :: rstring where "em_dash = [0x2014]"

definition user_row :: "app \<Rightarrow> user \<Rightarrow> rstring list" where
  "user_row a u =
     [int_to_dec (u_id u), u_username u, if u_enabled u then [0x2713] else [0x2717],
      (case ap_user_groups a (u_id u) of
         Some gs \<Rightarrow> join_with (lit '', '') (map g_name gs)
       | None \<Rightarrow> em_dash)]"

definition group_row :: "user_group \<Rightarrow> rstring list" where
  "group_row g = [int_to_dec (g_id g), g_name g]"

definition target_text :: "rstring \<Rightarrow> rstring option \<Rightarrow> int option \<Rightarrow> rstring" where
  "target_text none host port =
     unwrap_or none host @ lit '':'' @ (case port of Some p \<Rightarrow> int_to_dec p | None \<Rightarrow> none)"

definition acl_row :: "app \<Rightarrow> acl_rule \<Rightarrow> rstring list" where
  "acl_row a r =
     [int_to_dec (ar_id r), int_to_dec (ar_priority r),
      unwrap_or (lit ''*'') (map_option u_username
        (Option.bind (ar_user_id r) (\<lambda>i. find (\<lambda>u. u_id u = i) (ap_users a)))),
      unwrap_or (lit ''*'') (map_option g_name
        (Option.bind (ar_group_id r) (\<lambda>i. find (\<lambda>g. g_id g = i) (ap_groups a)))),
      target_text (lit ''*'') (ar_target_host r) (ar_target_port r), ar_action r]"

definition session_cells :: "app \<Rightarrow> session_row \<Rightarrow> rstring list" where
  "session_cells a s =
     [se_id s,
      unwrap_or (lit ''unknown'')
        (map_option u_username (find (\<lambda>u. u_id u = se_user_id s) (ap_users a))),
      se_client_ip s, target_text em_dash (se_target_host s) (se_target_port s), se_connected_at s]"

text \<open>The selected row of a table.\<close>

definition selected :: "'r list \<Rightarrow> nat \<Rightarrow> nat option" where
  "selected rows i = (if rows = [] then None else Some i)"

section \<open>TLS\<close>

definition tls_mode :: "server_config \<Rightarrow> rstring" where
  "tls_mode cfg =
     (if tc_cert_path (sc_tls cfg) \<noteq> None \<and> tc_key_path (sc_tls cfg) \<noteq> None
      then lit ''External Certificate''
      else if tc_auto_generate (sc_tls cfg) then lit ''Self-Signed (auto-generated)''
      else lit ''Not Configured'')"

definition tls_info :: "app \<Rightarrow> rstring list" where
  "tls_info a =
     [lit ''Mode:    '' @ tls_mode (ap_config a),
      lit ''Cert:    '' @ unwrap_or em_dash (tc_cert_path (sc_tls (ap_config a))),
      lit ''Key:     '' @ unwrap_or em_dash (tc_key_path (sc_tls (ap_config a)))]
     @ (case ap_cert_info a of
          Some cert \<Rightarrow>
            [lit ''Subject: '' @ ci_subject cert, lit ''Thumb:   '' @ ci_thumbprint cert,
             lit ''Valid:   '' @ ci_not_before cert @ [0x20, 0x2192, 0x20] @ ci_not_after cert,
             lit ''On disk: '' @ ci_cert_path cert @ lit '', '' @ ci_key_path cert]
        | None \<Rightarrow> [lit ''  No certificate in database''])"

section \<open>Dialogs and the status line\<close>

definition dialog_title :: "input_mode \<Rightarrow> rstring option" where
  "dialog_title mode =
     (case mode of
        AddUser \<Rightarrow> Some (lit '' Add User '') | AddGroup \<Rightarrow> Some (lit '' Add Group '')
      | AddAclRule \<Rightarrow> Some (lit '' Add ACL Rule '') | AssignGroup \<Rightarrow> Some (lit '' Assign Group '')
      | AddSan \<Rightarrow> Some (lit '' Add SAN '') | SetCertPath \<Rightarrow> Some (lit '' Set Certificate Path '')
      | SetKeyPath \<Rightarrow> Some (lit '' Set Key Path '') | Normal \<Rightarrow> None)"

definition display_value :: "dialog_field \<Rightarrow> rstring" where
  "display_value f =
     (if df_options f \<noteq> [] then
        [0x25C0, 0x20]
        @ (if df_selected_option f < length (df_options f) then df_options f ! df_selected_option f
           else [])
        @ [0x20, 0x25B6]
      else if df_masked f then replicate (str_len (df_value f)) 0x2022
      else df_value f)"

definition dialog_lines :: "app \<Rightarrow> (rstring \<times> rstring) list" where
  "dialog_lines a =
     (case ap_dialog a of
        None \<Rightarrow> []
      | Some d \<Rightarrow>
          (case dialog_title (ap_input_mode a) of
             None \<Rightarrow> []
           | Some _ \<Rightarrow> map (\<lambda>f. (df_label f, display_value f)) (ds_fields d)))"

definition arrows :: rstring where "arrows = [0x2191, 0x2193]"

definition help_text :: "app \<Rightarrow> rstring" where
  "help_text a =
     (case ap_input_mode a of
        Normal \<Rightarrow>
          lit '' Tab:switch  '' @ arrows @ lit '':navigate''
          @ (case ap_active_tab a of
               Users \<Rightarrow> lit ''  a:add  d:toggle  g:groups  q:quit ''
             | Groups \<Rightarrow> lit ''  a:add  q:quit ''
             | AclRules \<Rightarrow> lit ''  a:add  d:delete  q:quit ''
             | Sessions \<Rightarrow> lit ''  r:refresh  q:quit ''
             | Tls \<Rightarrow> lit ''  a:add SAN  d:delete SAN  e:cert path  k:key path  s:save  q:quit '')
      | _ \<Rightarrow> lit '' Enter:confirm  Tab:next field  Esc:cancel '')"

definition status_line :: "app \<Rightarrow> rstring" where
  "status_line a =
     (case ap_status_message a of
        Some msg \<Rightarrow> msg @ [0x20, 0x2502, 0x20] @ help_text a
      | None \<Rightarrow> help_text a)"

section \<open>Properties\<close>

text \<open>
  The TLS mode on the screen is what a start of the gateway with this
  configuration does: it reads the external files and touches nothing, or uses a self-signed
  certificate, or refuses to start.
\<close>

theorem tls_mode_true:
  "(tls_mode cfg = lit ''External Certificate'' \<longleftrightarrow>
      (\<exists>cert key. tc_cert_path (sc_tls cfg) = Some cert \<and> tc_key_path (sc_tls cfg) = Some key
        \<and> load_or_generate_cert w cfg fs db = (fs, db, read_pair fs cert key)))
    \<and> (tls_mode cfg = lit ''Self-Signed (auto-generated)'' \<longleftrightarrow> self_signed cfg)
    \<and> (tls_mode cfg = lit ''Not Configured'' \<longleftrightarrow>
        load_or_generate_cert w cfg fs db = (fs, db, Err TlsNotConfigured))"
proof -
  have gen: "generate_cert w cfg ns fs db \<noteq> (fs', db', Err TlsNotConfigured)" for ns fs' db'
    by (auto simp: generate_cert_def Let_def split: option.splits)
  have rd: "read_pair fs p q \<noteq> Err TlsNotConfigured" for p q
    by (cases "fs p"; cases "fs q") (simp_all add: read_pair_def)
  have modes: "tls_mode cfg = lit ''External Certificate'' \<longleftrightarrow>
      tc_cert_path (sc_tls cfg) \<noteq> None \<and> tc_key_path (sc_tls cfg) \<noteq> None"
    "tls_mode cfg = lit ''Self-Signed (auto-generated)'' \<longleftrightarrow> self_signed cfg"
    "tls_mode cfg = lit ''Not Configured'' \<longleftrightarrow> \<not> self_signed cfg
      \<and> (tc_cert_path (sc_tls cfg) = None \<or> tc_key_path (sc_tls cfg) = None)"
    by (auto simp: tls_mode_def self_signed_def lit_def)
  consider (external) cert key where "tc_cert_path (sc_tls cfg) = Some cert"
      "tc_key_path (sc_tls cfg) = Some key"
    | (own) "self_signed cfg"
    | (none) "\<not> self_signed cfg" "tc_cert_path (sc_tls cfg) = None \<or> tc_key_path (sc_tls cfg) = None"
    by (cases "tc_cert_path (sc_tls cfg)"; cases "tc_key_path (sc_tls cfg)")
      (auto simp: self_signed_def)
  then show ?thesis
  proof cases
    case external
    then show ?thesis using rd by (simp add: modes load_or_generate_cert_def self_signed_def)
  next
    case own
    then have "load_or_generate_cert w cfg fs db \<noteq> (fs, db, Err TlsNotConfigured)"
      using gen rd by (auto simp: load_self_signed split: outcome.splits option.splits)
    then show ?thesis using own by (auto simp: modes self_signed_def)
  next
    case none
    then have "load_or_generate_cert w cfg fs db = (fs, db, Err TlsNotConfigured)"
      by (auto simp: load_or_generate_cert_def self_signed_def split: option.split)
    then show ?thesis using none by (auto simp: modes)
  qed
qed

text \<open>
  On every screen that can be reached the highlighted row is a row of its table, a
  dialog has a title and shows each of its fields, and a password is never shown: only the number
  of bytes typed.
\<close>

theorem tui_screen:
  assumes "db_inv db" and "run_manage w db config path es = (a, result)"
  shows "list_all (\<lambda>(i, n). case i of Some i \<Rightarrow> i < n | None \<Rightarrow> n = 0)
      [(selected (ap_users a) (ap_user_index a), length (ap_users a)),
       (selected (ap_groups a) (ap_group_index a), length (ap_groups a)),
       (selected (ap_acl_rules a) (ap_acl_index a), length (ap_acl_rules a)),
       (selected (ap_sessions a) (ap_session_index a), length (ap_sessions a))]
    \<and> length (dialog_lines a) = mode_fields (ap_input_mode a)
    \<and> (ap_dialog a \<noteq> None \<longleftrightarrow> dialog_title (ap_input_mode a) \<noteq> None)
    \<and> (df_masked f \<and> df_options f = [] \<and> str_len v = str_len (df_value f) \<longrightarrow>
        display_value (f\<lparr>df_value := v\<rparr>) = display_value f)"
proof -
  have inv: "app_inv a" using run_manage_inv [OF assms] by simp
  then have "in_range (ap_user_index a) (length (ap_users a))"
    "in_range (ap_group_index a) (length (ap_groups a))"
    "in_range (ap_acl_index a) (length (ap_acl_rules a))"
    "in_range (ap_session_index a) (length (ap_sessions a))"
    by (simp_all add: app_inv_def core_inv_def indices_ok_def)
  then have "list_all (\<lambda>(i, n). case i of Some i \<Rightarrow> i < n | None \<Rightarrow> n = 0)
      [(selected (ap_users a) (ap_user_index a), length (ap_users a)),
       (selected (ap_groups a) (ap_group_index a), length (ap_groups a)),
       (selected (ap_acl_rules a) (ap_acl_index a), length (ap_acl_rules a)),
       (selected (ap_sessions a) (ap_session_index a), length (ap_sessions a))]"
    by (auto simp: selected_def in_range_def)
  moreover have title: "dialog_title m \<noteq> None \<longleftrightarrow> m \<noteq> Normal" for m
    by (simp add: dialog_title_def split: input_mode.split)
  have "dialog_ok a" using inv by (simp add: app_inv_def)
  then have "length (dialog_lines a) = mode_fields (ap_input_mode a)
      \<and> (ap_dialog a \<noteq> None \<longleftrightarrow> dialog_title (ap_input_mode a) \<noteq> None)"
    using title [of "ap_input_mode a"]
    by (auto simp: dialog_ok_def dialog_lines_def mode_fields_def split: option.splits)
  ultimately show ?thesis by (auto simp: display_value_def)
qed

theorem tui_screen_witness:
  "\<exists>a r. run_manage example_tui database_empty (server_config_default (\<lambda>_. None)) []
      (press [Tab, Char 97]) = (a, r)
    \<and> length (dialog_lines a) = mode_fields (ap_input_mode a)"
proof -
  obtain a r where run: "run_manage example_tui database_empty (server_config_default (\<lambda>_. None)) []
      (press [Tab, Char 97]) = (a, r)"
    by fastforce
  from tui_screen [OF db_inv_empty run] show ?thesis using run by blast
qed

end
