(* ===== verification/Tui_Draw.thy ===== *)
theory Tui_Draw
  imports Tui_View
begin

text \<open>
  \<open>crates/rdg-server/src/tui/ui/\<close>, the \<open>draw\<close> functions: the widgets a screen is made of, with
  their styles and the area each is rendered to. The parameter \<open>layout_engine\<close> is the layout of
  \<open>ratatui\<close>: the area of the terminal, the division of an area by constraints, and the inside of a
  bordered one. Indexing past the division panics, and so does here arithmetic on \<open>u16\<close> that would
  overflow, as in a debug build; \<open>tui_draws\<close> shows that neither happens. The fixed styles of the tab
  bar and of the row highlight are left out.
\<close>

section \<open>Widgets\<close>

datatype color = White | Yellow | Gray | DarkGray | Red | Green | Cyan | Black

record style =
  st_fg :: "color option"
  st_bg :: "color option"
  st_bold :: bool

definition plain :: style where
  "plain = \<lparr>st_fg = None, st_bg = None, st_bold = False\<rparr>"

definition fg :: "color \<Rightarrow> style" where
  "fg c = plain\<lparr>st_fg := Some c\<rparr>"

definition highlighted :: style where
  "highlighted = \<lparr>st_fg = Some White, st_bg = Some DarkGray, st_bold = False\<rparr>"

definition heading :: style where
  "heading = \<lparr>st_fg = Some Yellow, st_bg = None, st_bold = True\<rparr>"

datatype direction = Vertical | Horizontal

datatype layout_constraint = CLength nat | CMin nat | CPercentage nat

type_synonym span = "rstring \<times> style"

record table_view =
  tv_title :: rstring
  tv_header :: "span list"
  tv_rows :: "(span list \<times> style) list"
  tv_widths :: "layout_constraint list"
  tv_selected :: "nat option"

datatype widget =
    TabsWidget rstring "span list" nat
  | TableWidget table_view
  | ParagraphWidget "rstring option" "span list list" style
  | ListWidget rstring "span list list"
  | ClearWidget
  | BlockWidget rstring style

record 'r layout_engine =
  le_area :: 'r
  le_split :: "direction \<Rightarrow> layout_constraint list \<Rightarrow> 'r \<Rightarrow> 'r list"
  le_inner :: "'r \<Rightarrow> 'r"

type_synonym 'r drawing = "(tui_error, ('r \<times> widget) list) outcome"

text \<open>\<open>chunks[i]\<close>, and \<open>a - b\<close> and \<open>a * b + c\<close> in \<open>u16\<close>.\<close>

definition chunk :: "'r list \<Rightarrow> nat \<Rightarrow> (tui_error, 'r) outcome" where
  "chunk areas i = (if i < length areas then Ok (areas ! i) else Panic)"

definition sub_u16 :: "nat \<Rightarrow> nat \<Rightarrow> (tui_error, nat) outcome" where
  "sub_u16 a b = (if b \<le> a then Ok (a - b) else Panic)"

definition mul_add_u16 :: "nat \<Rightarrow> nat \<Rightarrow> nat \<Rightarrow> (tui_error, nat) outcome" where
  "mul_add_u16 a b c = (if a * b + c < 2 ^ 16 then Ok (a * b + c) else Panic)"

definition centered_rect :: "'r layout_engine \<Rightarrow> nat \<Rightarrow> nat \<Rightarrow> 'r \<Rightarrow> (tui_error, 'r) outcome" where
  "centered_rect L percent_x percent_y area =
     rbind (sub_u16 100 percent_y) (\<lambda>rest_y.
     let popup_layout = le_split L Vertical
           [CPercentage (rest_y div 2), CPercentage percent_y, CPercentage (rest_y div 2)] area
     in rbind (sub_u16 100 percent_x) (\<lambda>rest_x.
        rbind (chunk popup_layout 1) (\<lambda>middle.
        chunk (le_split L Horizontal
          [CPercentage (rest_x div 2), CPercentage percent_x, CPercentage (rest_x div 2)] middle) 1)))"

section \<open>The five pages\<close>

text \<open>\<open> Users (2) \<close> and the like.\<close>

definition counted_title :: "rstring \<Rightarrow> 'a list \<Rightarrow> rstring" where
  "counted_title name rows = lit '' '' @ name @ lit '' ('' @ dec_digits (length rows) @ lit '') ''"

definition header_cells :: "rstring list \<Rightarrow> span list" where
  "header_cells names = map (\<lambda>h. (h, heading)) names"

definition row_style :: "nat \<Rightarrow> nat \<Rightarrow> style \<Rightarrow> style" where
  "row_style i index other = (if i = index then highlighted else other)"

definition raw_cells :: "rstring list \<Rightarrow> span list" where
  "raw_cells cells = map (\<lambda>c. (c, plain)) cells"

definition users_table :: "app \<Rightarrow> table_view" where
  "users_table a =
     \<lparr>tv_title = counted_title (lit ''Users'') (ap_users a),
      tv_header = header_cells [lit ''ID'', lit ''Username'', lit ''Enabled'', lit ''Groups''],
      tv_rows = map (\<lambda>(i, user). (raw_cells (user_row a user),
          row_style i (ap_user_index a) (if u_enabled user then plain else fg Red)))
        (List.enumerate 0 (ap_users a)),
      tv_widths = [CLength 6, CPercentage 30, CLength 9, CPercentage 50],
      tv_selected = selected (ap_users a) (ap_user_index a)\<rparr>"

definition groups_table :: "app \<Rightarrow> table_view" where
  "groups_table a =
     \<lparr>tv_title = counted_title (lit ''Groups'') (ap_groups a),
      tv_header = header_cells [lit ''ID'', lit ''Name''],
      tv_rows = map (\<lambda>(i, g). (raw_cells (group_row g), row_style i (ap_group_index a) plain))
        (List.enumerate 0 (ap_groups a)),
      tv_widths = [CLength 6, CPercentage 80],
      tv_selected = selected (ap_groups a) (ap_group_index a)\<rparr>"

text \<open>The last cell, the action, has a colour of its own.\<close>

definition acl_cells :: "app \<Rightarrow> acl_rule \<Rightarrow> span list" where
  "acl_cells a r =
     raw_cells (butlast (acl_row a r))
     @ [(ar_action r, if ar_action r = lit ''allow'' then fg Green else fg Red)]"

definition acl_table :: "app \<Rightarrow> table_view" where
  "acl_table a =
     \<lparr>tv_title = counted_title (lit ''ACL Rules'') (ap_acl_rules a),
      tv_header = header_cells
        [lit ''ID'', lit ''Priority'', lit ''User'', lit ''Group'', lit ''Target'', lit ''Action''],
      tv_rows = map (\<lambda>(i, r). (acl_cells a r, row_style i (ap_acl_index a) plain))
        (List.enumerate 0 (ap_acl_rules a)),
      tv_widths = [CLength 6, CLength 10, CPercentage 15, CPercentage 15, CPercentage 30, CLength 8],
      tv_selected = selected (ap_acl_rules a) (ap_acl_index a)\<rparr>"

definition sessions_table :: "app \<Rightarrow> table_view" where
  "sessions_table a =
     \<lparr>tv_title = counted_title (lit ''Active Sessions'') (ap_sessions a),
      tv_header = header_cells
        [lit ''ID'', lit ''User'', lit ''Client IP'', lit ''Target'', lit ''Connected At''],
      tv_rows = map (\<lambda>(i, s). (raw_cells (session_cells a s), row_style i (ap_session_index a) plain))
        (List.enumerate 0 (ap_sessions a)),
      tv_widths = [CLength 12, CPercentage 15, CPercentage 20, CPercentage 25, CPercentage 25],
      tv_selected = selected (ap_sessions a) (ap_session_index a)\<rparr>"

text \<open>A line of the TLS page: its label of nine characters in a colour, then the text.\<close>

definition labelled :: "color \<Rightarrow> rstring \<Rightarrow> span list" where
  "labelled c line = [(take 9 line, fg c), (drop 9 line, plain)]"

definition draw_tls_info :: "app \<Rightarrow> widget" where
  "draw_tls_info a =
     ParagraphWidget (Some (lit '' TLS Configuration ''))
       (map (labelled Yellow) (take 3 (tls_info a))
        @ (case ap_cert_info a of
             Some _ \<Rightarrow> map (labelled Cyan) (drop 3 (tls_info a))
           | None \<Rightarrow> map (\<lambda>line. [(line, fg DarkGray)]) (drop 3 (tls_info a)))) plain"

definition draw_san_list :: "app \<Rightarrow> widget" where
  "draw_san_list a =
     ListWidget (lit '' Subject Alternative Names (custom) '')
       (map (\<lambda>(i, name). [(name, row_style i (ap_tls_san_index a) plain)])
         (List.enumerate 0 (unwrap_or [] (tc_san_names (sc_tls (ap_config a))))))"

definition draw_tls :: "'r layout_engine \<Rightarrow> app \<Rightarrow> 'r \<Rightarrow> 'r drawing" where
  "draw_tls L a area =
     (let chunks = le_split L Vertical [CLength 9, CMin 5] area
      in rbind (chunk chunks 0) (\<lambda>info.
         rbind (chunk chunks 1) (\<lambda>names.
         Ok [(info, draw_tls_info a), (names, draw_san_list a)])))"

section \<open>The dialog\<close>

definition field_lines :: "bool \<Rightarrow> dialog_field \<Rightarrow> span list list" where
  "field_lines is_active field =
     [[(df_label field, if is_active then heading else fg Gray)],
      [(display_value field, fg White),
       (if is_active \<and> df_options field = [] then [0x258F] else [], fg Yellow)]]"

fun draw_fields :: "'r list \<Rightarrow> nat \<Rightarrow> nat \<Rightarrow> dialog_field list \<Rightarrow> 'r drawing" where
  "draw_fields chunks active i [] = Ok []"
| "draw_fields chunks active i (field # rest) =
     rbind (chunk chunks i) (\<lambda>area.
     map_ok (\<lambda>ws. (area, ParagraphWidget None (field_lines (i = active) field) plain) # ws)
       (draw_fields chunks active (Suc i) rest))"

definition draw_dialog :: "'r layout_engine \<Rightarrow> app \<Rightarrow> 'r drawing" where
  "draw_dialog L a =
     (case ap_dialog a of
        None \<Rightarrow> Ok []
      | Some d \<Rightarrow>
          (case dialog_title (ap_input_mode a) of
             None \<Rightarrow> Ok []
           | Some title \<Rightarrow>
               let field_count = length (ds_fields d) mod 2 ^ 16
               in rbind (mul_add_u16 field_count 2 4) (\<lambda>h.
                  let height = min h 20
                  in rbind (mul_add_u16 height 3 0) (\<lambda>percent.
                     rbind (centered_rect L 50 percent (le_area L)) (\<lambda>area.
                     let inner = le_inner L area;
                         chunks = le_split L Vertical
                           (map (\<lambda>_. CLength 2) (ds_fields d) @ [CMin 1]) inner
                     in map_ok (\<lambda>ws. (area, ClearWidget)
                            # (area, BlockWidget title (plain\<lparr>st_bg := Some Black\<rparr>)) # ws)
                          (draw_fields chunks (ds_active_field d) 0 (ds_fields d)))))))"

section \<open>The screen\<close>

definition tab_index :: "active_tab \<Rightarrow> nat" where
  "tab_index t = (case t of Users \<Rightarrow> 0 | Groups \<Rightarrow> 1 | AclRules \<Rightarrow> 2 | Sessions \<Rightarrow> 3 | Tls \<Rightarrow> 4)"

definition tab_titles :: "rstring list" where
  "tab_titles = [lit ''Users'', lit ''Groups'', lit ''ACL Rules'', lit ''Sessions'', lit ''TLS'']"

definition draw_tab_bar :: "app \<Rightarrow> widget" where
  "draw_tab_bar a = TabsWidget (lit '' RDG Gateway Manager '')
     (map (\<lambda>t. (t, fg White)) tab_titles) (tab_index (ap_active_tab a))"

definition draw_status_bar :: "app \<Rightarrow> widget" where
  "draw_status_bar a = ParagraphWidget None [[(status_line a, plain)]] highlighted"

definition draw_page :: "'r layout_engine \<Rightarrow> app \<Rightarrow> 'r \<Rightarrow> 'r drawing" where
  "draw_page L a area =
     (case ap_active_tab a of
        Users \<Rightarrow> Ok [(area, TableWidget (users_table a))]
      | Groups \<Rightarrow> Ok [(area, TableWidget (groups_table a))]
      | AclRules \<Rightarrow> Ok [(area, TableWidget (acl_table a))]
      | Sessions \<Rightarrow> Ok [(area, TableWidget (sessions_table a))]
      | Tls \<Rightarrow> draw_tls L a area)"

definition draw_screen :: "'r layout_engine \<Rightarrow> app \<Rightarrow> 'r drawing" where
  "draw_screen L a =
     (let chunks = le_split L Vertical [CLength 3, CMin 5, CLength 1] (le_area L)
      in rbind (chunk chunks 0) (\<lambda>bar.
         rbind (chunk chunks 1) (\<lambda>content.
         rbind (draw_page L a content) (\<lambda>page.
         rbind (chunk chunks 2) (\<lambda>status.
         rbind (if ap_input_mode a \<noteq> Normal then draw_dialog L a else Ok []) (\<lambda>overlay.
         Ok ((bar, draw_tab_bar a) # page @ (status, draw_status_bar a) # overlay)))))))"

section \<open>What is drawn\<close>

text \<open>The documented law of a layout: one area for each constraint.\<close>

definition splits :: "'r layout_engine \<Rightarrow> bool" where
  "splits L \<longleftrightarrow> (\<forall>d cs area. length (le_split L d cs area) = length cs)"

lemma splits_length: "splits L \<Longrightarrow> length (le_split L d cs area) = length cs"
  by (simp add: splits_def)

lemma chunk_Ok [simp]: "i < length areas \<Longrightarrow> chunk areas i = Ok (areas ! i)"
  by (simp add: chunk_def)

text \<open>The screen without its areas.\<close>

definition page_widgets :: "app \<Rightarrow> widget list" where
  "page_widgets a =
     (case ap_active_tab a of
        Users \<Rightarrow> [TableWidget (users_table a)]
      | Groups \<Rightarrow> [TableWidget (groups_table a)]
      | AclRules \<Rightarrow> [TableWidget (acl_table a)]
      | Sessions \<Rightarrow> [TableWidget (sessions_table a)]
      | Tls \<Rightarrow> [draw_tls_info a, draw_san_list a])"

definition field_widgets :: "nat \<Rightarrow> nat \<Rightarrow> dialog_field list \<Rightarrow> widget list" where
  "field_widgets active i fs =
     map (\<lambda>(j, f). ParagraphWidget None (field_lines (j = active) f) plain) (List.enumerate i fs)"

definition dialog_widgets :: "app \<Rightarrow> widget list" where
  "dialog_widgets a =
     (case ap_dialog a of
        None \<Rightarrow> []
      | Some d \<Rightarrow>
          (case dialog_title (ap_input_mode a) of
             None \<Rightarrow> []
           | Some title \<Rightarrow>
               ClearWidget # BlockWidget title (plain\<lparr>st_bg := Some Black\<rparr>)
               # field_widgets (ds_active_field d) 0 (ds_fields d)))"

definition screen_widgets :: "app \<Rightarrow> widget list" where
  "screen_widgets a =
     draw_tab_bar a # page_widgets a @ draw_status_bar a # dialog_widgets a"

lemma draw_fields_Ok:
  fixes chunks :: "'r list"
  shows "i + length fs \<le> length chunks \<Longrightarrow>
    \<exists>ws. draw_fields chunks active i fs = Ok ws
      \<and> map snd ws = field_widgets active i fs"
proof (induction fs arbitrary: i)
  case (Cons f fs)
  have "Suc i + length fs \<le> length chunks" using Cons.prems by simp
  from Cons.IH [OF this] obtain ws where
    "(draw_fields chunks active (Suc i) fs :: 'r drawing) = Ok ws"
    "map snd ws = field_widgets active (Suc i) fs" by blast
  then show ?case using Cons.prems by (simp add: field_widgets_def)
qed (simp add: field_widgets_def)

lemma draw_page_Ok:
  assumes "splits L"
  shows "\<exists>ws. draw_page L a area = Ok ws \<and> map snd ws = page_widgets a"
  using splits_length [OF assms]
  by (simp add: draw_page_def page_widgets_def draw_tls_def Let_def split: active_tab.split)

lemma centered_rect_Ok:
  "splits L \<Longrightarrow> x \<le> 100 \<Longrightarrow> y \<le> 100 \<Longrightarrow> \<exists>r. centered_rect L x y area = Ok r"
  by (simp add: centered_rect_def sub_u16_def splits_length Let_def)

lemma draw_dialog_Ok:
  fixes L :: "'r layout_engine"
  assumes "splits L" and "\<And>d. ap_dialog a = Some d \<Longrightarrow> length (ds_fields d) < 2 ^ 14"
  shows "\<exists>ws. draw_dialog L a = Ok ws \<and> map snd ws = dialog_widgets a"
proof (cases "ap_dialog a")
  case None
  then show ?thesis by (simp add: draw_dialog_def dialog_widgets_def)
next
  case (Some d)
  show ?thesis
  proof (cases "dialog_title (ap_input_mode a)")
    case None
    then show ?thesis using Some by (simp add: draw_dialog_def dialog_widgets_def)
  next
    case (Some title)
    let ?n = "length (ds_fields d)"
    have n: "?n < 2 ^ 14" using assms(2) [OF \<open>ap_dialog a = Some d\<close>] .
    have count: "mul_add_u16 (?n mod 65536) 2 4 = Ok (?n * 2 + 4)"
      using n by (simp add: mul_add_u16_def)
    have percent: "mul_add_u16 (min (?n * 2 + 4) 20) 3 0
        = Ok (min (?n * 2 + 4) 20 * 3)"
      by (simp add: mul_add_u16_def min_def)
    have "min (?n * 2 + 4) 20 * 3 \<le> 100" by (simp add: min_def)
    with assms(1) obtain area where
      area: "(centered_rect L 50 (min (?n * 2 + 4) 20 * 3) (le_area L) :: (tui_error, 'r) outcome) = Ok area"
      using centered_rect_Ok [of L 50 "min (?n * 2 + 4) 20 * 3" "le_area L"] by fastforce
    obtain ws where ws: "(draw_fields (le_split L Vertical (map (\<lambda>_. CLength 2) (ds_fields d) @ [CMin 1])
        (le_inner L area)) (ds_active_field d) 0 (ds_fields d) :: 'r drawing) = Ok ws"
      "map snd ws = field_widgets (ds_active_field d) 0 (ds_fields d)"
      using draw_fields_Ok [of 0 "ds_fields d" "le_split L Vertical (map (\<lambda>_. CLength 2) (ds_fields d) @ [CMin 1])
        (le_inner L area)"] by (auto simp: splits_length [OF assms(1)])
    show ?thesis
      using \<open>ap_dialog a = Some d\<close> Some ws(2)
      by (simp add: draw_dialog_def dialog_widgets_def count percent area ws(1) Let_def
          del: One_nat_def)
  qed
qed

lemma dialog_widgets_normal: "ap_input_mode a = Normal \<Longrightarrow> dialog_widgets a = []"
  by (simp add: dialog_widgets_def dialog_title_def split: option.split)

lemma draw_screen_Ok:
  fixes L :: "'r layout_engine"
  assumes "splits L" and "\<And>d. ap_dialog a = Some d \<Longrightarrow> length (ds_fields d) < 2 ^ 14"
  shows "\<exists>ws. draw_screen L a = Ok ws \<and> map snd ws = screen_widgets a"
proof -
  let ?chunks = "le_split L Vertical [CLength 3, CMin 5, CLength 1] (le_area L)"
  obtain page where page: "(draw_page L a (?chunks ! 1) :: 'r drawing) = Ok page" "map snd page = page_widgets a"
    using draw_page_Ok [OF assms(1)] by blast
  obtain dialog where dialog: "draw_dialog L a = Ok dialog" "map snd dialog = dialog_widgets a"
    using draw_dialog_Ok [OF assms] by blast
  have "\<exists>overlay. (if ap_input_mode a \<noteq> Normal then draw_dialog L a else Ok [] :: 'r drawing) = Ok overlay
      \<and> map snd overlay = dialog_widgets a"
    using dialog dialog_widgets_normal [of a] by auto
  then obtain overlay where
    overlay: "(if ap_input_mode a \<noteq> Normal then draw_dialog L a else Ok [] :: 'r drawing) = Ok overlay"
    "map snd overlay = dialog_widgets a" by blast
  show ?thesis
    unfolding draw_screen_def Let_def overlay(1)
    by (simp add: splits_length [OF assms(1)] page dialog overlay(2) screen_widgets_def del: One_nat_def)
qed

lemma dialog_ok_fields: "dialog_ok a \<Longrightarrow> ap_dialog a = Some d \<Longrightarrow> length (ds_fields d) \<le> 4"
  by (auto simp: dialog_ok_def mode_fields_def split: option.splits input_mode.splits)

text \<open>The seven lines of the TLS page fit its nine rows with the border.\<close>

lemma tls_info_fits: "length (tls_info a) \<le> 9 - 2"
  by (simp add: tls_info_def split: option.split)

text \<open>A row is drawn highlighted exactly when it is the selected one.\<close>

definition highlights_selected :: "table_view \<Rightarrow> bool" where
  "highlights_selected t \<longleftrightarrow>
     map (\<lambda>r. snd r = highlighted) (tv_rows t)
       = map (\<lambda>i. tv_selected t = Some i) [0..<length (tv_rows t)]"

lemma row_style_highlighted: "s \<noteq> highlighted \<Longrightarrow> row_style i index s = highlighted \<longleftrightarrow> i = index"
  by (simp add: row_style_def)

lemma styles_distinct [simp]: "plain \<noteq> highlighted" "fg c \<noteq> highlighted"
  by (simp_all add: plain_def fg_def highlighted_def)

lemma rows_highlighted:
  assumes "\<And>x. style_of x \<noteq> highlighted"
  shows "map (\<lambda>r. snd r = highlighted)
      (map (\<lambda>(i, x). (cells x, row_style i index (style_of x))) (List.enumerate 0 xs))
    = map (\<lambda>i. selected xs index = Some i) [0..<length xs]"
  by (rule nth_equalityI) (auto simp: nth_enumerate_eq row_style_highlighted [OF assms] selected_def)

lemma tables_highlight:
  "highlights_selected (users_table a)" "highlights_selected (groups_table a)"
  "highlights_selected (acl_table a)" "highlights_selected (sessions_table a)"
  unfolding highlights_selected_def users_table_def groups_table_def acl_table_def sessions_table_def
    table_view.simps
  by (subst rows_highlighted, simp, simp)+

section \<open>What is not drawn\<close>

text \<open>Two dialogs that differ in what was typed into masked fields, but not in how much.\<close>

definition masked_alike :: "dialog_field \<Rightarrow> dialog_field \<Rightarrow> bool" where
  "masked_alike f g \<longleftrightarrow> f = g
     \<or> df_masked f \<and> df_options f = [] \<and> str_len (df_value f) = str_len (df_value g)
       \<and> g = f\<lparr>df_value := df_value g\<rparr>"

definition dialog_alike :: "dialog_state \<Rightarrow> dialog_state \<Rightarrow> bool" where
  "dialog_alike d e \<longleftrightarrow> ds_active_field d = ds_active_field e
     \<and> list_all2 masked_alike (ds_fields d) (ds_fields e)"

lemma field_lines_alike: "masked_alike f g \<Longrightarrow> field_lines b f = field_lines b g"
  by (cases f; cases g) (auto simp: masked_alike_def field_lines_def display_value_def)

lemma draw_fields_alike:
  "list_all2 masked_alike fs gs \<Longrightarrow> draw_fields chunks active i fs = draw_fields chunks active i gs"
  by (induction fs gs arbitrary: i rule: list_all2_induct) (simp_all add: field_lines_alike)

lemma draw_dialog_alike:
  fixes L :: "'r layout_engine"
  assumes "dialog_alike d e"
  shows "draw_dialog L (a\<lparr>ap_dialog := Some d\<rparr>) = draw_dialog L (a\<lparr>ap_dialog := Some e\<rparr>)"
proof -
  have "length (ds_fields d) = length (ds_fields e)" "ds_active_field d = ds_active_field e"
    "map (\<lambda>_. CLength 2) (ds_fields d) = map (\<lambda>_. CLength 2) (ds_fields e)"
    using assms by (auto simp: dialog_alike_def list_all2_lengthD map_replicate_const)
  moreover have "draw_fields chunks k i (ds_fields d) = draw_fields chunks k i (ds_fields e)"
    for chunks :: "'r list" and k i
    using assms draw_fields_alike by (auto simp: dialog_alike_def)
  ultimately show ?thesis by (simp add: draw_dialog_def split: option.split)
qed

lemma draw_rest_dialog:
  "draw_page L (a\<lparr>ap_dialog := x\<rparr>) area = draw_page L a area"
  "draw_tab_bar (a\<lparr>ap_dialog := x\<rparr>) = draw_tab_bar a"
  "draw_status_bar (a\<lparr>ap_dialog := x\<rparr>) = draw_status_bar a"
proof -
  have user: "user_row (a\<lparr>ap_dialog := x\<rparr>) = user_row a"
    and acl: "acl_cells (a\<lparr>ap_dialog := x\<rparr>) = acl_cells a"
    and session: "session_cells (a\<lparr>ap_dialog := x\<rparr>) = session_cells a"
    by (simp_all add: fun_eq_iff user_row_def acl_cells_def acl_row_def session_cells_def)
  have tables: "users_table (a\<lparr>ap_dialog := x\<rparr>) = users_table a"
    "groups_table (a\<lparr>ap_dialog := x\<rparr>) = groups_table a" "acl_table (a\<lparr>ap_dialog := x\<rparr>) = acl_table a"
    "sessions_table (a\<lparr>ap_dialog := x\<rparr>) = sessions_table a"
    by (simp_all add: users_table_def groups_table_def acl_table_def sessions_table_def user acl session)
  have tls: "tls_info (a\<lparr>ap_dialog := x\<rparr>) = tls_info a" by (simp add: tls_info_def)
  have "draw_tls_info (a\<lparr>ap_dialog := x\<rparr>) = draw_tls_info a"
    by (cases "ap_cert_info a") (simp_all add: draw_tls_info_def tls)
  then have "draw_tls L (a\<lparr>ap_dialog := x\<rparr>) area = draw_tls L a area"
    by (simp add: draw_tls_def draw_san_list_def)
  then show "draw_page L (a\<lparr>ap_dialog := x\<rparr>) area = draw_page L a area"
    by (cases "ap_active_tab a") (simp_all add: draw_page_def tables)
  have "help_text (a\<lparr>ap_dialog := x\<rparr>) = help_text a"
    by (cases "ap_input_mode a") (simp_all add: help_text_def)
  then show "draw_status_bar (a\<lparr>ap_dialog := x\<rparr>) = draw_status_bar a"
    by (cases "ap_status_message a") (simp_all add: draw_status_bar_def status_line_def)
qed (simp add: draw_tab_bar_def)

lemma draw_screen_alike:
  "dialog_alike d e \<Longrightarrow>
    draw_screen L (a\<lparr>ap_dialog := Some d\<rparr>) = draw_screen L (a\<lparr>ap_dialog := Some e\<rparr>)"
  using draw_dialog_alike [of d e L a] by (simp add: draw_screen_def draw_rest_dialog)

section \<open>Properties\<close>

text \<open>A layout engine without geometry.\<close>

definition example_layout :: "unit layout_engine" where
  "example_layout = \<lparr>le_area = (), le_split = (\<lambda>_ cs _. map (\<lambda>_. ()) cs), le_inner = id\<rparr>"

lemma example_splits: "splits example_layout"
  by (simp add: splits_def example_layout_def)

text \<open>
  C30. Every screen that can be reached is drawn without a panic, whatever the size of the terminal:
  the tab bar, the widgets of the page, the status line, and over them the dialog with one paragraph
  for each of its fields exactly while one is open. In each table the highlighted row is the
  selected one and it exists. And no password is on the screen: it is the same for any other
  text of as many bytes in the masked fields.
\<close>

theorem tui_draws:
  assumes "db_inv db" and "run_manage w db config path es = (a, result)" and "splits L"
  shows "\<exists>ws. draw_screen L a = Ok ws \<and> map snd ws = screen_widgets a
    \<and> length (dialog_widgets a)
        = (if ap_input_mode a = Normal then 0 else 2 + mode_fields (ap_input_mode a))
    \<and> (\<forall>t. TableWidget t \<in> set (page_widgets a) \<longrightarrow> highlights_selected t
        \<and> (case tv_selected t of Some i \<Rightarrow> i < length (tv_rows t) | None \<Rightarrow> tv_rows t = []))
    \<and> (\<forall>d e. ap_dialog a = Some d \<and> dialog_alike d e \<longrightarrow>
        draw_screen L (a\<lparr>ap_dialog := Some e\<rparr>) = Ok ws)"
proof -
  have inv: "app_inv a" using run_manage_inv [OF assms(1,2)] by simp
  then have dialog: "dialog_ok a" by (simp add: app_inv_def)
  obtain ws where ws: "draw_screen L a = Ok ws" "map snd ws = screen_widgets a"
    using draw_screen_Ok [OF assms(3), of a] dialog_ok_fields [OF dialog] by fastforce
  have "length (dialog_widgets a)
      = (if ap_input_mode a = Normal then 0 else 2 + mode_fields (ap_input_mode a))"
    using dialog by (auto simp: dialog_ok_def dialog_widgets_def dialog_title_def field_widgets_def
        split: option.splits input_mode.splits)
  moreover have "indices_ok a" using inv by (simp add: app_inv_def core_inv_def)
  then have "highlights_selected t
      \<and> (case tv_selected t of Some i \<Rightarrow> i < length (tv_rows t) | None \<Rightarrow> tv_rows t = [])"
    if "TableWidget t \<in> set (page_widgets a)" for t
    using that tables_highlight [of a]
    by (auto simp: page_widgets_def indices_ok_def in_range_def users_table_def groups_table_def
        acl_table_def sessions_table_def selected_def draw_tls_info_def draw_san_list_def
        split: active_tab.splits)
  moreover have "draw_screen L (a\<lparr>ap_dialog := Some e\<rparr>) = Ok ws"
    if "ap_dialog a = Some d" "dialog_alike d e" for d e
  proof -
    have "a\<lparr>ap_dialog := Some d\<rparr> = a" using that(1) by (cases a) simp
    then show ?thesis using draw_screen_alike [OF that(2), of L a] ws(1) by simp
  qed
  ultimately show ?thesis using ws by blast
qed

theorem tui_draws_witness:
  "\<exists>a r ws. run_manage example_tui database_empty (server_config_default (\<lambda>_. None)) []
      (press [Char 97]) = (a, r)
    \<and> draw_screen example_layout a = Ok ws \<and> map snd ws = screen_widgets a"
proof -
  obtain a r where run: "run_manage example_tui database_empty (server_config_default (\<lambda>_. None)) []
      (press [Char 97]) = (a, r)"
    by fastforce
  from tui_draws [OF db_inv_empty run example_splits] show ?thesis using run by blast
qed

end
