(* ===== verification/Tui_Session.thy ===== *)
theory Tui_Session
  imports Tui_Draw
begin

text \<open>
  \<open>App::run\<close> of \<open>crates/rdg-server/src/tui/app.rs\<close> under \<open>run_manage\<close> of \<open>tui/mod.rs\<close>: the terminal
  is switched to raw mode and to its other screen, the event loop draws and reads until it ends,
  and the terminal is switched back. Every step can fail; the parameter \<open>terminal_ok\<close> says which
  commands the terminal obeys. What the cursor does on its own when the screen is dropped is the
  library's.
\<close>

section \<open>The terminal\<close>

datatype term_command =
  EnableRaw | EnterAlternate | OpenTerminal | DisableRaw | LeaveAlternate | ShowCursor

record terminal =
  te_raw :: bool
  te_alternate :: bool
  te_cursor :: bool

definition terminal_normal :: terminal where
  "terminal_normal = \<lparr>te_raw = False, te_alternate = False, te_cursor = True\<rparr>"

definition term_apply :: "term_command \<Rightarrow> terminal \<Rightarrow> terminal" where
  "term_apply c t =
     (case c of
        EnableRaw \<Rightarrow> t\<lparr>te_raw := True\<rparr>
      | EnterAlternate \<Rightarrow> t\<lparr>te_alternate := True\<rparr>
      | OpenTerminal \<Rightarrow> t
      | DisableRaw \<Rightarrow> t\<lparr>te_raw := False\<rparr>
      | LeaveAlternate \<Rightarrow> t\<lparr>te_alternate := False\<rparr>
      | ShowCursor \<Rightarrow> t\<lparr>te_cursor := True\<rparr>)"

text \<open>Commands in order, each with \<open>?\<close>: whether all were obeyed.\<close>

fun term_commands :: "(term_command \<Rightarrow> bool) \<Rightarrow> term_command list \<Rightarrow> terminal \<Rightarrow> terminal \<times> bool" where
  "term_commands terminal_ok [] t = (t, True)"
| "term_commands terminal_ok (c # cs) t =
     (if terminal_ok c then term_commands terminal_ok cs (term_apply c t) else (t, False))"

section \<open>The event loop\<close>

text \<open>
  A turn of the loop with what can go wrong in it: drawing fails, or asking for an event does, or
  an event comes. Drawing hides the cursor.
\<close>

datatype tui_turn = DrawFails | PollFails | Turn tui_event

fun drawn_loop ::
  "'r layout_engine \<Rightarrow> tui_world \<Rightarrow> app \<Rightarrow> terminal \<Rightarrow> tui_turn list \<Rightarrow> (app \<times> loop_end) \<times> terminal" where
  "drawn_loop L w self t [] = ((self, Polling), t)"
| "drawn_loop L w self t (turn # turns) =
     (case draw_screen L self of
        Ok _ \<Rightarrow>
          (case turn of
             DrawFails \<Rightarrow> ((self, Failed TuiIo), t)
           | PollFails \<Rightarrow> ((self, Failed TuiIo), t\<lparr>te_cursor := False\<rparr>)
           | Turn e \<Rightarrow>
               (case loop_turn w self e of
                  (self, Polling) \<Rightarrow> drawn_loop L w self (t\<lparr>te_cursor := False\<rparr>) turns
                | r \<Rightarrow> (r, t\<lparr>te_cursor := False\<rparr>)))
      | Err e \<Rightarrow> ((self, Failed e), t)
      | Panic \<Rightarrow> ((self, Panicked), t))"

definition app_run ::
  "'r layout_engine \<Rightarrow> (term_command \<Rightarrow> bool) \<Rightarrow> tui_world \<Rightarrow> app \<Rightarrow> terminal \<Rightarrow> tui_turn list
    \<Rightarrow> (app \<times> loop_end) \<times> terminal" where
  "app_run L terminal_ok w self t turns =
     (case term_commands terminal_ok [EnableRaw, EnterAlternate, OpenTerminal] t of
        (t, False) \<Rightarrow> ((self, Failed TuiIo), t)
      | (t, True) \<Rightarrow>
          (case drawn_loop L w self t turns of
             ((self, Polling), t) \<Rightarrow> ((self, Polling), t)
           | ((self, Panicked), t) \<Rightarrow> ((self, Panicked), t)
           | ((self, result), t) \<Rightarrow>
               (case term_commands terminal_ok [DisableRaw, LeaveAlternate, ShowCursor] t of
                  (t, True) \<Rightarrow> ((self, result), t)
                | (t, False) \<Rightarrow> ((self, Failed TuiIo), t))))"

definition manage_session ::
  "'r layout_engine \<Rightarrow> (term_command \<Rightarrow> bool) \<Rightarrow> tui_world \<Rightarrow> database \<Rightarrow> server_config \<Rightarrow> rstring
    \<Rightarrow> terminal \<Rightarrow> tui_turn list \<Rightarrow> (app \<times> loop_end) \<times> terminal" where
  "manage_session L terminal_ok w db config config_path t turns =
     (let self = app_new db config config_path
      in (case load_all self of
            Ok self \<Rightarrow> app_run L terminal_ok w self t turns
          | Err e \<Rightarrow> ((self, Failed e), t)
          | Panic \<Rightarrow> ((self, Panicked), t)))"

section \<open>Facts\<close>

lemma app_inv_draws: "app_inv a \<Longrightarrow> splits L \<Longrightarrow> \<exists>ws. draw_screen L a = Ok ws"
  using draw_screen_Ok [of L a] dialog_ok_fields [of a] by (fastforce simp: app_inv_def)

lemma drawn_loop_inv:
  "app_inv a \<Longrightarrow> splits L \<Longrightarrow> drawn_loop L w a t turns = ((b, r), u) \<Longrightarrow>
    app_inv b \<and> r \<noteq> Panicked \<and> te_raw u = te_raw t \<and> te_alternate u = te_alternate t"
proof (induction turns arbitrary: a t)
  case (Cons turn turns)
  obtain ws where ws: "draw_screen L a = Ok ws" using app_inv_draws [OF Cons.prems(1,2)] by blast
  show ?case
  proof (cases turn)
    case (Turn e)
    obtain c s where c: "loop_turn w a e = (c, s)" by fastforce
    with loop_turn_inv [OF Cons.prems(1) c] Cons.prems Turn ws
      Cons.IH [of c "t\<lparr>te_cursor := False\<rparr>"] show ?thesis
      by (cases s) auto
  qed (use Cons.prems ws in auto)
qed auto

text \<open>Where nothing fails, the loop is the one that does not draw.\<close>

lemma drawn_loop_events:
  "app_inv a \<Longrightarrow> splits L \<Longrightarrow> fst (drawn_loop L w a t (map Turn es)) = event_loop w a es"
proof (induction es arbitrary: a t)
  case (Cons e es)
  obtain ws where ws: "draw_screen L a = Ok ws" using app_inv_draws [OF Cons.prems] by blast
  obtain c s where c: "loop_turn w a e = (c, s)" by fastforce
  then show ?case
    using loop_turn_inv [OF Cons.prems(1) c] Cons.prems(2) Cons.IH ws by (cases s) auto
qed simp

lemma term_commands_obeyed:
  "\<forall>c \<in> set cs. terminal_ok c \<Longrightarrow> term_commands terminal_ok cs t = (foldl (\<lambda>t c. term_apply c t) t cs, True)"
  by (induction cs arbitrary: t) auto

lemma manage_session_run:
  assumes "db_inv db"
  obtains a where "load_all (app_new db config path) = Ok a" and "app_inv a"
    and "manage_session L ok w db config path t turns = app_run L ok w a t turns"
proof -
  obtain a where "load_all (app_new db config path) = Ok a" "app_inv a"
    using load_all_ok [OF assms] by blast
  then show thesis by (intro that [of a]) (simp_all add: manage_session_def)
qed

section \<open>Properties\<close>

text \<open>
  C17. On a terminal that obeys, the administration program never panics and leaves the terminal as
  it was however the session ends: by a key, by an error of the database or of a file, or because
  drawing or reading failed; while it runs the terminal is in raw mode on its other screen. When
  nothing fails, what it does to the database and the configuration is what the keys do.
\<close>

theorem tui_restores_terminal:
  assumes "db_inv db" and "splits L" and "\<And>c. terminal_ok c"
    and "manage_session L terminal_ok w db config path terminal_normal turns = ((a, result), t)"
  shows "result \<noteq> Panicked
    \<and> (if result = Polling then te_raw t \<and> te_alternate t else t = terminal_normal)
    \<and> (\<forall>es. turns = map Turn es \<longrightarrow> (a, result) = run_manage w db config path es)"
proof -
  obtain b where b: "load_all (app_new db config path) = Ok b" "app_inv b"
    and run: "app_run L terminal_ok w b terminal_normal turns = ((a, result), t)"
    using manage_session_run [OF assms(1), of config path L terminal_ok w terminal_normal turns]
      assms(4) by metis
  let ?t = "terminal_normal\<lparr>te_raw := True, te_alternate := True\<rparr>"
  obtain c r u where loop: "drawn_loop L w b ?t turns = ((c, r), u)" by (metis surj_pair)
  have u: "r \<noteq> Panicked" "te_raw u" "te_alternate u"
    using drawn_loop_inv [OF b(2) assms(2) loop] by simp_all
  have "app_run L terminal_ok w b terminal_normal turns
      = ((c, r), if r = Polling then u else u\<lparr>te_raw := False, te_alternate := False, te_cursor := True\<rparr>)"
    using u(1) assms(3) loop
    by (cases r) (simp_all add: app_run_def term_apply_def terminal_normal_def)
  then have eqs: "a = c" "result = r"
    "t = (if r = Polling then u else u\<lparr>te_raw := False, te_alternate := False, te_cursor := True\<rparr>)"
    using run by simp_all
  have "u\<lparr>te_raw := False, te_alternate := False, te_cursor := True\<rparr> = terminal_normal"
    by (simp add: terminal_normal_def)
  moreover have "(a, result) = run_manage w db config path es" if "turns = map Turn es" for es
    using drawn_loop_events [OF b(2) assms(2), of w ?t es] loop b(1) that
    by (simp add: run_manage_def eqs)
  ultimately show ?thesis using u eqs by simp
qed

theorem tui_restores_terminal_witness:
  "\<exists>a. manage_session example_layout (\<lambda>_. True) example_tui database_empty
      (server_config_default (\<lambda>_. None)) [] terminal_normal [PollFails]
    = ((a, Failed TuiIo), terminal_normal)"
proof -
  let ?run = "manage_session example_layout (\<lambda>_. True) example_tui database_empty
      (server_config_default (\<lambda>_. None)) [] terminal_normal [PollFails]"
  obtain a r t where run: "?run = ((a, r), t)" by (metis surj_pair)
  have "r = Failed TuiIo"
  proof -
    obtain b where b: "load_all (app_new database_empty (server_config_default (\<lambda>_. None)) []) = Ok b"
      "app_inv b" and m: "?run = app_run example_layout (\<lambda>_. True) example_tui b terminal_normal
        [PollFails]"
      by (rule manage_session_run [OF db_inv_empty])
    obtain ws where "draw_screen example_layout b = Ok ws"
      using app_inv_draws [OF b(2) example_splits] by blast
    then show ?thesis using run by (simp add: m app_run_def)
  qed
  with tui_restores_terminal [OF db_inv_empty example_splits _ run] run show ?thesis by auto
qed

text \<open>
  A terminal that takes raw mode but not its other screen is left in raw mode: the early return skips
  the commands that undo it.
\<close>

theorem tui_leaves_raw:
  assumes "terminal_ok EnableRaw" and "\<not> terminal_ok EnterAlternate"
  shows "app_run L terminal_ok w a terminal_normal turns
    = ((a, Failed TuiIo), terminal_normal\<lparr>te_raw := True\<rparr>)"
  using assms by (simp add: app_run_def term_apply_def)

end
