(* ===== verification/Utf8.thy ===== *)
theory Utf8
  imports Rust_Strings
begin

text \<open>
  Decoding UTF-8. \<open>from_utf8_lossy\<close> reads back what \<open>str_bytes\<close> wrote, so that \<open>String::from_utf8\<close>
  is its restriction to the well-formed byte strings.
\<close>

section \<open>Sequences\<close>

lemma cont_byte:
  assumes "m < 0x40"
  shows "unat (word_of_nat (0x80 + m) :: u8) = 0x80 + m" and "is_cont (word_of_nat (0x80 + m))"
    and "cont_bits (word_of_nat (0x80 + m)) = m"
proof -
  show u: "unat (word_of_nat (0x80 + m) :: u8) = 0x80 + m"
    using assms by (intro unat_of_nat8) linarith
  show "is_cont (word_of_nat (0x80 + m))" using assms unfolding is_cont_def u by linarith
  have "(0x80 + m) mod 0x40 = (0x40 * 2 + m) mod 0x40" by (simp only: mult.commute) simp
  also have "\<dots> = m" using assms by (simp only: mod_mult_self4 mod_less)
  finally show "cont_bits (word_of_nat (0x80 + m)) = m" unfolding cont_bits_def u .
qed

lemma second_ok_iff: "second_ok b c \<longleftrightarrow>
    (if unat b = 0xE0 then 0xA0 \<le> unat c \<and> unat c < 0xC0
     else if unat b = 0xED then 0x80 \<le> unat c \<and> unat c < 0xA0
     else if unat b = 0xF0 then 0x90 \<le> unat c \<and> unat c < 0xC0
     else if unat b = 0xF4 then 0x80 \<le> unat c \<and> unat c < 0x90
     else 0x80 \<le> unat c \<and> unat c < 0xC0)"
proof -
  have "b = 0xE0 \<longleftrightarrow> unat b = 0xE0" "b = 0xED \<longleftrightarrow> unat b = 0xED" "b = 0xF0 \<longleftrightarrow> unat b = 0xF0"
    "b = 0xF4 \<longleftrightarrow> unat b = 0xF4"
    by (auto simp: word_unat_eq_iff)
  then show ?thesis by (simp add: second_ok_def is_cont_def)
qed

text \<open>The sequences of two, three and four bytes, by the digits to base 64 they carry.\<close>

lemma lossy_two:
  assumes "2 \<le> q" and "q < 0x20" and "m < 0x40"
  shows "from_utf8_lossy (word_of_nat (0xC0 + q) # word_of_nat (0x80 + m) # r)
    = (q * 0x40 + m) # from_utf8_lossy r"
proof -
  define b :: u8 where "b = word_of_nat (0xC0 + q)"
  define c :: u8 where "c = word_of_nat (0x80 + m)"
  have b: "unat b = 0xC0 + q" unfolding b_def using assms by (intro unat_of_nat8) linarith
  have c: "unat c = 0x80 + m" "cont_bits c = m" unfolding c_def by (rule cont_byte [OF assms(3)])+
  have "utf8_width b = 2" "second_ok b c"
    using assms by (simp_all add: utf8_width_def second_ok_iff b c)
  then have "from_utf8_lossy (b # c # r) = (q * 0x40 + m) # from_utf8_lossy r"
    by (simp add: b c)
  then show ?thesis unfolding b_def c_def .
qed

lemma lossy_three:
  assumes "q < 0x10" and "m < 0x40" and "n < 0x40"
    and "q = 0 \<Longrightarrow> 0x20 \<le> m" and "q = 13 \<Longrightarrow> m < 0x20"
  shows "from_utf8_lossy (word_of_nat (0xE0 + q) # word_of_nat (0x80 + m) # word_of_nat (0x80 + n) # r)
    = (q * 0x1000 + m * 0x40 + n) # from_utf8_lossy r"
proof -
  define b :: u8 where "b = word_of_nat (0xE0 + q)"
  define c :: u8 where "c = word_of_nat (0x80 + m)"
  define d :: u8 where "d = word_of_nat (0x80 + n)"
  have b: "unat b = 0xE0 + q" unfolding b_def using assms(1) by (intro unat_of_nat8) linarith
  have c: "unat c = 0x80 + m" "cont_bits c = m" unfolding c_def by (rule cont_byte [OF assms(2)])+
  have d: "is_cont d" "cont_bits d = n" unfolding d_def by (rule cont_byte [OF assms(3)])+
  have "utf8_width b = 3" using assms(1) by (simp add: utf8_width_def b)
  moreover have "second_ok b c" using assms by (auto simp: second_ok_iff b c)
  ultimately have "from_utf8_lossy (b # c # d # r) = (q * 0x1000 + m * 0x40 + n) # from_utf8_lossy r"
    by (simp add: b c d)
  then show ?thesis unfolding b_def c_def d_def .
qed

lemma lossy_four:
  assumes "q < 5" and "k < 0x40" and "m < 0x40" and "n < 0x40"
    and "q = 0 \<Longrightarrow> 0x10 \<le> k" and "q = 4 \<Longrightarrow> k < 0x10"
  shows "from_utf8_lossy (word_of_nat (0xF0 + q) # word_of_nat (0x80 + k) # word_of_nat (0x80 + m)
      # word_of_nat (0x80 + n) # r)
    = (q * 0x40000 + k * 0x1000 + m * 0x40 + n) # from_utf8_lossy r"
proof -
  define b :: u8 where "b = word_of_nat (0xF0 + q)"
  define c :: u8 where "c = word_of_nat (0x80 + k)"
  define d :: u8 where "d = word_of_nat (0x80 + m)"
  define e :: u8 where "e = word_of_nat (0x80 + n)"
  have b: "unat b = 0xF0 + q" unfolding b_def using assms(1) by (intro unat_of_nat8) linarith
  have c: "unat c = 0x80 + k" "cont_bits c = k" unfolding c_def by (rule cont_byte [OF assms(2)])+
  have d: "is_cont d" "cont_bits d = m" unfolding d_def by (rule cont_byte [OF assms(3)])+
  have e: "is_cont e" "cont_bits e = n" unfolding e_def by (rule cont_byte [OF assms(4)])+
  have "utf8_width b = 4" using assms(1) by (simp add: utf8_width_def b)
  moreover have "second_ok b c" using assms by (auto simp: second_ok_iff b c)
  ultimately have "from_utf8_lossy (b # c # d # e # r)
      = (q * 0x40000 + k * 0x1000 + m * 0x40 + n) # from_utf8_lossy r"
    by (simp add: b c d e)
  then show ?thesis unfolding b_def c_def d_def e_def .
qed

section \<open>Characters and texts\<close>

lemma digits_64:
  fixes c :: nat
  shows "c div 0x40 * 0x40 + c mod 0x40 = c"
    and "c div 0x1000 * 0x1000 + c div 0x40 mod 0x40 * 0x40 + c mod 0x40 = c"
    and "c div 0x40000 * 0x40000 + c div 0x1000 mod 0x40 * 0x1000 + c div 0x40 mod 0x40 * 0x40
      + c mod 0x40 = c"
proof -
  have split: "x div 0x40 * 0x40 + x mod 0x40 = x" for x :: nat by (rule div_mult_mod_eq)
  have d: "c div 0x1000 = c div 0x40 div 0x40" "c div 0x40000 = c div 0x1000 div 0x40"
    by (simp_all flip: div_mult2_eq)
  show "c div 0x40 * 0x40 + c mod 0x40 = c" by (rule split)
  show three: "c div 0x1000 * 0x1000 + c div 0x40 mod 0x40 * 0x40 + c mod 0x40 = c"
    using split [of c] split [of "c div 0x40"] d(1) by linarith
  show "c div 0x40000 * 0x40000 + c div 0x1000 mod 0x40 * 0x1000 + c div 0x40 mod 0x40 * 0x40
      + c mod 0x40 = c"
    using three split [of "c div 0x1000"] d(2) by linarith
qed

lemma mod_64: "(x :: nat) mod 0x40 < 0x40"
  by (rule mod_less_divisor) simp

lemma utf8_char_1: "c < 0x80 \<Longrightarrow> utf8_char c = [word_of_nat c]"
  by (simp only: utf8_char_def if_True)

lemma utf8_char_2:
  assumes "0x80 \<le> c" and "c < 0x800"
  shows "utf8_char c = [word_of_nat (0xC0 + c div 0x40), word_of_nat (0x80 + c mod 0x40)]"
proof -
  have "\<not> c < 0x80" using assms by linarith
  then show ?thesis using assms(2) by (simp only: utf8_char_def if_True if_False)
qed

lemma utf8_char_3:
  assumes "0x800 \<le> c" and "c < 0x10000"
  shows "utf8_char c = [word_of_nat (0xE0 + c div 0x1000), word_of_nat (0x80 + c div 0x40 mod 0x40),
    word_of_nat (0x80 + c mod 0x40)]"
proof -
  have "\<not> c < 0x80" "\<not> c < 0x800" using assms by linarith+
  then show ?thesis using assms(2) by (simp only: utf8_char_def if_True if_False)
qed

lemma utf8_char_4:
  assumes "0x10000 \<le> c"
  shows "utf8_char c = [word_of_nat (0xF0 + c div 0x40000), word_of_nat (0x80 + c div 0x1000 mod 0x40),
    word_of_nat (0x80 + c div 0x40 mod 0x40), word_of_nat (0x80 + c mod 0x40)]"
proof -
  have "\<not> c < 0x80" "\<not> c < 0x800" "\<not> c < 0x10000" using assms by linarith+
  then show ?thesis by (simp only: utf8_char_def if_False)
qed

lemma lossy_utf8_char:
  assumes "is_scalar c"
  shows "from_utf8_lossy (utf8_char c @ r) = c # from_utf8_lossy r"
proof -
  have u: "c mod 0x40 < 0x40" and v: "c div 0x40 mod 0x40 < 0x40" and w: "c div 0x1000 mod 0x40 < 0x40"
    by (rule mod_64)+
  consider (one) "c < 0x80" | (two) "0x80 \<le> c" "c < 0x800"
    | (three) "0x800 \<le> c" "c < 0x10000" "c < 0xD800 \<or> 0xE000 \<le> c" | (four) "0x10000 \<le> c" "c < 0x110000"
    using assms unfolding is_scalar_def by linarith
  then show ?thesis
  proof cases
    case one
    then have "unat (word_of_nat c :: u8) = c" by (intro unat_of_nat8) linarith
    then show ?thesis using one by (simp add: utf8_char_1 utf8_width_def)
  next
    case two
    have "2 \<le> c div 0x40" "c div 0x40 < 0x20"
      using two u digits_64(1) [of c] by linarith+
    from lossy_two [OF this u] show ?thesis
      unfolding utf8_char_2 [OF two] digits_64 append.simps .
  next
    case three
    have q: "c div 0x1000 < 0x10" and lo: "c div 0x1000 = 0 \<Longrightarrow> 0x20 \<le> c div 0x40 mod 0x40"
      and surrogate: "c div 0x1000 = 13 \<Longrightarrow> c div 0x40 mod 0x40 < 0x20"
      using three u v digits_64(2) [of c] by linarith+
    from lossy_three [OF q v u lo surrogate] show ?thesis
      unfolding utf8_char_3 [OF three(1,2)] digits_64 append.simps .
  next
    case four
    have q: "c div 0x40000 < 5" and lo: "c div 0x40000 = 0 \<Longrightarrow> 0x10 \<le> c div 0x1000 mod 0x40"
      and hi: "c div 0x40000 = 4 \<Longrightarrow> c div 0x1000 mod 0x40 < 0x10"
      using four u v w digits_64(3) [of c] by linarith+
    from lossy_four [OF q w v u lo hi] show ?thesis
      unfolding utf8_char_4 [OF four(1)] digits_64 append.simps .
  qed
qed

lemma lossy_str_bytes: "valid_str s \<Longrightarrow> from_utf8_lossy (str_bytes s) = s"
  by (induction s) (simp_all add: str_bytes_simps lossy_utf8_char)

text \<open>\<open>String::from_utf8(..).ok()\<close>: the text whose bytes these are, if there is one.\<close>

definition from_utf8 :: "bytes \<Rightarrow> rstring option" where
  "from_utf8 bs =
     (let s = from_utf8_lossy bs in if valid_str s \<and> str_bytes s = bs then Some s else None)"

lemma from_utf8_str_bytes [simp]: "valid_str s \<Longrightarrow> from_utf8 (str_bytes s) = Some s"
  by (simp add: from_utf8_def lossy_str_bytes)

lemma from_utf8_iff: "from_utf8 bs = Some s \<longleftrightarrow> valid_str s \<and> str_bytes s = bs"
  by (auto simp: from_utf8_def Let_def lossy_str_bytes)

end
