(* ===== verification/Krb5.thy ===== *)
theory Krb5
  imports Auth
begin

text \<open>
  \<open>crates/rdg-core/src/negotiate.rs\<close> built with the feature \<open>kerberos\<close>: the context carries a
  service principal name and a Kerberos token goes to \<open>cross-krb5\<close>. The parameters \<open>krb5\<close> are that
  library: \<open>k5_new\<close> is \<open>ServerCtx::new\<close> for a principal, \<open>k5_step\<close> one step of the exchange,
  \<open>k5_client\<close> the name of the client of an accepted ticket, each with the text of its error.
\<close>

section \<open>The exchange\<close>

datatype ('s, 'c) krb_step = Finished 'c "bytes option" | Continue 's bytes

record ('s, 'c) krb5 =
  k5_new :: "rstring option \<Rightarrow> (rstring, 's) outcome"
  k5_step :: "'s \<Rightarrow> bytes \<Rightarrow> (rstring, ('s, 'c) krb_step) outcome"
  k5_client :: "'c \<Rightarrow> (rstring, rstring) outcome"

record krb_context = negotiate_context +
  ng_krb_spn :: "rstring option"

definition krb_context_new :: "rstring \<Rightarrow> rstring option \<Rightarrow> krb_context" where
  "krb_context_new server_name spn =
     \<lparr>ng_server_name = server_name, ng_ntlm_ctx = None,
      ng_krb_spn = Some (unwrap_or (lit ''HTTP/'' @ server_name) spn)\<rparr>"

text \<open>\<open>ctx.client().map(|c| c.to_string()).unwrap_or_default()\<close>.\<close>

definition principal_of :: "('s, 'c) krb5 \<Rightarrow> 'c \<Rightarrow> rstring" where
  "principal_of k ctx = (case k5_client k ctx of Ok c \<Rightarrow> c | _ \<Rightarrow> [])"

definition process_kerberos_krb5 ::
  "('s, 'c) krb5 \<Rightarrow> (bytes \<Rightarrow> rstring) \<Rightarrow> krb_context \<Rightarrow> bytes
    \<Rightarrow> krb_context \<times> (negotiate_error, negotiate_result) outcome" where
  "process_kerberos_krb5 k b64_encode self token =
     (self,
      rbind (map_err (\<lambda>e. Kerberos (lit ''failed to create server context: '' @ e))
        (k5_new k (ng_krb_spn self))) (\<lambda>server.
      case k5_step k server token of
        Ok (Finished ctx response_token) \<Rightarrow> Ok (Success (principal_of k ctx))
      | Ok (Continue _ token) \<Rightarrow> Ok (Challenge (b64_encode token))
      | Err e \<Rightarrow> Err (Kerberos (lit ''authentication failed: '' @ e))
      | Panic \<Rightarrow> Panic))"

definition process_token_krb5 ::
  "('s, 'c) krb5 \<Rightarrow> 'e world \<Rightarrow> krb_context \<Rightarrow> rstring
    \<Rightarrow> krb_context \<times> (negotiate_error, negotiate_result) outcome" where
  "process_token_krb5 k w self base64_token =
     (case w_b64_decode w base64_token of
        None \<Rightarrow> (self, Err InvalidBase64)
      | Some token_bytes \<Rightarrow>
          (case detect_token_type token_bytes of
             NtlmToken \<Rightarrow> process_ntlm w self token_bytes
           | KerberosToken \<Rightarrow> process_kerberos_krb5 k (w_b64_encode w) self token_bytes
           | UnknownToken \<Rightarrow> (self, Err UnsupportedToken)))"

section \<open>The two builds side by side\<close>

text \<open>
  What of a context the default build keeps; the NTLM part of the code is the same, so it commutes
  with dropping the principal name.
\<close>

abbreviation ntlm_part :: "krb_context \<Rightarrow> negotiate_context" where
  "ntlm_part \<equiv> negotiate_context.truncate"

lemma ntlm_part_simps [simp]:
  "ng_server_name (ntlm_part s) = ng_server_name s"
  "ng_ntlm_ctx (ntlm_part s) = ng_ntlm_ctx s"
  "ntlm_part (s\<lparr>ng_ntlm_ctx := c\<rparr>) = (ntlm_part s)\<lparr>ng_ntlm_ctx := c\<rparr>"
  "ntlm_part (krb_context_new srv spn) = negotiate_context_new srv"
  by (simp_all add: negotiate_context.defs krb_context_new_def negotiate_context_new_def)

lemma process_ntlm_part:
  "process_ntlm w (ntlm_part s) token = map_prod ntlm_part id (process_ntlm w s token)"
  by (simp add: process_ntlm_def Let_def split_beta split: option.split)

lemma process_ntlm_spn: "ng_krb_spn (fst (process_ntlm w s token)) = ng_krb_spn s"
  by (simp add: process_ntlm_def Let_def split_beta split: option.split)

definition kerberos_token :: "'e world \<Rightarrow> rstring \<Rightarrow> bytes option" where
  "kerberos_token w t = (case w_b64_decode w t of
     Some token \<Rightarrow> if detect_token_type token = KerberosToken then Some token else None
   | None \<Rightarrow> None)"

lemma krb5_token:
  "kerberos_token w t = Some token \<Longrightarrow>
     process_token_krb5 k w s t = process_kerberos_krb5 k (w_b64_encode w) s token"
  "kerberos_token w t = None \<Longrightarrow>
     process_token w (ntlm_part s) t = map_prod ntlm_part id (process_token_krb5 k w s t)"
  by (auto simp: kerberos_token_def process_token_krb5_def process_token_def process_ntlm_part
      split: option.splits if_splits token_type.splits)

lemma default_token:
  "kerberos_token w t = Some token \<Longrightarrow> process_token w s t = (s, Err KerberosNotAvailable)"
  by (auto simp: kerberos_token_def process_token_def process_kerberos_def split: option.splits if_splits)

abbreviation krb_step :: "krb_context \<Rightarrow> ('s, 'c) krb5 \<times> 'e world \<times> rstring \<Rightarrow> krb_context" where
  "krb_step s e \<equiv> fst (process_token_krb5 (fst e) (fst (snd e)) s (snd (snd e)))"

lemma krb_step_part: "ntlm_part (krb_step s e) = negotiate_step (ntlm_part s) (snd e)"
proof (cases "kerberos_token (fst (snd e)) (snd (snd e))")
  case None
  then show ?thesis by (simp add: krb5_token(2) [of _ _ s "fst e"])
next
  case (Some token)
  then show ?thesis by (simp add: krb5_token(1) default_token process_kerberos_krb5_def)
qed

lemma krb_step_spn: "ng_krb_spn (krb_step s e) = ng_krb_spn s"
  by (simp add: process_token_krb5_def process_kerberos_krb5_def process_ntlm_spn
      split: option.split token_type.split)

lemma krb_run_part: "ntlm_part (run krb_step s es) = run negotiate_step (ntlm_part s) (map snd es)"
  by (induction es arbitrary: s) (simp_all add: krb_step_part)

lemma krb_run_spn: "ng_krb_spn (run krb_step s es) = ng_krb_spn s"
  by (induction es arbitrary: s) (simp_all add: krb_step_spn)

lemma process_kerberos_Ok: "process_kerberos_krb5 k enc s token = (s', Ok (Success name)) \<longleftrightarrow>
    s' = s \<and> (\<exists>server ctx response. k5_new k (ng_krb_spn s) = Ok server
      \<and> k5_step k server token = Ok (Finished ctx response) \<and> name = principal_of k ctx)"
proof -
  have "(case r of Ok (Finished ctx response_token) \<Rightarrow> Ok (Success (principal_of k ctx))
      | Ok (Continue _ token) \<Rightarrow> Ok (Challenge (enc token))
      | Err e \<Rightarrow> Err (Kerberos (lit ''authentication failed: '' @ e)) | Panic \<Rightarrow> Panic) = Ok (Success name)
    \<longleftrightarrow> (\<exists>ctx response. r = Ok (Finished ctx response) \<and> name = principal_of k ctx)"
    for r :: "(rstring, ('a, 'b) krb_step) outcome"
    by (auto split: outcome.split krb_step.split)
  then show ?thesis by (auto simp: process_kerberos_krb5_def rbind_eq_Ok)
qed

section \<open>A library for the instances\<close>

text \<open>It accepts any token of which the first byte is the raw AP-REQ tag.\<close>

definition example_krb5 :: "(rstring, unit) krb5" where
  "example_krb5 = \<lparr>k5_new = (\<lambda>spn. ok_or [] spn),
     k5_step = (\<lambda>s token. if first_byte token = Some 0x6E then Ok (Finished () None) else Err [63]),
     k5_client = (\<lambda>_. Ok [66])\<rparr>"

section \<open>Properties\<close>

text \<open>
  C16. After any exchange, Kerberos tokens included, the build with the feature \<open>kerberos\<close> holds the
  same NTLM state as the build without it after the same tokens; and its next token succeeds only
  when the library accepts it for the configured service principal, the state then staying as it
  is, or when it is no Kerberos token and the build without the feature accepts it for the same
  user.
\<close>

theorem krb_success:
  fixes es :: "(('s, 'c) krb5 \<times> 'e world \<times> rstring) list"
  shows "negotiate_context.truncate (run krb_step (krb_context_new srv spn) es)
      = run negotiate_step (negotiate_context_new srv) (map snd es)
    \<and> (\<forall>s' name. process_token_krb5 k w (run krb_step (krb_context_new srv spn) es) t
        = (s', Ok (Success name)) \<longrightarrow>
      s' = run krb_step (krb_context_new srv spn) es \<and> (\<exists>token server ctx response.
        w_b64_decode w t = Some token \<and> detect_token_type token = KerberosToken
        \<and> k5_new k (Some (unwrap_or (lit ''HTTP/'' @ srv) spn)) = Ok server
        \<and> k5_step k server token = Ok (Finished ctx response) \<and> name = principal_of k ctx)
      \<or> (\<forall>token. w_b64_decode w t = Some token \<longrightarrow> detect_token_type token \<noteq> KerberosToken)
        \<and> process_token w (run negotiate_step (negotiate_context_new srv) (map snd es)) t
          = (negotiate_context.truncate s', Ok (Success name)))"
proof (intro conjI allI impI)
  let ?s = "run krb_step (krb_context_new srv spn) es"
  show part: "ntlm_part ?s = run negotiate_step (negotiate_context_new srv) (map snd es)"
    by (simp add: krb_run_part)
  fix s' name
  assume success: "process_token_krb5 k w ?s t = (s', Ok (Success name))"
  show "s' = ?s \<and> (\<exists>token server ctx response.
        w_b64_decode w t = Some token \<and> detect_token_type token = KerberosToken
        \<and> k5_new k (Some (unwrap_or (lit ''HTTP/'' @ srv) spn)) = Ok server
        \<and> k5_step k server token = Ok (Finished ctx response) \<and> name = principal_of k ctx)
      \<or> (\<forall>token. w_b64_decode w t = Some token \<longrightarrow> detect_token_type token \<noteq> KerberosToken)
        \<and> process_token w (run negotiate_step (negotiate_context_new srv) (map snd es)) t
          = (ntlm_part s', Ok (Success name))"
  proof (cases "kerberos_token w t")
    case None
    moreover have "\<forall>token. w_b64_decode w t = Some token \<longrightarrow> detect_token_type token \<noteq> KerberosToken"
      using None by (simp add: kerberos_token_def split: option.splits if_splits)
    ultimately show ?thesis using success krb5_token(2) [of w t ?s k] by (simp add: part)
  next
    case (Some token)
    have "ng_krb_spn ?s = Some (unwrap_or (lit ''HTTP/'' @ srv) spn)"
      by (simp add: krb_run_spn krb_context_new_def)
    then show ?thesis using success Some
      by (auto simp: krb5_token(1) process_kerberos_Ok kerberos_token_def split: option.splits if_splits)
  qed
qed

theorem krb_success_witness:
  "\<exists>s'. process_token_krb5 example_krb5 example_world
      (run krb_step (krb_context_new [] None) [(example_krb5, example_world, map unat example_type1)])
      [0x6E] = (s', Ok (Success [66]))
    \<and> k5_new example_krb5 (Some (lit ''HTTP/'')) = Ok (lit ''HTTP/'')"
proof -
  let ?s = "run krb_step (krb_context_new [] None) [(example_krb5, example_world, map unat example_type1)]"
  have spn: "ng_krb_spn ?s = Some (lit ''HTTP/'')"
    unfolding krb_run_spn by (simp add: krb_context_new_def unwrap_or_def)
  have token: "kerberos_token example_world [0x6E] = Some [0x6E]"
    by (simp add: kerberos_token_def example_world_def detect_token_type_def first_byte_def)
  have s: "process_token_krb5 example_krb5 example_world ?s [0x6E] = (?s, Ok (Success [66]))"
    unfolding krb5_token(1) [OF token] process_kerberos_Ok spn
    by (simp add: example_krb5_def principal_of_def first_byte_def)
  have ntlm: "process_token example_world r [0x6E] \<noteq> (q, Ok n)" for r q and n :: negotiate_result
    by (simp add: default_token [OF token])
  from krb_success [THEN conjunct2, rule_format, OF s] ntlm obtain server where
    "k5_new example_krb5 (Some (unwrap_or (lit ''HTTP/'' @ []) None)) = Ok server"
    by blast
  then show ?thesis using s by (simp add: unwrap_or_def example_krb5_def)
qed

text \<open>
  A Kerberos token consults no account and keeps no state: the answer to it is the same after any
  other tokens and whatever the directory says, so the second leg of an exchange that the library
  wants to continue meets a new server context.
\<close>

theorem krb_stateless:
  assumes "kerberos_token w t = Some token"
  shows "snd (process_token_krb5 k (w\<lparr>w_get_user := f\<rparr>) (run krb_step (krb_context_new srv spn) es) t)
    = snd (process_token_krb5 k w (krb_context_new srv spn) t)"
proof -
  have "kerberos_token (w\<lparr>w_get_user := f\<rparr>) t = Some token"
    using assms by (simp add: kerberos_token_def)
  then show ?thesis
    using assms by (simp add: krb5_token(1) process_kerberos_krb5_def krb_run_spn)
qed

text \<open>A ticket whose client name cannot be read signs in as the user with the empty name.\<close>

theorem krb_nameless:
  assumes "kerberos_token w t = Some token" and "k5_new k (ng_krb_spn s) = Ok server"
    and "k5_step k server token = Ok (Finished ctx response)" and "k5_client k ctx = Err e"
  shows "process_token_krb5 k w s t = (s, Ok (Success []))"
  using assms by (simp add: krb5_token(1) process_kerberos_Ok principal_of_def)

end
