(* ===== verification/Telemetry.thy ===== *)
theory Telemetry
  imports Config
begin

text \<open>
  \<open>crates/rdg-server/src/telemetry.rs\<close> and \<open>metrics.rs\<close>, with \<open>log_requests\<close> of
  \<open>handlers/mod.rs\<close>: which providers a start installs, and the process-wide cells they are kept in.
  \<open>telemetry_world\<close> is the machine and the exporter crates: the log filter of the environment,
  the network, and for each exporter whether it can be built for an endpoint. What the providers
  do with a record is theirs.
\<close>

section \<open>The probe\<close>

datatype connect = Connected | ConnectFailed | TimedOut

text \<open>
  \<open>TcpStream::connect\<close> on a text: what follows the last colon must be a port, else the address is
  rejected before anything is sent. \<open>net\<close> is the network, with the limit of two seconds.
\<close>

definition connect_str :: "(rstring \<Rightarrow> nat \<Rightarrow> connect) \<Rightarrow> rstring \<Rightarrow> connect" where
  "connect_str net addr =
     (case rsplit_once 58 addr of
        None \<Rightarrow> ConnectFailed
      | Some (host, port) \<Rightarrow>
          (case parse_unsigned 65535 port of
             None \<Rightarrow> ConnectFailed
           | Some n \<Rightarrow> net host n))"

definition endpoint_addr :: "rstring \<Rightarrow> rstring" where
  "endpoint_addr endpoint =
     unwrap_or endpoint
       (case strip_prefix (lit ''http://'') endpoint of
          Some addr \<Rightarrow> Some addr
        | None \<Rightarrow> strip_prefix (lit ''https://'') endpoint)"

definition probe_endpoint :: "(rstring \<Rightarrow> nat \<Rightarrow> connect) \<Rightarrow> rstring \<Rightarrow> bool" where
  "probe_endpoint net endpoint \<longleftrightarrow> connect_str net (endpoint_addr endpoint) = Connected"

section \<open>The process-wide cells\<close>

record provider =
  pv_endpoint :: rstring
  pv_resource :: "(rstring \<times> rstring) list"

record subscriber =
  sb_filter :: rstring
  sb_traces :: "provider option"
  sb_logs :: "provider option"

text \<open>An instrument of the meter provider that was global when it was made.\<close>

record instrument =
  in_name :: rstring
  in_description :: rstring
  in_provider :: "provider option"

record metrics =
  mt_connections_active :: instrument
  mt_requests_total :: instrument
  mt_relay_duration_seconds :: instrument

text \<open>
  Three \<open>OnceLock\<close>s for the providers and one for the instruments, the global meter provider and
  the global subscriber; \<open>tm_points\<close> are the measurements taken, in order.
\<close>

record telemetry =
  tm_tracer :: "provider option"
  tm_logger :: "provider option"
  tm_meter :: "provider option"
  tm_global_meter :: "provider option"
  tm_subscriber :: "subscriber option"
  tm_metrics :: "metrics option"
  tm_points :: "(instrument \<times> int) list"

definition telemetry_new :: telemetry where
  "telemetry_new = \<lparr>tm_tracer = None, tm_logger = None, tm_meter = None, tm_global_meter = None,
     tm_subscriber = None, tm_metrics = None, tm_points = []\<rparr>"

text \<open>\<open>let _ = CELL.set(x)\<close>: the first value stays.\<close>

fun once_set :: "'a option \<Rightarrow> 'a \<Rightarrow> 'a option" where
  "once_set None x = Some x"
| "once_set (Some y) x = Some y"

text \<open>\<open>registry.init()\<close> panics when the process has a subscriber.\<close>

definition registry_init ::
  "subscriber \<Rightarrow> telemetry \<Rightarrow> telemetry \<times> ('e, unit) outcome" where
  "registry_init sb s =
     (case tm_subscriber s of
        None \<Rightarrow> (s\<lparr>tm_subscriber := Some sb\<rparr>, Ok ())
      | Some _ \<Rightarrow> (s, Panic))"

section \<open>Set-up and shut-down\<close>

datatype signal = Traces | Logs | Metrics

record telemetry_world =
  te_env_filter :: "rstring option"
  te_net :: "rstring \<Rightarrow> nat \<Rightarrow> connect"
  te_exporter :: "signal \<Rightarrow> rstring \<Rightarrow> bool"
  te_version :: rstring

definition telemetry_init ::
  "telemetry_world \<Rightarrow> telemetry_config \<Rightarrow> telemetry \<Rightarrow> telemetry \<times> (signal, unit) outcome" where
  "telemetry_init w config s =
     (let env_filter = unwrap_or (lit ''info,rdg_server=debug,rdg_core=debug'') (te_env_filter w);
          registry = \<lparr>sb_filter = env_filter, sb_traces = None, sb_logs = None\<rparr>
      in case (if tl_enabled config then tl_otlp_endpoint config else None) of
           None \<Rightarrow> registry_init registry s
         | Some endpoint \<Rightarrow>
             if \<not> probe_endpoint (te_net w) endpoint then registry_init registry s
             else
               let p = \<lparr>pv_endpoint = endpoint,
                     pv_resource = [(lit ''service.name'', tl_service_name config),
                       (lit ''service.version'', te_version w)]\<rparr>
               in if \<not> te_exporter w Traces endpoint then (s, Err Traces)
                  else
                    let s = s\<lparr>tm_tracer := once_set (tm_tracer s) p\<rparr>
                    in if \<not> te_exporter w Logs endpoint then (s, Err Logs)
                       else
                         let s = s\<lparr>tm_logger := once_set (tm_logger s) p\<rparr>
                         in if \<not> te_exporter w Metrics endpoint then (s, Err Metrics)
                            else
                              registry_init (registry\<lparr>sb_traces := Some p, sb_logs := Some p\<rparr>)
                                (s\<lparr>tm_global_meter := Some p, tm_meter := once_set (tm_meter s) p\<rparr>))"

text \<open>The providers that are flushed and shut down, in order.\<close>

definition telemetry_shutdown :: "telemetry \<Rightarrow> (signal \<times> provider) list" where
  "telemetry_shutdown s =
     (case tm_tracer s of Some tracer \<Rightarrow> [(Traces, tracer)] | None \<Rightarrow> [])
     @ (case tm_logger s of Some logger \<Rightarrow> [(Logs, logger)] | None \<Rightarrow> [])
     @ (case tm_meter s of Some meter \<Rightarrow> [(Metrics, meter)] | None \<Rightarrow> [])"

section \<open>Metrics\<close>

definition metrics_get :: "telemetry \<Rightarrow> telemetry \<times> metrics" where
  "metrics_get s =
     (case tm_metrics s of
        Some m \<Rightarrow> (s, m)
      | None \<Rightarrow>
          let meter = tm_global_meter s;
              m = \<lparr>mt_connections_active =
                     \<lparr>in_name = lit ''rdg.connections.active'',
                      in_description = lit ''Number of active relay sessions'', in_provider = meter\<rparr>,
                   mt_requests_total =
                     \<lparr>in_name = lit ''rdg.requests.total'',
                      in_description = lit ''Total HTTP/WebSocket requests received'',
                      in_provider = meter\<rparr>,
                   mt_relay_duration_seconds =
                     \<lparr>in_name = lit ''rdg.relay.duration_seconds'',
                      in_description = lit ''Duration of relay sessions in seconds'',
                      in_provider = meter\<rparr>\<rparr>
          in (s\<lparr>tm_metrics := Some m\<rparr>, m))"

definition measure_point :: "(metrics \<Rightarrow> instrument) \<Rightarrow> int \<Rightarrow> telemetry \<Rightarrow> telemetry" where
  "measure_point which n s =
     (let (s, m) = metrics_get s in s\<lparr>tm_points := tm_points s @ [(which m, n)]\<rparr>)"

text \<open>The layer around every gateway route: the request is counted and passed on.\<close>

definition log_requests :: "('r \<Rightarrow> 'a) \<Rightarrow> 'r \<Rightarrow> telemetry \<Rightarrow> telemetry \<times> 'a" where
  "log_requests next_handler req s = (measure_point mt_requests_total 1 s, next_handler req)"

text \<open>
  What \<open>start_relay\<close> of \<open>relay.rs\<close> measures: a session counts as active until the backend cannot be
  connected to, the first data cannot be written, or both directions have ended, \<open>duration\<close> after
  its start.
\<close>

definition relay_rs_points :: "bool \<Rightarrow> bool \<Rightarrow> int \<Rightarrow> telemetry \<Rightarrow> telemetry" where
  "relay_rs_points connects first_written duration s =
     (let s = measure_point mt_connections_active 1 s
      in if \<not> connects \<or> \<not> first_written then measure_point mt_connections_active (- 1) s
         else measure_point mt_relay_duration_seconds duration
           (measure_point mt_connections_active (- 1) s))"

section \<open>Facts\<close>

lemma endpoint_addr_http [simp]:
  "endpoint_addr (lit ''http://'' @ addr) = addr" "endpoint_addr (lit ''https://'' @ addr) = addr"
  by (simp_all add: endpoint_addr_def unwrap_or_def, simp add: strip_prefix_def lit_def)

lemma probe_needs_port:
  "probe_endpoint net endpoint \<Longrightarrow> \<exists>host port n. endpoint_addr endpoint = host @ 58 # port
    \<and> parse_unsigned 65535 port = Some n \<and> net host n = Connected"
  by (fastforce simp: probe_endpoint_def connect_str_def rsplit_once_Some split: option.splits prod.splits)

lemma probe_http_port:
  "n \<le> 65535 \<Longrightarrow> probe_endpoint net (lit ''http://'' @ host @ 58 # dec_digits n) \<longleftrightarrow> net host n = Connected"
  by (simp add: probe_endpoint_def connect_str_def dec_digits_not is_digit_def)

text \<open>
  An endpoint whose port is left to its scheme is never exported to, as its probe cannot succeed.
\<close>

lemma implicit_port_unreachable:
  "58 \<notin> set host \<Longrightarrow> \<not> probe_endpoint net (lit ''https://'' @ host)"
  by (auto dest!: probe_needs_port)

text \<open>The first call of \<open>metrics::get\<close> decides, for good, which provider the instruments report to.\<close>

lemma metrics_get_again: "snd (metrics_get (fst (metrics_get s))) = snd (metrics_get s)"
  by (simp add: metrics_get_def Let_def split: option.split)

lemma measure_point_metrics: "snd (metrics_get (measure_point which n s)) = snd (metrics_get s)"
  by (simp add: measure_point_def metrics_get_def Let_def split: option.split)

lemma measure_point_points:
  "tm_points (measure_point which n s) = tm_points s @ [(which (snd (metrics_get s)), n)]"
  by (simp add: measure_point_def metrics_get_def Let_def split: option.split)

text \<open>What the gauge of active sessions stands at.\<close>

definition active_sessions :: "telemetry \<Rightarrow> int" where
  "active_sessions s =
     sum_list (map snd (filter (\<lambda>p. in_name (fst p) = lit ''rdg.connections.active'') (tm_points s)))"

definition instruments_ok :: "telemetry \<Rightarrow> bool" where
  "instruments_ok s \<longleftrightarrow>
     in_name (mt_connections_active (snd (metrics_get s))) = lit ''rdg.connections.active''
     \<and> in_name (mt_requests_total (snd (metrics_get s))) = lit ''rdg.requests.total''
     \<and> in_name (mt_relay_duration_seconds (snd (metrics_get s))) = lit ''rdg.relay.duration_seconds''"

lemma instruments_new: "tm_metrics s = None \<Longrightarrow> instruments_ok s"
  by (simp add: instruments_ok_def metrics_get_def Let_def)

lemma instruments_measure: "instruments_ok (measure_point which n s) \<longleftrightarrow> instruments_ok s"
  by (simp add: instruments_ok_def measure_point_metrics)

lemma relay_gauge_balanced:
  "instruments_ok s \<Longrightarrow> active_sessions (relay_rs_points connects first_written duration s) = active_sessions s"
  by (simp add: relay_rs_points_def active_sessions_def measure_point_points measure_point_metrics
      instruments_ok_def Let_def) (simp add: lit_def)

lemma request_not_active:
  "instruments_ok s \<Longrightarrow> active_sessions (fst (log_requests h req s)) = active_sessions s"
  by (simp add: log_requests_def active_sessions_def measure_point_points instruments_ok_def)
    (simp add: lit_def)

section \<open>Which starts export\<close>

text \<open>The endpoint that is exported to: enabled, configured, and answering the probe.\<close>

definition export_endpoint :: "telemetry_world \<Rightarrow> telemetry_config \<Rightarrow> rstring option" where
  "export_endpoint w config =
     (case (if tl_enabled config then tl_otlp_endpoint config else None) of
        None \<Rightarrow> None
      | Some endpoint \<Rightarrow> if probe_endpoint (te_net w) endpoint then Some endpoint else None)"

lemma telemetry_init_console:
  "export_endpoint w config = None \<Longrightarrow> telemetry_init w config s = registry_init
     \<lparr>sb_filter = unwrap_or (lit ''info,rdg_server=debug,rdg_core=debug'') (te_env_filter w),
      sb_traces = None, sb_logs = None\<rparr> s"
  by (auto simp: export_endpoint_def telemetry_init_def Let_def split: option.splits if_splits)

text \<open>A start fails on telemetry only when the collector answers but an exporter cannot be built.\<close>

definition telemetry_ok :: "telemetry_world \<Rightarrow> telemetry_config \<Rightarrow> bool" where
  "telemetry_ok w config \<longleftrightarrow>
     (case snd (telemetry_init w config telemetry_new) of Ok _ \<Rightarrow> True | _ \<Rightarrow> False)"

definition exporters_build :: "telemetry_world \<Rightarrow> rstring \<Rightarrow> bool" where
  "exporters_build w endpoint \<longleftrightarrow>
     te_exporter w Traces endpoint \<and> te_exporter w Logs endpoint \<and> te_exporter w Metrics endpoint"

lemma telemetry_ok_iff:
  "telemetry_ok w config \<longleftrightarrow>
     (case export_endpoint w config of None \<Rightarrow> True | Some endpoint \<Rightarrow> exporters_build w endpoint)"
proof (cases "export_endpoint w config")
  case None
  then show ?thesis
    by (simp add: telemetry_ok_def telemetry_init_console registry_init_def telemetry_new_def)
next
  case (Some endpoint)
  then show ?thesis
    by (auto simp: export_endpoint_def telemetry_ok_def telemetry_init_def registry_init_def
        telemetry_new_def exporters_build_def Let_def split: option.splits if_splits)
qed

lemma unreachable_starts:
  "(\<And>endpoint. tl_otlp_endpoint config = Some endpoint \<Longrightarrow> \<not> probe_endpoint (te_net w) endpoint)
    \<Longrightarrow> telemetry_ok w config"
  by (auto simp: telemetry_ok_iff export_endpoint_def split: option.splits)

section \<open>Properties\<close>

text \<open>
  C31. Setting telemetry up in a fresh process never panics. It fails exactly when the configured
  collector is reachable and one of the three exporters cannot be built, and then no subscriber is
  installed. When it succeeds a subscriber is installed, and the three signals go together: all of them to the
  configured endpoint when it is enabled and reachable, otherwise none; at the end exactly the
  providers that were set up are shut down.
\<close>

theorem telemetry_together:
  "case telemetry_init w config telemetry_new of
     (s, Ok u) \<Rightarrow>
       (case export_endpoint w config of
          Some endpoint \<Rightarrow> exporters_build w endpoint \<and> (\<exists>p. pv_endpoint p = endpoint
            \<and> telemetry_shutdown s = [(Traces, p), (Logs, p), (Metrics, p)]
            \<and> tm_global_meter s = Some p
            \<and> map_option (\<lambda>sb. (sb_traces sb, sb_logs sb)) (tm_subscriber s) = Some (Some p, Some p))
        | None \<Rightarrow> telemetry_shutdown s = [] \<and> tm_global_meter s = None
            \<and> map_option (\<lambda>sb. (sb_traces sb, sb_logs sb)) (tm_subscriber s) = Some (None, None))
   | (s, Err signal) \<Rightarrow> tm_subscriber s = None
       \<and> (\<exists>endpoint. export_endpoint w config = Some endpoint \<and> \<not> te_exporter w signal endpoint)
   | (s, Panic) \<Rightarrow> False"
proof (cases "export_endpoint w config")
  case None
  then show ?thesis
    by (simp add: telemetry_init_console registry_init_def telemetry_new_def telemetry_shutdown_def)
next
  case (Some endpoint)
  then show ?thesis
    by (auto simp: export_endpoint_def telemetry_init_def registry_init_def telemetry_new_def
        telemetry_shutdown_def exporters_build_def Let_def split: option.splits if_splits)
qed

end
