(* ===== verification/Launch.thy ===== *)
theory Launch
  imports Startup Net_Addr Utf8 Tui_View Telemetry
begin

text \<open>
  \<open>main\<close>, \<open>run_serve\<close>, \<open>run_webui\<close>, \<open>load_config\<close> and \<open>build_tls_config\<close> of
  \<open>crates/rdg-server/src/main.rs\<close>: the order in which a start reads its configuration, opens the
  database, merges its routers, parses its address and gets its certificate, with every step that
  can fail. \<open>launch_world\<close> extends the machine of \<open>Startup\<close> by the TOML parser, the machine
  of \<open>Telemetry\<close>, the database (connected to and migrated; \<open>None\<close> when that fails), the PEM readers and
  the certificate check of \<open>rustls\<close>, and the addresses and ports that can be bound.
\<close>

record launch_world = start_world +
  lw_toml :: "rstring \<Rightarrow> server_config option"
  lw_telemetry :: telemetry_world
  lw_open :: "rstring \<Rightarrow> database option"
  lw_certs :: "bytes \<Rightarrow> bytes list option"
  lw_private_key :: "bytes \<Rightarrow> bytes option option"
  lw_tls_ok :: "bytes list \<Rightarrow> bytes \<Rightarrow> bool"
  lw_bind_ok :: "ip_addr \<Rightarrow> u16 \<Rightarrow> bool"

datatype launch_error =
    ConfigRead | ConfigParse | TelemetryFailed | DatabaseFailed | BadListenAddr
  | Certificate startup_error | BadPem | NoPrivateKey | TlsRejected | BindFailed

section \<open>Configuration\<close>

definition load_config ::
  "('x launch_world_scheme) \<Rightarrow> files \<Rightarrow> rstring \<Rightarrow> (launch_error, server_config) outcome" where
  "load_config w fs config_path =
     (case fs config_path of
        Some raw \<Rightarrow>
          rbind (ok_or ConfigRead (from_utf8 raw)) (\<lambda>content.
          ok_or ConfigParse (lw_toml w content))
      | None \<Rightarrow> Ok (server_config_default (sw_env w)))"

section \<open>TLS\<close>

definition build_tls_config ::
  "('x launch_world_scheme) \<Rightarrow> server_config \<Rightarrow> files \<Rightarrow> database
    \<Rightarrow> files \<times> database \<times> (launch_error, bytes list \<times> bytes) outcome" where
  "build_tls_config w cfg fs db =
     (let (fs, db, r) = load_or_generate_cert (start_world.truncate w) cfg fs db
      in (fs, db,
          rbind (map_err Certificate r) (\<lambda>(cert_pem, key_pem).
          rbind (ok_or BadPem (lw_certs w cert_pem)) (\<lambda>certs.
          rbind (ok_or BadPem (lw_private_key w key_pem)) (\<lambda>found.
          rbind (ok_or NoPrivateKey found) (\<lambda>key.
          if lw_tls_ok w certs key then Ok (certs, key) else Err TlsRejected))))))"

section \<open>The modes\<close>

text \<open>
  What a start listens on: address, routes, and the certificate chain with its key, if it speaks
  TLS. \<open>Router::merge\<close> panics when two routes conflict.
\<close>

record listener =
  ls_ip :: ip_addr
  ls_port :: u16
  ls_routes :: "route list"
  ls_tls :: "(bytes list \<times> bytes) option"

definition merged :: "route list \<Rightarrow> ('e, route list) outcome" where
  "merged routes =
     (if sorted_wrt (\<lambda>r s. \<not> route_conflict r s) routes then Ok routes else Panic)"

text \<open>\<open>bind_rustls\<close> and its server, of which the result is passed on when it ends with an error.\<close>

definition bind_rustls ::
  "('x launch_world_scheme) \<Rightarrow> ip_addr \<Rightarrow> u16 \<Rightarrow> route list \<Rightarrow> bytes list \<times> bytes
    \<Rightarrow> (launch_error, listener) outcome" where
  "bind_rustls w ip port routes tls =
     (if lw_bind_ok w ip port
      then Ok \<lparr>ls_ip = ip, ls_port = port, ls_routes = routes, ls_tls = Some tls\<rparr>
      else Err BindFailed)"

text \<open>The files, the database if it was opened, and the result.\<close>

type_synonym launch_result = "files \<times> database option \<times> (launch_error, listener) outcome"

definition run_serve ::
  "('x launch_world_scheme) \<Rightarrow> rstring \<Rightarrow> rstring list \<Rightarrow> rstring option \<Rightarrow> rstring option
    \<Rightarrow> bool \<Rightarrow> files \<Rightarrow> launch_result" where
  "run_serve w config_path cli_sans tls_cert tls_key with_webui fs =
     (case load_config w fs config_path of
        Ok cfg \<Rightarrow>
          if \<not> telemetry_ok (lw_telemetry w) (sc_telemetry cfg) then (fs, None, Err TelemetryFailed)
          else
            let cfg = apply_overrides cli_sans tls_cert tls_key cfg
            in (case lw_open w (sc_database_url cfg) of
                  None \<Rightarrow> (fs, None, Err DatabaseFailed)
                | Some db \<Rightarrow>
                    (case merged (serve_routes with_webui cfg) of
                       Ok routes \<Rightarrow>
                         (case parse_ip (sc_listen_addr cfg) of
                            None \<Rightarrow> (fs, Some db, Err BadListenAddr)
                          | Some ip \<Rightarrow>
                              let (fs, db, r) = build_tls_config w cfg fs db
                              in (fs, Some db,
                                  rbind r (bind_rustls w ip (sc_listen_port cfg) routes)))
                     | Err e \<Rightarrow> (fs, Some db, Err e)
                     | Panic \<Rightarrow> (fs, Some db, Panic)))
      | Err e \<Rightarrow> (fs, None, Err e)
      | Panic \<Rightarrow> (fs, None, Panic))"

definition run_webui ::
  "('x launch_world_scheme) \<Rightarrow> rstring \<Rightarrow> u16 \<Rightarrow> files \<Rightarrow> launch_result" where
  "run_webui w config_path port fs =
     (case load_config w fs config_path of
        Ok cfg \<Rightarrow>
          if \<not> telemetry_ok (lw_telemetry w) (sc_telemetry cfg) then (fs, None, Err TelemetryFailed)
          else
            (case lw_open w (sc_database_url cfg) of
               None \<Rightarrow> (fs, None, Err DatabaseFailed)
             | Some db \<Rightarrow>
                 (case merged (portal_routes cfg) of
                    Ok routes \<Rightarrow>
                      if lw_bind_ok w (V4 [0, 0, 0, 0]) port
                      then (fs, Some db, Ok \<lparr>ls_ip = V4 [0, 0, 0, 0], ls_port = port,
                              ls_routes = routes, ls_tls = None\<rparr>)
                      else (fs, Some db, Err BindFailed)
                  | Err e \<Rightarrow> (fs, Some db, Err e)
                  | Panic \<Rightarrow> (fs, Some db, Panic)))
      | Err e \<Rightarrow> (fs, None, Err e)
      | Panic \<Rightarrow> (fs, None, Panic))"

text \<open>The program: a listener, or the terminal program run on what its terminal sends.\<close>

datatype launched = Listening launch_result | Managing "(launch_error, app \<times> loop_end) outcome"

definition launch ::
  "('x launch_world_scheme) \<Rightarrow> tui_world \<Rightarrow> command option \<Rightarrow> files \<Rightarrow> tui_event list \<Rightarrow> launched" where
  "launch w tw cmd fs es =
     (case unwrap_or (default_command (sw_env w)) cmd of
        Serve config san_names tls_cert tls_key with_webui \<Rightarrow>
          Listening (run_serve w config san_names tls_cert tls_key with_webui fs)
      | WebUi config port \<Rightarrow> Listening (run_webui w config port fs)
      | Manage config \<Rightarrow>
          Managing
            (rbind (load_config w fs config) (\<lambda>cfg.
             rbind (ok_or DatabaseFailed (lw_open w (sc_database_url cfg))) (\<lambda>db.
             Ok (run_manage tw db cfg config es)))))"

section \<open>Facts\<close>

lemma merged_serve: "merged (serve_routes with_webui cfg) = Ok (serve_routes with_webui cfg)"
  by (simp add: merged_def serve_routes_def gateway_routes_def auth_routes_def webui_routes_def
      guacamole_routes_def route_conflict_def)

lemma merged_portal: "merged (portal_routes cfg) = Ok (portal_routes cfg)"
  by (simp add: merged_def portal_routes_def auth_routes_def webui_routes_def
      guacamole_routes_def route_conflict_def)

lemma load_config_no_panic [no_panic]: "load_config w fs path \<noteq> Panic"
  by (simp add: load_config_def rbind_eq_Panic split: option.split)

lemma apply_no_overrides [simp]: "apply_overrides [] None None cfg = cfg"
  by (simp add: apply_overrides_def)

text \<open>A start that gets as far as its certificate.\<close>

definition ready_for_tls ::
  "('x launch_world_scheme) \<Rightarrow> rstring \<Rightarrow> rstring list \<Rightarrow> rstring option \<Rightarrow> rstring option \<Rightarrow> files
    \<Rightarrow> server_config \<Rightarrow> database \<Rightarrow> ip_addr \<Rightarrow> bool" where
  "ready_for_tls w path names cert key fs cfg db ip \<longleftrightarrow>
     (\<exists>base. load_config w fs path = Ok base \<and> telemetry_ok (lw_telemetry w) (sc_telemetry base)
       \<and> cfg = apply_overrides names cert key base)
     \<and> lw_open w (sc_database_url cfg) = Some db \<and> parse_ip (sc_listen_addr cfg) = Some ip"

lemma run_serve_cases:
  obtains (early) db e where "run_serve w path names cert key with_webui fs = (fs, db, Err e)"
      "e \<in> {ConfigRead, ConfigParse, TelemetryFailed, DatabaseFailed, BadListenAddr}"
  | (tls) cfg db ip fs' db' r where "ready_for_tls w path names cert key fs cfg db ip"
      "build_tls_config w cfg fs db = (fs', db', r)"
      "run_serve w path names cert key with_webui fs = (fs', Some db',
        rbind r (bind_rustls w ip (sc_listen_port cfg) (serve_routes with_webui cfg)))"
proof (cases "load_config w fs path")
  case (Ok base)
  let ?cfg = "apply_overrides names cert key base"
  show thesis
  proof (cases "telemetry_ok (lw_telemetry w) (sc_telemetry base) \<and> lw_open w (sc_database_url ?cfg) \<noteq> None
      \<and> parse_ip (sc_listen_addr ?cfg) \<noteq> None")
    case True
    then obtain db ip where "ready_for_tls w path names cert key fs ?cfg db ip"
      using Ok by (auto simp: ready_for_tls_def)
    moreover obtain fs' db' r where "build_tls_config w ?cfg fs db = (fs', db', r)"
      by (metis prod.exhaust)
    ultimately show thesis
      by (intro tls) (auto simp: run_serve_def Ok merged_serve ready_for_tls_def Let_def)
  next
    case False
    then have "\<exists>db e. run_serve w path names cert key with_webui fs = (fs, db, Err e)
        \<and> e \<in> {ConfigRead, ConfigParse, TelemetryFailed, DatabaseFailed, BadListenAddr}"
      by (auto simp: run_serve_def Ok merged_serve Let_def split: option.split)
    then show thesis using early by blast
  qed
next
  case (Err e)
  then have "e \<in> {ConfigRead, ConfigParse}"
    by (auto simp: load_config_def rbind_eq_Err ok_or_eq_Err split: option.splits)
  with Err show thesis by (intro early [of None e]) (auto simp: run_serve_def)
qed (use load_config_no_panic in blast)

lemma run_serve_ready:
  assumes "ready_for_tls w path names cert key fs cfg db ip"
  shows "run_serve w path names cert key with_webui fs =
    (let (fs', db', r) = build_tls_config w cfg fs db
     in (fs', Some db', rbind r (bind_rustls w ip (sc_listen_port cfg) (serve_routes with_webui cfg))))"
  using assms by (auto simp: ready_for_tls_def run_serve_def merged_serve Let_def split: prod.split)

text \<open>The certificate step.\<close>

lemma generate_cert_no_panic [no_panic]: "snd (snd (generate_cert w cfg names fs db)) \<noteq> Panic"
  by (simp add: generate_cert_def Let_def split: option.split prod.split)

lemma read_pair_no_panic [no_panic]: "read_pair fs c k \<noteq> Panic"
  by (simp add: read_pair_def rbind_eq_Panic)

lemma load_or_generate_cert_Panic:
  "snd (snd (load_or_generate_cert w cfg fs db)) = Panic \<longleftrightarrow>
     self_signed cfg \<and> (\<exists>existing. get_certificate db = Ok (Some existing)
       \<and> reusable w (desired_sans w cfg) fs existing
       \<and> sw_log_info w \<and> \<not> slices_at_16 (ci_thumbprint existing))"
  by (auto simp: load_or_generate_cert_def self_signed_def Let_def no_panic
      split: option.splits outcome.splits)

lemma build_tls_Panic:
  "build_tls_config w cfg fs db = (fs', db', Panic) \<Longrightarrow>
    snd (snd (load_or_generate_cert (start_world.truncate w) cfg fs db)) = Panic"
  by (auto simp: build_tls_config_def rbind_eq_Panic split: prod.splits if_splits)

text \<open>The files a certificate step touches, and where it finds the certificate.\<close>

lemma load_cert_files:
  assumes "load_or_generate_cert w cfg fs db = (fs', db', r)"
  shows "\<not> self_signed cfg \<Longrightarrow> fs' = fs \<and> db' = db"
    and "p \<noteq> cert_file \<Longrightarrow> p \<noteq> key_file \<Longrightarrow> fs' p = fs p"
  using assms
  by (auto simp: load_or_generate_cert_def generate_cert_def self_signed_def Let_def
      split: option.splits outcome.splits if_splits prod.splits)

lemma load_cert_found:
  assumes "load_or_generate_cert w cfg fs db = (fs', db', Ok (c, k))"
  shows "if self_signed cfg then fs' cert_file = Some c \<and> fs' key_file = Some k
    else \<exists>p q. tc_cert_path (sc_tls cfg) = Some p \<and> tc_key_path (sc_tls cfg) = Some q
      \<and> fs' p = Some c \<and> fs' q = Some k"
proof (cases "self_signed cfg")
  case True
  have "cert_file \<noteq> key_file" by (simp add: cert_file_def key_file_def lit_def)
  with True assms show ?thesis
    by (auto simp: load_self_signed generate_cert_def Let_def read_pair_Ok
        split: option.splits outcome.splits if_splits prod.splits)
next
  case False
  with assms show ?thesis
    by (auto simp: load_or_generate_cert_def self_signed_def read_pair_Ok Let_def split: option.splits)
qed

lemma load_cert_panic_files:
  "load_or_generate_cert w cfg fs db = (fs', db', Panic) \<Longrightarrow> fs' = fs"
  using generate_cert_no_panic [of w cfg "desired_sans w cfg" fs db]
  by (auto simp: load_or_generate_cert_def Let_def
      split: option.splits outcome.splits if_splits prod.splits)

text \<open>The names of a certificate do not depend on the order of the interfaces.\<close>

lemma mset_push:
  "mset (foldl (\<lambda>ns x. if P x \<and> x \<notin> set ns then ns @ [x] else ns) names xs)
    = mset names + mset_set ({x \<in> set xs. P x} - set names)"
proof (induction xs rule: rev_induct)
  case (snoc x xs)
  let ?f = "foldl (\<lambda>ns x. if P x \<and> x \<notin> set ns then ns @ [x] else ns) names xs"
    and ?new = "{x \<in> set xs. P x} - set names"
  have "set ?f = set names \<union> ?new"
    using arg_cong [OF snoc.IH, of set_mset] by (simp add: finite_set_mset_mset_set)
  moreover have "{y \<in> set (xs @ [x]). P y} - set names
      = (if P x \<and> x \<notin> set names then insert x ?new else ?new)" by auto
  moreover have "insert x ?new = ?new" if "x \<in> ?new" using that by blast
  ultimately show ?case using snoc.IH by (auto simp: mset_set.insert_remove insert_absorb)
qed simp

lemma mset_push_new:
  assumes "mset names = mset names'"
  shows "mset (foldl push_new names custom) = mset (foldl push_new names' custom)"
proof -
  have push: "push_new = (\<lambda>ns x. if x \<notin> set ns then ns @ [x] else ns)"
    by (simp add: fun_eq_iff push_new_def)
  have "mset (foldl push_new ns custom) = mset ns + mset_set (set custom - set ns)" for ns
    unfolding push using mset_push [of "\<lambda>_. True" ns custom] by simp
  then show ?thesis using assms mset_eq_setD [OF assms] by simp
qed

lemma desired_sans_order:
  assumes "mset interfaces = mset (sw_interfaces w)"
  shows "mset (desired_sans (w\<lparr>sw_interfaces := interfaces\<rparr>) cfg) = mset (desired_sans w cfg)"
proof -
  have same: "set interfaces = set (sw_interfaces w)" using assms by (rule mset_eq_setD)
  have "mset (foldl (\<lambda>ns x. if P x \<and> x \<notin> set ns then ns @ [x] else ns) names interfaces)
      = mset (foldl (\<lambda>ns x. if P x \<and> x \<notin> set ns then ns @ [x] else ns) names (sw_interfaces w))" for P names
    unfolding mset_push same ..
  then show ?thesis
    by (auto simp: desired_sans_def Let_def intro: mset_push_new split: option.split)
qed

text \<open>A start that listens, with the PEM texts its certificate chain and key were read from.\<close>

definition pem_pair ::
  "('x launch_world_scheme) \<Rightarrow> bytes \<times> bytes \<Rightarrow> bytes list \<times> bytes \<Rightarrow> bool" where
  "pem_pair w pems tls \<longleftrightarrow> lw_certs w (fst pems) = Some (fst tls)
     \<and> lw_private_key w (snd pems) = Some (Some (snd tls)) \<and> lw_tls_ok w (fst tls) (snd tls)"

lemma build_tls_Ok_iff:
  "build_tls_config w cfg fs db = (fs', db', Ok tls) \<longleftrightarrow> (\<exists>pems. pem_pair w pems tls
    \<and> load_or_generate_cert (start_world.truncate w) cfg fs db = (fs', db', Ok pems))"
  by (cases tls) (auto simp: build_tls_config_def pem_pair_def rbind_eq_Ok split: prod.splits if_splits)

lemma run_serve_Ok:
  "run_serve w path names cert key with_webui fs = (fs', opened, Ok l) \<longleftrightarrow>
    (\<exists>cfg db ip db' pems tls. ready_for_tls w path names cert key fs cfg db ip \<and> pem_pair w pems tls
      \<and> load_or_generate_cert (start_world.truncate w) cfg fs db = (fs', db', Ok pems)
      \<and> opened = Some db' \<and> lw_bind_ok w ip (sc_listen_port cfg)
      \<and> l = \<lparr>ls_ip = ip, ls_port = sc_listen_port cfg, ls_routes = serve_routes with_webui cfg,
          ls_tls = Some tls\<rparr>)"
    (is "?listens \<longleftrightarrow> ?ready")
proof
  assume ?listens
  then show ?ready
    by (cases rule: run_serve_cases [of w path names cert key with_webui fs])
      (fastforce simp: rbind_eq_Ok build_tls_Ok_iff bind_rustls_def split: if_splits)+
next
  assume ?ready
  then show ?listens by (auto simp: run_serve_ready bind_rustls_def build_tls_Ok_iff [THEN iffD2] split: prod.split)
qed

abbreviation gateway_listener :: "bool \<Rightarrow> server_config \<Rightarrow> ip_addr \<Rightarrow> bytes list \<times> bytes \<Rightarrow> listener" where
  "gateway_listener with_webui cfg ip tls \<equiv> \<lparr>ls_ip = ip, ls_port = sc_listen_port cfg,
     ls_routes = serve_routes with_webui cfg, ls_tls = Some tls\<rparr>"

text \<open>The certificate and key that a configuration names, or the gateway's own pair, as they are on disk.\<close>

definition pems_on_disk :: "server_config \<Rightarrow> files \<Rightarrow> bytes \<times> bytes \<Rightarrow> bool" where
  "pems_on_disk cfg fs pems \<longleftrightarrow>
     (if self_signed cfg then fs cert_file = Some (fst pems) \<and> fs key_file = Some (snd pems)
      else \<exists>p q. tc_cert_path (sc_tls cfg) = Some p \<and> tc_key_path (sc_tls cfg) = Some q
        \<and> fs p = Some (fst pems) \<and> fs q = Some (snd pems))"

lemma load_cert_on_disk:
  "load_or_generate_cert w cfg fs db = (fs', db', Ok pems) \<Longrightarrow> pems_on_disk cfg fs' pems"
  using load_cert_found [of w cfg fs db fs' db' "fst pems" "snd pems"] by (simp add: pems_on_disk_def)

lemma load_external:
  assumes "tc_cert_path (sc_tls cfg) \<noteq> None" and "tc_key_path (sc_tls cfg) \<noteq> None"
  shows "load_or_generate_cert w cfg fs db = (fs', db', Ok pems)
    \<longleftrightarrow> fs' = fs \<and> db' = db \<and> pems_on_disk cfg fs pems"
  using assms
  by (cases pems) (auto simp: load_or_generate_cert_def pems_on_disk_def self_signed_def read_pair_Ok)

text \<open>A self-signed pair is the stored one, taken as it is, or a new one for the wanted names.\<close>

lemma load_own:
  assumes "self_signed cfg" and "load_or_generate_cert w cfg fs db = (fs', db', Ok pems)"
  shows "fs' = fs \<and> (\<exists>existing. get_certificate db = Ok (Some existing)
      \<and> reusable w (desired_sans w cfg) fs existing)
    \<or> generate_cert w cfg (desired_sans w cfg) fs db = (fs', db', Ok pems)"
  using assms(2) by (auto simp: load_self_signed [OF assms(1)] split: outcome.splits option.splits if_splits)

text \<open>A start with a given configuration.\<close>

lemma run_serve_files:
  assumes "run_serve w path [] None None with_webui fs = (fs', opened, r)" and "load_config w fs path = Ok cfg"
  shows "(\<not> self_signed cfg \<longrightarrow> fs' = fs) \<and> (\<forall>p. p \<noteq> cert_file \<longrightarrow> p \<noteq> key_file \<longrightarrow> fs' p = fs p)"
proof (cases rule: run_serve_cases [of w path "[]" None None with_webui fs])
  case (early db e)
  then show ?thesis using assms(1) by simp
next
  case (tls cfg' db ip fs1 db1 r1)
  then have "cfg' = cfg" "fs1 = fs'" using assms by (auto simp: ready_for_tls_def)
  moreover obtain c where "load_or_generate_cert (start_world.truncate w) cfg' fs db = (fs1, db1, c)"
    using tls(2) by (auto simp: build_tls_config_def split: prod.splits)
  ultimately show ?thesis using load_cert_files by blast
qed

lemma run_serve_loaded:
  assumes "load_config w fs path = Ok cfg" and "run_serve w path [] None None with_webui fs = (fs', opened, r)"
  shows "r = Ok l \<longleftrightarrow> (\<exists>db ip db' pems tls. ready_for_tls w path [] None None fs cfg db ip
    \<and> pem_pair w pems tls \<and> load_or_generate_cert (start_world.truncate w) cfg fs db = (fs', db', Ok pems)
    \<and> lw_bind_ok w ip (sc_listen_port cfg) \<and> l = gateway_listener with_webui cfg ip tls)"
    (is "_ \<longleftrightarrow> ?listens")
proof
  have loaded: "cfg' = cfg" if "ready_for_tls w path [] None None fs cfg' db ip" for cfg' db ip
    using that assms(1) by (simp add: ready_for_tls_def)
  assume "r = Ok l"
  then show ?listens
    using assms(2) run_serve_Ok [of w path "[]" None None with_webui fs fs' opened l] loaded by metis
next
  assume ?listens
  then obtain opened' where "run_serve w path [] None None with_webui fs = (fs', opened', Ok l)"
    using run_serve_Ok [of w path "[]" None None with_webui fs fs' _ l] by metis
  then show "r = Ok l" using assms(2) by simp
qed

lemma run_serve_own:
  assumes "load_config w fs path = Ok cfg"
    and "run_serve w path [] None None with_webui fs = (fs', opened, Ok l)" and "self_signed cfg"
  shows "\<exists>db ip cert_pem key_pem tls. ready_for_tls w path [] None None fs cfg db ip
    \<and> fs' cert_file = Some cert_pem \<and> fs' key_file = Some key_pem
    \<and> pem_pair w (cert_pem, key_pem) tls \<and> l = gateway_listener with_webui cfg ip tls
    \<and> (fs' = fs \<and> (\<exists>existing. get_certificate db = Ok (Some existing)
          \<and> reusable (start_world.truncate w) (desired_sans (start_world.truncate w) cfg) fs existing)
        \<or> (\<exists>db'. generate_cert (start_world.truncate w) cfg (desired_sans (start_world.truncate w) cfg) fs db
          = (fs', db', Ok (cert_pem, key_pem))))"
proof -
  obtain db ip db' pems tls where l: "ready_for_tls w path [] None None fs cfg db ip" "pem_pair w pems tls"
    "load_or_generate_cert (start_world.truncate w) cfg fs db = (fs', db', Ok pems)"
    "l = gateway_listener with_webui cfg ip tls"
    using run_serve_loaded [OF assms(1,2), of l] by blast
  obtain c k where pems: "pems = (c, k)" by fastforce
  have "fs' cert_file = Some c" "fs' key_file = Some k"
    using load_cert_on_disk [OF l(3)] assms(3) by (simp_all add: pems_on_disk_def pems)
  with load_own [OF assms(3) l(3)] l(1,2,4) show ?thesis unfolding pems by blast
qed

section \<open>An example machine\<close>

text \<open>A machine without a network, on which telemetry stays on the console.\<close>

definition example_telemetry :: telemetry_world where
  "example_telemetry = \<lparr>te_env_filter = None, te_net = (\<lambda>_ _. ConnectFailed),
     te_exporter = (\<lambda>_ _. True), te_version = []\<rparr>"

lemma example_telemetry_ok: "telemetry_ok example_telemetry config"
  by (auto simp: telemetry_ok_iff example_telemetry_def exporters_build_def split: option.split)

definition example_launch :: launch_world where
  "example_launch = start_world.extend example_start
     (launch_world.fields (\<lambda>_. None) example_telemetry (\<lambda>_. Some database_empty) (\<lambda>pem. Some [pem])
       (\<lambda>pem. Some (Some pem)) (\<lambda>_ _. True) (\<lambda>_ _. True))"

lemma example_launch_simps:
  "start_world.truncate example_launch = example_start"
  "sw_to_json example_launch = sw_to_json example_start"
  "sw_from_json example_launch = sw_from_json example_start"
  "sw_sha256 example_launch = sw_sha256 example_start"
  "sw_env example_launch = (\<lambda>_. None)"
  "lw_open example_launch = (\<lambda>_. Some database_empty)"
  "telemetry_ok (lw_telemetry example_launch) config" "lw_certs example_launch = (\<lambda>pem. Some [pem])"
  "lw_private_key example_launch = (\<lambda>pem. Some (Some pem))"
  "lw_tls_ok example_launch = (\<lambda>_ _. True)" "lw_bind_ok example_launch = (\<lambda>_ _. True)"
  by (simp_all add: example_launch_def start_world.defs launch_world.defs example_start_def example_telemetry_ok)

lemma example_address: "parse_ip (lit ''0.0.0.0'') = Some (V4 [0, 0, 0, 0])"
  using parse_ip_v4 [of "[0, 0, 0, 0]"] by (simp add: lit_def dec_digits.simps)

lemma example_listens:
  "\<exists>fs db l. run_serve example_launch (lit ''rdg-gateway.toml'') [] None None False (\<lambda>_. None)
    = (fs, Some db, Ok l)"
proof -
  let ?cfg = "server_config_default (\<lambda>_. None)"
  have self: "self_signed ?cfg" by (simp add: self_signed_def server_config_default_def)
  have "get_certificate database_empty = Ok None"
    by (simp add: get_certificate_def database_empty_def table_empty_def)
  then obtain fs db where
    "load_or_generate_cert example_start ?cfg (\<lambda>_. None) database_empty = (fs, db, Ok ([1], [2]))"
    by (simp add: load_self_signed [OF self] generate_cert_def example_start_def Let_def)
  then have "build_tls_config example_launch ?cfg (\<lambda>_. None) database_empty = (fs, db, Ok ([[1]], [2]))"
    by (simp add: build_tls_config_def example_launch_simps)
  moreover have "ready_for_tls example_launch (lit ''rdg-gateway.toml'') [] None None (\<lambda>_. None) ?cfg
      database_empty (V4 [0, 0, 0, 0])"
    by (simp add: ready_for_tls_def load_config_def example_launch_simps example_address
        server_config_default_def)
  ultimately show ?thesis by (simp add: run_serve_ready bind_rustls_def example_launch_simps)
qed

section \<open>Properties\<close>

text \<open>
  C40. A start that listens does so on the configured address with the routes of its
  configuration and the certificate and key read from the PEM files that are then on disk; one that
  fails before it needs the certificate has changed no file, and one that fails later none but those
  of the self-signed pair; and it panics only when it could reuse the stored self-signed
  certificate, INFO lines are logged, and the stored thumbprint cannot be cut for the log line,
  again with no file changed.
\<close>

theorem serve_start:
  "let (fs', db', r) = run_serve w path names cert key with_webui fs
   in (case r of
         Ok l \<Rightarrow> \<exists>cfg db ip pems tls. ready_for_tls w path names cert key fs cfg db ip
           \<and> l = \<lparr>ls_ip = ip, ls_port = sc_listen_port cfg, ls_routes = serve_routes with_webui cfg,
               ls_tls = Some tls\<rparr>
           \<and> lw_bind_ok w ip (sc_listen_port cfg) \<and> pem_pair w pems tls \<and> pems_on_disk cfg fs' pems
           \<and> (self_signed cfg \<or> fs' = fs)
       | Err e \<Rightarrow> fs' = fs
           \<or> (\<exists>cfg db ip. ready_for_tls w path names cert key fs cfg db ip \<and> self_signed cfg)
             \<and> (\<forall>p. p \<in> {cert_file, key_file} \<or> fs' p = fs p)
       | Panic \<Rightarrow> fs' = fs \<and> (\<exists>cfg db ip existing. ready_for_tls w path names cert key fs cfg db ip
           \<and> self_signed cfg \<and> get_certificate db = Ok (Some existing)
           \<and> reusable (start_world.truncate w) (desired_sans (start_world.truncate w) cfg) fs existing
           \<and> sw_log_info w \<and> \<not> slices_at_16 (ci_thumbprint existing)))"
proof -
  obtain fs' opened r where run: "run_serve w path names cert key with_webui fs = (fs', opened, r)"
    by (metis prod.exhaust)
  show ?thesis
  proof (cases r)
    case (Ok l)
    then show ?thesis
      using run run_serve_Ok [of w path names cert key with_webui fs fs' opened l]
      by (fastforce dest: load_cert_on_disk load_cert_files(1))
  next
    case (Err e)
    show ?thesis
    proof (cases rule: run_serve_cases [of w path names cert key with_webui fs])
      case (tls cfg db ip fs1 db1 r1)
      obtain c where c: "load_or_generate_cert (start_world.truncate w) cfg fs db = (fs1, db1, c)"
        using tls(2) by (auto simp: build_tls_config_def split: prod.splits)
      have "fs1 = fs'" using run tls(3) by simp
      then show ?thesis
        using run Err tls(1) load_cert_files [OF c] by auto
    qed simp
  next
    case Panic
    show ?thesis
    proof (cases rule: run_serve_cases [of w path names cert key with_webui fs])
      case (early db e)
      then show ?thesis using run Panic by simp
    next
      case (tls cfg db ip fs1 db1 r1)
      have "fs1 = fs'" using run tls(3) by simp
      moreover have "rbind r1 (bind_rustls w ip (sc_listen_port cfg) (serve_routes with_webui cfg)) = Panic"
        using run Panic tls(3) by simp
      then have "r1 = Panic" by (auto simp: rbind_eq_Panic bind_rustls_def split: if_splits)
      ultimately obtain c where c: "load_or_generate_cert (start_world.truncate w) cfg fs db = (fs', db1, Panic)"
        using build_tls_Panic [of w cfg fs db fs' db1] tls(2)
        by (auto simp: build_tls_config_def split: prod.splits)
      then show ?thesis
        using run Panic tls(1) load_cert_panic_files [OF c]
          load_or_generate_cert_Panic [of "start_world.truncate w" cfg fs db]
        by (auto simp: start_world.defs)
    qed
  qed
qed

text \<open>The machine on which a later start runs.\<close>

lemma later_machine:
  fixes w :: "'x launch_world_scheme" and interfaces :: "rstring list"
    and opens :: "rstring \<Rightarrow> database option"
  defines "v \<equiv> w\<lparr>sw_interfaces := interfaces, lw_open := opens\<rparr>"
  shows "start_world.truncate v = (start_world.truncate w)\<lparr>sw_interfaces := interfaces\<rparr>"
    and "load_config v = load_config w" and "lw_telemetry v = lw_telemetry w"
    and "lw_open v = opens" and "lw_certs v = lw_certs w" and "lw_private_key v = lw_private_key w"
    and "lw_tls_ok v = lw_tls_ok w" and "lw_bind_ok v = lw_bind_ok w"
  unfolding v_def by (simp_all add: start_world.defs load_config_def fun_eq_iff split: option.split)

text \<open>
  C26. Starting the gateway again is safe: after a start that listens, the same command
  on the files and the database it left listens on the same address with the same routes and the
  very same certificate and key, and changes nothing, in whatever order the network interfaces are
  found.
\<close>

theorem serve_restart:
  assumes "run_serve w path names cert key with_webui fs = (fs', Some db', Ok l)"
    and "\<And>url db. lw_open w url = Some db \<Longrightarrow> table_ok ci_id (db_certificates db)"
    and "\<And>ns json. sw_to_json w ns = Some json \<Longrightarrow> sw_from_json w json = Some ns"
    and "\<And>der. length (sw_sha256 w der) = 32"
    and "path \<noteq> cert_file" and "path \<noteq> key_file"
    and "mset interfaces = mset (sw_interfaces w)"
  shows "run_serve (w\<lparr>sw_interfaces := interfaces, lw_open := \<lambda>_. Some db'\<rparr>) path names cert key with_webui fs'
    = (fs', Some db', Ok l)"
proof -
  let ?w = "w\<lparr>sw_interfaces := interfaces, lw_open := \<lambda>_. Some db'\<rparr>"
  obtain cfg db ip pems t where ready: "ready_for_tls w path names cert key fs cfg db ip"
    and load: "load_or_generate_cert (start_world.truncate w) cfg fs db = (fs', db', Ok pems)"
    and pem: "pem_pair w pems t" and bound: "lw_bind_ok w ip (sc_listen_port cfg)"
    and l: "l = gateway_listener with_webui cfg ip t"
    using assms(1) unfolding run_serve_Ok by blast
  obtain c k where pems: "pems = (c, k)" by fastforce
  note load = load [unfolded pems]
  have again: "load_or_generate_cert (start_world.truncate ?w) cfg fs' db' = (fs', db', Ok (c, k))"
  proof (cases "self_signed cfg")
    case True
    have "table_ok ci_id (db_certificates db)"
      using ready assms(2) by (auto simp: ready_for_tls_def)
    with True load show ?thesis
      using desired_sans_order [of interfaces "start_world.truncate w" cfg] assms(3,4,7)
      by (intro cert_restart [of cfg db "start_world.truncate w" fs])
        (simp_all add: later_machine, simp_all add: start_world.defs)
  next
    case False
    then show ?thesis
      using load load_cert_files(1) [OF load False]
      by (auto simp: load_or_generate_cert_def self_signed_def later_machine Let_def split: option.splits)
  qed
  have "fs' path = fs path"
    using load_cert_files(2) [OF load assms(5,6)] .
  then have "ready_for_tls ?w path names cert key fs' cfg db' ip"
    using ready by (simp add: ready_for_tls_def later_machine) (simp add: load_config_def)
  moreover have "pem_pair ?w pems t" using pem by (simp add: pem_pair_def later_machine)
  ultimately show ?thesis
    unfolding run_serve_Ok using again bound by (fastforce simp: l pems later_machine)
qed

theorem serve_restart_witness:
  "\<exists>fs db l. run_serve example_launch (lit ''rdg-gateway.toml'') [] None None False (\<lambda>_. None)
      = (fs, Some db, Ok l)
    \<and> run_serve (example_launch\<lparr>sw_interfaces := rev (sw_interfaces example_launch),
        lw_open := \<lambda>_. Some db\<rparr>) (lit ''rdg-gateway.toml'') [] None None False fs
      = (fs, Some db, Ok l)"
proof -
  obtain fs db l where first: "run_serve example_launch (lit ''rdg-gateway.toml'') [] None None False (\<lambda>_. None)
    = (fs, Some db, Ok l)"
    using example_listens by blast
  have "run_serve (example_launch\<lparr>sw_interfaces := rev (sw_interfaces example_launch),
        lw_open := \<lambda>_. Some db\<rparr>) (lit ''rdg-gateway.toml'') [] None None False fs
      = (fs, Some db, Ok l)"
  proof (rule serve_restart [OF first])
    show "table_ok ci_id (db_certificates d)" if "lw_open example_launch url = Some d" for url d
      using that by (auto simp: example_launch_simps database_empty_def)
    show "sw_from_json example_launch json = Some ns" if "sw_to_json example_launch ns = Some json" for ns json
      using that by (auto simp: example_launch_simps example_start_def read_join_names)
    show "length (sw_sha256 example_launch der) = 32" for der
      by (simp add: example_launch_simps example_start_def)
  qed (simp_all add: cert_file_def key_file_def lit_def)
  with first show ?thesis by blast
qed

text \<open>
  C27. What the administration program saves is what the gateway starts with: after \<open>s\<close> on the
  TLS page, a start with that file loads the configuration on the screen, and the TLS mode shown
  there is what happens then. With an external certificate the start touches no file and listens
  exactly when everything before the certificate works, the two configured files hold a certificate
  and key that pass, and the address can be bound, and then with that certificate and key. A
  self-signed start touches no file but those of its own pair and listens with that pair only,
  stored and still fitting or newly made for the wanted names. A configuration that is shown as not
  configured does not start.
\<close>

theorem saved_config_served:
  assumes "ap_input_mode a = Normal" and "ap_active_tab a = Tls"
    and "handle_key tw (Char 115) a = (b, Ok ())"
    and "\<And>cfg text. tw_toml tw cfg = Some text \<Longrightarrow> valid_str text \<and> lw_toml w text = Some cfg"
    and "fs (ap_config_path a) = map_option str_bytes (ap_disk b (ap_config_path a))"
  shows "load_config w fs (ap_config_path a) = Ok (ap_config a)
    \<and> tls_mode (ap_config b) = tls_mode (ap_config a)
    \<and> (case run_serve w (ap_config_path a) [] None None with_webui fs of
        (fs', opened, r) \<Rightarrow>
          if tls_mode (ap_config a) = lit ''External Certificate'' then
            fs' = fs \<and> (\<forall>l. r = Ok l \<longleftrightarrow> (\<exists>db ip p q cert_pem key_pem tls.
              ready_for_tls w (ap_config_path a) [] None None fs (ap_config a) db ip
              \<and> tc_cert_path (sc_tls (ap_config a)) = Some p \<and> fs p = Some cert_pem
              \<and> tc_key_path (sc_tls (ap_config a)) = Some q \<and> fs q = Some key_pem
              \<and> pem_pair w (cert_pem, key_pem) tls \<and> lw_bind_ok w ip (sc_listen_port (ap_config a))
              \<and> l = gateway_listener with_webui (ap_config a) ip tls))
          else if tls_mode (ap_config a) = lit ''Self-Signed (auto-generated)'' then
            (\<forall>p. p \<noteq> cert_file \<longrightarrow> p \<noteq> key_file \<longrightarrow> fs' p = fs p)
            \<and> (\<forall>l. r = Ok l \<longrightarrow> (\<exists>db ip cert_pem key_pem tls.
              ready_for_tls w (ap_config_path a) [] None None fs (ap_config a) db ip
              \<and> fs' cert_file = Some cert_pem \<and> fs' key_file = Some key_pem
              \<and> pem_pair w (cert_pem, key_pem) tls
              \<and> l = gateway_listener with_webui (ap_config a) ip tls
              \<and> (let v = start_world.truncate w; names = desired_sans v (ap_config a)
                 in fs' = fs \<and> (\<exists>existing. get_certificate db = Ok (Some existing)
                      \<and> reusable v names fs existing)
                    \<or> (\<exists>db'. generate_cert v (ap_config a) names fs db
                      = (fs', db', Ok (cert_pem, key_pem))))))
          else fs' = fs \<and> (\<forall>l. r \<noteq> Ok l))"
proof -
  let ?path = "ap_config_path a" and ?cfg = "ap_config a" and ?v = "start_world.truncate w"
  obtain content where t: "tw_toml tw ?cfg = Some content"
    and b: "b = say (lit ''Config saved to '' @ ?path) (a\<lparr>ap_disk := (ap_disk a)(?path \<mapsto> content)\<rparr>)"
    using assms(1-3) by (auto simp: handle_key_def handle_normal_key_def save_config_def
        split: option.splits if_splits)
  have load: "load_config w fs ?path = Ok ?cfg"
    using assms(4) [OF t] assms(5) by (simp add: load_config_def b say_def)
  have mode: "tls_mode (ap_config b) = tls_mode ?cfg" by (simp add: b say_def)
  obtain fs' opened r where run: "run_serve w ?path [] None None with_webui fs = (fs', opened, r)"
    by (metis prod.exhaust)
  have files: "(\<not> self_signed ?cfg \<longrightarrow> fs' = fs)
      \<and> (\<forall>p. p \<noteq> cert_file \<longrightarrow> p \<noteq> key_file \<longrightarrow> fs' p = fs p)"
    by (rule run_serve_files [OF run load])
  have listens: "r = Ok l \<longleftrightarrow> (\<exists>db ip db' pems tls. ready_for_tls w ?path [] None None fs ?cfg db ip
      \<and> pem_pair w pems tls \<and> load_or_generate_cert ?v ?cfg fs db = (fs', db', Ok pems)
      \<and> lw_bind_ok w ip (sc_listen_port ?cfg) \<and> l = gateway_listener with_webui ?cfg ip tls)" for l
    using run_serve_loaded [OF load run] .
  note modes = tls_mode_true [of ?cfg]
  consider (external) "tls_mode ?cfg = lit ''External Certificate''"
    | (own) "self_signed ?cfg" "tls_mode ?cfg \<noteq> lit ''External Certificate''"
    | (none) "\<not> self_signed ?cfg" "tls_mode ?cfg \<noteq> lit ''External Certificate''" by blast
  then show ?thesis
  proof cases
    case external
    then obtain p q where pq: "tc_cert_path (sc_tls ?cfg) = Some p" "tc_key_path (sc_tls ?cfg) = Some q"
      using modes by blast
    then have "\<not> self_signed ?cfg" by (simp add: self_signed_def)
    then show ?thesis
      using load mode run external files pq listens load_external [of ?cfg ?v fs]
      by (auto simp: pems_on_disk_def)
  next
    case own
    have "\<forall>l. r = Ok l \<longrightarrow> (\<exists>db ip cert_pem key_pem tls. ready_for_tls w ?path [] None None fs ?cfg db ip
        \<and> fs' cert_file = Some cert_pem \<and> fs' key_file = Some key_pem
        \<and> pem_pair w (cert_pem, key_pem) tls \<and> l = gateway_listener with_webui ?cfg ip tls
        \<and> (fs' = fs \<and> (\<exists>existing. get_certificate db = Ok (Some existing)
              \<and> reusable ?v (desired_sans ?v ?cfg) fs existing)
            \<or> (\<exists>db'. generate_cert ?v ?cfg (desired_sans ?v ?cfg) fs db
              = (fs', db', Ok (cert_pem, key_pem)))))"
      using run_serve_own [OF load _ own(1)] run by blast
    then show ?thesis using load mode run own files modes by (simp add: Let_def)
  next
    case none
    then have "tls_mode ?cfg = lit ''Not Configured''"
      using modes by (auto simp: tls_mode_def split: if_splits option.splits)
    then have "load_or_generate_cert ?v ?cfg fs db = (fs, db, Err TlsNotConfigured)" for db
      using modes by blast
    then have "r \<noteq> Ok l" for l using listens [of l] by simp
    then show ?thesis using load mode run none files modes by simp
  qed
qed

text \<open>
  The instance saves a configuration with an external certificate, the one text the example's TOML
  engine knows.
\<close>

definition external_config :: server_config where
  "external_config = (server_config_default (\<lambda>_. None))
     \<lparr>sc_tls := \<lparr>tc_cert_path = Some [1], tc_key_path = Some [2], tc_auto_generate = True,
        tc_san_names = None\<rparr>\<rparr>"

theorem saved_config_served_witness:
  "\<exists>b fs. handle_key (example_tui\<lparr>tw_toml := \<lambda>cfg. if cfg = external_config then Some [116] else None\<rparr>)
      (Char 115) ((app_new database_empty external_config [99])\<lparr>ap_active_tab := Tls\<rparr>) = (b, Ok ())
    \<and> fs [99] = map_option str_bytes (ap_disk b [99])
    \<and> (\<exists>l. snd (snd (run_serve
        (example_launch\<lparr>lw_toml := \<lambda>s. if s = [116] then Some external_config else None\<rparr>) [99] [] None None
        False fs)) = Ok l \<and> ls_tls l = Some ([[7]], [8]))"
proof -
  let ?tw = "example_tui\<lparr>tw_toml := \<lambda>cfg. if cfg = external_config then Some [116] else None\<rparr>"
    and ?a = "(app_new database_empty external_config [99])\<lparr>ap_active_tab := Tls\<rparr>"
    and ?w = "example_launch\<lparr>lw_toml := \<lambda>s. if s = [116] then Some external_config else None\<rparr>"
    and ?fs = "[[99] \<mapsto> str_bytes [116], [1] \<mapsto> [7], [2] \<mapsto> [8]]"
  obtain b where b: "handle_key ?tw (Char 115) ?a = (b, Ok ())" "ap_disk b [99] = Some [116]"
    by (simp add: handle_key_def handle_normal_key_def save_config_def say_def app_new_def example_tui_def)
  have mode: "tls_mode (ap_config ?a) = lit ''External Certificate''"
    by (simp add: app_new_def external_config_def tls_mode_def)
  have a: "ap_input_mode ?a = Normal" "ap_active_tab ?a = Tls" "ap_config_path ?a = [99]"
    "ap_config ?a = external_config"
    by (simp_all add: app_new_def)
  have toml: "valid_str s \<and> lw_toml ?w s = Some cfg" if "tw_toml ?tw cfg = Some s" for cfg s
    using that by (auto simp: valid_str_def is_scalar_def split: if_splits)
  have served: "load_config ?w ?fs [99] = Ok external_config"
      "case run_serve ?w [99] [] None None False ?fs of (fs', opened, r) \<Rightarrow>
        fs' = ?fs \<and> (\<forall>l. r = Ok l \<longleftrightarrow> (\<exists>db ip p q cert_pem key_pem tls.
          ready_for_tls ?w [99] [] None None ?fs external_config db ip
          \<and> tc_cert_path (sc_tls external_config) = Some p \<and> ?fs p = Some cert_pem
          \<and> tc_key_path (sc_tls external_config) = Some q \<and> ?fs q = Some key_pem
          \<and> pem_pair ?w (cert_pem, key_pem) tls \<and> lw_bind_ok ?w ip (sc_listen_port external_config)
          \<and> l = gateway_listener False external_config ip tls))"
    using saved_config_served [of ?a ?tw b ?w ?fs False, OF a(1,2) b(1) toml] b(2) mode
    unfolding a by simp_all
  have "ready_for_tls ?w [99] [] None None ?fs external_config database_empty (V4 [0, 0, 0, 0])"
    using served(1) by (simp add: ready_for_tls_def example_launch_simps example_address
        external_config_def server_config_default_def)
  moreover have "pem_pair ?w ([7], [8]) ([[7]], [8])" "lw_bind_ok ?w ip port" for ip port
    by (simp_all add: pem_pair_def example_launch_simps)
  ultimately have "snd (snd (run_serve ?w [99] [] None None False ?fs))
      = Ok (gateway_listener False external_config (V4 [0, 0, 0, 0]) ([[7]], [8]))"
    using served(2) by (auto simp: split_beta external_config_def)
  then show ?thesis using b by (intro exI [of _ b] exI [of _ ?fs]) simp
qed

end
