(* ===== verification/Proto_Tests.thy ===== *)
theory Proto_Tests
  imports Ws_Framing
begin

text \<open>
  The unit tests of \<open>crates/rdg-proto/src/messages.rs\<close> and \<open>websocket.rs\<close>, run on the model: a
  test is the conjunction of its assertions, and a lemma says that the model passes it. They
  check the translation against what the authors of the code expect of it, on their inputs.
\<close>

section \<open>Assertions\<close>

text \<open>\<open>r.unwrap()\<close>, then the assertions on the value; and the same on \<open>r.unwrap_err()\<close>.\<close>

fun unwraps :: "('e, 'a) outcome \<Rightarrow> ('a \<Rightarrow> bool) \<Rightarrow> bool" where
  "unwraps (Ok a) check \<longleftrightarrow> check a"
| "unwraps (Err e) check \<longleftrightarrow> False"
| "unwraps Panic check \<longleftrightarrow> False"

fun unwraps_err :: "('e, 'a) outcome \<Rightarrow> ('e \<Rightarrow> bool) \<Rightarrow> bool" where
  "unwraps_err (Ok a) check \<longleftrightarrow> False"
| "unwraps_err (Err e) check \<longleftrightarrow> check e"
| "unwraps_err Panic check \<longleftrightarrow> False"

section \<open>Messages\<close>

definition roundtrip_handshake_request :: bool where
  "roundtrip_handshake_request \<longleftrightarrow>
     (let req = \<lparr>hs_major_version = 1, hs_minor_version = 0, hs_client_version = 0x0100,
                 hs_ext_auth = 0x0007\<rparr>
      in unwraps (parse_message (handshake_request_write req)) (\<lambda>parsed.
         case parsed of
           HandshakeRequest h \<Rightarrow> hs_major_version h = 1 \<and> hs_minor_version h = 0
             \<and> hs_client_version h = 0x0100 \<and> hs_ext_auth h = 0x0007
         | _ \<Rightarrow> False))"

definition roundtrip_handshake_response :: bool where
  "roundtrip_handshake_response \<longleftrightarrow>
     (let resp = \<lparr>hr_error_code = 0, hr_major_version = 1, hr_minor_version = 0,
                  hr_server_version = 0, hr_ext_auth = 0x0007\<rparr>
      in unwraps (parse_message (handshake_response_write resp)) (\<lambda>parsed.
         case parsed of
           HandshakeResponse h \<Rightarrow> hr_error_code h = 0 \<and> hr_major_version h = 1
             \<and> hr_ext_auth h = 0x0007
         | _ \<Rightarrow> False))"

definition roundtrip_tunnel_create :: bool where
  "roundtrip_tunnel_create \<longleftrightarrow>
     (let tc = \<lparr>tc_caps_flags = 0x00010001, tc_fields_present = 0, tc_reserved = 0,
                tc_paa_cookie = None\<rparr>
      in unwraps (parse_message (tunnel_create_write tc)) (\<lambda>parsed.
         case parsed of
           TunnelCreate t \<Rightarrow> tc_caps_flags t = 0x00010001 \<and> tc_fields_present t = 0
         | _ \<Rightarrow> False))"

definition roundtrip_tunnel_response :: bool where
  "roundtrip_tunnel_response \<longleftrightarrow>
     (let tr = \<lparr>tr_server_version = 0, tr_error_code = 0,
                tr_fields_present =
                  HTTP_TUNNEL_RESPONSE_FIELD_TUNNEL_ID OR HTTP_TUNNEL_RESPONSE_FIELD_CAPS,
                tr_reserved = 0, tr_tunnel_id = Some 42, tr_caps = Some 0x0d\<rparr>
      in unwraps (parse_message (tunnel_response_write tr)) (\<lambda>parsed.
         case parsed of
           TunnelResponse t \<Rightarrow> tr_tunnel_id t = Some 42 \<and> tr_caps t = Some 0x0d
             \<and> tr_fields_present t = 0x0003
         | _ \<Rightarrow> False))"

definition roundtrip_tunnel_auth :: bool where
  "roundtrip_tunnel_auth \<longleftrightarrow>
     (let ta = \<lparr>ta_fields_present = 0, ta_client_name = lit ''WORKSTATION''\<rparr>
      in unwraps (parse_message (tunnel_auth_write ta)) (\<lambda>parsed.
         case parsed of
           TunnelAuth t \<Rightarrow> ta_client_name t = lit ''WORKSTATION''
         | _ \<Rightarrow> False))"

definition roundtrip_tunnel_auth_response :: bool where
  "roundtrip_tunnel_auth_response \<longleftrightarrow>
     (let tar = \<lparr>tar_error_code = 0, tar_flags = 0x0003, tar_reserved = 0,
                 tar_idle_timeout = 300, tar_soh_response = None\<rparr>
      in unwraps (parse_message (tunnel_auth_response_write tar)) (\<lambda>parsed.
         case parsed of
           TunnelAuthResponse t \<Rightarrow> tar_error_code t = 0 \<and> tar_flags t = 0x0003
             \<and> tar_idle_timeout t = 300
         | _ \<Rightarrow> False))"

definition roundtrip_channel_create :: bool where
  "roundtrip_channel_create \<longleftrightarrow>
     (let cc = \<lparr>cc_num_resources = 1, cc_num_alt_resources = 0, cc_port = 3389,
                cc_protocol = 0, cc_server_name = lit ''rdp-host.example.com''\<rparr>
      in unwraps (parse_message (channel_create_write cc)) (\<lambda>parsed.
         case parsed of
           ChannelCreate c \<Rightarrow> cc_port c = 3389
             \<and> cc_server_name c = lit ''rdp-host.example.com'' \<and> cc_num_resources c = 1
         | _ \<Rightarrow> False))"

definition roundtrip_data_message :: bool where
  "roundtrip_data_message \<longleftrightarrow>
     (let payload = str_bytes (lit ''hello RDP world'')
      in unwraps (parse_message (data_message_write payload)) (\<lambda>parsed.
         case parsed of
           Data d \<Rightarrow> dm_data d = payload
         | _ \<Rightarrow> False))"

definition parse_from_capture_handshake_request :: bool where
  "parse_from_capture_handshake_request \<longleftrightarrow>
     (let data = [0x01, 0x00, 0x00, 0x00, 0x0e, 0x00, 0x00, 0x00,
                  0x01, 0x00, 0x00, 0x00, 0x00, 0x00]
      in unwraps (parse_message data) (\<lambda>msg.
         case msg of
           HandshakeRequest h \<Rightarrow> hs_major_version h = 1 \<and> hs_minor_version h = 0
             \<and> hs_client_version h = 0 \<and> hs_ext_auth h = 0
         | _ \<Rightarrow> False))"

definition error_buffer_too_short :: bool where
  "error_buffer_too_short \<longleftrightarrow>
     unwraps_err (parse_message [0x01, 0x00, 0x00]) (\<lambda>err. err = BufferTooShort 8 3)"

definition error_payload_truncated :: bool where
  "error_payload_truncated \<longleftrightarrow>
     (let buf = put_u16_le 0x0001 @ put_u16_le 0 @ put_u32_le 100
      in unwraps_err (parse_message buf) (\<lambda>err.
         case err of BufferTooShort _ _ \<Rightarrow> True | _ \<Rightarrow> False))"

definition unknown_message_type :: bool where
  "unknown_message_type \<longleftrightarrow>
     (let buf = put_u16_le 0x00FF @ put_u16_le 0 @ put_u32_le 12 @ put_u32_le 0xDEADBEEF
      in unwraps (parse_message buf) (\<lambda>msg.
         case msg of
           Unknown msg_type payload \<Rightarrow> msg_type = 0x00FF \<and> length payload = 4
         | _ \<Rightarrow> False))"

text \<open>The name is the source's, with its accented letters as scalar values.\<close>

definition utf16le_roundtrip_with_unicode :: bool where
  "utf16le_roundtrip_with_unicode \<longleftrightarrow>
     (let name = [0xDC, 0x6E, 0xEF, 0x63, 0xF6, 0x64, 0xE9, 0x2D, 0x50, 0x43];
          ta = \<lparr>ta_fields_present = 0, ta_client_name = name\<rparr>
      in unwraps (parse_message (tunnel_auth_write ta)) (\<lambda>parsed.
         case parsed of
           TunnelAuth t \<Rightarrow> ta_client_name t = name
         | _ \<Rightarrow> False))"

text \<open>
  The test names a variant \<open>ReasuthMessage\<close> that the enum does not have, so the crate's tests do
  not compile; with the variant it means, its assertion on code 3 still fails.
\<close>

definition message_type_from_u16_all_known :: bool where
  "message_type_from_u16_all_known \<longleftrightarrow>
     message_type_from_u16 0x0001 = Some message_type.HandshakeRequest
     \<and> message_type_from_u16 0x0002 = Some message_type.HandshakeResponse
     \<and> message_type_from_u16 0x0004 = Some message_type.TunnelCreate
     \<and> message_type_from_u16 0x0005 = Some message_type.TunnelResponse
     \<and> message_type_from_u16 0x0006 = Some message_type.TunnelAuth
     \<and> message_type_from_u16 0x0007 = Some message_type.TunnelAuthResponse
     \<and> message_type_from_u16 0x0008 = Some message_type.ChannelCreate
     \<and> message_type_from_u16 0x0009 = Some message_type.ChannelResponse
     \<and> message_type_from_u16 0x000A = Some message_type.Data
     \<and> message_type_from_u16 0x000B = Some message_type.ServiceMessage
     \<and> message_type_from_u16 0x000C = Some message_type.ReauthMessage
     \<and> message_type_from_u16 0x0003 = None
     \<and> message_type_from_u16 0xFFFF = None"

definition header_write_and_parse :: bool where
  "header_write_and_parse \<longleftrightarrow>
     (let hdr = \<lparr>mh_type = 0x0004, mh_reserved = 0x1234, mh_length = 0xDEAD\<rparr>
      in unwraps (message_header_parse (message_header_write hdr)) (\<lambda>parsed.
         mh_type parsed = 0x0004 \<and> mh_reserved parsed = 0x1234 \<and> mh_length parsed = 0xDEAD))"


section \<open>WebSocket framing\<close>

definition encode_then_decode_data_message :: bool where
  "encode_then_decode_data_message \<longleftrightarrow>
     (let payload = str_bytes (lit ''raw RDP data here'');
          encoded = encode_data_message payload
      in unwraps (decode_ws_message encoded) (\<lambda>decoded.
         case decoded of
           Data d \<Rightarrow> length (dm_data d) = 2 + length payload
             \<and> (let cb_len = unat (of_le [dm_data d ! 0, dm_data d ! 1] :: u16)
                in cb_len = length payload)
             \<and> drop 2 (dm_data d) = payload
         | _ \<Rightarrow> False))"

definition peek_message_type_works :: bool where
  "peek_message_type_works \<longleftrightarrow>
     (let encoded = encode_data_message (str_bytes (lit ''test''))
      in unwraps (peek_message_type encoded) (\<lambda>msg_type. msg_type = 0x000A))"

definition message_length_correct :: bool where
  "message_length_correct \<longleftrightarrow>
     (let data = str_bytes (lit ''12345'');
          encoded = encode_data_message data
      in unwraps (message_length encoded) (\<lambda>len.
         len = HEADER_SIZE + 2 + length data \<and> len = length encoded))"

definition is_complete_message_true_for_full_message :: bool where
  "is_complete_message_true_for_full_message \<longleftrightarrow>
     is_complete_message (encode_data_message (str_bytes (lit ''complete'')))"

definition is_complete_message_false_for_truncated :: bool where
  "is_complete_message_false_for_truncated \<longleftrightarrow>
     (let encoded = encode_data_message (str_bytes (lit ''complete''))
      in \<not> is_complete_message (take 6 encoded))"

definition is_complete_message_false_for_empty :: bool where
  "is_complete_message_false_for_empty \<longleftrightarrow> \<not> is_complete_message []"

definition encode_empty_data :: bool where
  "encode_empty_data \<longleftrightarrow>
     (let encoded = encode_data_message []
      in length encoded = HEADER_SIZE + 2
         \<and> unwraps (decode_ws_message encoded) (\<lambda>decoded.
             case decoded of
               Data d \<Rightarrow> length (dm_data d) = 2 \<and> dm_data d = [0, 0]
             | _ \<Rightarrow> False))"

definition peek_type_error_on_short_buffer :: bool where
  "peek_type_error_on_short_buffer \<longleftrightarrow>
     unwraps_err (peek_message_type [0x01, 0x02]) (\<lambda>_. True)"

section \<open>What the model says to them\<close>

lemmas codecs_read_back =
  hs_codec.roundtrip_exact hr_codec.roundtrip_exact tc_codec.roundtrip_exact
  tr_codec.roundtrip_exact ta_codec.roundtrip_exact tar_codec.roundtrip_exact
  cc_codec.roundtrip_exact dm_codec.roundtrip_exact

lemmas messages_ok =
  tunnel_create_ok_def tunnel_response_ok_def tunnel_auth_ok_def tunnel_auth_response_ok_def
  channel_create_ok_def name_ok_def lit_def is_scalar_def utf16_char_def
  HTTP_TUNNEL_RESPONSE_FIELD_TUNNEL_ID_def HTTP_TUNNEL_RESPONSE_FIELD_CAPS_def

lemma messages_tests_pass:
  "roundtrip_handshake_request" "roundtrip_handshake_response" "roundtrip_tunnel_create"
  "roundtrip_tunnel_response" "roundtrip_tunnel_auth" "roundtrip_tunnel_auth_response"
  "roundtrip_channel_create" "utf16le_roundtrip_with_unicode"
  by (simp_all add: roundtrip_handshake_request_def roundtrip_handshake_response_def
      roundtrip_tunnel_create_def roundtrip_tunnel_response_def roundtrip_tunnel_auth_def
      roundtrip_tunnel_auth_response_def roundtrip_channel_create_def
      utf16le_roundtrip_with_unicode_def codecs_read_back messages_ok)

lemma message_errors_tests_pass:
  "parse_from_capture_handshake_request" "error_buffer_too_short" "error_payload_truncated"
  "unknown_message_type" "header_write_and_parse" "roundtrip_data_message"
  by code_simp+

lemma message_type_test_fails: "\<not> message_type_from_u16_all_known"
  by (simp add: message_type_from_u16_all_known_def message_type_from_u16_def)

lemma websocket_tests_pass:
  "encode_then_decode_data_message" "peek_message_type_works" "message_length_correct"
  "is_complete_message_true_for_full_message" "is_complete_message_false_for_truncated"
  "is_complete_message_false_for_empty" "encode_empty_data" "peek_type_error_on_short_buffer"
  by code_simp+

end
