(* ===== verification/Wire_Tests.thy ===== *)
theory Wire_Tests
  imports Proto_Tests Rpch Ntlm
begin

text \<open>
  The unit tests of \<open>rpc.rs\<close>, \<open>rpch.rs\<close> and \<open>ntlm.rs\<close> of \<open>crates/rdg-proto\<close>, run on the
  model. The digests of NTLM and the clock are arguments, as they are of the model; left out are
  the two known values of MD4, a function that is not under \<open>src/\<close>, and the test that two drawn
  challenges differ.
\<close>

section \<open>DCE/RPC PDUs\<close>

definition push_syntax_id :: "bytes \<Rightarrow> syntax_id \<Rightarrow> bytes" where
  "push_syntax_id buf syntax =
     (buf @ uuid_to_bytes_le (sy_uuid syntax)) @ put_u32_le (sy_version syntax)"

definition parses_rpc_header :: bool where
  "parses_rpc_header \<longleftrightarrow>
     (let header = rpc_header_new Bind PFC_FIRST_AND_LAST_FRAG 16 0 7
      in unwraps (rpc_header_parse (rpc_header_write header)) (\<lambda>parsed. parsed = header))"

definition parses_bind_pdu :: bool where
  "parses_bind_pdu \<longleftrightarrow>
     (let abstract_syntax = syntax_id_tsg;
          transfer_syntax = syntax_id_ndr;
          frag_length = word_of_nat
            (RPC_HEADER_SIZE + BIND_FIXED_FIELDS_SIZE + 4 + SYNTAX_ID_SIZE + SYNTAX_ID_SIZE);
          buf = rpc_header_write (rpc_header_new Bind PFC_FIRST_AND_LAST_FRAG frag_length 0 3)
            @ put_u16_le DEFAULT_MAX_XMIT_FRAG @ put_u16_le DEFAULT_MAX_RECV_FRAG
            @ put_u32_le 0 @ put_u8 1 @ [0, 0, 0] @ put_u16_le 0 @ put_u8 1 @ put_u8 0;
          buf = push_syntax_id buf abstract_syntax;
          buf = push_syntax_id buf transfer_syntax
      in unwraps (bind_pdu_parse buf) (\<lambda>bind.
           rh_ptype (bp_header bind) = Bind \<and> bp_context_id bind = 0
           \<and> bp_abstract_syntax bind = abstract_syntax
           \<and> bp_transfer_syntax bind = transfer_syntax \<and> is_tsg_bind bind))"

text \<open>A read of \<open>Buf\<close> that finds too few bytes panics, which fails the test.\<close>

definition reads ::
  "(bytes \<Rightarrow> (rpc_error, 'a \<times> bytes) outcome) \<Rightarrow> bytes \<Rightarrow> ('a \<Rightarrow> bytes \<Rightarrow> bool) \<Rightarrow> bool" where
  "reads get r check \<longleftrightarrow> unwraps (get r) (\<lambda>(v, r). check v r)"

definition generates_bind_ack :: bool where
  "generates_bind_ack \<longleftrightarrow>
     (let sec_addr = str_bytes ([92] @ lit ''pipe'' @ [92] @ lit ''tsgateway'');
          ack = bind_ack_accepted 9 0x1234 sec_addr;
          encoded = bind_ack_encode ack
      in unwraps (rpc_header_parse encoded) (\<lambda>header.
           rh_ptype header = BindAck \<and> rh_call_id header = 9)
         \<and> reads get_u16_le (drop RPC_HEADER_SIZE encoded) (\<lambda>v r. v = DEFAULT_MAX_XMIT_FRAG
         \<and> reads get_u16_le r (\<lambda>v r. v = DEFAULT_MAX_RECV_FRAG
         \<and> reads get_u32_le r (\<lambda>v r. v = 0x1234
         \<and> reads get_u16_le r (\<lambda>v r. let sec_addr_len = unat v
         in sec_addr_len = length sec_addr \<and> take sec_addr_len r = sec_addr
         \<and> (let r = drop (sec_addr_len + pad_to_4 (2 + sec_addr_len)) r
         in reads get_u8 r (\<lambda>v r. v = 1
         \<and> (let r = drop 3 r
         in reads get_u16_le r (\<lambda>v r. v = 0
         \<and> reads get_u16_le r (\<lambda>v r. v = 0
         \<and> reads syntax_id_parse r (\<lambda>syntax r. syntax = syntax_id_ndr)))))))))))"

definition parses_request_pdu :: bool where
  "parses_request_pdu \<longleftrightarrow>
     (let stub_data = [0xAA, 0xBB, 0xCC, 0xDD];
          frag_length = word_of_nat
            (RPC_HEADER_SIZE + REQUEST_FIXED_FIELDS_SIZE + length stub_data);
          buf = rpc_header_write (rpc_header_new Request PFC_FIRST_AND_LAST_FRAG frag_length 0 11)
            @ put_u32_le (word_of_nat (length stub_data)) @ put_u16_le 0 @ put_u16_le 9 @ stub_data
      in unwraps (request_pdu_parse buf) (\<lambda>request.
           rh_call_id (rq_header request) = 11 \<and> rq_opnum request = 9
           \<and> rq_stub_data request = stub_data))"

definition generates_response_pdu :: bool where
  "generates_response_pdu \<longleftrightarrow>
     (let response = response_pdu_new 21 0 [1, 2, 3];
          encoded = response_pdu_encode response
      in unwraps (rpc_header_parse encoded) (\<lambda>header.
           rh_ptype header = Response \<and> rh_call_id header = 21)
         \<and> reads get_u32_le (drop RPC_HEADER_SIZE encoded) (\<lambda>v r. v = 3
         \<and> reads get_u16_le r (\<lambda>v r. v = 0
         \<and> reads get_u8 r (\<lambda>v r. v = 0
         \<and> reads get_u8 r (\<lambda>v r. v = 0 \<and> r = [1, 2, 3])))))"

section \<open>RPC over HTTP\<close>

definition rts_pdu_round_trips :: bool where
  "rts_pdu_round_trips \<longleftrightarrow>
     (let pdu = \<lparr>rp_rpc_version = RPC_VERSION, rp_rpc_version_minor = RPC_VERSION_MINOR,
            rp_ptype = PTYPE_RTS, rp_pfc_flags = 0x03,
            rp_packed_drep = PACKED_DREP_LITTLE_ENDIAN, rp_auth_length = 0, rp_call_id = 42,
            rp_flags = 0,
            rp_commands =
              [Version 1, ReceiveWindowSize DEFAULT_RECEIVE_WINDOW_SIZE,
               FlowControlAck 1024 2048 0x11111111222233334444555555555555,
               ConnectionTimeout DEFAULT_CONNECTION_TIMEOUT,
               Cookie 0xaaaaaaaa111122223333444455556666,
               ChannelLifetime 1073741824, ClientKeepalive 300000,
               AssociationGroupId 0xbbbbbbbb111122223333444455556666]\<rparr>
      in unwraps (rts_pdu_parse (rts_pdu_to_bytes pdu)) (\<lambda>parsed. parsed = pdu))"

definition parses_conn_a1 :: bool where
  "parses_conn_a1 \<longleftrightarrow>
     (let vc = 0x11111111222233334444555555555555;
          out = 0x99999999aaaabbbbccccdddddddddddd
      in unwraps (conn_a1_parse (rts_pdu_to_bytes (rts_conn_a1 7 vc out))) (\<lambda>conn.
           a1_call_id conn = 7 \<and> a1_version conn = RPCH_PROTOCOL_VERSION
           \<and> a1_virtual_connection_cookie conn = vc \<and> a1_out_channel_cookie conn = out
           \<and> a1_receive_window_size conn = DEFAULT_RECEIVE_WINDOW_SIZE))"

definition parses_conn_b1 :: bool where
  "parses_conn_b1 \<longleftrightarrow>
     (let vc = 0x11111111222233334444555555555555;
          input = 0x22222222333344445555666677777777;
          assoc = 0x1234567890abcdef1234567890abcdef
      in unwraps (conn_b1_parse (rts_pdu_to_bytes (rts_conn_b1 9 vc input assoc))) (\<lambda>conn.
           b1_call_id conn = 9 \<and> b1_version conn = RPCH_PROTOCOL_VERSION
           \<and> b1_virtual_connection_cookie conn = vc \<and> b1_in_channel_cookie conn = input
           \<and> b1_channel_lifetime conn = 1073741824 \<and> b1_client_keepalive conn = 300000
           \<and> b1_association_group_id conn = assoc))"

definition generates_conn_c2 :: bool where
  "generates_conn_c2 \<longleftrightarrow>
     (let pdu = conn_c2_to_pdu conn_c2_default 11
      in rp_call_id pdu = 11
         \<and> rp_commands pdu =
             [Version RPCH_PROTOCOL_VERSION, ReceiveWindowSize DEFAULT_RECEIVE_WINDOW_SIZE,
              ConnectionTimeout DEFAULT_CONNECTION_TIMEOUT])"

definition virtual_connection_transitions_to_data_transfer :: bool where
  "virtual_connection_transitions_to_data_transfer \<longleftrightarrow>
     (let vc = 0x11111111222233334444555555555555;
          out = 0x22222222333344445555666677777777;
          input = 0x33333333444455556666777788888888;
          assoc = 0x44444444555566667777888899999999;
          connection = virtual_connection_new;
          (connection, res) = process_rts connection Out (rts_pdu_to_bytes (rts_conn_a1 100 vc out))
      in unwraps res (\<lambda>response. response = None)
         \<and> vc_state connection = WaitingInChannel
         \<and> vc_virtual_connection_cookie connection = Some vc
         \<and> vc_out_channel_cookie connection = Some out
         \<and> (let (connection, res) = process_rts connection In
                  (rts_pdu_to_bytes (rts_conn_b1 101 vc input assoc))
            in unwraps res (\<lambda>response. response = Some (conn_c2_to_pdu conn_c2_default 100))
               \<and> vc_state connection = ConnectionEstablished
               \<and> vc_in_channel_cookie connection = Some input
               \<and> vc_association_group_id connection = Some assoc
               \<and> (let (connection, res) = enter_data_transfer connection
                  in unwraps res (\<lambda>_. True) \<and> vc_state connection = DataTransfer)))"

definition rejects_mismatched_virtual_connection_cookie :: bool where
  "rejects_mismatched_virtual_connection_cookie \<longleftrightarrow>
     (let connection = virtual_connection_new;
          vc = 0x11111111222233334444555555555555;
          different_vc = 0x99999999888877776666555544444444
      in unwraps (conn_a1_parse (rts_pdu_to_bytes (rts_conn_a1 1 vc 2))) (\<lambda>conn.
           let (connection, res) = accept_out_channel connection conn
           in unwraps res (\<lambda>_.
              unwraps (conn_b1_parse (rts_pdu_to_bytes (rts_conn_b1 2 different_vc 3 4))) (\<lambda>conn.
              unwraps_err (snd (accept_in_channel connection conn)) (\<lambda>err.
                err = VirtualConnectionCookieMismatch vc different_vc)))))"

section \<open>NTLM\<close>

definition parse_negotiate_minimal_type1 :: bool where
  "parse_negotiate_minimal_type1 \<longleftrightarrow>
     (let buf = str_bytes (lit ''NTLMSSP'' @ [0]) @ put_u32_le 1 @ put_u32_le 0xB7820862
            @ [0, 0, 0, 0, 0, 0, 0, 0] @ [0, 0, 0, 0, 0, 0, 0, 0]
      in unwraps (parse_negotiate buf) (\<lambda>neg.
           nn_flags neg = 0xB7820862 \<and> nn_domain neg = [] \<and> nn_workstation neg = []))"

definition parse_negotiate_rejects_type2 :: bool where
  "parse_negotiate_rejects_type2 \<longleftrightarrow>
     (let buf = str_bytes (lit ''NTLMSSP'' @ [0]) @ put_u32_le 2 @ replicate 20 0
      in unwraps_err (parse_negotiate buf) (\<lambda>err. err = UnexpectedType 2))"

definition parse_negotiate_rejects_bad_signature :: bool where
  "parse_negotiate_rejects_bad_signature \<longleftrightarrow>
     (let buf = str_bytes (lit ''BADSSSP'' @ [0]) @ replicate 24 0
      in unwraps_err (parse_negotiate buf) (\<lambda>err. err = InvalidSignature))"

definition parse_negotiate_rejects_short_buffer :: bool where
  "parse_negotiate_rejects_short_buffer \<longleftrightarrow>
     unwraps_err (parse_negotiate (replicate 10 0)) (\<lambda>err. err = ntlm_error.BufferTooShort)"

definition generate_and_serialize_challenge :: "u64 \<Rightarrow> bool" where
  "generate_and_serialize_challenge unix_secs \<longleftrightarrow>
     (let challenge_bytes = [0x01, 0x23, 0x45, 0x67, 0x89, 0xAB, 0xCD, 0xEF];
          challenge = generate_challenge unix_secs (lit ''TESTSERVER'') challenge_bytes;
          serialized = serialize_challenge challenge;
          flags = of_le (take 4 (drop 20 serialized)) :: u32
      in nc_target_name challenge = lit ''TESTSERVER''
         \<and> nc_server_challenge challenge = challenge_bytes
         \<and> take 8 serialized = str_bytes (lit ''NTLMSSP'' @ [0])
         \<and> of_le (take 4 (drop 8 serialized)) = (2 :: u32)
         \<and> take 8 (drop 24 serialized) = challenge_bytes
         \<and> flags AND NTLMSSP_NEGOTIATE_UNICODE \<noteq> 0
         \<and> flags AND NTLMSSP_NEGOTIATE_NTLM \<noteq> 0
         \<and> flags AND NTLMSSP_NEGOTIATE_TARGET_INFO \<noteq> 0)"

definition serialize_challenge_target_info_contains_av_pairs :: "u64 \<Rightarrow> bool" where
  "serialize_challenge_target_info_contains_av_pairs unix_secs \<longleftrightarrow>
     (let challenge = generate_challenge unix_secs (lit ''SRV'') (replicate 8 0);
          target_info = nc_target_info challenge
      in 4 < length target_info
         \<and> of_le [target_info ! 0, target_info ! 1] = MSV_AV_NB_COMPUTER_NAME)"

text \<open>One of the test's security buffers: the length twice, then the offset.\<close>

definition put_security_buffer :: "bytes \<Rightarrow> nat \<Rightarrow> bytes" where
  "put_security_buffer content offset =
     put_u16_le (word_of_nat (length content)) @ put_u16_le (word_of_nat (length content))
     @ put_u32_le (word_of_nat offset)"

definition minimal_type3 :: bytes where
  "minimal_type3 =
     (let payload_offset = 72;
          domain_utf16 = ntlm_encode_utf16le (lit ''DOMAIN'');
          user_utf16 = ntlm_encode_utf16le (lit ''admin'');
          ws_utf16 = ntlm_encode_utf16le (lit ''WS1'');
          lm_response = replicate 24 0;
          nt_response = replicate 24 0;
          session_key = replicate 16 0;
          lm_offset = payload_offset;
          nt_offset = lm_offset + length lm_response;
          domain_offset = nt_offset + length nt_response;
          user_offset = domain_offset + length domain_utf16;
          ws_offset = user_offset + length user_utf16;
          sk_offset = ws_offset + length ws_utf16;
          buf = str_bytes (lit ''NTLMSSP'' @ [0]) @ put_u32_le 3
            @ put_security_buffer lm_response lm_offset
            @ put_security_buffer nt_response nt_offset
            @ put_security_buffer domain_utf16 domain_offset
            @ put_security_buffer user_utf16 user_offset
            @ put_security_buffer ws_utf16 ws_offset
            @ put_security_buffer session_key sk_offset
            @ put_u32_le NTLMSSP_NEGOTIATE_UNICODE;
          buf = buf @ replicate (payload_offset - length buf) 0
      in buf @ lm_response @ nt_response @ domain_utf16 @ user_utf16 @ ws_utf16 @ session_key)"

definition parse_authenticate_minimal_type3 :: bool where
  "parse_authenticate_minimal_type3 \<longleftrightarrow>
     unwraps (parse_authenticate minimal_type3) (\<lambda>auth.
       na_username auth = lit ''admin'' \<and> na_domain auth = lit ''DOMAIN''
       \<and> na_workstation auth = lit ''WS1'' \<and> length (na_lm_response auth) = 24
       \<and> length (na_nt_response auth) = 24)"

definition validate_ntlmv2_wrong_hash_fails ::
  "(bytes \<Rightarrow> bytes) \<Rightarrow> (bytes \<Rightarrow> bytes \<Rightarrow> bytes option) \<Rightarrow> (rstring \<Rightarrow> rstring) \<Rightarrow> bool" where
  "validate_ntlmv2_wrong_hash_fails md4 hmac_md5 to_uppercase \<longleftrightarrow>
     (let nt_hash = compute_nt_hash md4 (lit ''CorrectPassword'');
          server_challenge = [0x01, 0x02, 0x03, 0x04, 0x05, 0x06, 0x07, 0x08];
          auth = \<lparr>na_flags = 0, na_domain = lit ''DOMAIN'', na_username = lit ''user'',
                  na_workstation = lit ''WS'', na_lm_response = replicate 24 0,
                  na_nt_response = replicate 32 0, na_encrypted_random_session_key = []\<rparr>
      in unwraps_err (validate_ntlmv2 hmac_md5 to_uppercase nt_hash server_challenge auth)
           (\<lambda>err. err = AuthFailed))"

definition validate_ntlmv2_short_response_fails ::
  "(bytes \<Rightarrow> bytes) \<Rightarrow> (bytes \<Rightarrow> bytes \<Rightarrow> bytes option) \<Rightarrow> (rstring \<Rightarrow> rstring) \<Rightarrow> bool" where
  "validate_ntlmv2_short_response_fails md4 hmac_md5 to_uppercase \<longleftrightarrow>
     (let nt_hash = compute_nt_hash md4 (lit ''pass'');
          server_challenge = replicate 8 0;
          auth = \<lparr>na_flags = 0, na_domain = [], na_username = lit ''u'',
                  na_workstation = [], na_lm_response = [],
                  na_nt_response = replicate 10 0, na_encrypted_random_session_key = []\<rparr>
      in unwraps_err (validate_ntlmv2 hmac_md5 to_uppercase nt_hash server_challenge auth)
           (\<lambda>err. err = AuthFailed))"

section \<open>The model passes them\<close>

lemma rpc_tests_pass:
  "parses_rpc_header" "parses_bind_pdu" "generates_bind_ack" "parses_request_pdu"
  "generates_response_pdu"
  by code_simp+

lemma rpch_tests_pass:
  "rts_pdu_round_trips" "parses_conn_a1" "parses_conn_b1" "generates_conn_c2"
  "virtual_connection_transitions_to_data_transfer"
  "rejects_mismatched_virtual_connection_cookie"
  by (simp_all add: rts_pdu_round_trips_def rts_pdu_roundtrip rts_ok_def parses_conn_a1_def
      conn_a1_ok parses_conn_b1_def conn_b1_ok generates_conn_c2_def conn_c2_to_pdu_def conn_c2_default_def
      rts_pdu_new_def virtual_connection_transitions_to_data_transfer_def process_out process_in
      rejects_mismatched_virtual_connection_cookie_def virtual_connection_new_def
      RPCH_PROTOCOL_VERSION_def DEFAULT_RECEIVE_WINDOW_SIZE_def
      accept_out_channel_def accept_in_channel_def enter_data_transfer_def)

lemma ntlm_type1_tests_pass:
  "parse_negotiate_minimal_type1" "parse_negotiate_rejects_type2"
  "parse_negotiate_rejects_bad_signature" "parse_negotiate_rejects_short_buffer"
  by code_simp+

text \<open>The little-endian writers, byte by byte.\<close>

lemma put_le_bytes:
  "put_u16_le w = [ucast w, ucast (drop_bit 8 w)]"
  "put_u32_le v = [ucast v, ucast (drop_bit 8 v), ucast (drop_bit 16 v), ucast (drop_bit 24 v)]"
  by (simp_all add: put_u16_le_def put_u32_le_def le_bytes_def upt_rec)

lemma ntlm_signature_bytes: "str_bytes (lit ''NTLMSSP'' @ [0]) = NTLMSSP_SIGNATURE"
  by code_simp

lemma ntlm_type2_tests_pass:
  "generate_and_serialize_challenge unix_secs"
  "serialize_challenge_target_info_contains_av_pairs unix_secs"
proof -
  have flags: "challenge_flags AND NTLMSSP_NEGOTIATE_UNICODE \<noteq> 0"
    "challenge_flags AND NTLMSSP_NEGOTIATE_NTLM \<noteq> 0"
    "challenge_flags AND NTLMSSP_NEGOTIATE_TARGET_INFO \<noteq> 0" by code_simp+
  have len: "length NTLMSSP_SIGNATURE = 8" by code_simp
  have le: "of_le (put_u32_le v) = v" for v by (simp add: put_u32_le_def)
  show "generate_and_serialize_challenge unix_secs"
    unfolding generate_and_serialize_challenge_def Let_def generate_challenge_def
    by (simp add: serialize_challenge_def Let_def ntlm_signature_bytes len le flags)
  have nb: "put_u16_le 1 = [1, 0]" by code_simp
  show "serialize_challenge_target_info_contains_av_pairs unix_secs"
    by (simp add: serialize_challenge_target_info_contains_av_pairs_def generate_challenge_def
        build_target_info_def Let_def nb MSV_AV_NB_COMPUTER_NAME_def)
qed

lemma minimal_type3_bytes: "minimal_type3 =
    [78, 84, 76, 77, 83, 83, 80, 0, 3, 0, 0, 0, 24, 0, 24, 0, 72, 0, 0, 0, 24, 0, 24, 0, 96,
     0, 0, 0, 12, 0, 12, 0, 120, 0, 0, 0, 10, 0, 10, 0, 132, 0, 0, 0, 6, 0, 6, 0, 142, 0, 0,
     0, 16, 0, 16, 0, 148, 0, 0, 0, 1, 0, 0, 0, 0, 0, 0, 0, 0, 0, 0, 0, 0, 0, 0, 0, 0, 0, 0,
     0, 0, 0, 0, 0, 0, 0, 0, 0, 0, 0, 0, 0, 0, 0, 0, 0, 0, 0, 0, 0, 0, 0, 0, 0, 0, 0, 0, 0,
     0, 0, 0, 0, 0, 0, 0, 0, 0, 0, 0, 0, 68, 0, 79, 0, 77, 0, 65, 0, 73, 0, 78, 0, 97, 0,
     100, 0, 109, 0, 105, 0, 110, 0, 87, 0, 83, 0, 49, 0, 0, 0, 0, 0, 0, 0, 0, 0, 0, 0, 0, 0,
     0, 0, 0, 0]"
proof -
  have "replicate 24 (0 :: u8) = replicate 8 0 @ replicate 16 0"
    by (simp flip: replicate_add)
  moreover have "replicate 8 (0 :: u8) = [0, 0, 0, 0, 0, 0, 0, 0]"
    and "replicate 16 (0 :: u8) =
      [0, 0, 0, 0, 0, 0, 0, 0, 0, 0, 0, 0, 0, 0, 0, 0]"
    by (simp_all add: numeral_eq_Suc)
  ultimately show ?thesis
    by (simp add: minimal_type3_def Let_def put_security_buffer_def put_le_bytes
        str_bytes_def utf8_char_def NTLMSSP_NEGOTIATE_UNICODE_def
        ntlm_encode_utf16le_def lit_def utf16_char_def)
qed

lemma ntlm_type3_test_passes: "parse_authenticate_minimal_type3"
  by (simp add: parse_authenticate_minimal_type3_def minimal_type3_bytes parse_authenticate_def
      slice_def
      NTLMSSP_SIGNATURE_def read_security_buffer_raw_def Let_def unwrap_or_def lit_def
      is_low_surrogate_def is_high_surrogate_def)

lemma ntlmv2_tests_pass:
  assumes "\<And>k m. \<exists>d. hmac_md5 k m = Some d \<and> d \<noteq> replicate 16 0"
  shows "validate_ntlmv2_wrong_hash_fails md4 hmac_md5 to_uppercase"
    "validate_ntlmv2_short_response_fails md4 hmac_md5 to_uppercase"
proof -
  obtain h where h: "hmac_md5 k m = Some (h k m)" "h k m \<noteq> replicate 16 0" for k m
    using assms by metis
  show "validate_ntlmv2_wrong_hash_fails md4 hmac_md5 to_uppercase"
    by (simp add: validate_ntlmv2_wrong_hash_fails_def validate_ntlmv2_def Let_def h slice_def
        constant_time_eq_iff h(2) [symmetric])
  show "validate_ntlmv2_short_response_fails md4 hmac_md5 to_uppercase"
    by (simp add: validate_ntlmv2_short_response_fails_def validate_ntlmv2_def Let_def)
qed

end
