(* ===== verification/Core_Tests.thy ===== *)
theory Core_Tests
  imports Proto_Tests Session Krb5
begin

text \<open>
  The unit tests of \<open>session.rs\<close>, \<open>auth.rs\<close> and \<open>negotiate.rs\<close> of \<open>crates/rdg-core\<close>, run on
  the model. What a test draws or reads from outside (the challenge, the clock, the base64
  engine) is an argument. Left out is the test that two drawn challenges differ.
\<close>

section \<open>The session\<close>

definition test_handshake_request :: tsg_message where
  "test_handshake_request = HandshakeRequest
     \<lparr>hs_major_version = 1, hs_minor_version = 0, hs_client_version = 0, hs_ext_auth = 0\<rparr>"

definition test_tunnel_create :: tsg_message where
  "test_tunnel_create = TunnelCreate
     \<lparr>tc_caps_flags = 0x00010001, tc_fields_present = 0, tc_reserved = 0, tc_paa_cookie = None\<rparr>"

definition test_tunnel_auth :: tsg_message where
  "test_tunnel_auth = TunnelAuth \<lparr>ta_fields_present = 0, ta_client_name = lit ''TEST-PC''\<rparr>"

definition test_channel_create :: tsg_message where
  "test_channel_create = ChannelCreate
     \<lparr>cc_num_resources = 1, cc_num_alt_resources = 0, cc_port = 3389, cc_protocol = 0,
      cc_server_name = lit ''rdp-host''\<rparr>"

definition test_data_msg :: tsg_message where
  "test_data_msg = Data \<lparr>dm_data = str_bytes (lit ''hello'')\<rparr>"

text \<open>\<open>session.process_message(&msg).unwrap()\<close>: the checks see the session it leaves.\<close>

definition processes ::
  "gateway_session \<Rightarrow> tsg_message \<Rightarrow> (gateway_session \<Rightarrow> bytes option \<Rightarrow> bool) \<Rightarrow> bool" where
  "processes session msg check \<longleftrightarrow>
     (case process_message session msg of (session, res) \<Rightarrow> unwraps res (check session))"

definition refuses :: "gateway_session \<Rightarrow> tsg_message \<Rightarrow> session_error \<Rightarrow> bool" where
  "refuses session msg e \<longleftrightarrow> unwraps_err (snd (process_message session msg)) (\<lambda>err. err = e)"

definition happy_path_full_progression :: bool where
  "happy_path_full_progression \<longleftrightarrow>
     gs_state session_new = AwaitingHandshake \<and>
     processes session_new test_handshake_request (\<lambda>session resp.
       resp \<noteq> None \<and> gs_state session = AwaitingTunnelCreate \<and>
     processes session test_tunnel_create (\<lambda>session resp.
       resp \<noteq> None \<and> gs_state session = AwaitingTunnelAuth \<and> gs_tunnel_id session = 1 \<and>
     processes session test_tunnel_auth (\<lambda>session resp.
       resp \<noteq> None \<and> gs_state session = AwaitingChannelCreate
       \<and> gs_client_name session = Some (lit ''TEST-PC'') \<and>
     processes session test_channel_create (\<lambda>session resp.
       resp \<noteq> None \<and> gs_state session = DataTransfer
       \<and> gs_target_host session = Some (lit ''rdp-host'') \<and> gs_target_port session = Some 3389
       \<and> gs_channel_id session = 1 \<and>
     processes session test_data_msg (\<lambda>session resp.
       resp = None \<and> is_data_transfer session)))))"

definition wrong_message_in_handshake_state :: bool where
  "wrong_message_in_handshake_state \<longleftrightarrow>
     refuses session_new test_tunnel_create (UnexpectedMessage 0x0004 AwaitingHandshake)"

definition wrong_message_in_tunnel_create_state :: bool where
  "wrong_message_in_tunnel_create_state \<longleftrightarrow>
     processes session_new test_handshake_request (\<lambda>session _.
     refuses session test_channel_create (UnexpectedMessage 0x0008 AwaitingTunnelCreate))"

definition wrong_message_in_tunnel_auth_state :: bool where
  "wrong_message_in_tunnel_auth_state \<longleftrightarrow>
     processes session_new test_handshake_request (\<lambda>session _.
     processes session test_tunnel_create (\<lambda>session _.
     refuses session test_handshake_request (UnexpectedMessage 0x0001 AwaitingTunnelAuth)))"

definition wrong_message_in_channel_create_state :: bool where
  "wrong_message_in_channel_create_state \<longleftrightarrow>
     processes session_new test_handshake_request (\<lambda>session _.
     processes session test_tunnel_create (\<lambda>session _.
     processes session test_tunnel_auth (\<lambda>session _.
     refuses session test_data_msg (UnexpectedMessage 0x000A AwaitingChannelCreate))))"

definition data_in_data_transfer_returns_none :: bool where
  "data_in_data_transfer_returns_none \<longleftrightarrow>
     processes session_new test_handshake_request (\<lambda>session _.
     processes session test_tunnel_create (\<lambda>session _.
     processes session test_tunnel_auth (\<lambda>session _.
     processes session test_channel_create (\<lambda>session _.
     processes session test_data_msg (\<lambda>session resp.
       resp = None \<and> gs_state session = DataTransfer)))))"

definition tunnel_ids_increment :: bool where
  "tunnel_ids_increment \<longleftrightarrow>
     processes session_new test_handshake_request (\<lambda>session _.
     processes session test_tunnel_create (\<lambda>session _. gs_tunnel_id session = 1))"

text \<open>\<open>Default::default\<close> is \<open>new\<close>.\<close>

definition default_trait_works :: bool where
  "default_trait_works \<longleftrightarrow> gs_state session_new = AwaitingHandshake"

definition handshake_response_echoes_version :: bool where
  "handshake_response_echoes_version \<longleftrightarrow>
     (let req = HandshakeRequest \<lparr>hs_major_version = 2, hs_minor_version = 5,
                  hs_client_version = 0x0300, hs_ext_auth = 0x001F\<rparr>
      in processes session_new req (\<lambda>_ resp.
         case resp of
           None \<Rightarrow> False
         | Some resp_bytes \<Rightarrow>
             unwraps (parse_message resp_bytes) (\<lambda>resp_msg.
             case resp_msg of
               HandshakeResponse h \<Rightarrow> hr_major_version h = 2 \<and> hr_minor_version h = 5
                 \<and> hr_error_code h = 0
             | _ \<Rightarrow> False)))"

lemma session_tests_pass:
  "happy_path_full_progression" "wrong_message_in_handshake_state"
  "wrong_message_in_tunnel_create_state" "wrong_message_in_tunnel_auth_state"
  "wrong_message_in_channel_create_state" "data_in_data_transfer_returns_none"
  "tunnel_ids_increment" "default_trait_works" "handshake_response_echoes_version"
  by (simp_all add: happy_path_full_progression_def wrong_message_in_handshake_state_def
      wrong_message_in_tunnel_create_state_def wrong_message_in_tunnel_auth_state_def
      wrong_message_in_channel_create_state_def data_in_data_transfer_returns_none_def
      tunnel_ids_increment_def default_trait_works_def handshake_response_echoes_version_def
      processes_def refuses_def process_message_def session_new_def is_data_transfer_def
      test_handshake_request_def test_tunnel_create_def test_tunnel_auth_def
      test_channel_create_def test_data_msg_def handshake_reply_def hr_codec.roundtrip_exact)

section \<open>Authentication\<close>

definition auth_context_generates_valid_challenge :: "u64 \<Rightarrow> bytes \<Rightarrow> bool" where
  "auth_context_generates_valid_challenge unix_secs challenge \<longleftrightarrow>
     (let ctx = ntlm_auth_context_new unix_secs challenge (lit ''TESTSERVER'')
      in nc_target_name (nx_challenge_msg ctx) = lit ''TESTSERVER''
         \<and> nx_server_challenge ctx \<noteq> replicate 8 0)"

definition process_negotiate_returns_valid_type2 :: "u64 \<Rightarrow> bytes \<Rightarrow> bool" where
  "process_negotiate_returns_valid_type2 unix_secs challenge \<longleftrightarrow>
     (let ctx = ntlm_auth_context_new unix_secs challenge (lit ''SRV'');
          type1 = str_bytes (lit ''NTLMSSP'' @ [0]) @ put_u32_le 1 @ put_u32_le 0xB7820862
            @ replicate 16 0;
          (ctx, res) = process_negotiate ctx type1
      in unwraps res (\<lambda>type2_bytes.
           take 8 type2_bytes = str_bytes (lit ''NTLMSSP'' @ [0])
           \<and> of_le (take 4 (drop 8 type2_bytes)) = (2 :: u32)
           \<and> nx_negotiate ctx \<noteq> None))"

definition challenge_base64_is_valid ::
  "(bytes \<Rightarrow> rstring) \<Rightarrow> (rstring \<Rightarrow> bytes option) \<Rightarrow> u64 \<Rightarrow> bytes \<Rightarrow> bool" where
  "challenge_base64_is_valid b64_encode b64_decode unix_secs challenge \<longleftrightarrow>
     (let ctx = ntlm_auth_context_new unix_secs challenge (lit ''HOST'');
          b64 = challenge_base64 b64_encode ctx
      in case b64_decode b64 of
           None \<Rightarrow> False
         | Some decoded \<Rightarrow> take 8 decoded = str_bytes (lit ''NTLMSSP'' @ [0]))"

definition detect_ntlm_token :: bool where
  "detect_ntlm_token \<longleftrightarrow>
     detect_token_type (str_bytes (lit ''NTLMSSP'' @ [0]) @ put_u32_le 1 @ replicate 20 0)
       = NtlmToken"

definition detect_spnego_kerberos_token :: bool where
  "detect_spnego_kerberos_token \<longleftrightarrow>
     detect_token_type ([0x60, 0x40] @ SPNEGO_OID_PREFIX @ replicate 50 0) = KerberosToken"

definition detect_raw_kerberos_ap_req :: bool where
  "detect_raw_kerberos_ap_req \<longleftrightarrow>
     detect_token_type [0x6E, 0x82, 0x01, 0x00, 0x00, 0x00, 0x00, 0x00, 0x00, 0x00]
       = KerberosToken"

definition detect_unknown_token :: bool where
  "detect_unknown_token \<longleftrightarrow> detect_token_type [0xFF, 0x00, 0x01, 0x02] = UnknownToken"

definition detect_empty_is_unknown :: bool where
  "detect_empty_is_unknown \<longleftrightarrow> detect_token_type [] = UnknownToken"

definition negotiate_context_creation :: bool where
  "negotiate_context_creation \<longleftrightarrow>
     (let ctx = krb_context_new (lit ''GATEWAY'') (Some (lit ''HTTP/gateway.corp.com''))
      in ng_server_name ctx = lit ''GATEWAY''
         \<and> ng_krb_spn ctx = Some (lit ''HTTP/gateway.corp.com''))"

definition negotiate_context_default_spn :: bool where
  "negotiate_context_default_spn \<longleftrightarrow>
     ng_krb_spn (krb_context_new (lit ''myhost'') None) = Some (lit ''HTTP/myhost'')"

lemma nul_signature: "str_bytes (lit ''NTLMSSP'' @ [0]) = NTLMSSP_SIGNATURE"
  by code_simp

lemma auth_tests_pass:
  "challenge \<noteq> replicate 8 0 \<Longrightarrow> auth_context_generates_valid_challenge unix_secs challenge"
  "process_negotiate_returns_valid_type2 unix_secs challenge"
  "(\<And>bs. b64_decode (b64_encode bs) = Some bs) \<Longrightarrow>
     challenge_base64_is_valid b64_encode b64_decode unix_secs challenge"
proof -
  let ?type1 = "str_bytes (lit ''NTLMSSP'' @ [0]) @ put_u32_le 1 @ put_u32_le 0xB7820862
      @ replicate 16 0"
  have "unwraps (parse_negotiate ?type1) (\<lambda>_. True)" by code_simp
  then obtain neg where neg: "parse_negotiate ?type1 = Ok neg"
    by (cases "parse_negotiate ?type1") simp_all
  have len: "length NTLMSSP_SIGNATURE = 8" by code_simp
  have le: "of_le (put_u32_le v) = v" for v by (simp add: put_u32_le_def)
  show "process_negotiate_returns_valid_type2 unix_secs challenge"
    unfolding process_negotiate_returns_valid_type2_def Let_def process_negotiate_def neg
    by (simp add: nul_signature serialize_challenge_def Let_def len le)
  show "auth_context_generates_valid_challenge unix_secs challenge" if "challenge \<noteq> replicate 8 0"
    using that by (simp add: auth_context_generates_valid_challenge_def ntlm_auth_context_new_def
        generate_challenge_def)
  show "challenge_base64_is_valid b64_encode b64_decode unix_secs challenge"
    if "\<And>bs. b64_decode (b64_encode bs) = Some bs"
    using that by (simp add: challenge_base64_is_valid_def challenge_base64_def nul_signature
        serialize_challenge_def Let_def len)
qed

lemma negotiate_tests_pass:
  "detect_ntlm_token" "detect_spnego_kerberos_token" "detect_raw_kerberos_ap_req"
  "detect_unknown_token" "detect_empty_is_unknown" "negotiate_context_creation"
  "negotiate_context_default_spn"
  by code_simp+

end
