(* ===== verification/Acl_Tests.thy ===== *)
theory Acl_Tests
  imports Proto_Tests Acl
begin

text \<open>
  The unit tests of \<open>crates/rdg-core/src/acl.rs\<close>, run on the model. A host pattern is decided by
  what \<open>glob_spec\<close> says it means, evaluated star by star; an address by the model of the
  standard library's parser.
\<close>

section \<open>Evaluating patterns and addresses\<close>

lemma glob_spec_star:
  "glob_spec (0x2A # p) [] \<longleftrightarrow> glob_spec p []"
  "glob_spec (0x2A # p) (x # c) \<longleftrightarrow> glob_spec p (x # c) \<or> glob_spec (0x2A # p) c"
proof -
  show "glob_spec (0x2A # p) [] \<longleftrightarrow> glob_spec p []" by simp
  have "(\<exists>k \<le> Suc n. Q k) \<longleftrightarrow> Q 0 \<or> (\<exists>k \<le> n. Q (Suc k))" for n Q
    by (metis le0 not0_implies_Suc Suc_le_mono)
  from this [of "length c" "\<lambda>k. glob_spec p (drop k (x # c))"]
  show "glob_spec (0x2A # p) (x # c) \<longleftrightarrow> glob_spec p (x # c) \<or> glob_spec (0x2A # p) c"
    by simp
qed

lemma glob_spec_byte:
  "b \<noteq> 0x2A \<Longrightarrow> glob_spec (b # p) [] \<longleftrightarrow> False"
  "b \<noteq> 0x2A \<Longrightarrow> glob_spec (b # p) (x # c) \<longleftrightarrow> x = b \<and> glob_spec p c"
  by simp_all

lemma glob_matches_host:
  assumes "valid_str host" and "0x2A \<notin> set host"
  shows "glob_matches pattern host \<longleftrightarrow>
    glob_spec (str_bytes (to_ascii_lowercase pattern)) (str_bytes (to_ascii_lowercase host))"
  unfolding glob_matches_def
  by (rule glob_bytes_spec) (simp add: assms star_bytes lower_valid lower_star)

lemmas glob_eval =
  glob_matches_host glob_spec_star glob_spec_byte lit_def is_scalar_def
  to_ascii_lowercase_def ascii_lower_def str_bytes_def utf8_char_def


lemma read_groups_numeral:
  "read_groups (numeral n) i s =
     (case (if 0 < (pred_numeral n :: nat) then read_separator 58 i read_ipv4_addr s else None) of
        Some (v4, r) \<Rightarrow> (v4, True, r)
      | None \<Rightarrow>
          (case read_separator 58 i (read_number 16 4 True 0xFFFF) s of
             None \<Rightarrow> ([], False, s)
           | Some (g, r) \<Rightarrow>
               (let (gs, v4, r') = read_groups (pred_numeral n) (i + 1) r
                in (be_bytes 2 (word_of_nat g :: u16) @ gs, v4, r'))))"
  by (simp add: numeral_eq_Suc)

lemma be_bytes_2: "be_bytes 2 (w :: u16) = [ucast (drop_bit 8 w), ucast w]"
  by (simp add: be_bytes_def le_bytes_def upt_rec)

lemmas ip_eval =
  parse_ip_def read_ip_addr_def read_ipv4_addr_def read_ipv6_addr_def read_separator_def
  read_number_def read_given_char_def digit_of_def read_groups_numeral be_bytes_2 lit_def Let_def

lemma replicate_step: "replicate (numeral n) x = x # replicate (pred_numeral n) x"
  by (simp add: numeral_eq_Suc)

lemmas host_eval =
  host_matches_def parse_cidr_def split_once_def parse_unsigned_def digits_value_def is_digit_def
  cidr_contains_def ipv4_to_u32_def ipv6_to_u128_def ipv4_mask_def ipv6_mask_def of_be_def
  replicate_step ip_eval glob_eval

section \<open>Host patterns\<close>

definition wildcard_host_patterns_match :: bool where
  "wildcard_host_patterns_match \<longleftrightarrow>
     host_matches (lit ''*'') (lit ''anything.example.com'')
     \<and> host_matches (lit ''*.example.com'') (lit ''server.example.com'')
     \<and> host_matches (lit ''192.168.*'') (lit ''192.168.10.25'')
     \<and> \<not> host_matches (lit ''*.example.com'') (lit ''server.other.com'')
     \<and> \<not> host_matches (lit ''192.168.*'') (lit ''192.169.10.25'')"

definition cidr_host_patterns_match :: bool where
  "cidr_host_patterns_match \<longleftrightarrow>
     host_matches (lit ''192.168.1.0/24'') (lit ''192.168.1.42'')
     \<and> \<not> host_matches (lit ''192.168.1.0/24'') (lit ''192.168.2.42'')
     \<and> host_matches (lit ''2001:db8::/32'') (lit ''2001:db8::1'')
     \<and> \<not> host_matches (lit ''2001:db8::/32'') (lit ''2001:db9::1'')
     \<and> \<not> host_matches (lit ''192.168.1.0/24'') (lit ''server.example.com'')"

definition cidr_slash_zero_matches_all :: bool where
  "cidr_slash_zero_matches_all \<longleftrightarrow>
     host_matches (lit ''0.0.0.0/0'') (lit ''192.168.1.1'')
     \<and> host_matches (lit ''0.0.0.0/0'') (lit ''10.0.0.1'')"

definition cidr_slash_32_matches_exact :: bool where
  "cidr_slash_32_matches_exact \<longleftrightarrow>
     host_matches (lit ''10.0.0.5/32'') (lit ''10.0.0.5'')
     \<and> \<not> host_matches (lit ''10.0.0.5/32'') (lit ''10.0.0.6'')"

definition glob_case_insensitive :: bool where
  "glob_case_insensitive \<longleftrightarrow>
     host_matches (lit ''*.EXAMPLE.COM'') (lit ''server.example.com'')
     \<and> host_matches (lit ''*.example.com'') (lit ''SERVER.EXAMPLE.COM'')"

definition glob_multiple_wildcards :: bool where
  "glob_multiple_wildcards \<longleftrightarrow>
     host_matches (lit ''*prod*db*'') (lit ''us-prod-mysql-db-01'')
     \<and> \<not> host_matches (lit ''*prod*db*'') (lit ''us-staging-mysql-01'')"

definition invalid_cidr_prefix_rejected :: bool where
  "invalid_cidr_prefix_rejected \<longleftrightarrow>
     parse_cidr (lit ''192.168.1.0/33'') = None \<and> parse_cidr (lit ''::1/129'') = None"

definition non_ip_host_not_matched_by_cidr :: bool where
  "non_ip_host_not_matched_by_cidr \<longleftrightarrow>
     \<not> host_matches (lit ''10.0.0.0/8'') (lit ''hostname-10.internal'')"

lemma wildcard_tests_pass:
  "wildcard_host_patterns_match" "glob_case_insensitive" "glob_multiple_wildcards"
  by (simp_all add: wildcard_host_patterns_match_def glob_case_insensitive_def
      glob_multiple_wildcards_def host_eval del: glob_spec.simps(2))

lemma cidr_tests_pass:
  "cidr_host_patterns_match" "cidr_slash_zero_matches_all" "cidr_slash_32_matches_exact"
  "invalid_cidr_prefix_rejected" "non_ip_host_not_matched_by_cidr"
  by (simp_all add: cidr_host_patterns_match_def cidr_slash_zero_matches_all_def
      cidr_slash_32_matches_exact_def invalid_cidr_prefix_rejected_def
      non_ip_host_not_matched_by_cidr_def mask_eq_exp_minus_1 host_eval del: glob_spec.simps(2))

section \<open>Rules\<close>

definition test_rule ::
  "int \<Rightarrow> int \<Rightarrow> int option \<Rightarrow> int option \<Rightarrow> string option \<Rightarrow> int option \<Rightarrow> string \<Rightarrow> acl_rule" where
  "test_rule i priority user_id group_id target_host target_port action =
     \<lparr>ar_id = i, ar_priority = priority, ar_user_id = user_id, ar_group_id = group_id,
      ar_target_host = map_option lit target_host, ar_target_port = target_port,
      ar_action = lit action\<rparr>"

definition user_specific_rule_matches :: bool where
  "user_specific_rule_matches \<longleftrightarrow>
     (let rules = [test_rule 1 10 (Some 42) None (Some ''*'') None ''allow'']
      in evaluate_acl rules 42 [] (lit ''server.example.com'') 3389 = Allow
         \<and> evaluate_acl rules 99 [] (lit ''server.example.com'') 3389 = Deny)"

definition group_based_rule_matches :: bool where
  "group_based_rule_matches \<longleftrightarrow>
     (let rules = [test_rule 1 10 None (Some 7) (Some ''*'') None ''allow'']
      in evaluate_acl rules 1 [1, 7, 9] (lit ''server.example.com'') 3389 = Allow
         \<and> evaluate_acl rules 1 [1, 9] (lit ''server.example.com'') 3389 = Deny)"

definition port_matching_is_enforced :: bool where
  "port_matching_is_enforced \<longleftrightarrow>
     (let rules = [test_rule 1 10 None None (Some ''*'') (Some 3389) ''allow'']
      in evaluate_acl rules 1 [] (lit ''server.example.com'') 3389 = Allow
         \<and> evaluate_acl rules 1 [] (lit ''server.example.com'') 22 = Deny)"

definition higher_priority_rule_wins_even_if_rules_are_unsorted :: bool where
  "higher_priority_rule_wins_even_if_rules_are_unsorted \<longleftrightarrow>
     (let rules = [test_rule 1 10 None None (Some ''*'') None ''allow'',
                   test_rule 2 100 None None (Some ''*'') None ''deny'']
      in evaluate_acl rules 1 [] (lit ''server.example.com'') 3389 = Deny)"

definition defaults_to_deny_when_no_rules_match :: bool where
  "defaults_to_deny_when_no_rules_match \<longleftrightarrow>
     (let rules = [test_rule 1 10 (Some 7) None (Some ''*.example.com'') None ''allow'']
      in evaluate_acl rules 8 [] (lit ''server.other.com'') 3389 = Deny)"

definition mixed_allow_and_deny_rules_follow_priority :: bool where
  "mixed_allow_and_deny_rules_follow_priority \<longleftrightarrow>
     (let rules = [test_rule 1 100 None None (Some ''prod-*'') None ''deny'',
                   test_rule 2 200 (Some 42) None (Some ''prod-admin'') (Some 3389) ''allow'',
                   test_rule 3 150 None (Some 5) (Some ''prod-*'') (Some 3389) ''allow'']
      in evaluate_acl rules 7 [5] (lit ''prod-app'') 3389 = Allow
         \<and> evaluate_acl rules 42 [] (lit ''prod-admin'') 3389 = Allow
         \<and> evaluate_acl rules 7 [5] (lit ''prod-app'') 22 = Deny
         \<and> evaluate_acl rules 8 [] (lit ''prod-app'') 3389 = Deny)"

definition combined_user_and_group_constraints_are_both_required :: bool where
  "combined_user_and_group_constraints_are_both_required \<longleftrightarrow>
     (let rules = [test_rule 1 10 (Some 42) (Some 7) (Some ''*.example.com'') None ''allow'']
      in evaluate_acl rules 42 [7] (lit ''host.example.com'') 3389 = Allow
         \<and> evaluate_acl rules 42 [8] (lit ''host.example.com'') 3389 = Deny)"

text \<open>The mock of the database answers \<open>get_acl_rules\<close> with its rules.\<close>

definition acl_engine_loads_and_reloads_rules :: bool where
  "acl_engine_loads_and_reloads_rules \<longleftrightarrow>
     (let db = Ok [test_rule 1 10 None None (Some ''*'') None ''allow'',
                   test_rule 2 100 None None (Some ''secret-*'') None ''deny'']
      in unwraps (acl_engine_from_db db :: (unit, acl_engine) outcome) (\<lambda>engine.
           check_access engine 1 [] (lit ''secret-host'') 3389 = Deny
           \<and> check_access engine 1 [] (lit ''public-host'') 3389 = Allow
           \<and> (let engine = acl_engine_reload engine
                    [test_rule 3 50 None None (Some ''*'') None ''deny'']
              in check_access engine 1 [] (lit ''public-host'') 3389 = Deny)))"

definition empty_rules_default_deny :: bool where
  "empty_rules_default_deny \<longleftrightarrow> evaluate_acl [] 1 [1] (lit ''anything'') 3389 = Deny"

lemmas rule_eval =
  test_rule_def evaluate_acl_def max_by_key_def rule_matches_def rule_action_def
  eq_ignore_ascii_case_def

lemma rule_tests_pass:
  "user_specific_rule_matches" "group_based_rule_matches" "port_matching_is_enforced"
  "higher_priority_rule_wins_even_if_rules_are_unsorted" "empty_rules_default_deny"
  by (simp_all add: user_specific_rule_matches_def group_based_rule_matches_def
      port_matching_is_enforced_def higher_priority_rule_wins_even_if_rules_are_unsorted_def
      empty_rules_default_deny_def rule_eval host_eval)

lemma rule_host_tests_pass:
  "defaults_to_deny_when_no_rules_match" "mixed_allow_and_deny_rules_follow_priority"
  "combined_user_and_group_constraints_are_both_required" 
  by (simp_all add: defaults_to_deny_when_no_rules_match_def
      mixed_allow_and_deny_rules_follow_priority_def
      combined_user_and_group_constraints_are_both_required_def rule_eval host_eval
      del: glob_spec.simps(2))

lemma engine_test_passes: "acl_engine_loads_and_reloads_rules"
  by (simp add: acl_engine_loads_and_reloads_rules_def acl_engine_from_db_def check_access_def
      acl_engine_reload_def sorted_rules_def rule_eval host_eval del: glob_spec.simps(2))

end
