(* ===== verification/Spec2Isabelle.thy ===== *)
theory Spec2Isabelle
  imports Prelude Machine Rust_Strings Config Tsg_Messages Tsg_Codec Ws_Framing Session Net_Addr
    Models Glob Acl Rpc Rpch Ntlm Db Auth Relay Ws_Handler Rpch_Handler Rpch_Serve
    Web_Auth Web_Ui Guacamole
    Startup Tui_App Tui_Invariant Tui_View Tui_Draw Tui_Session Utf8 Krb5 Telemetry Launch
    Proto_Tests Wire_Tests Core_Tests Acl_Tests
begin

text \<open>
  A verification library of RDGatewayRS, a Remote Desktop Gateway: clients authenticate over HTTP,
  open a tunnel and a channel over a WebSocket or over RPC-over-HTTP, and are relayed to an RDP
  host. Beside the gateway the program has a web portal with accounts and stored connections, a
  proxy to the Guacamole daemon, and a terminal program that administers the database.

  \<^bold>\<open>Theories and the code they model\<close> (paths under \<open>src/crates\<close>).

  \<^item> \<open>Prelude\<close>, \<open>Machine\<close>, \<open>Rust_Strings\<close>, \<open>Utf8\<close>: words, outcomes, the byte cursor of the \<open>bytes\<close> crate;
    the locales of state machines (\<open>machine\<close>, \<open>ranked_machine\<close>) and of one direction of a relay
    (\<open>pipe\<close>); strings as Unicode scalar values with their UTF-8 and UTF-16 forms and the functions
    of \<open>str\<close> the code calls.
  \<^item> \<open>Tsg_Messages\<close>, \<open>Tsg_Codec\<close>, \<open>Ws_Framing\<close>: \<open>rdg-proto/src/messages.rs\<close> and
    \<open>rdg-proto/src/websocket.rs\<close>. One record, parser and writer per message; the locale
    \<open>tsg_codec\<close> is what a message struct owes the framing, with one interpretation per struct.
  \<^item> \<open>Session\<close>: \<open>rdg-core/src/session.rs\<close>. \<open>gateway_session\<close> has the fields of \<open>GatewaySession\<close>;
    \<open>process_message\<close> is the method, returning the session it leaves and its result.
  \<^item> \<open>Net_Addr\<close>, \<open>Glob\<close>, \<open>Acl\<close>: \<open>rdg-core/src/acl.rs\<close> with the address parser of \<open>std\<close>.
  \<^item> \<open>Models\<close>, \<open>Db\<close>: \<open>rdg-core/src/db\<close>. A table is the list of its rows in rowid order with its
    last rowid; each SQL statement is a function on the tables, its constraints included.
  \<^item> \<open>Rpc\<close>, \<open>Rpch\<close>: \<open>rdg-proto/src/rpc.rs\<close> and \<open>rdg-proto/src/rpch.rs\<close>, with the virtual
    connection as a state machine.
  \<^item> \<open>Ntlm\<close>, \<open>Auth\<close>, \<open>Krb5\<close>: \<open>rdg-proto/src/ntlm.rs\<close>, \<open>rdg-core/src/auth.rs\<close> and
    \<open>rdg-core/src/negotiate.rs\<close>, the default build in \<open>Auth\<close> and the one with Kerberos in \<open>Krb5\<close>.
  \<^item> \<open>Ws_Handler\<close>, \<open>Relay\<close>: \<open>rdg-server/src/handlers/websocket.rs\<close> and \<open>rdg-server/src/relay.rs\<close>.
  \<^item> \<open>Rpch_Handler\<close>, \<open>Rpch_Serve\<close>: \<open>rdg-server/src/handlers/rpch.rs\<close>, and a client's whole conversation with it.
  \<^item> \<open>Config\<close>, \<open>Startup\<close>, \<open>Launch\<close>: \<open>rdg-core/src/config.rs\<close> and \<open>rdg-server/src/main.rs\<close>: the
    command line, the routers, the life cycle of the certificate, and the modes of the program
    as the sequence of steps a start takes.
  \<^item> \<open>Web_Auth\<close>, \<open>Web_Ui\<close>, \<open>Guacamole\<close>: \<open>auth.rs\<close>, \<open>webui.rs\<close> with \<open>health.rs\<close>, and \<open>guacamole.rs\<close>
    of \<open>rdg-server/src/handlers\<close>.
  \<^item> \<open>Telemetry\<close>: \<open>rdg-server/src/telemetry.rs\<close>, \<open>metrics.rs\<close> and \<open>log_requests\<close>; the process-wide
    cells are the record \<open>telemetry\<close>.
  \<^item> \<open>Tui_App\<close>, \<open>Tui_Invariant\<close>, \<open>Tui_View\<close>, \<open>Tui_Draw\<close>, \<open>Tui_Session\<close>: \<open>rdg-server/src/tui\<close>. \<open>app\<close> has the fields of \<open>App\<close>
    with the database and the file system it acts on; \<open>event_loop\<close> runs on the events of the
    terminal; \<open>Tui_View\<close> has the texts of the screens, \<open>Tui_Draw\<close> their widgets, and \<open>Tui_Session\<close>
    the loop with its drawing between the set-up of the terminal and its restoration.
  \<^item> \<open>Proto_Tests\<close>, \<open>Wire_Tests\<close>, \<open>Core_Tests\<close>, \<open>Acl_Tests\<close>: the unit tests of \<open>rdg-proto\<close> and
    \<open>rdg-core\<close>, under their names, as statements on the model. It passes all of them but one,
    \<open>message_type_from_u16_all_known\<close>, which contradicts the code.

  \<^bold>\<open>How the parts interact.\<close> \<open>Ws_Handler\<close> parses frames with \<open>Tsg_Messages\<close>, drives \<open>Session\<close> and
  hands over to \<open>Relay\<close>; \<open>Rpch_Handler\<close> does the same through \<open>Rpc\<close> and \<open>Rpch\<close>. \<open>Auth\<close> reads users
  through a parameter that \<open>Db\<close> implements; \<open>Acl\<close> decides on rules that \<open>Db\<close> stores. \<open>Web_Auth\<close>
  writes the accounts \<open>Auth\<close> reads, and its cookie guards \<open>Web_Ui\<close> and \<open>Guacamole\<close>; \<open>Tui_App\<close> acts on
  the same tables, and what it saves is the configuration \<open>Launch\<close> starts with. The properties of this theory
  span components: \<open>gateway_serves\<close> joins messages, session and relay, \<open>portal_secret_public\<close>
  the gateway's challenge and the portal's cookie, \<open>portal_account_authenticates\<close> the sign-up, the
  database and the NTLM check of \<open>rdg-core\<close>, which no handler calls.

  \<^bold>\<open>Conventions.\<close> A Rust integer of \<open>w\<close> bits is a word of that width where arithmetic on it can
  wrap; \<open>usize\<close> lengths are \<open>nat\<close> and identifiers of the database \<open>int\<close> (\<open>i64\<close>; a rowid reaches its
  bound after more inserts than a database can hold). A fallible function has an \<open>outcome\<close>, \<open>Panic\<close>
  among its values, so that the absence of panics is proved (the collection \<open>no_panic\<close>). A writer is
  the bytes it appends. Arithmetic wraps as in a release build. Handlers take the request after
  the framework has parsed it. Concurrent tasks are steps on a shared state in any order they
  are enabled (\<open>reaches\<close>), channels are lists, a sender waiting at the bound the code gives them as \<open>tokio\<close> documents it.

  \<^bold>\<open>Parameters.\<close> HMAC, MD4, SHA-256, Argon2, base64, random numbers, the clock, Unicode upper case,
  \<open>rcgen\<close>, JSON and TOML, the file system, the network, \<open>cross-krb5\<close>, the OTLP exporters and the layout
  of \<open>ratatui\<close> are arguments (\<open>world\<close>, \<open>web_world\<close>, \<open>start_world\<close>, \<open>tui_world\<close>, \<open>krb5\<close>,
  \<open>telemetry_world\<close>, \<open>layout_engine\<close>). What properties use of them are their documented laws: base64
  decodes what it encoded, Argon2 verifies what it hashed, a digest has its length, a layout has an
  area for each constraint; each such
  property has an instance in which a concrete function satisfies the law.

  \<^bold>\<open>What the lemmas show.\<close> For the wire formats: round trips, and that no parser panics. For the state
  machines: invariants over all runs and the exact sequences that reach each state. For the
  relays: what has been sent on either side in every interleaving and for any client, as a function
  of what was received. For the ACL engine: the matcher against a declarative specification,
  addresses against ranges of numbers, and the rule that decides. For the database: its constraints
  are invariants, and stores answer like maps. For the portal: cookies, accounts, and that requests
  without a cookie change and reveal nothing. For the terminal program: an invariant of all
  reachable screens that excludes the panics of its indexing and of its drawing, that it ends when
  told to, and that it gives the terminal back. For the start: what it listens on, that it can be
  repeated, which steps can stop it, and that it does what the terminal program shows.

  \<^bold>\<open>Bounds and fuel.\<close> No definition of the program needs fuel: loops recurse on their input or have
  a termination measure. The reader of Guacamole instructions, a specification that counts
  characters as the protocol does, takes the number of elements it may read (eleven for \<open>connect\<close>,
  three for the error). Bounds on lengths in hypotheses are the ones a length field of the format
  can express.

  \<^bold>\<open>Not modelled.\<close> Log lines, save the one that can panic when its level is logged. What
  OpenTelemetry does with a measurement and \<open>ratatui\<close> with a widget. The TLS acceptor, the HTTP and WebSocket protocol
  machinery, signals and sockets, of which a start learns only whether an address can be bound, are
  external crates. Failures of the database connection itself are not modelled; constraint
  violations are. The front end under \<open>webui\<close> is not Rust.
\<close>

section \<open>The gateway end to end\<close>

text \<open>
  C2. A client that sends the four messages of the handshake and then its data is
  served: every message is answered, the session reaches the relay to the host and port it named,
  and the relay can handle all that follows, after which the backend has been sent the payload of
  the first Data message and of every later one, in order.
\<close>

theorem gateway_serves:
  assumes "list_all tsg_ok [HandshakeRequest hs, TunnelCreate tc, TunnelAuth ta, ChannelCreate cc, Data d]"
    and "list_all (\<lambda>m. tsg_ok m \<and> (\<forall>c. m \<noteq> CloseChannel c)) ms"
  shows "\<exists>replies es s.
    ws_session session_new (map sends ([HandshakeRequest hs, TunnelCreate tc, TunnelAuth ta,
        ChannelCreate cc, Data d] @ ms))
      = (replies, StartRelay (cc_server_name cc @ lit '':'' @ dec_digits (unat (cc_port cc))) (dm_data d),
         map sends ms)
    \<and> map parse_message replies = map Ok [HandshakeResponse (handshake_reply hs),
        TunnelResponse (tunnel_reply 1), TunnelAuthResponse tunnel_auth_reply,
        ChannelResponse (channel_reply 1)]
    \<and> relay_reaches (relay_start (dm_data d)) es s \<and> client_items es = map sends ms
    \<and> rl_backend s = rdp_payload (dm_data d) @ delivered False ms"
proof -
  have ok: "tsg_ok (HandshakeRequest hs)" "tsg_ok (TunnelCreate tc)" "tsg_ok (TunnelAuth ta)"
    "tsg_ok (ChannelCreate cc)" "tsg_ok (Data d)"
    using assms(1) by simp_all
  note p = ok [THEN parse_written]
  let ?replies = "[handshake_response_write (handshake_reply hs), tunnel_response_write (tunnel_reply 1),
    tunnel_auth_response_write tunnel_auth_reply, channel_response_write (channel_reply 1)]"
  have "ws_session session_new (map sends ([HandshakeRequest hs, TunnelCreate tc, TunnelAuth ta,
        ChannelCreate cc, Data d] @ ms))
      = (?replies, StartRelay (cc_server_name cc @ lit '':'' @ dec_digits (unat (cc_port cc))) (dm_data d),
         map sends ms)"
    by (simp add: sends_def p [simplified] process_message_def session_new_def is_data_transfer_def
        data_of_def Let_def relay_target_def unwrap_or_def)
  moreover have "map parse_message ?replies = map Ok [HandshakeResponse (handshake_reply hs),
      TunnelResponse (tunnel_reply 1), TunnelAuthResponse tunnel_auth_reply, ChannelResponse (channel_reply 1)]"
    using hr_codec.roundtrip_exact [of "handshake_reply hs"] tr_codec.roundtrip_exact [OF replies_ok(1)]
      tar_codec.roundtrip_exact [OF replies_ok(2)] cr_codec.roundtrip_exact [OF replies_ok(3)]
    by simp
  moreover obtain es s where r: "relay_reaches (relay_start (dm_data d)) es s"
    "client_items es = map sends ms"
    using relay_takes_all [OF assms(2)] by blast
  moreover have "rl_backend s = rdp_payload (dm_data d) @ delivered False ms"
  proof -
    have "list_all tsg_ok ms" using assms(2) by (auto simp: list_all_iff)
    from emits_delivered [OF r(2) this] show ?thesis
      using reaches_run [OF r(1)] up.run_out [of "relay_start (dm_data d)" es]
      by (simp add: relay_start_def)
  qed
  ultimately show ?thesis by blast
qed

theorem gateway_serves_witness:
  "\<exists>replies es s. ws_session session_new (map sends
     ([HandshakeRequest \<lparr>hs_major_version = 1, hs_minor_version = 0, hs_client_version = 0, hs_ext_auth = 0\<rparr>,
      TunnelCreate \<lparr>tc_caps_flags = 1, tc_fields_present = 0, tc_reserved = 0, tc_paa_cookie = None\<rparr>,
      TunnelAuth \<lparr>ta_fields_present = 0, ta_client_name = lit ''PC''\<rparr>,
      ChannelCreate \<lparr>cc_num_resources = 1, cc_num_alt_resources = 0, cc_port = 3389,
        cc_protocol = 3, cc_server_name = lit ''host''\<rparr>,
      Data \<lparr>dm_data = [1, 0, 9]\<rparr>] @ [Keepalive, Data \<lparr>dm_data = [2, 0, 7, 8]\<rparr>]))
      = (replies, StartRelay (lit ''host:3389'') [1, 0, 9],
         map sends [Keepalive, Data \<lparr>dm_data = [2, 0, 7, 8]\<rparr>])
    \<and> relay_reaches (relay_start [1, 0, 9]) es s \<and> rl_backend s = [9, 7, 8]"
  (is "\<exists>replies es s. ws_session _ (map sends ([HandshakeRequest ?a, TunnelCreate ?b, TunnelAuth ?c,
      ChannelCreate ?d, Data ?e] @ ?ms)) = _ \<and> _")
proof -
  have a: "list_all tsg_ok [HandshakeRequest ?a, TunnelCreate ?b, TunnelAuth ?c, ChannelCreate ?d, Data ?e]"
    by (simp add: tunnel_create_ok_def tunnel_auth_ok_def channel_create_ok_def name_ok_def
        lit_def is_scalar_def encode_utf16_def utf16_char_def data_ok_def framable_def
        HTTP_TUNNEL_PACKET_FIELD_PAA_COOKIE_def)
  have b: "list_all (\<lambda>m. tsg_ok m \<and> (\<forall>c. m \<noteq> CloseChannel c)) ?ms"
    by (simp add: data_ok_def framable_def)
  have addr: "cc_server_name ?d @ lit '':'' @ dec_digits (unat (cc_port ?d)) = lit ''host:3389''"
    by (simp add: dec_digits.simps lit_def)
  have sent: "rdp_payload (dm_data ?e) @ delivered False ?ms = [9, 7, 8]"
    by (simp add: rdp_payload_def)
  show ?thesis
    using gateway_serves [OF a b] unfolding addr sent by auto
qed

section \<open>The portal and the gateway\<close>

text \<open>The cookie anyone can make who knows the name of the server.\<close>

definition forged_cookie :: "web_world \<Rightarrow> rstring \<Rightarrow> int \<Rightarrow> rstring" where
  "forged_cookie ww server_name user_id =
     SESSION_COOKIE_NAME @ lit ''='' @ sign_session ww user_id (wb_unix_secs ww)
       (str_bytes (lit ''rdg-auth-session:'' @ server_name))"

text \<open>
  C9. The key that signs the portal's session cookies is made from the server's
  name alone, and the gateway tells that name to everyone: from the answer to an unauthenticated
  Type 1 request a client reads it back and makes a cookie that the portal accepts for any user.
\<close>

theorem portal_secret_public:
  assumes "hs (lit ''authorization'') = Some auth" and "is_ntlm_type1 (w_b64_decode w) auth"
    and "\<And>bs. w_b64_decode w (w_b64_encode w bs) = Some bs" and "length (w_challenge w) = 8"
    and "valid_str (sc_server_name cfg)" and "length (encode_utf16 (sc_server_name cfg)) < 2 ^ 12"
    and "base64_law ww" and "- (2 ^ 63) \<le> user_id" and "user_id < 2 ^ 63"
  shows "\<exists>token msg name_bytes name.
    (lit ''www-authenticate'', lit ''Negotiate '' @ token)
      \<in> set (rs_headers (fst (snd (rdg_handler w key (sc_server_name cfg) challenges addr hs))))
    \<and> w_b64_decode w token = Some msg \<and> read_security_buffer_raw msg 12 = Ok name_bytes
    \<and> from_utf16 (u16_units name_bytes) = Some name
    \<and> check_session ww cfg (Some (forged_cookie ww name user_id)) = Ok user_id"
proof -
  let ?msg = "serialize_challenge (generate_challenge (w_unix_secs w) (sc_server_name cfg) (w_challenge w))"
  obtain bs where "read_security_buffer_raw ?msg 12 = Ok bs"
    "from_utf16 (u16_units bs) = Some (sc_server_name cfg)"
    using challenge_tells_name [OF assms(5,6,4)] by blast
  moreover have "forged_cookie ww (sc_server_name cfg) user_id = cookie_pair (set_session_cookie ww cfg user_id)"
    by (simp add: forged_cookie_def session_cookie_pair [OF assms(7)] session_secret_def)
  then have "check_session ww cfg (Some (forged_cookie ww (sc_server_name cfg) user_id)) = Ok user_id"
    using web_cookie_accepted [OF assms(7-9)] by (simp add: check_session_def)
  ultimately show ?thesis
    unfolding type1_answer [of hs, OF assms(1,2)]
    by (intro exI [of _ "w_b64_encode w ?msg"] exI [of _ ?msg] exI [of _ bs] exI)
      (auto simp: unauthorized_def assms(3))
qed

theorem portal_secret_public_witness:
  "check_session example_web example_config
     (Some (forged_cookie example_web (sc_server_name example_config) 1)) = Ok 1"
proof -
  let ?auth = "lit ''Negotiate '' @ map unat example_type1"
  let ?hs = "[lit ''authorization'' \<mapsto> ?auth]"
  have name: "sc_server_name example_config = lit ''RDG-GATEWAY''"
    by (simp add: example_config_def server_config_default_def hostname_def)
  have a: "?hs (lit ''authorization'') = Some ?auth" by simp
  have b: "is_ntlm_type1 (w_b64_decode example_world) ?auth"
    by (simp add: is_ntlm_type1_def strip_prefix_def example_b64)
      (simp add: example_type1_def NTLMSSP_SIGNATURE_def)
  have c: "w_b64_decode example_world (w_b64_encode example_world bs) = Some bs" for bs
    using example_b64 [of bs] by (simp add: example_world_def)
  have d: "length (w_challenge example_world) = 8" by (simp add: example_world_def)
  have e: "valid_str (sc_server_name example_config)"
    "length (encode_utf16 (sc_server_name example_config)) < 2 ^ 12"
    by (simp_all add: name lit_def encode_utf16_def utf16_char_def valid_str_def is_scalar_def)
  obtain token msg bs n where f: "(lit ''www-authenticate'', lit ''Negotiate '' @ token)
      \<in> set (rs_headers (fst (snd (rdg_handler example_world (\<lambda>k. k) (sc_server_name example_config)
          (\<lambda>a :: nat. None) 0 ?hs))))"
    "w_b64_decode example_world token = Some msg" "read_security_buffer_raw msg 12 = Ok bs"
    "from_utf16 (u16_units bs) = Some n"
    "check_session example_web example_config (Some (forged_cookie example_web n 1)) = Ok 1"
    using portal_secret_public [of ?hs, OF a b c d e example_web_laws(1), of 1 "\<lambda>k. k" "\<lambda>a :: nat. None" 0] by auto
  have "lit ''www-authenticate'' \<noteq> lit ''server''" by (simp add: lit_def)
  then have "n = sc_server_name example_config"
    using f(1-4) challenge_tells_name [OF e d, of "w_unix_secs example_world"] c
    unfolding type1_answer [of ?hs, OF a b] by (auto simp: unauthorized_def)
  then show ?thesis using f(5) by simp
qed

text \<open>
  C19. The account check of \<open>rdg-core\<close> agrees with the portal's sign-up: for the account made there,
  under its name in any case, a Type 3 message whose NT response has the 24 bytes the check wants
  is accepted when its proof is made with the hash of the password that signed up and the challenge,
  and refused otherwise. It is a statement on that check only: no handler of the gateway calls it,
  the WebSocket handler admits any Type 3 message.
\<close>

theorem portal_account_authenticates:
  assumes "signup ww cfg db req = (db', 201, cookie, body)"
    and "\<And>bs. length (wb_md4 ww bs) = 16" and "\<And>k d. hmac k d = Some (h k d)"
    and "parse_authenticate type3 = Ok a"
    and "eq_ignore_ascii_case (na_username a) (trim (aq_username req))"
    and "24 \<le> length (na_nt_response a)"
  shows "check_user hmac up show_db (get_user_by_username db') challenge type3 =
    (if take 16 (na_nt_response a) = h (h (compute_nt_hash (wb_md4 ww) (aq_password req))
           (units_bytes (encode_utf16 (up (na_username a) @ na_domain a))))
         (challenge @ drop 16 (na_nt_response a))
     then Ok (na_username a) else Err (Ntlm AuthFailed))"
proof (cases rule: signup_cases [of ww cfg db req])
  case (refused status msg)
  then show ?thesis using assms(1) by (simp add: error_reply_def)
next
  case (created ph u d)
  then have "d = db'" using assms(1) by simp
  with created_user [OF created(1,4) assms(5)]
  have u: "lookup_user db' (na_username a) = Some u" "u_enabled u"
    "u_nt_hash u = compute_nt_hash (wb_md4 ww) (aq_password req)" by simp_all
  have "length (u_nt_hash u) = 16" using u(3) assms(2) by (simp add: compute_nt_hash_def)
  then show ?thesis
    using u by (simp add: check_user_def assms(4,6) lookup_user_Ok validate_ntlmv2_eq [of hmac, OF assms(3)]
        Let_def)
qed

text \<open>
  The instance signs up user \<open>a\<close> in a world whose MD4 and HMAC answer zeros, and lets the Type 3
  token of user \<open>A\<close> in.
\<close>

theorem portal_account_authenticates_witness:
  "\<exists>db' cookie body. signup (example_web\<lparr>wb_md4 := \<lambda>bs. replicate 16 0\<rparr>) example_config database_empty
       \<lparr>aq_username = lit ''a'', aq_password = lit ''secret''\<rparr> = (db', 201, cookie, body)
    \<and> check_user (\<lambda>k d. Some (replicate 16 0)) (\<lambda>s. s) (\<lambda>e :: db_error. []) (get_user_by_username db')
        [1, 2, 3, 4, 5, 6, 7, 8] example_type3 = Ok [65]"
proof -
  let ?ww = "example_web\<lparr>wb_md4 := \<lambda>bs. replicate 16 0\<rparr>"
    and ?req = "\<lparr>aq_username = lit ''a'', aq_password = lit ''secret''\<rparr>"
  have t: "trim (lit ''a'') = lit ''a''"
    by (simp add: trim_def trim_start_def trim_end_def lit_def is_whitespace_def)
  have "\<not> str_len (lit ''secret'') < 4" "lit ''a'' \<noteq> []"
    by (simp_all add: str_len_def str_bytes_def utf8_char_def lit_def)
  moreover have "lookup_user database_empty (lit ''a'') = None"
    by (simp add: lookup_user_eq database_empty_def table_empty_def)
  ultimately obtain db' cookie body where s: "signup ?ww example_config database_empty ?req
      = (db', 201, cookie, body)"
    by (simp add: signup_def t lookup_user_Ok example_web_def Let_def create_user_with_password_def
        insert_user_eq database_empty_def table_empty_def)
  have n: "eq_ignore_ascii_case (na_username example_authenticate) (trim (aq_username ?req))"
    using t by (simp add: example_authenticate_def eq_ignore_ascii_case_def to_ascii_lowercase_def
        ascii_lower_def lit_def)
  have "check_user (\<lambda>k d. Some (replicate 16 0)) (\<lambda>s. s) (\<lambda>e :: db_error. []) (get_user_by_username db')
      [1, 2, 3, 4, 5, 6, 7, 8] example_type3 = Ok [65]"
    by (subst portal_account_authenticates [OF s _ _ example_type3_parses n, of _ "\<lambda>k d. replicate 16 0"])
      (simp_all add: example_authenticate_def replicate16)
  with s show ?thesis by blast
qed

end
